(* ===== verification/Rillan_Prelude.thy ===== *)
theory Rillan_Prelude
  imports Main "HOL-Library.Multiset" "HOL-Library.Char_ord" "HOL-Library.List_Lexorder"
begin

text \<open>
  Shared vocabulary of the development.

  \<^item> Go strings. A Go string is a sequence of bytes, and so is a HOL \<^typ>\<open>string\<close>: every
    \<^typ>\<open>char\<close> is one byte, \<^const>\<open>length\<close> is Go's \<open>len\<close>, and the order of
    \<open>List_Lexorder\<close> over \<open>Char_ord\<close> is Go's bytewise \<open><\<close>.
    \<open>trim_space\<close> is \<open>strings.TrimSpace\<close>: it strips the UTF-8 encodings of every rune that
    \<open>unicode.IsSpace\<close> accepts. \<open>to_lower\<close> is \<open>strings.ToLower\<close> on ASCII, and also maps the two
    non-ASCII runes whose lower case is ASCII (U+0130 and U+212A); other non-ASCII runes are
    left alone, so a comparison of a lowered string with an ASCII constant is exact.
  \<^item> Errors. A Go function with result \<open>(T, error)\<close> has type \<open>'e + 'a\<close>, with \<^const>\<open>Inl\<close> for
    the error branch; every package declares its own error datatype, one constructor per message.
  \<^item> Sorting. \<open>slices.SortFunc\<close> and \<open>sort.Slice\<close> take a comparison whose contract (a strict weak
    order) is the locale \<open>total_preorder\<close>; the provider of each comparison interprets it. The
    library's sort is not stable, so what a theorem may use is that the result is a sorted
    permutation, which is unique where no two elements compare equal.
\<close>

named_theorems go_string "unfolding rules for the Go string library"
named_theorems result_intros "introduction rules for fallible functions"

section \<open>Fallible results\<close>

text \<open>Running a fallible function over a list, stopping at the first error, as the Go loops
  with an early \<open>return err\<close> do.\<close>

fun map_res :: "('a \<Rightarrow> 'e + 'b) \<Rightarrow> 'a list \<Rightarrow> 'e + 'b list" where
  "map_res f [] = Inr []"
| "map_res f (x # xs) =
     (case f x of Inl e \<Rightarrow> Inl e
      | Inr y \<Rightarrow> (case map_res f xs of Inl e \<Rightarrow> Inl e | Inr ys \<Rightarrow> Inr (y # ys)))"

lemma map_res_Inr_length: "map_res f xs = Inr ys \<Longrightarrow> length ys = length xs"
  by (induction xs arbitrary: ys) (auto split: sum.splits)

lemma map_res_Inr_all2: "map_res f xs = Inr ys \<Longrightarrow> list_all2 (\<lambda>x y. f x = Inr y) xs ys"
  by (induction xs arbitrary: ys) (auto split: sum.splits)

lemma map_res_Inr_set:
  "map_res f xs = Inr ys \<Longrightarrow> y \<in> set ys \<Longrightarrow> \<exists>x\<in>set xs. f x = Inr y"
  by (induction xs arbitrary: ys) (auto split: sum.splits)

lemma map_res_cong [fundef_cong]:
  "xs = ys \<Longrightarrow> (\<And>x. x \<in> set ys \<Longrightarrow> f x = g x) \<Longrightarrow> map_res f xs = map_res g ys"
  by (induction xs arbitrary: ys) (auto split: sum.splits)

text \<open>The first error a checked loop reports, with the loop index (\<open>for i, x := range xs\<close>).\<close>

fun first_error_from :: "nat \<Rightarrow> (nat \<Rightarrow> 'a \<Rightarrow> 'e option) \<Rightarrow> 'a list \<Rightarrow> 'e option" where
  "first_error_from i f [] = None"
| "first_error_from i f (x # xs) =
     (case f i x of Some e \<Rightarrow> Some e | None \<Rightarrow> first_error_from (Suc i) f xs)"

abbreviation first_error :: "(nat \<Rightarrow> 'a \<Rightarrow> 'e option) \<Rightarrow> 'a list \<Rightarrow> 'e option" where
  "first_error \<equiv> first_error_from 0"

lemma first_error_from_None:
  "first_error_from i f xs = None \<longleftrightarrow> (\<forall>j < length xs. f (i + j) (xs ! j) = None)"
proof (induction xs arbitrary: i)
  case (Cons x xs)
  have "(\<forall>j < Suc (length xs). f (i + j) ((x # xs) ! j) = None) \<longleftrightarrow>
        f i x = None \<and> (\<forall>j < length xs. f (Suc i + j) (xs ! j) = None)"
    by (auto simp: less_Suc_eq_0_disj)
  with Cons.IH show ?case by (auto split: option.splits)
qed simp

lemma first_error_None_const:
  "first_error_from i (\<lambda>_. g) xs = None \<longleftrightarrow> (\<forall>x \<in> set xs. g x = None)"
  by (induction xs arbitrary: i) (auto split: option.splits)

section \<open>The Go string library\<close>

definition space_runes :: "string list" where
  "space_runes =
     [[CHR 0x20], [CHR 0x09], [CHR 0x0A], [CHR 0x0B], [CHR 0x0C], [CHR 0x0D],
      [CHR 0xC2, CHR 0x85], [CHR 0xC2, CHR 0xA0], [CHR 0xE1, CHR 0x9A, CHR 0x80]] @
     map (\<lambda>c. [CHR 0xE2, CHR 0x80, c])
       [CHR 0x80, CHR 0x81, CHR 0x82, CHR 0x83, CHR 0x84, CHR 0x85, CHR 0x86, CHR 0x87,
        CHR 0x88, CHR 0x89, CHR 0x8A, CHR 0xA8, CHR 0xA9, CHR 0xAF] @
     [[CHR 0xE2, CHR 0x81, CHR 0x9F], [CHR 0xE3, CHR 0x80, CHR 0x80]]"

fun strip_rune :: "string list \<Rightarrow> string \<Rightarrow> string option" where
  "strip_rune [] s = None"
| "strip_rune (r # rs) s =
     (if r \<noteq> [] \<and> take (length r) s = r then Some (drop (length r) s) else strip_rune rs s)"

lemma strip_rune_shorter: "strip_rune rs s = Some t \<Longrightarrow> length t < length s"
proof (induction rs)
  case (Cons r rs)
  show ?case
  proof (cases "r \<noteq> [] \<and> take (length r) s = r")
    case True
    then have "s \<noteq> []" and "0 < length r" by auto
    with True Cons.prems show ?thesis by auto
  next
    case False
    with Cons show ?thesis by auto
  qed
qed simp

function trim_with :: "string list \<Rightarrow> string \<Rightarrow> string" where
  "trim_with rs s = (case strip_rune rs s of None \<Rightarrow> s | Some t \<Rightarrow> trim_with rs t)"
  by pat_completeness auto
termination
  by (relation "measure (\<lambda>(rs, s). length s)") (auto dest: strip_rune_shorter)

declare trim_with.simps [simp del]

definition trim_left :: "string \<Rightarrow> string" where
  "trim_left s = trim_with space_runes s"

definition trim_right :: "string \<Rightarrow> string" where
  "trim_right s = rev (trim_with (map rev space_runes) (rev s))"

definition trim_space :: "string \<Rightarrow> string" where
  "trim_space s = trim_right (trim_left s)"

definition ascii_lower :: "char \<Rightarrow> char" where
  "ascii_lower c =
     (let n = of_char c :: nat in if 65 \<le> n \<and> n \<le> 90 then char_of (n + 32) else c)"

fun to_lower :: "string \<Rightarrow> string" where
  "to_lower [] = []"
| "to_lower (c # s) =
     (if c = CHR 0xC4 \<and> take 1 s = [CHR 0xB0] then CHR ''i'' # to_lower (drop 1 s)
      else if c = CHR 0xE2 \<and> take 2 s = [CHR 0x84, CHR 0xAA] then CHR ''k'' # to_lower (drop 2 s)
      else ascii_lower c # to_lower s)"

text \<open>\<open>normalizeString\<close> in \<open>internal/config\<close> and \<open>internal/routing\<close>.\<close>

definition normalize_string :: "string \<Rightarrow> string" where
  "normalize_string s = to_lower (trim_space s)"

definition has_prefix :: "string \<Rightarrow> string \<Rightarrow> bool" where
  [go_string]: "has_prefix s p \<longleftrightarrow> take (length p) s = p"

definition has_suffix :: "string \<Rightarrow> string \<Rightarrow> bool" where
  [go_string]: "has_suffix s p \<longleftrightarrow> length p \<le> length s \<and> drop (length s - length p) s = p"

definition trim_prefix :: "string \<Rightarrow> string \<Rightarrow> string" where
  [go_string]: "trim_prefix s p = (if has_prefix s p then drop (length p) s else s)"

definition trim_suffix :: "string \<Rightarrow> string \<Rightarrow> string" where
  [go_string]: "trim_suffix s p =
     (if has_suffix s p then take (length s - length p) s else s)"

definition trim_chars :: "string \<Rightarrow> string \<Rightarrow> string" where
  "trim_chars cs s = rev (dropWhile (\<lambda>c. c \<in> set cs) (rev (dropWhile (\<lambda>c. c \<in> set cs) s)))"

fun split_byte :: "char \<Rightarrow> string \<Rightarrow> string list" where
  "split_byte d [] = [[]]"
| "split_byte d (c # s) =
     (if c = d then [] # split_byte d s
      else (case split_byte d s of [] \<Rightarrow> [[c]] | p # ps \<Rightarrow> (c # p) # ps))"

fun join_with :: "string \<Rightarrow> string list \<Rightarrow> string" where
  "join_with sep [] = []"
| "join_with sep [s] = s"
| "join_with sep (s # t # ss) = s @ sep @ join_with sep (t # ss)"

fun index_byte_from :: "nat \<Rightarrow> char \<Rightarrow> string \<Rightarrow> nat option" where
  "index_byte_from i d [] = None"
| "index_byte_from i d (c # s) = (if c = d then Some i else index_byte_from (Suc i) d s)"

definition index_byte :: "char \<Rightarrow> string \<Rightarrow> nat option" where
  "index_byte d s = index_byte_from 0 d s"

definition last_index_byte :: "char \<Rightarrow> string \<Rightarrow> nat option" where
  "last_index_byte d s = map_option (\<lambda>i. length s - 1 - i) (index_byte d (rev s))"

definition str_compare :: "string \<Rightarrow> string \<Rightarrow> int" where
  "str_compare a b = (if a < b then -1 else if a = b then 0 else 1)"

text \<open>Decimal rendering, \<open>strconv.Itoa\<close> and \<open>%d\<close>.\<close>

fun nat_str :: "nat \<Rightarrow> string" where
  "nat_str n = (if n < 10 then [char_of (48 + n)] else nat_str (n div 10) @ [char_of (48 + n mod 10)])"

declare nat_str.simps [simp del]

definition itoa :: "int \<Rightarrow> string" where
  "itoa i = (if i < 0 then ''-'' @ nat_str (nat (- i)) else nat_str (nat i))"

subsection \<open>Laws of trimming\<close>

lemma trim_with_stop: "strip_rune rs s = None \<Longrightarrow> trim_with rs s = s"
  by (simp add: trim_with.simps [of rs s])

lemma trim_with_step: "strip_rune rs s = Some t \<Longrightarrow> trim_with rs s = trim_with rs t"
  by (simp add: trim_with.simps [of rs s])

lemma trim_with_fixed: "strip_rune rs (trim_with rs s) = None"
proof (induction rs s rule: trim_with.induct)
  case (1 rs s)
  then show ?case by (cases "strip_rune rs s") (auto simp: trim_with_stop trim_with_step)
qed

lemma trim_with_idem [simp]: "trim_with rs (trim_with rs s) = trim_with rs s"
  by (rule trim_with_stop [OF trim_with_fixed])

lemma strip_rune_suffix: "strip_rune rs s = Some t \<Longrightarrow> \<exists>p. s = p @ t"
  by (induction rs) (auto split: if_splits intro: append_take_drop_id [symmetric])

lemma trim_with_suffix: "\<exists>p. s = p @ trim_with rs s"
proof (induction rs s rule: trim_with.induct)
  case (1 rs s)
  show ?case
  proof (cases "strip_rune rs s")
    case None
    then show ?thesis by (simp add: trim_with_stop)
  next
    case (Some t)
    with 1 obtain p where p: "t = p @ trim_with rs t" by auto
    obtain q where "s = q @ t" using strip_rune_suffix [OF Some] by blast
    also have "\<dots> = q @ p @ trim_with rs t" by (subst p) simp
    also have "\<dots> = (q @ p) @ trim_with rs s" by (simp add: trim_with_step [OF Some])
    finally show ?thesis by blast
  qed
qed

lemma strip_rune_prefix_None: "strip_rune rs (s @ t) = None \<Longrightarrow> strip_rune rs s = None"
proof (induction rs)
  case (Cons r rs)
  have "take (length r) (s @ t) = r" if "take (length r) s = r"
  proof -
    from that have "length r \<le> length s" by (metis length_take min.cobounded1)
    with that show ?thesis by simp
  qed
  with Cons show ?case by (auto split: if_splits)
qed simp

lemma trim_left_idem: "trim_left (trim_left s) = trim_left s"
  by (simp add: trim_left_def)

lemma trim_right_prefix: "\<exists>q. s = trim_right s @ q"
proof -
  obtain p where p: "rev s = p @ trim_with (map rev space_runes) (rev s)"
    using trim_with_suffix by blast
  have "s = rev (rev s)" by simp
  also have "\<dots> = rev (p @ trim_with (map rev space_runes) (rev s))"
    by (subst p) simp
  finally have "s = trim_right s @ rev p" by (simp add: trim_right_def)
  then show ?thesis by blast
qed

lemma trim_right_idem: "trim_right (trim_right s) = trim_right s"
  by (simp add: trim_right_def)

lemma trim_space_idem [simp]: "trim_space (trim_space s) = trim_space s"
proof -
  let ?l = "trim_left s"
  obtain q where q: "?l = trim_right ?l @ q" using trim_right_prefix by blast
  have "strip_rune space_runes ?l = None" by (simp add: trim_left_def trim_with_fixed)
  with q have "strip_rune space_runes (trim_right ?l) = None"
    by (metis strip_rune_prefix_None)
  then have "trim_left (trim_right ?l) = trim_right ?l"
    by (simp add: trim_left_def trim_with_stop)
  then show ?thesis by (simp add: trim_space_def trim_right_idem)
qed

lemma trim_space_infix: "\<exists>p q. s = p @ trim_space s @ q"
proof -
  obtain p where p: "s = p @ trim_left s"
    using trim_with_suffix by (auto simp: trim_left_def)
  obtain q where q: "trim_left s = trim_right (trim_left s) @ q"
    using trim_right_prefix by blast
  have "s = p @ trim_space s @ q" using p q by (simp add: trim_space_def)
  then show ?thesis by blast
qed

text \<open>A string is blank exactly when it is a concatenation of space runes.\<close>

lemma strip_rune_hit: "r \<in> set rs \<Longrightarrow> r \<noteq> [] \<Longrightarrow> strip_rune rs (r @ t) \<noteq> None"
  by (induction rs) auto

lemma strip_rune_Some_mem:
  "strip_rune rs s = Some t \<Longrightarrow> \<exists>r \<in> set rs. r \<noteq> [] \<and> s = r @ t"
proof (induction rs)
  case (Cons r rs)
  show ?case
  proof (cases "r \<noteq> [] \<and> take (length r) s = r")
    case True
    then have "s = r @ drop (length r) s" by (metis append_take_drop_id)
    with True Cons.prems show ?thesis by auto
  next
    case False
    with Cons show ?thesis by auto
  qed
qed simp

lemma trim_with_Nil_concat:
  "trim_with rs s = [] \<Longrightarrow> \<exists>rss. set rss \<subseteq> set rs \<and> [] \<notin> set rss \<and> s = concat rss"
proof (induction rs s rule: trim_with.induct)
  case (1 rs s)
  show ?case
  proof (cases "strip_rune rs s")
    case None
    with 1 show ?thesis by (intro exI [of _ "[]"]) (simp add: trim_with_stop)
  next
    case (Some t)
    with 1 obtain rss where "set rss \<subseteq> set rs" "[] \<notin> set rss" "t = concat rss"
      by (auto simp: trim_with_step)
    moreover obtain r where "r \<in> set rs" "r \<noteq> []" "s = r @ t"
      using strip_rune_Some_mem [OF Some] by blast
    ultimately show ?thesis by (intro exI [of _ "r # rss"]) auto
  qed
qed

lemma trim_right_Nil:
  assumes "strip_rune space_runes s = None" and "trim_right s = []"
  shows "s = []"
proof -
  from assms(2) have "trim_with (map rev space_runes) (rev s) = []" by (simp add: trim_right_def)
  then obtain rss where r: "set rss \<subseteq> rev ` set space_runes" "[] \<notin> set rss" and s: "rev s = concat rss"
    using trim_with_Nil_concat by (metis list.set_map)
  then have s': "s = concat (map rev (rev rss))" by (metis rev_concat rev_map rev_rev_ident)
  show ?thesis
  proof (cases rss rule: rev_cases)
    case Nil
    with s' show ?thesis by simp
  next
    case (snoc ys y)
    with r have "rev y \<in> set space_runes" and "rev y \<noteq> []" by auto
    with snoc s' have "strip_rune space_runes s \<noteq> None" by (simp add: strip_rune_hit)
    with assms(1) show ?thesis by simp
  qed
qed

lemma trim_space_Nil_iff: "trim_space s = [] \<longleftrightarrow> trim_left s = []"
proof
  assume "trim_space s = []"
  then show "trim_left s = []"
    unfolding trim_space_def
    by (rule trim_right_Nil [rotated]) (simp add: trim_left_def trim_with_fixed)
next
  assume "trim_left s = []"
  then show "trim_space s = []"
    using trim_right_prefix [of "[]"] by (simp add: trim_space_def)
qed

lemma trim_space_not_Nil: "strip_rune space_runes s = None \<Longrightarrow> s \<noteq> [] \<Longrightarrow> trim_space s \<noteq> []"
  by (simp add: trim_space_Nil_iff trim_left_def trim_with_stop)

lemma length_trim_space: "length (trim_space s) \<le> length s"
proof -
  obtain p q where "s = p @ trim_space s @ q" using trim_space_infix by blast
  then have "length s = length p + length (trim_space s) + length q"
    by (metis add.assoc length_append)
  then show ?thesis by simp
qed

lemma trim_space_Nil [simp]: "trim_space [] = []"
  using length_trim_space [of "[]"] by simp

lemma to_lower_Nil_iff [simp]: "to_lower s = [] \<longleftrightarrow> s = []"
  by (cases s) auto

lemma normalize_Nil [simp]: "normalize_string [] = []"
  by (simp add: normalize_string_def)

lemma normalize_trim [simp]: "normalize_string (trim_space s) = normalize_string s"
  by (simp add: normalize_string_def)

lemma normalize_eq_Nil [simp]: "normalize_string s = [] \<longleftrightarrow> trim_space s = []"
  by (simp add: normalize_string_def)

subsection \<open>Fast paths for evaluation\<close>

text \<open>As in the Go library, a string that starts and ends with a visible ASCII byte needs no
  trimming; these code equations let the kernel evaluate the common case quickly.\<close>

fun plain_char :: "char \<Rightarrow> bool" where
  "plain_char (Char b0 b1 b2 b3 b4 b5 b6 b7) \<longleftrightarrow>
     \<not> b7 \<and> (b6 \<or> (b5 \<and> (b0 \<or> b1 \<or> b2 \<or> b3 \<or> b4)))"

lemma strip_rune_None_hd:
  "\<forall>r \<in> set rs. r = [] \<or> hd r \<noteq> c \<Longrightarrow> strip_rune rs (c # s) = None"
proof (induction rs)
  case (Cons r rs)
  then show ?case by (cases r) auto
qed simp

lemma space_runes_not_plain:
  "\<forall>r \<in> set space_runes. r = [] \<or> (\<not> plain_char (hd r) \<and> \<not> plain_char (hd (rev r)))"
  by (simp add: space_runes_def)

lemma trim_left_plain: "plain_char c \<Longrightarrow> trim_left (c # s) = c # s"
  unfolding trim_left_def
  by (rule trim_with_stop, rule strip_rune_None_hd) (use space_runes_not_plain in auto)

lemma trim_right_plain: "plain_char c \<Longrightarrow> trim_right (s @ [c]) = s @ [c]"
proof -
  assume "plain_char c"
  then have "trim_with (map rev space_runes) (c # rev s) = c # rev s"
    by (intro trim_with_stop strip_rune_None_hd) (use space_runes_not_plain in auto)
  then show ?thesis by (simp add: trim_right_def)
qed

lemma trim_left_code [code]:
  "trim_left s = (case s of [] \<Rightarrow> [] | c # cs \<Rightarrow> if plain_char c then s else trim_with space_runes s)"
  by (auto simp: trim_left_plain split: list.split) (simp_all add: trim_left_def trim_with_stop space_runes_def)

lemma trim_right_code [code]:
  "trim_right s =
     (case rev s of [] \<Rightarrow> []
      | c # cs \<Rightarrow> if plain_char c then s else rev (trim_with (map rev space_runes) (c # cs)))"
proof (cases s rule: rev_cases)
  case Nil
  then show ?thesis by (simp add: trim_right_def trim_with_stop space_runes_def)
next
  case (snoc t c)
  then show ?thesis by (simp add: trim_right_plain) (simp add: trim_right_def)
qed

lemma ascii_lower_code [code]:
  "ascii_lower (Char b0 b1 b2 b3 b4 b5 b6 b7) =
     (if b6 \<and> \<not> b5 \<and> \<not> b7 \<and> (b0 \<or> b1 \<or> b2 \<or> b3 \<or> b4) \<and> \<not> (b4 \<and> b3 \<and> (b2 \<or> (b1 \<and> b0)))
      then Char b0 b1 b2 b3 b4 True b6 b7 else Char b0 b1 b2 b3 b4 b5 b6 b7)"
  by (cases b0; cases b1; cases b2; cases b3; cases b4; cases b5; cases b6; cases b7)
     (simp_all add: ascii_lower_def Let_def of_char_def char_of_def bit_Suc_0_iff)

subsection \<open>Laws of splitting and joining\<close>

lemma split_byte_not_Nil [simp]: "split_byte d s \<noteq> []"
  by (induction s) (auto split: list.splits)

lemma join_with_Cons: "ss \<noteq> [] \<Longrightarrow> join_with sep (s # ss) = s @ sep @ join_with sep ss"
  by (cases ss) auto

lemma join_with_append:
  "ss \<noteq> [] \<Longrightarrow> ts \<noteq> [] \<Longrightarrow> join_with sep (ss @ ts) = join_with sep ss @ sep @ join_with sep ts"
proof (induction ss)
  case (Cons s ss)
  then show ?case by (cases "ss = []") (simp_all add: join_with_Cons)
qed simp

lemma join_split_byte: "join_with [d] (split_byte d s) = s"
proof (induction s)
  case (Cons c s)
  obtain p ps where sp: "split_byte d s = p # ps"
    by (cases "split_byte d s") auto
  from Cons sp show ?case by (cases ps) auto
qed simp

lemma split_byte_no_sep: "p \<in> set (split_byte d s) \<Longrightarrow> d \<notin> set p"
  by (induction s arbitrary: p) (auto split: if_splits list.splits)

lemma split_byte_id: "d \<notin> set s \<Longrightarrow> split_byte d s = [s]"
  by (induction s) auto

lemma index_byte_from_None: "index_byte_from i d s = None \<longleftrightarrow> d \<notin> set s"
  by (induction s arbitrary: i) auto

lemma index_byte_from_Some:
  "index_byte_from i d s = Some j \<Longrightarrow>
     i \<le> j \<and> j - i < length s \<and> s ! (j - i) = d \<and> d \<notin> set (take (j - i) s)"
proof (induction s arbitrary: i)
  case (Cons c s)
  show ?case
  proof (cases "c = d")
    case False
    with Cons.prems have "index_byte_from (Suc i) d s = Some j" by simp
    note IH = Cons.IH [OF this]
    then have "j - i = Suc (j - Suc i)" by arith
    with IH False show ?thesis by simp
  qed (use Cons.prems in auto)
qed simp

lemma index_byte_None: "index_byte d s = None \<longleftrightarrow> d \<notin> set s"
  by (simp add: index_byte_def index_byte_from_None)

lemma index_byte_Some:
  "index_byte d s = Some j \<Longrightarrow> j < length s \<and> s ! j = d \<and> d \<notin> set (take j s)"
  using index_byte_from_Some [of 0 d s j] by (simp add: index_byte_def)

lemma last_index_byte_None: "last_index_byte d s = None \<longleftrightarrow> d \<notin> set s"
  by (simp add: last_index_byte_def index_byte_None)

lemma last_index_byte_Some:
  assumes "last_index_byte d s = Some j"
  shows "j < length s \<and> s ! j = d \<and> d \<notin> set (drop (Suc j) s)"
proof -
  from assms obtain i where i: "index_byte d (rev s) = Some i" and j: "j = length s - 1 - i"
    by (auto simp: last_index_byte_def)
  from index_byte_Some [OF i] have "i < length s" and "rev s ! i = d" and n: "d \<notin> set (take i (rev s))"
    by auto
  moreover from n have "d \<notin> set (drop (length s - i) s)"
    by (simp add: take_rev)
  ultimately show ?thesis using j by (auto simp: rev_nth Suc_diff_Suc)
qed

lemma str_compare_refl [simp]: "str_compare a a = 0"
  by (simp add: str_compare_def)

lemma str_compare_eq_0 [simp]: "str_compare a b = 0 \<longleftrightarrow> a = b"
  by (auto simp: str_compare_def)

lemma str_compare_le_0 [simp]: "str_compare a b \<le> 0 \<longleftrightarrow> a \<le> b"
  by (auto simp: str_compare_def)

section \<open>Sorting\<close>

text \<open>The insertion sort below computes a sorted permutation; \<open>sort_by_unique\<close> says that every
  sorted permutation is this one when the comparison separates the elements, so nothing depends on
  which algorithm the Go library runs.\<close>

fun insert_by :: "('a \<Rightarrow> 'a \<Rightarrow> bool) \<Rightarrow> 'a \<Rightarrow> 'a list \<Rightarrow> 'a list" where
  "insert_by le x [] = [x]"
| "insert_by le x (y # ys) = (if le x y then x # y # ys else y # insert_by le x ys)"

fun sort_by :: "('a \<Rightarrow> 'a \<Rightarrow> bool) \<Rightarrow> 'a list \<Rightarrow> 'a list" where
  "sort_by le [] = []"
| "sort_by le (x # xs) = insert_by le x (sort_by le xs)"

lemma mset_insert_by [simp]: "mset (insert_by le x ys) = add_mset x (mset ys)"
  by (induction ys) auto

lemma mset_sort_by [simp]: "mset (sort_by le xs) = mset xs"
  by (induction xs) auto

lemma set_sort_by [simp]: "set (sort_by le xs) = set xs"
  by (metis mset_sort_by set_mset_mset)

lemma length_sort_by [simp]: "length (sort_by le xs) = length xs"
  by (metis mset_sort_by size_mset)

lemma distinct_sort_by [simp]: "distinct (sort_by le xs) = distinct xs"
  by (metis mset_sort_by mset_eq_imp_distinct_iff)

lemma set_insert_by [simp]: "set (insert_by le x ys) = insert x (set ys)"
  by (induction ys) auto

locale total_preorder =
  fixes le :: "'a \<Rightarrow> 'a \<Rightarrow> bool"
  assumes total: "le x y \<or> le y x"
    and trans: "le x y \<Longrightarrow> le y z \<Longrightarrow> le x z"
begin

lemma refl: "le x x"
  using total by blast

lemma sorted_insert_by: "sorted_wrt le ys \<Longrightarrow> sorted_wrt le (insert_by le x ys)"
  using total by (induction ys) (auto intro: trans)

lemma sorted_sort_by: "sorted_wrt le (sort_by le xs)"
  by (induction xs) (auto intro: sorted_insert_by)

lemma sorted_perm_unique:
  assumes "sorted_wrt le xs" and "sorted_wrt le ys" and "mset xs = mset ys"
    and "\<And>x y. x \<in> set xs \<Longrightarrow> y \<in> set xs \<Longrightarrow> le x y \<Longrightarrow> le y x \<Longrightarrow> x = y"
  shows "xs = ys"
  using assms
proof (induction xs arbitrary: ys)
  case Nil
  then show ?case by simp
next
  case (Cons x xs)
  then obtain y ys' where ys: "ys = y # ys'" by (cases ys) auto
  have sets: "set (x # xs) = set ys" using Cons.prems(3) by (metis set_mset_mset)
  have "y \<in> set (x # xs)" and "x \<in> set (y # ys')" using sets ys by auto
  then have "le x y" and "le y x" using Cons.prems(1,2) ys refl by auto
  then have xy: "x = y" using Cons.prems(4) [of x y] \<open>y \<in> set (x # xs)\<close> by simp
  have "mset xs = mset ys'" using Cons.prems(3) ys xy by simp
  then have "xs = ys'" using Cons ys by auto
  with xy ys show ?case by simp
qed

theorem sort_by_unique:
  assumes "sorted_wrt le ys" and "mset ys = mset xs"
    and "\<And>x y. x \<in> set xs \<Longrightarrow> y \<in> set xs \<Longrightarrow> le x y \<Longrightarrow> le y x \<Longrightarrow> x = y"
  shows "sort_by le xs = ys"
  by (rule sorted_perm_unique) (use assms sorted_sort_by in auto)

lemma hd_sort_by_least:
  assumes "sort_by le xs = y # ys" and "x \<in> set xs"
  shows "le y x"
proof -
  have "x \<in> set (y # ys)" using assms set_sort_by [of le xs] by simp
  moreover have "sorted_wrt le (y # ys)" using sorted_sort_by [of xs] assms(1) by simp
  ultimately show ?thesis using refl by auto
qed

end

text \<open>The two comparison styles of the Go library: a three-way \<open>cmp\<close> and a strict \<open>less\<close>.\<close>

locale go_compare =
  fixes cmp :: "'a \<Rightarrow> 'a \<Rightarrow> int"
  assumes cmp_flip: "cmp x y \<le> 0 \<or> cmp y x \<le> 0"
    and cmp_trans: "cmp x y \<le> 0 \<Longrightarrow> cmp y z \<le> 0 \<Longrightarrow> cmp x z \<le> 0"
begin

sublocale total_preorder "\<lambda>x y. cmp x y \<le> 0"
  by unfold_locales (fact cmp_flip, fact cmp_trans)

end

locale go_less =
  fixes less :: "'a \<Rightarrow> 'a \<Rightarrow> bool"
  assumes asym: "less x y \<Longrightarrow> \<not> less y x"
    and negtrans: "less x z \<Longrightarrow> less x y \<or> less y z"
begin

sublocale total_preorder "\<lambda>x y. \<not> less y x"
  by unfold_locales (use asym negtrans in blast)+

end

text \<open>Ordering by a string key, \<open>strings.Compare(left.ID, right.ID)\<close>.\<close>

definition compare_on :: "('a \<Rightarrow> string) \<Rightarrow> 'a \<Rightarrow> 'a \<Rightarrow> int" where
  "compare_on key x y = str_compare (key x) (key y)"

definition sort_on :: "('a \<Rightarrow> string) \<Rightarrow> 'a list \<Rightarrow> 'a list" where
  "sort_on key = sort_by (\<lambda>x y. compare_on key x y \<le> 0)"

interpretation key_order: go_compare "compare_on key" for key
  by unfold_locales (auto simp: compare_on_def)

lemma mset_sort_on [simp]: "mset (sort_on key xs) = mset xs"
  by (simp add: sort_on_def)

lemma set_sort_on [simp]: "set (sort_on key xs) = set xs"
  by (simp add: sort_on_def)

lemma length_sort_on [simp]: "length (sort_on key xs) = length xs"
  by (simp add: sort_on_def)

lemma sorted_sort_on: "sorted (map key (sort_on key xs))"
  using key_order.sorted_sort_by [of key xs]
  by (simp add: sort_on_def compare_on_def sorted_wrt_map)

section \<open>Go sets as lists\<close>

text \<open>The de-duplicating loop with a \<open>seen\<close> map that several packages use: keep the first
  occurrence of each key, in order.\<close>

fun dedup_from :: "string list \<Rightarrow> string list \<Rightarrow> string list" where
  "dedup_from seen [] = []"
| "dedup_from seen (x # xs) =
     (if x = [] \<or> x \<in> set seen then dedup_from seen xs else x # dedup_from (x # seen) xs)"

lemma set_dedup_from: "set (dedup_from seen xs) = set xs - set seen - {[]}"
  by (induction xs arbitrary: seen) auto

lemma distinct_dedup_from: "distinct (dedup_from seen xs)"
  by (induction xs arbitrary: seen) (auto simp: set_dedup_from)

section \<open>Keyed stores\<close>

text \<open>What a client of a keyed store relies on: a lookup after an insert.\<close>

locale keyed_store =
  fixes get :: "'s \<Rightarrow> 'k \<Rightarrow> 'v option"
    and put :: "'k \<Rightarrow> 'v \<Rightarrow> 's \<Rightarrow> 's"
  assumes get_put_same: "get (put k v s) k = Some v"
    and get_put_other: "k' \<noteq> k \<Longrightarrow> get (put k v s) k' = get s k'"
begin

lemma get_put: "get (put k v s) k' = (if k' = k then Some v else get s k')"
  by (simp add: get_put_same get_put_other)

lemma put_put: "get (put k v (put k w s)) = get (put k v s)"
  by (rule ext) (simp add: get_put)

lemma put_commute: "k \<noteq> l \<Longrightarrow> get (put k v (put l w s)) = get (put l w (put k v s))"
  by (rule ext) (auto simp: get_put)

end

end
