(* ===== verification/Go_Stdlib.thy ===== *)
theory Go_Stdlib
  imports Rillan_Prelude
begin

text \<open>
  The parts of \<open>path/filepath\<close> (on Unix) and \<open>strconv\<close> that the packages use.
  \<open>path_clean\<close> is the lexical processing of \<open>filepath.Clean\<close>: empty and \<open>.\<close> elements are
  dropped, an inner \<open>..\<close> eliminates the element before it, and \<open>..\<close> at the root is dropped.
  The working directory is an argument of \<open>path_abs\<close> (\<^const>\<open>None\<close> when \<open>os.Getwd\<close> fails).
\<close>

section \<open>path/filepath\<close>

abbreviation slash :: char where "slash \<equiv> CHR ''/''"

definition path_is_abs :: "string \<Rightarrow> bool" where
  "path_is_abs p \<longleftrightarrow> has_prefix p ''/''"

fun clean_elems :: "bool \<Rightarrow> string list \<Rightarrow> string list \<Rightarrow> string list" where
  "clean_elems rooted st [] = rev st"
| "clean_elems rooted st (e # es) =
     (if e = [] \<or> e = ''.'' then clean_elems rooted st es
      else if e = ''..'' then
        (case st of
           [] \<Rightarrow> clean_elems rooted (if rooted then [] else [''..'']) es
         | up # rest \<Rightarrow>
             if up = ''..'' then clean_elems rooted (''..'' # st) es
             else clean_elems rooted rest es)
      else clean_elems rooted (e # st) es)"

definition path_clean :: "string \<Rightarrow> string" where
  "path_clean p =
     (let rooted = path_is_abs p; es = clean_elems rooted [] (split_byte slash p)
      in if rooted then slash # join_with [slash] es
         else if es = [] then ''.'' else join_with [slash] es)"

definition path_join :: "string list \<Rightarrow> string" where
  "path_join es =
     (case filter (\<lambda>e. e \<noteq> []) es of [] \<Rightarrow> [] | es' \<Rightarrow> path_clean (join_with [slash] es'))"

definition path_dir :: "string \<Rightarrow> string" where
  "path_dir p =
     (case last_index_byte slash p of None \<Rightarrow> path_clean [] | Some i \<Rightarrow> path_clean (take (Suc i) p))"

definition path_abs :: "string option \<Rightarrow> string \<Rightarrow> string option" where
  "path_abs cwd p =
     (if path_is_abs p then Some (path_clean p)
      else map_option (\<lambda>d. path_join [d, p]) cwd)"

text \<open>\<open>path.Base\<close>: the last element, with trailing slashes removed; \<open>.\<close> for the empty path and
  \<open>/\<close> for a path of slashes only.\<close>

definition path_base :: "string \<Rightarrow> string" where
  "path_base p =
     (if p = [] then ''.''
      else let q = rev (dropWhile (\<lambda>c. c = slash) (rev p)) in
        if q = [] then ''/''
        else (case last_index_byte slash q of None \<Rightarrow> q | Some i \<Rightarrow> drop (Suc i) q))"

subsection \<open>Laws of cleaning\<close>

text \<open>The element lists \<open>clean_elems\<close> returns: real names, after leading \<open>..\<close> elements that an
  unrooted path may keep.\<close>

definition clean_name :: "string \<Rightarrow> bool" where
  "clean_name e \<longleftrightarrow> e \<noteq> [] \<and> e \<noteq> ''.'' \<and> e \<noteq> ''..''"

definition clean_list :: "bool \<Rightarrow> string list \<Rightarrow> bool" where
  "clean_list rooted es \<longleftrightarrow>
     (\<exists>n names. es = replicate n ''..'' @ names \<and> (\<forall>e \<in> set names. clean_name e) \<and> (rooted \<longrightarrow> n = 0))"

lemma clean_list_Nil [simp]: "clean_list rooted []"
  unfolding clean_list_def by (rule exI [of _ 0]) simp

lemma clean_list_snoc_name: "clean_list rooted es \<Longrightarrow> clean_name e \<Longrightarrow> clean_list rooted (es @ [e])"
proof -
  assume "clean_list rooted es" and e: "clean_name e"
  then obtain n names where "es = replicate n ''..'' @ names" "\<forall>e \<in> set names. clean_name e"
      "rooted \<longrightarrow> n = 0"
    by (auto simp: clean_list_def)
  with e show ?thesis
    unfolding clean_list_def by (intro exI [of _ n] exI [of _ "names @ [e]"]) auto
qed

lemma clean_list_snoc_dotdot:
  assumes "clean_list False (es @ [''..''])"
  shows "clean_list False (es @ [''..''] @ [''..''])"
proof -
  from assms obtain n names where n: "es @ [''..''] = replicate n ''..'' @ names"
      and names: "\<forall>e \<in> set names. clean_name e"
    by (auto simp: clean_list_def)
  have "names = []"
  proof (cases names rule: rev_cases)
    case (snoc ys y)
    with n have "y = ''..''" by simp
    with names snoc show ?thesis by (simp add: clean_name_def)
  qed
  with n have "es @ [''..''] @ [''..''] = replicate n ''..'' @ [''..'']" by simp
  then have "es @ [''..''] @ [''..''] = replicate (Suc n) ''..''"
    by (simp add: replicate_append_same)
  then show ?thesis
    unfolding clean_list_def by (intro exI [of _ "Suc n"] exI [of _ "[]"]) simp
qed

lemma clean_list_butlast:
  assumes "clean_list rooted (es @ [e])" and "e \<noteq> ''..''"
  shows "clean_list rooted es"
proof -
  from assms(1) obtain n names where n: "es @ [e] = replicate n ''..'' @ names"
      and names: "\<forall>e \<in> set names. clean_name e" and r: "rooted \<longrightarrow> n = 0"
    by (auto simp: clean_list_def)
  show ?thesis
  proof (cases names rule: rev_cases)
    case Nil
    with n have "e \<in> set (replicate n ''..'')" by (metis append_Nil2 in_set_conv_decomp)
    with assms(2) show ?thesis by (simp split: if_splits)
  next
    case (snoc ys y)
    with n names r show ?thesis
      unfolding clean_list_def by (intro exI [of _ n] exI [of _ ys]) auto
  qed
qed

lemma clean_list_dotdot_unrooted: "clean_list rooted (es @ [''..'']) \<Longrightarrow> \<not> rooted"
proof
  assume "clean_list rooted (es @ [''..''])" and rooted
  then have "\<forall>e \<in> set (es @ [''..'']). clean_name e" by (auto simp: clean_list_def)
  then show False by (simp add: clean_name_def)
qed

lemma clean_elems_clean: "clean_list rooted (rev st) \<Longrightarrow> clean_list rooted (clean_elems rooted st es)"
proof (induction rooted st es rule: clean_elems.induct)
  case (2 rooted st e es)
  consider (skip) "e = [] \<or> e = ''.''" | (up) "e = ''..''" | (name) "clean_name e"
    by (auto simp: clean_name_def)
  then show ?case
  proof cases
    case skip
    with 2 show ?thesis by auto
  next
    case up
    show ?thesis
    proof (cases st)
      case Nil
      have "clean_list False [''..'']"
        unfolding clean_list_def by (intro exI [of _ 1] exI [of _ "[]"]) simp
      with 2 up Nil show ?thesis by (auto split: if_splits)
    next
      case (Cons tp rest)
      show ?thesis
      proof (cases "tp = ''..''")
        case True
        with 2 Cons have "\<not> rooted" by (auto dest: clean_list_dotdot_unrooted)
        with 2 Cons True have "clean_list rooted (rev (''..'' # st))"
          using clean_list_snoc_dotdot [of "rev rest"] by simp
        with 2 up Cons True show ?thesis by simp
      next
        case False
        with 2 Cons have "clean_list rooted (rev rest)" by (auto dest: clean_list_butlast)
        with 2 up Cons False show ?thesis by simp
      qed
    qed
  next
    case name
    with 2 have "clean_list rooted (rev (e # st))" by (simp add: clean_list_snoc_name)
    with 2 name show ?thesis by (simp add: clean_name_def)
  qed
qed simp

lemma clean_elems_names:
  "\<forall>e \<in> set es. clean_name e \<Longrightarrow> clean_elems rooted st es = rev st @ es"
  by (induction es arbitrary: st) (auto simp: clean_name_def)

lemma clean_elems_dotdots:
  "clean_elems False (replicate k ''..'') (replicate n ''..'' @ es) =
     clean_elems False (replicate (k + n) ''..'') es"
proof (induction n arbitrary: k)
  case (Suc n)
  have "clean_elems False (replicate k ''..'') (replicate (Suc n) ''..'' @ es) =
        clean_elems False (replicate (Suc k) ''..'') (replicate n ''..'' @ es)"
    by (cases k) auto
  with Suc [of "Suc k"] show ?case by simp
qed simp

lemma clean_elems_id:
  assumes "clean_list rooted es"
  shows "clean_elems rooted [] es = es"
proof -
  from assms obtain n names where es: "es = replicate n ''..'' @ names"
      and names: "\<forall>e \<in> set names. clean_name e" and r: "rooted \<longrightarrow> n = 0"
    by (auto simp: clean_list_def)
  show ?thesis
  proof (cases rooted)
    case True
    with es r names show ?thesis by (simp add: clean_elems_names)
  next
    case False
    have "clean_elems False [] es = clean_elems False (replicate n ''..'') names"
      using clean_elems_dotdots [of 0 n names] es by simp
    with False es names show ?thesis by (simp add: clean_elems_names)
  qed
qed

lemma clean_elems_subset: "set (clean_elems rooted st es) \<subseteq> set st \<union> set es"
proof (induction rooted st es rule: clean_elems.induct)
  case (2 rooted st e es)
  then show ?case by (cases st) (auto split: if_splits)
qed simp

lemma split_join_elems:
  "es \<noteq> [] \<Longrightarrow> \<forall>e \<in> set es. d \<notin> set e \<Longrightarrow> split_byte d (join_with [d] es) = es"
proof (induction es)
  case (Cons e es)
  have app: "split_byte d (e @ d # s) = e # split_byte d s" if "d \<notin> set e" for e s
    using that by (induction e) auto
  show ?case
  proof (cases "es = []")
    case True
    with Cons.prems show ?thesis by (simp add: split_byte_id)
  next
    case False
    with Cons show ?thesis by (simp add: join_with_Cons app)
  qed
qed simp

text \<open>No component of a cleaned rooted path is \<open>..\<close>, and cleaning is idempotent.\<close>

lemma path_clean_elems:
  "\<exists>es. clean_list (path_is_abs p) es \<and> (\<forall>e \<in> set es. slash \<notin> set e) \<and>
     path_clean p = (if path_is_abs p then slash # join_with [slash] es
                     else if es = [] then ''.'' else join_with [slash] es)"
proof -
  let ?es = "clean_elems (path_is_abs p) [] (split_byte slash p)"
  have "clean_list (path_is_abs p) ?es" by (rule clean_elems_clean) simp
  moreover have "\<forall>e \<in> set ?es. slash \<notin> set e"
    using clean_elems_subset split_byte_no_sep by fastforce
  moreover have "path_clean p = (if path_is_abs p then slash # join_with [slash] ?es
                     else if ?es = [] then ''.'' else join_with [slash] ?es)"
    by (simp add: path_clean_def Let_def)
  ultimately show ?thesis by blast
qed

lemma clean_list_mem_not_Nil: "clean_list rooted es \<Longrightarrow> e \<in> set es \<Longrightarrow> e \<noteq> []"
proof -
  assume "clean_list rooted es" and e: "e \<in> set es"
  then obtain n names where "es = replicate n ''..'' @ names" and "\<forall>e \<in> set names. clean_name e"
    by (auto simp: clean_list_def)
  with e have "e \<in> set (replicate n ''..'') \<or> clean_name e" by auto
  then show "e \<noteq> []" by (simp add: clean_name_def split: if_splits) auto
qed

lemma path_clean_idem: "path_clean (path_clean p) = path_clean p"
proof -
  obtain es where es: "clean_list (path_is_abs p) es" "\<forall>e \<in> set es. slash \<notin> set e"
    and p: "path_clean p = (if path_is_abs p then slash # join_with [slash] es
                     else if es = [] then ''.'' else join_with [slash] es)"
    using path_clean_elems by blast
  show ?thesis
  proof (cases "path_is_abs p")
    case True
    have "split_byte slash (slash # join_with [slash] es) = [] # (if es = [] then [[]] else es)"
      using es(2) split_join_elems [of es slash] by auto
    moreover have "clean_elems True [] ([] # (if es = [] then [[]] else es)) = es"
      using clean_elems_id [of True es] es(1) True by auto
    ultimately show ?thesis
      using True p by (simp add: path_clean_def path_is_abs_def has_prefix_def Let_def)
  next
    case False
    show ?thesis
    proof (cases es)
      case Nil
      with False p show ?thesis
        by (simp add: path_clean_def path_is_abs_def has_prefix_def Let_def)
    next
      case (Cons e es')
      have ne: "e \<noteq> []" using clean_list_mem_not_Nil [OF es(1)] Cons by simp
      with Cons es(2) obtain c cs where e: "e = c # cs" and "c \<noteq> slash" by (cases e) auto
      then have "\<not> path_is_abs (join_with [slash] es)"
        using Cons by (cases es') (auto simp: path_is_abs_def has_prefix_def)
      moreover have "split_byte slash (join_with [slash] es) = es"
        using es(2) Cons by (intro split_join_elems) auto
      moreover have "clean_elems False [] es = es"
        using clean_elems_id es(1) False by simp
      ultimately show ?thesis using p False Cons by (simp add: path_clean_def Let_def)
    qed
  qed
qed

lemma path_is_abs_simps [simp]: "\<not> path_is_abs []" "path_is_abs (c # s) \<longleftrightarrow> c = slash"
  by (simp_all add: path_is_abs_def has_prefix_def)

lemma path_clean_abs [simp]: "path_is_abs p \<Longrightarrow> path_is_abs (path_clean p)"
  by (simp only: path_clean_def Let_def if_True) (simp add: path_is_abs_def has_prefix_def)

section \<open>strconv\<close>

definition digit_value :: "char \<Rightarrow> int option" where
  "digit_value c =
     (let n = of_char c :: nat in if 48 \<le> n \<and> n \<le> 57 then Some (int n - 48) else None)"

fun parse_digits :: "int \<Rightarrow> string \<Rightarrow> int option" where
  "parse_digits acc [] = Some acc"
| "parse_digits acc (c # s) =
     (case digit_value c of None \<Rightarrow> None | Some d \<Rightarrow> parse_digits (10 * acc + d) s)"

text \<open>\<open>strconv.Atoi\<close> on a 64-bit platform: an optional sign, at least one digit, in range.\<close>

definition atoi :: "string \<Rightarrow> int option" where
  "atoi s =
     (let neg = has_prefix s ''-'';
          ds = (if neg \<or> has_prefix s ''+'' then drop 1 s else s)
      in if ds = [] then None
         else (case parse_digits 0 ds of
                 None \<Rightarrow> None
               | Some n \<Rightarrow>
                   let v = (if neg then - n else n)
                   in if - (2 ^ 63) \<le> v \<and> v < 2 ^ 63 then Some v else None))"

definition parse_bool :: "string \<Rightarrow> bool option" where
  "parse_bool s =
     (if s \<in> set [''1'', ''t'', ''T'', ''true'', ''TRUE'', ''True''] then Some True
      else if s \<in> set [''0'', ''f'', ''F'', ''false'', ''FALSE'', ''False''] then Some False
      else None)"

lemma digit_value_char: "n < 10 \<Longrightarrow> digit_value (char_of (48 + n)) = Some (int n)" for n :: nat
  by (simp add: digit_value_def Let_def)

lemma parse_digits_append:
  "parse_digits acc (s @ t) =
     (case parse_digits acc s of None \<Rightarrow> None | Some a \<Rightarrow> parse_digits a t)"
  by (induction s arbitrary: acc) (auto split: option.splits)

lemma parse_nat_str: "parse_digits 0 (nat_str n) = Some (int n)"
proof (induction n rule: nat_str.induct)
  case (1 n)
  show ?case
  proof (cases "n < 10")
    case True
    then show ?thesis by (simp add: nat_str.simps [of n] digit_value_char)
  next
    case False
    have d: "digit_value (char_of (48 + n mod 10)) = Some (int (n mod 10))"
      by (rule digit_value_char) simp
    have n: "10 * int (n div 10) + int (n mod 10) = int n" by presburger
    have "parse_digits 0 (nat_str n) = parse_digits 0 (nat_str (n div 10) @ [char_of (48 + n mod 10)])"
      using False by (subst nat_str.simps) simp
    also have "\<dots> = parse_digits (int (n div 10)) [char_of (48 + n mod 10)]"
      using 1 False by (simp only: parse_digits_append) simp
    also have "\<dots> = Some (10 * int (n div 10) + int (n mod 10))"
      by (simp only: parse_digits.simps d option.case)
    finally show ?thesis by (simp only: n)
  qed
qed

lemma nat_str_inj: "nat_str m = nat_str n \<Longrightarrow> m = n"
  by (metis of_nat_eq_iff option.inject parse_nat_str)

end
