(* ===== verification/Config_Types.thy ===== *)
theory Config_Types
  imports Go_Stdlib
begin

text \<open>
  \<open>internal/config/config.go\<close>: the configuration records, the bundled provider presets and the
  default configurations. Field names carry a prefix for their struct. A Go map
  (\<open>Routing.TaskTypes\<close>) is an association list, whose order stands for one iteration order and
  whose lookup is \<^const>\<open>map_of\<close>. The provider registry is an optional list because the code
  tells a nil slice (not configured) from an empty one; the other slices are lists, for nothing
  depends on that difference. YAML field tags are not modelled.
\<close>

section \<open>Constants\<close>

abbreviation SchemaVersionV2 :: int where "SchemaVersionV2 \<equiv> 2"
abbreviation LLMBackendOpenAICompatible :: string where
  "LLMBackendOpenAICompatible \<equiv> ''openai_compatible''"
abbreviation LLMTransportHTTP :: string where "LLMTransportHTTP \<equiv> ''http''"
abbreviation LLMTransportSTDIO :: string where "LLMTransportSTDIO \<equiv> ''stdio''"
abbreviation ProviderOpenAI :: string where "ProviderOpenAI \<equiv> ''openai''"
abbreviation ProviderOpenAICompatible :: string where
  "ProviderOpenAICompatible \<equiv> ''openai_compatible''"
abbreviation ProviderAnthropic :: string where "ProviderAnthropic \<equiv> ''anthropic''"
abbreviation ProviderOllama :: string where "ProviderOllama \<equiv> ''ollama''"
abbreviation AuthStrategyNone :: string where "AuthStrategyNone \<equiv> ''none''"
abbreviation AuthStrategyAPIKey :: string where "AuthStrategyAPIKey \<equiv> ''api_key''"
abbreviation AuthStrategyBrowserOIDC :: string where
  "AuthStrategyBrowserOIDC \<equiv> ''browser_oidc''"
abbreviation AuthStrategyDeviceOIDC :: string where "AuthStrategyDeviceOIDC \<equiv> ''device_oidc''"
abbreviation SystemEncryptionKeyringAESGCM :: string where
  "SystemEncryptionKeyringAESGCM \<equiv> ''keyring_aes_gcm''"
abbreviation ProjectClassificationOpenSource :: string where
  "ProjectClassificationOpenSource \<equiv> ''open_source''"
abbreviation ProjectClassificationInternal :: string where
  "ProjectClassificationInternal \<equiv> ''internal''"
abbreviation ProjectClassificationProprietary :: string where
  "ProjectClassificationProprietary \<equiv> ''proprietary''"
abbreviation ProjectClassificationTradeSecret :: string where
  "ProjectClassificationTradeSecret \<equiv> ''trade_secret''"
abbreviation RoutePreferenceAuto :: string where "RoutePreferenceAuto \<equiv> ''auto''"
abbreviation RoutePreferencePreferLocal :: string where
  "RoutePreferencePreferLocal \<equiv> ''prefer_local''"
abbreviation RoutePreferencePreferCloud :: string where
  "RoutePreferencePreferCloud \<equiv> ''prefer_cloud''"
abbreviation RoutePreferenceLocalOnly :: string where "RoutePreferenceLocalOnly \<equiv> ''local_only''"

section \<open>Records\<close>

record control_plane_auth =
  cpa_Endpoint :: string
  cpa_AuthStrategy :: string
  cpa_SessionRef :: string

record llm_provider =
  lp_ID :: string
  lp_Preset :: string
  lp_Backend :: string
  lp_Transport :: string
  lp_Endpoint :: string
  lp_Command :: "string list"
  lp_AuthStrategy :: string
  lp_DefaultModel :: string
  lp_ModelPins :: "string list"
  lp_Capabilities :: "string list"
  lp_CredentialRef :: string

record llm_registry =
  lr_Default :: string
  lr_Providers :: "llm_provider list option"

record mcp_server =
  ms_ID :: string
  ms_Endpoint :: string
  ms_Transport :: string
  ms_Command :: "string list"
  ms_AuthStrategy :: string
  ms_ReadOnly :: bool
  ms_CredentialRef :: string

record mcp_registry =
  mr_Default :: string
  mr_Servers :: "mcp_server list"

record resolved_llm =
  rp_ID :: string
  rp_Preset :: string
  rp_Backend :: string
  rp_Transport :: string
  rp_Endpoint :: string
  rp_Command :: "string list"
  rp_AuthStrategy :: string
  rp_DefaultModel :: string
  rp_ModelPins :: "string list"
  rp_Capabilities :: "string list"
  rp_CredentialRef :: string

record openai_config =
  oa_BaseURL :: string
  oa_APIKey :: string

record anthropic_config =
  an_Enabled :: bool
  an_BaseURL :: string
  an_APIKey :: string

record local_model_provider =
  lm_BaseURL :: string

record adapter_config =
  ac_ID :: string
  ac_Preset :: string
  ac_Type :: string
  ac_Transport :: string
  ac_Command :: "string list"
  ac_OpenAI :: openai_config
  ac_Anthropic :: anthropic_config
  ac_LocalModel :: local_model_provider

record host_config =
  hc_Default :: string
  hc_Providers :: "adapter_config list"

record llm_preset =
  ps_ID :: string
  ps_Family :: string
  ps_Endpoint :: string
  ps_AuthStrategy :: string
  ps_DefaultModel :: string
  ps_ModelPins :: "string list"
  ps_Capabilities :: "string list"

record system_encryption =
  se_Method :: string
  se_KeyringService :: string
  se_KeyringAccount :: string

record trusted_module =
  tm_RepoRoot :: string
  tm_ModuleID :: string
  tm_ManifestSHA256 :: string
  tm_AllowStdio :: bool

record system_identity =
  si_People :: "string list"
  si_Employers :: "string list"
  si_PIIPatterns :: "string list"
  si_CredentialPatterns :: "string list"

record system_rules =
  sr_MaskPIIForRemote :: bool
  sr_StripEmployerReferences :: bool
  sr_ForceLocalForTradeSecret :: bool
  sr_BlockRemoteOnPCIArtifacts :: bool

record system_policy =
  sp_Identity :: system_identity
  sp_Rules :: system_rules
  sp_TrustedModules :: "trusted_module list"

record system_config =
  sc_Version :: string
  sc_Encryption :: system_encryption
  sc_EncryptedPayload :: string
  sc_Policy :: system_policy

record project_source =
  src_Path :: string
  src_Type :: string

record project_routing =
  prt_Default :: string
  prt_TaskTypes :: "(string \<times> string) list"

record project_providers =
  pp_LLMDefault :: string
  pp_LLMAllowed :: "string list"
  pp_MCPEnabled :: "string list"

record project_config =
  pc_Name :: string
  pc_Classification :: string
  pc_Sources :: "project_source list"
  pc_Routing :: project_routing
  pc_Providers :: project_providers
  pc_ModulesEnabled :: "string list"
  pc_SkillsEnabled :: "string list"
  pc_SystemPrompt :: string
  pc_Instructions :: "string list"

record query_rewrite =
  qr_Enabled :: bool
  qr_Model :: string

record local_model =
  lmc_Enabled :: bool
  lmc_BaseURL :: string
  lmc_EmbedModel :: string
  lmc_QueryRewrite :: query_rewrite

record server_auth =
  sa_Enabled :: bool
  sa_AuthStrategy :: string
  sa_SessionRef :: string

record server_config =
  srv_Host :: string
  srv_Port :: int
  srv_LogLevel :: string
  srv_AllowNonLoopbackBind :: bool
  srv_Auth :: server_auth

record provider_config =
  pv_Type :: string
  pv_OpenAI :: openai_config
  pv_Anthropic :: anthropic_config
  pv_Local :: local_model_provider

record index_config =
  ix_Root :: string
  ix_Includes :: "string list"
  ix_Excludes :: "string list"
  ix_ChunkSizeLines :: int

record knowledge_graph =
  kg_Enabled :: bool
  kg_Path :: string
  kg_AutoUpdate :: string
  kg_TraversalDepth :: int
  kg_IncludeInferred :: bool
  kg_MaxNodes :: int

record runtime_config =
  rt_VectorStoreMode :: string
  rt_LocalModelBaseURL :: string

record retrieval_config =
  rc_Enabled :: bool
  rc_TopK :: int
  rc_MaxContextChars :: int

record mcp_config =
  mcp_Enabled :: bool
  mcp_ReadOnly :: bool
  mcp_MaxOpenFiles :: int
  mcp_MaxDiagnostics :: int

record agent_runtime =
  ag_Enabled :: bool
  ag_ApprovedRepoRoots :: "string list"
  ag_MCP :: mcp_config

record config =
  cfg_SchemaVersion :: int
  cfg_Server :: server_config
  cfg_Provider :: provider_config
  cfg_Index :: index_config
  cfg_KnowledgeGraph :: knowledge_graph
  cfg_Retrieval :: retrieval_config
  cfg_Runtime :: runtime_config
  cfg_LocalModel :: local_model
  cfg_Agent :: agent_runtime
  cfg_Auth :: control_plane_auth
  cfg_LLMs :: llm_registry
  cfg_MCPs :: mcp_registry

text \<open>The elements of a possibly nil slice; \<open>len(nil)\<close> is 0 and a loop over nil does nothing.\<close>

definition elems :: "'a list option \<Rightarrow> 'a list" where
  "elems xs = (case xs of None \<Rightarrow> [] | Some ys \<Rightarrow> ys)"

abbreviation llm_providers :: "config \<Rightarrow> llm_provider list" where
  "llm_providers cfg \<equiv> elems (lr_Providers (cfg_LLMs cfg))"

lemma elems_simps [simp]: "elems None = []" "elems (Some ys) = ys"
  by (simp_all add: elems_def)

section \<open>Bundled provider presets\<close>

definition BundledLLMProviderPresets :: "llm_preset list" where
  "BundledLLMProviderPresets =
     [\<lparr>ps_ID = ''openai'', ps_Family = ProviderOpenAICompatible,
       ps_Endpoint = ''https://api.openai.com/v1'', ps_AuthStrategy = AuthStrategyAPIKey,
       ps_DefaultModel = ''gpt-5'', ps_ModelPins = [''gpt-5''],
       ps_Capabilities = [''chat'', ''reasoning'', ''tool_calling'']\<rparr>,
      \<lparr>ps_ID = ''anthropic'', ps_Family = ProviderAnthropic,
       ps_Endpoint = ''https://api.anthropic.com'', ps_AuthStrategy = AuthStrategyAPIKey,
       ps_DefaultModel = ''claude-sonnet-4-5'', ps_ModelPins = [''claude-sonnet-4-5''],
       ps_Capabilities = [''chat'', ''reasoning'', ''tool_calling'']\<rparr>,
      \<lparr>ps_ID = ''xai'', ps_Family = ProviderOpenAICompatible,
       ps_Endpoint = ''https://api.x.ai/v1'', ps_AuthStrategy = AuthStrategyAPIKey,
       ps_DefaultModel = ''grok-4'', ps_ModelPins = [''grok-4''],
       ps_Capabilities = [''chat'', ''reasoning'', ''tool_calling'']\<rparr>,
      \<lparr>ps_ID = ''deepseek'', ps_Family = ProviderOpenAICompatible,
       ps_Endpoint = ''https://api.deepseek.com/v1'', ps_AuthStrategy = AuthStrategyAPIKey,
       ps_DefaultModel = ''deepseek-chat'', ps_ModelPins = [''deepseek-chat''],
       ps_Capabilities = [''chat'', ''reasoning'', ''tool_calling'']\<rparr>,
      \<lparr>ps_ID = ''kimi'', ps_Family = ProviderOpenAICompatible,
       ps_Endpoint = ''https://api.moonshot.ai/v1'', ps_AuthStrategy = AuthStrategyAPIKey,
       ps_DefaultModel = ''kimi-k2-0711-preview'', ps_ModelPins = [''kimi-k2-0711-preview''],
       ps_Capabilities = [''chat'', ''reasoning'', ''tool_calling'']\<rparr>,
      \<lparr>ps_ID = ''zai'', ps_Family = ProviderOpenAICompatible,
       ps_Endpoint = ''https://api.z.ai/api/paas/v4'', ps_AuthStrategy = AuthStrategyAPIKey,
       ps_DefaultModel = ''glm-4.5'', ps_ModelPins = [''glm-4.5''],
       ps_Capabilities = [''chat'', ''reasoning'', ''tool_calling'']\<rparr>]"

text \<open>The zero value that \<open>BundledLLMProviderPreset\<close> returns for an unknown identifier.\<close>

definition zero_preset :: llm_preset where
  "zero_preset = \<lparr>ps_ID = [], ps_Family = [], ps_Endpoint = [], ps_AuthStrategy = [],
     ps_DefaultModel = [], ps_ModelPins = [], ps_Capabilities = []\<rparr>"

fun find_preset :: "string \<Rightarrow> llm_preset list \<Rightarrow> llm_preset" where
  "find_preset ident [] = zero_preset"
| "find_preset ident (p # ps) = (if ps_ID p = normalize_string ident then p else find_preset ident ps)"

definition BundledLLMProviderPreset :: "string \<Rightarrow> llm_preset" where
  "BundledLLMProviderPreset ident = find_preset ident BundledLLMProviderPresets"

definition preset_provider_config :: "llm_preset \<Rightarrow> string \<Rightarrow> llm_provider" where
  "preset_provider_config p ident =
     \<lparr>lp_ID = ident, lp_Preset = ps_ID p, lp_Backend = ps_Family p,
      lp_Transport = LLMTransportHTTP, lp_Endpoint = ps_Endpoint p, lp_Command = [],
      lp_AuthStrategy = ps_AuthStrategy p, lp_DefaultModel = ps_DefaultModel p,
      lp_ModelPins = ps_ModelPins p, lp_Capabilities = ps_Capabilities p,
      lp_CredentialRef = ''keyring://rillan/llm/'' @ ident\<rparr>"

section \<open>Default configurations\<close>

definition default_llm_providers :: "llm_provider list" where
  "default_llm_providers =
     map (\<lambda>i. preset_provider_config (BundledLLMProviderPreset i) i)
       [''openai'', ''anthropic'', ''xai'', ''deepseek'', ''kimi'', ''zai'']"

definition DefaultConfig :: config where
  "DefaultConfig =
     \<lparr>cfg_SchemaVersion = SchemaVersionV2,
      cfg_Server =
        \<lparr>srv_Host = ''127.0.0.1'', srv_Port = 8420, srv_LogLevel = ''info'',
         srv_AllowNonLoopbackBind = False,
         srv_Auth = \<lparr>sa_Enabled = False, sa_AuthStrategy = AuthStrategyAPIKey,
                     sa_SessionRef = ''keyring://rillan/auth/daemon''\<rparr>\<rparr>,
      cfg_Provider =
        \<lparr>pv_Type = ProviderOpenAI,
         pv_OpenAI = \<lparr>oa_BaseURL = ''https://api.openai.com/v1'', oa_APIKey = []\<rparr>,
         pv_Anthropic = \<lparr>an_Enabled = False, an_BaseURL = ''https://api.anthropic.com'', an_APIKey = []\<rparr>,
         pv_Local = \<lparr>lm_BaseURL = ''http://127.0.0.1:11434''\<rparr>\<rparr>,
      cfg_Index =
        \<lparr>ix_Root = [], ix_Includes = [],
         ix_Excludes = [''.git'', ''node_modules'', ''.direnv'', ''.idea''], ix_ChunkSizeLines = 120\<rparr>,
      cfg_KnowledgeGraph =
        \<lparr>kg_Enabled = False, kg_Path = [], kg_AutoUpdate = ''none'', kg_TraversalDepth = 1,
         kg_IncludeInferred = True, kg_MaxNodes = 2000\<rparr>,
      cfg_Retrieval = \<lparr>rc_Enabled = False, rc_TopK = 4, rc_MaxContextChars = 6000\<rparr>,
      cfg_Runtime =
        \<lparr>rt_VectorStoreMode = ''embedded'', rt_LocalModelBaseURL = ''http://127.0.0.1:11434''\<rparr>,
      cfg_LocalModel =
        \<lparr>lmc_Enabled = False, lmc_BaseURL = ''http://127.0.0.1:11434'',
         lmc_EmbedModel = ''nomic-embed-text'',
         lmc_QueryRewrite = \<lparr>qr_Enabled = False, qr_Model = ''qwen3:0.6b''\<rparr>\<rparr>,
      cfg_Agent =
        \<lparr>ag_Enabled = False, ag_ApprovedRepoRoots = [],
         ag_MCP = \<lparr>mcp_Enabled = False, mcp_ReadOnly = True, mcp_MaxOpenFiles = 8,
                   mcp_MaxDiagnostics = 20\<rparr>\<rparr>,
      cfg_Auth = \<lparr>cpa_Endpoint = [], cpa_AuthStrategy = [], cpa_SessionRef = []\<rparr>,
      cfg_LLMs = \<lparr>lr_Default = ''openai'', lr_Providers = Some default_llm_providers\<rparr>,
      cfg_MCPs = \<lparr>mr_Default = [], mr_Servers = []\<rparr>\<rparr>"

definition DefaultProjectConfig :: project_config where
  "DefaultProjectConfig =
     \<lparr>pc_Name = [], pc_Classification = ProjectClassificationOpenSource, pc_Sources = [],
      pc_Routing = \<lparr>prt_Default = RoutePreferenceAuto, prt_TaskTypes = []\<rparr>,
      pc_Providers = \<lparr>pp_LLMDefault = [], pp_LLMAllowed = [], pp_MCPEnabled = []\<rparr>,
      pc_ModulesEnabled = [], pc_SkillsEnabled = [], pc_SystemPrompt = [], pc_Instructions = []\<rparr>"

definition DefaultSystemConfig :: system_config where
  "DefaultSystemConfig =
     \<lparr>sc_Version = ''m06'',
      sc_Encryption = \<lparr>se_Method = SystemEncryptionKeyringAESGCM,
                       se_KeyringService = ''rillan/system-policy'',
                       se_KeyringAccount = ''machine-default''\<rparr>,
      sc_EncryptedPayload = [],
      sc_Policy =
        \<lparr>sp_Identity = \<lparr>si_People = [], si_Employers = [], si_PIIPatterns = [],
                        si_CredentialPatterns = []\<rparr>,
         sp_Rules = \<lparr>sr_MaskPIIForRemote = False, sr_StripEmployerReferences = False,
                     sr_ForceLocalForTradeSecret = False, sr_BlockRemoteOnPCIArtifacts = False\<rparr>,
         sp_TrustedModules = []\<rparr>\<rparr>"

datatype log_level = LevelDebug | LevelInfo | LevelWarn | LevelError

definition ParseLogLevel :: "string \<Rightarrow> log_level" where
  "ParseLogLevel level =
     (if level = ''debug'' then LevelDebug
      else if level = ''warn'' then LevelWarn
      else if level = ''error'' then LevelError
      else LevelInfo)"

section \<open>Laws of the presets\<close>

lemma find_preset_cases:
  "find_preset ident ps = zero_preset \<or>
   (find_preset ident ps \<in> set ps \<and> ps_ID (find_preset ident ps) = normalize_string ident)"
  by (induction ps) auto

lemma preset_ID_cases:
  "ps_ID (BundledLLMProviderPreset ident) \<noteq> [] \<Longrightarrow>
     BundledLLMProviderPreset ident \<in> set BundledLLMProviderPresets \<and>
     ps_ID (BundledLLMProviderPreset ident) = normalize_string ident"
  using find_preset_cases [of ident BundledLLMProviderPresets]
  by (auto simp: BundledLLMProviderPreset_def zero_preset_def)

lemma bundled_presets_fields:
  "p \<in> set BundledLLMProviderPresets \<Longrightarrow>
     ps_Capabilities p \<noteq> [] \<and> ps_ModelPins p = [ps_DefaultModel p] \<and>
     ps_Family p \<in> {ProviderOpenAICompatible, ProviderAnthropic} \<and>
     ps_AuthStrategy p = AuthStrategyAPIKey \<and> trim_space (ps_ID p) \<noteq> []"
proof -
  have "list_all (\<lambda>p. ps_Capabilities p \<noteq> [] \<and> ps_ModelPins p = [ps_DefaultModel p] \<and>
     (ps_Family p = ProviderOpenAICompatible \<or> ps_Family p = ProviderAnthropic) \<and>
     ps_AuthStrategy p = AuthStrategyAPIKey \<and> trim_space (ps_ID p) \<noteq> []) BundledLLMProviderPresets"
    by code_simp
  then show "p \<in> set BundledLLMProviderPresets \<Longrightarrow> ?thesis" by (auto simp: list_all_iff)
qed

end
