(* ===== verification/Config_Defaults.thy ===== *)
theory Config_Defaults
  imports Config_Types
begin

text \<open>
  \<open>internal/config/load.go\<close>, the part that fills a parsed configuration: the defaults derived
  after parsing, the environment overrides, and the file locations. The environment is a lookup
  function (\<open>os.LookupEnv\<close>), the working directory and the home directory are optional strings,
  \<^const>\<open>None\<close> where the operating system call fails; YAML parsing is not modelled.
  The first group of lemmas shows that deriving defaults is a closure: it sets every field the
  validator requires to be set, and applying it twice changes nothing when the working directory
  is known.
\<close>

section \<open>Path resolution\<close>

definition resolveIndexRoot :: "string option \<Rightarrow> string \<Rightarrow> string \<Rightarrow> string" where
  "resolveIndexRoot cwd configPath root =
     (let root' = trim_space root in
      if root' = [] then []
      else if path_is_abs root' then path_clean root'
      else let baseDir = (if configPath \<noteq> [] then path_dir configPath else ''.'');
               resolved = path_join [baseDir, root']
           in (case path_abs cwd resolved of Some absResolved \<Rightarrow> absResolved
               | None \<Rightarrow> path_clean resolved))"

definition resolveProjectPath :: "string option \<Rightarrow> string \<Rightarrow> string \<Rightarrow> string" where
  "resolveProjectPath cwd projectPath value =
     (let value' = trim_space value in
      if value' = [] then []
      else if path_is_abs value' then path_clean value'
      else let baseDir = (if projectPath \<noteq> [] then path_dir projectPath else ''.'');
               resolved = path_join [baseDir, value']
           in (case path_abs cwd resolved of Some absResolved \<Rightarrow> absResolved
               | None \<Rightarrow> path_clean resolved))"

section \<open>Provider preset defaults\<close>

definition default_blank :: "string \<Rightarrow> string \<Rightarrow> string" where
  "default_blank s d = (if trim_space s = [] then d else s)"

definition fill_from_preset :: "llm_preset \<Rightarrow> llm_provider \<Rightarrow> llm_provider" where
  "fill_from_preset preset p =
     (let p1 = p\<lparr>lp_Backend := default_blank (lp_Backend p) (ps_Family preset),
                 lp_Transport := default_blank (lp_Transport p) LLMTransportHTTP,
                 lp_Endpoint := default_blank (lp_Endpoint p) (ps_Endpoint preset),
                 lp_AuthStrategy := default_blank (lp_AuthStrategy p) (ps_AuthStrategy preset),
                 lp_DefaultModel := default_blank (lp_DefaultModel p) (ps_DefaultModel preset),
                 lp_ModelPins := (if lp_ModelPins p = [] \<and> ps_ModelPins preset \<noteq> []
                                  then ps_ModelPins preset else lp_ModelPins p),
                 lp_Capabilities := (if lp_Capabilities p = [] then ps_Capabilities preset
                                     else lp_Capabilities p),
                 lp_CredentialRef :=
                   (if trim_space (lp_CredentialRef p) = [] \<and> trim_space (lp_ID p) \<noteq> []
                    then ''keyring://rillan/llm/'' @ trim_space (lp_ID p)
                    else lp_CredentialRef p)\<rparr>
      in (if lp_ModelPins p1 = [] \<and> trim_space (lp_DefaultModel p1) \<noteq> []
          then p1\<lparr>lp_ModelPins := [trim_space (lp_DefaultModel p1)]\<rparr> else p1))"

definition applyLLMProviderPresetDefaults :: "llm_provider \<Rightarrow> llm_provider" where
  "applyLLMProviderPresetDefaults p =
     (let presetID = normalize_string (lp_Preset p) in
      if presetID = [] then p
      else let preset = BundledLLMProviderPreset presetID in
        if ps_ID preset = [] then p else fill_from_preset preset p)"

section \<open>Derived defaults\<close>

definition or_str :: "string \<Rightarrow> string \<Rightarrow> string" where
  "or_str s d = (if s = [] then d else s)"

definition or_int :: "int \<Rightarrow> int \<Rightarrow> int" where
  "or_int n d = (if n = 0 then d else n)"

definition derive_provider :: "provider_config \<Rightarrow> provider_config" where
  "derive_provider pv =
     pv\<lparr>pv_Type := or_str (pv_Type pv) ProviderOpenAI,
        pv_OpenAI := (pv_OpenAI pv)
          \<lparr>oa_BaseURL := or_str (oa_BaseURL (pv_OpenAI pv)) ''https://api.openai.com/v1''\<rparr>,
        pv_Anthropic := (pv_Anthropic pv)
          \<lparr>an_BaseURL := or_str (an_BaseURL (pv_Anthropic pv)) ''https://api.anthropic.com''\<rparr>,
        pv_Local := (pv_Local pv)
          \<lparr>lm_BaseURL := or_str (lm_BaseURL (pv_Local pv)) ''http://127.0.0.1:11434''\<rparr>\<rparr>"

definition derive_runtime :: "provider_config \<Rightarrow> runtime_config \<Rightarrow> runtime_config" where
  "derive_runtime pv rt =
     rt\<lparr>rt_LocalModelBaseURL := or_str (rt_LocalModelBaseURL rt) (lm_BaseURL (pv_Local pv)),
        rt_VectorStoreMode := or_str (rt_VectorStoreMode rt) ''embedded''\<rparr>"

definition derive_index :: "string option \<Rightarrow> string \<Rightarrow> index_config \<Rightarrow> index_config" where
  "derive_index cwd configPath ix =
     ix\<lparr>ix_Excludes := (if ix_Excludes ix = [] then ix_Excludes (cfg_Index DefaultConfig)
                        else ix_Excludes ix),
        ix_ChunkSizeLines := or_int (ix_ChunkSizeLines ix) (ix_ChunkSizeLines (cfg_Index DefaultConfig)),
        ix_Root := (if ix_Root ix \<noteq> [] then resolveIndexRoot cwd configPath (ix_Root ix)
                    else ix_Root ix)\<rparr>"

definition derive_graph :: "string option \<Rightarrow> string \<Rightarrow> knowledge_graph \<Rightarrow> knowledge_graph" where
  "derive_graph cwd configPath kg =
     kg\<lparr>kg_AutoUpdate := default_blank (kg_AutoUpdate kg) (kg_AutoUpdate (cfg_KnowledgeGraph DefaultConfig)),
        kg_TraversalDepth := or_int (kg_TraversalDepth kg) (kg_TraversalDepth (cfg_KnowledgeGraph DefaultConfig)),
        kg_MaxNodes := or_int (kg_MaxNodes kg) (kg_MaxNodes (cfg_KnowledgeGraph DefaultConfig)),
        kg_Path := (if kg_Path kg \<noteq> [] then resolveProjectPath cwd configPath (kg_Path kg)
                    else kg_Path kg)\<rparr>"

definition derive_retrieval :: "retrieval_config \<Rightarrow> retrieval_config" where
  "derive_retrieval rc =
     rc\<lparr>rc_TopK := or_int (rc_TopK rc) (rc_TopK (cfg_Retrieval DefaultConfig)),
        rc_MaxContextChars := or_int (rc_MaxContextChars rc) (rc_MaxContextChars (cfg_Retrieval DefaultConfig))\<rparr>"

definition derive_server :: "server_config \<Rightarrow> server_config" where
  "derive_server srv =
     srv\<lparr>srv_Host := or_str (srv_Host srv) ''127.0.0.1'',
         srv_Port := or_int (srv_Port srv) 8420,
         srv_LogLevel := or_str (srv_LogLevel srv) ''info''\<rparr>"

definition derive_local_model :: "local_model \<Rightarrow> local_model" where
  "derive_local_model lm =
     lm\<lparr>lmc_BaseURL := or_str (lmc_BaseURL lm) ''http://127.0.0.1:11434'',
        lmc_EmbedModel := or_str (lmc_EmbedModel lm) ''nomic-embed-text'',
        lmc_QueryRewrite := (lmc_QueryRewrite lm)
          \<lparr>qr_Model := or_str (qr_Model (lmc_QueryRewrite lm)) ''qwen3:0.6b''\<rparr>\<rparr>"

definition derive_mcp :: "mcp_config \<Rightarrow> mcp_config" where
  "derive_mcp m =
     m\<lparr>mcp_MaxOpenFiles := or_int (mcp_MaxOpenFiles m) (mcp_MaxOpenFiles (ag_MCP (cfg_Agent DefaultConfig))),
       mcp_MaxDiagnostics := or_int (mcp_MaxDiagnostics m) (mcp_MaxDiagnostics (ag_MCP (cfg_Agent DefaultConfig))),
       mcp_ReadOnly := (if \<not> mcp_Enabled m then mcp_ReadOnly (ag_MCP (cfg_Agent DefaultConfig))
                        else mcp_ReadOnly m)\<rparr>"

definition derive_agent :: "string option \<Rightarrow> string \<Rightarrow> agent_runtime \<Rightarrow> agent_runtime" where
  "derive_agent cwd configPath ag =
     ag\<lparr>ag_MCP := derive_mcp (ag_MCP ag),
        ag_ApprovedRepoRoots := map (resolveProjectPath cwd configPath) (ag_ApprovedRepoRoots ag)\<rparr>"

definition derive_llms :: "llm_registry \<Rightarrow> llm_registry" where
  "derive_llms lr =
     (let ps = map applyLLMProviderPresetDefaults
                 (case lr_Providers lr of None \<Rightarrow> elems (lr_Providers (cfg_LLMs DefaultConfig))
                  | Some ps \<Rightarrow> ps)
      in lr\<lparr>lr_Providers := Some ps,
            lr_Default := (if lr_Default lr = [] \<and> ps \<noteq> [] then lp_ID (hd ps) else lr_Default lr)\<rparr>)"

definition applyDerivedDefaults :: "string option \<Rightarrow> config \<Rightarrow> string \<Rightarrow> config" where
  "applyDerivedDefaults cwd cfg configPath =
     (let pv = derive_provider (cfg_Provider cfg) in
      cfg\<lparr>cfg_SchemaVersion := or_int (cfg_SchemaVersion cfg) SchemaVersionV2,
          cfg_Provider := pv,
          cfg_Runtime := derive_runtime pv (cfg_Runtime cfg),
          cfg_Index := derive_index cwd configPath (cfg_Index cfg),
          cfg_KnowledgeGraph := derive_graph cwd configPath (cfg_KnowledgeGraph cfg),
          cfg_Retrieval := derive_retrieval (cfg_Retrieval cfg),
          cfg_Server := derive_server (cfg_Server cfg),
          cfg_LocalModel := derive_local_model (cfg_LocalModel cfg),
          cfg_Agent := derive_agent cwd configPath (cfg_Agent cfg),
          cfg_LLMs := derive_llms (cfg_LLMs cfg)\<rparr>)"

definition applyProjectDerivedDefaults :: "string option \<Rightarrow> project_config \<Rightarrow> string \<Rightarrow> project_config" where
  "applyProjectDerivedDefaults cwd cfg projectPath =
     cfg\<lparr>pc_Classification := or_str (pc_Classification cfg) (pc_Classification DefaultProjectConfig),
         pc_Routing := (pc_Routing cfg)
           \<lparr>prt_Default := or_str (prt_Default (pc_Routing cfg)) (prt_Default (pc_Routing DefaultProjectConfig))\<rparr>,
         pc_Sources := map (\<lambda>s. s\<lparr>src_Path := resolveProjectPath cwd projectPath (src_Path s)\<rparr>)
           (pc_Sources cfg)\<rparr>"

definition applySystemDerivedDefaults :: "system_config \<Rightarrow> system_config" where
  "applySystemDerivedDefaults cfg =
     cfg\<lparr>sc_Version := or_str (sc_Version cfg) (sc_Version DefaultSystemConfig),
         sc_Encryption := (sc_Encryption cfg)
           \<lparr>se_Method := or_str (se_Method (sc_Encryption cfg)) (se_Method (sc_Encryption DefaultSystemConfig)),
            se_KeyringService := or_str (se_KeyringService (sc_Encryption cfg))
              (se_KeyringService (sc_Encryption DefaultSystemConfig)),
            se_KeyringAccount := or_str (se_KeyringAccount (sc_Encryption cfg))
              (se_KeyringAccount (sc_Encryption DefaultSystemConfig))\<rparr>\<rparr>"

section \<open>Environment overrides\<close>

type_synonym environment = "string \<Rightarrow> string option"

fun applyStringEnv :: "environment \<Rightarrow> string \<Rightarrow> string list \<Rightarrow> string" where
  "applyStringEnv env target [] = target"
| "applyStringEnv env target (key # keys) =
     (case env key of Some value \<Rightarrow> value | None \<Rightarrow> applyStringEnv env target keys)"

definition applyIntEnv :: "environment \<Rightarrow> int \<Rightarrow> string \<Rightarrow> int" where
  "applyIntEnv env target key =
     (case env key of None \<Rightarrow> target
      | Some value \<Rightarrow> (case atoi value of None \<Rightarrow> target | Some parsed \<Rightarrow> parsed))"

definition applyBoolEnv :: "environment \<Rightarrow> bool \<Rightarrow> string \<Rightarrow> bool" where
  "applyBoolEnv env target key =
     (case env key of None \<Rightarrow> target
      | Some value \<Rightarrow> (case parse_bool value of None \<Rightarrow> target | Some parsed \<Rightarrow> parsed))"

definition applyCSVEnv :: "environment \<Rightarrow> string list \<Rightarrow> string \<Rightarrow> string list" where
  "applyCSVEnv env target key =
     (case env key of None \<Rightarrow> target
      | Some value \<Rightarrow> filter (\<lambda>p. p \<noteq> []) (map trim_space (split_byte (CHR '','') value)))"

definition env_server :: "environment \<Rightarrow> server_config \<Rightarrow> server_config" where
  "env_server env srv =
     srv\<lparr>srv_Host := applyStringEnv env (srv_Host srv) [''RILLAN_SERVER_HOST''],
         srv_Port := applyIntEnv env (srv_Port srv) ''RILLAN_SERVER_PORT'',
         srv_LogLevel := applyStringEnv env (srv_LogLevel srv) [''RILLAN_SERVER_LOG_LEVEL''],
         srv_AllowNonLoopbackBind :=
           applyBoolEnv env (srv_AllowNonLoopbackBind srv) ''RILLAN_SERVER_ALLOW_NON_LOOPBACK_BIND'',
         srv_Auth := (srv_Auth srv)
           \<lparr>sa_Enabled := applyBoolEnv env (sa_Enabled (srv_Auth srv)) ''RILLAN_SERVER_AUTH_ENABLED'',
            sa_AuthStrategy := applyStringEnv env (sa_AuthStrategy (srv_Auth srv)) [''RILLAN_SERVER_AUTH_STRATEGY''],
            sa_SessionRef := applyStringEnv env (sa_SessionRef (srv_Auth srv)) [''RILLAN_SERVER_AUTH_SESSION_REF'']\<rparr>\<rparr>"

definition env_provider :: "environment \<Rightarrow> provider_config \<Rightarrow> provider_config" where
  "env_provider env pv =
     pv\<lparr>pv_Type := applyStringEnv env (pv_Type pv) [''RILLAN_PROVIDER_TYPE''],
        pv_OpenAI := (pv_OpenAI pv)
          \<lparr>oa_BaseURL := applyStringEnv env (oa_BaseURL (pv_OpenAI pv)) [''RILLAN_OPENAI_BASE_URL''],
           oa_APIKey := applyStringEnv env (oa_APIKey (pv_OpenAI pv))
             [''RILLAN_OPENAI_API_KEY'', ''OPENAI_API_KEY'']\<rparr>,
        pv_Anthropic := (pv_Anthropic pv)
          \<lparr>an_Enabled := applyBoolEnv env (an_Enabled (pv_Anthropic pv)) ''RILLAN_ANTHROPIC_ENABLED'',
           an_BaseURL := applyStringEnv env (an_BaseURL (pv_Anthropic pv)) [''RILLAN_ANTHROPIC_BASE_URL''],
           an_APIKey := applyStringEnv env (an_APIKey (pv_Anthropic pv))
             [''RILLAN_ANTHROPIC_API_KEY'', ''ANTHROPIC_API_KEY'']\<rparr>,
        pv_Local := (pv_Local pv)
          \<lparr>lm_BaseURL := applyStringEnv env (lm_BaseURL (pv_Local pv)) [''RILLAN_LOCAL_MODEL_BASE_URL'']\<rparr>\<rparr>"

definition env_index :: "environment \<Rightarrow> index_config \<Rightarrow> index_config" where
  "env_index env ix =
     ix\<lparr>ix_Root := applyStringEnv env (ix_Root ix) [''RILLAN_INDEX_ROOT''],
        ix_Includes := applyCSVEnv env (ix_Includes ix) ''RILLAN_INDEX_INCLUDES'',
        ix_Excludes := applyCSVEnv env (ix_Excludes ix) ''RILLAN_INDEX_EXCLUDES'',
        ix_ChunkSizeLines := applyIntEnv env (ix_ChunkSizeLines ix) ''RILLAN_INDEX_CHUNK_SIZE_LINES''\<rparr>"

definition env_graph :: "environment \<Rightarrow> knowledge_graph \<Rightarrow> knowledge_graph" where
  "env_graph env kg =
     kg\<lparr>kg_Enabled := applyBoolEnv env (kg_Enabled kg) ''RILLAN_KNOWLEDGE_GRAPH_ENABLED'',
        kg_Path := applyStringEnv env (kg_Path kg) [''RILLAN_KNOWLEDGE_GRAPH_PATH''],
        kg_AutoUpdate := applyStringEnv env (kg_AutoUpdate kg) [''RILLAN_KNOWLEDGE_GRAPH_AUTO_UPDATE''],
        kg_TraversalDepth := applyIntEnv env (kg_TraversalDepth kg) ''RILLAN_KNOWLEDGE_GRAPH_TRAVERSAL_DEPTH'',
        kg_IncludeInferred := applyBoolEnv env (kg_IncludeInferred kg) ''RILLAN_KNOWLEDGE_GRAPH_INCLUDE_INFERRED'',
        kg_MaxNodes := applyIntEnv env (kg_MaxNodes kg) ''RILLAN_KNOWLEDGE_GRAPH_MAX_NODES''\<rparr>"

definition env_rest :: "environment \<Rightarrow> config \<Rightarrow> config" where
  "env_rest env cfg =
     cfg\<lparr>cfg_Retrieval := (cfg_Retrieval cfg)
           \<lparr>rc_Enabled := applyBoolEnv env (rc_Enabled (cfg_Retrieval cfg)) ''RILLAN_RETRIEVAL_ENABLED'',
            rc_TopK := applyIntEnv env (rc_TopK (cfg_Retrieval cfg)) ''RILLAN_RETRIEVAL_TOP_K'',
            rc_MaxContextChars := applyIntEnv env (rc_MaxContextChars (cfg_Retrieval cfg))
              ''RILLAN_RETRIEVAL_MAX_CONTEXT_CHARS''\<rparr>,
         cfg_Runtime := (cfg_Runtime cfg)
           \<lparr>rt_VectorStoreMode := applyStringEnv env (rt_VectorStoreMode (cfg_Runtime cfg)) [''RILLAN_VECTOR_STORE_MODE''],
            rt_LocalModelBaseURL := applyStringEnv env (rt_LocalModelBaseURL (cfg_Runtime cfg))
              [''RILLAN_LOCAL_MODEL_BASE_URL'']\<rparr>,
         cfg_LocalModel := (cfg_LocalModel cfg)
           \<lparr>lmc_Enabled := applyBoolEnv env (lmc_Enabled (cfg_LocalModel cfg)) ''RILLAN_LOCAL_MODEL_ENABLED'',
            lmc_BaseURL := applyStringEnv env (lmc_BaseURL (cfg_LocalModel cfg)) [''RILLAN_LOCAL_MODEL_BASE_URL''],
            lmc_EmbedModel := applyStringEnv env (lmc_EmbedModel (cfg_LocalModel cfg)) [''RILLAN_LOCAL_MODEL_EMBED_MODEL''],
            lmc_QueryRewrite := (lmc_QueryRewrite (cfg_LocalModel cfg))
              \<lparr>qr_Enabled := applyBoolEnv env (qr_Enabled (lmc_QueryRewrite (cfg_LocalModel cfg)))
                 ''RILLAN_LOCAL_MODEL_QUERY_REWRITE_ENABLED'',
               qr_Model := applyStringEnv env (qr_Model (lmc_QueryRewrite (cfg_LocalModel cfg)))
                 [''RILLAN_LOCAL_MODEL_QUERY_REWRITE_MODEL'']\<rparr>\<rparr>,
         cfg_Agent := (cfg_Agent cfg)
           \<lparr>ag_Enabled := applyBoolEnv env (ag_Enabled (cfg_Agent cfg)) ''RILLAN_AGENT_ENABLED'',
            ag_MCP := (ag_MCP (cfg_Agent cfg))
              \<lparr>mcp_Enabled := applyBoolEnv env (mcp_Enabled (ag_MCP (cfg_Agent cfg))) ''RILLAN_AGENT_MCP_ENABLED'',
               mcp_ReadOnly := applyBoolEnv env (mcp_ReadOnly (ag_MCP (cfg_Agent cfg))) ''RILLAN_AGENT_MCP_READ_ONLY'',
               mcp_MaxOpenFiles := applyIntEnv env (mcp_MaxOpenFiles (ag_MCP (cfg_Agent cfg)))
                 ''RILLAN_AGENT_MCP_MAX_OPEN_FILES'',
               mcp_MaxDiagnostics := applyIntEnv env (mcp_MaxDiagnostics (ag_MCP (cfg_Agent cfg)))
                 ''RILLAN_AGENT_MCP_MAX_DIAGNOSTICS''\<rparr>\<rparr>\<rparr>"

definition applyEnvOverrides :: "environment \<Rightarrow> config \<Rightarrow> config" where
  "applyEnvOverrides env cfg =
     env_rest env
       (cfg\<lparr>cfg_Server := env_server env (cfg_Server cfg),
            cfg_Provider := env_provider env (cfg_Provider cfg),
            cfg_Index := env_index env (cfg_Index cfg),
            cfg_KnowledgeGraph := env_graph env (cfg_KnowledgeGraph cfg)\<rparr>)"

section \<open>Writing\<close>

text \<open>What \<open>Write\<close> hands to the YAML encoder: a schema-v2 file carries no API key.\<close>

definition write_output :: "config \<Rightarrow> config" where
  "write_output cfg =
     (if cfg_SchemaVersion cfg \<ge> SchemaVersionV2
      then cfg\<lparr>cfg_Provider := (cfg_Provider cfg)
             \<lparr>pv_OpenAI := (pv_OpenAI (cfg_Provider cfg))\<lparr>oa_APIKey := []\<rparr>,
              pv_Anthropic := (pv_Anthropic (cfg_Provider cfg))\<lparr>an_APIKey := []\<rparr>\<rparr>\<rparr>
      else cfg)"

section \<open>File locations\<close>

definition DefaultProjectConfigPath :: "string option \<Rightarrow> string \<Rightarrow> string" where
  "DefaultProjectConfigPath cwd root =
     (let base = trim_space root in
      if base = [] \<and> cwd = None then path_join [''.rillan'', ''project.yaml'']
      else let base' = (if base = [] then the cwd else base);
               absBase = (case path_abs cwd base' of Some a \<Rightarrow> a | None \<Rightarrow> base')
           in path_join [absBase, ''.rillan'', ''project.yaml''])"

definition LegacyProjectConfigPath :: "string option \<Rightarrow> string \<Rightarrow> string" where
  "LegacyProjectConfigPath cwd root =
     (let base = trim_space root in
      if base = [] \<and> cwd = None then path_join [''.sidekick'', ''project.yaml'']
      else let base' = (if base = [] then the cwd else base);
               absBase = (case path_abs cwd base' of Some a \<Rightarrow> a | None \<Rightarrow> base')
           in path_join [absBase, ''.sidekick'', ''project.yaml''])"

definition ResolveProjectConfigPath :: "(string \<Rightarrow> bool) \<Rightarrow> string option \<Rightarrow> string \<Rightarrow> string" where
  "ResolveProjectConfigPath statOk cwd root =
     (let preferred = DefaultProjectConfigPath cwd root; legacy = LegacyProjectConfigPath cwd root
      in if statOk preferred then preferred else if statOk legacy then legacy else preferred)"

definition DefaultSystemConfigPath :: "string option \<Rightarrow> string" where
  "DefaultSystemConfigPath home =
     (case home of None \<Rightarrow> path_join [''.rillan'', ''system.yaml'']
      | Some h \<Rightarrow> path_join [h, ''.rillan'', ''system.yaml''])"

definition LegacySystemConfigPath :: "string option \<Rightarrow> string" where
  "LegacySystemConfigPath home =
     (case home of None \<Rightarrow> path_join [''.sidekick'', ''system.yaml'']
      | Some h \<Rightarrow> path_join [h, ''.sidekick'', ''system.yaml''])"

definition ResolveSystemConfigPath :: "(string \<Rightarrow> bool) \<Rightarrow> string option \<Rightarrow> string" where
  "ResolveSystemConfigPath statOk home =
     (let preferred = DefaultSystemConfigPath home; legacy = LegacySystemConfigPath home
      in if statOk preferred then preferred else if statOk legacy then legacy else preferred)"

definition DefaultDataDir :: "string \<Rightarrow> environment \<Rightarrow> string option \<Rightarrow> string" where
  "DefaultDataDir goos env home =
     (case home of None \<Rightarrow> path_join [''.'', ''.rillan'']
      | Some h \<Rightarrow>
          if goos = ''darwin'' then
            path_join [h, ''Library'', ''Application Support'', ''rillan'', ''data'']
          else (case env ''XDG_DATA_HOME'' of
                  Some base \<Rightarrow> if base \<noteq> [] then path_join [base, ''rillan'']
                               else path_join [h, ''.local'', ''share'', ''rillan'']
                | None \<Rightarrow> path_join [h, ''.local'', ''share'', ''rillan'']))"

definition DefaultLogDir :: "string \<Rightarrow> environment \<Rightarrow> string option \<Rightarrow> string" where
  "DefaultLogDir goos env home =
     (case home of None \<Rightarrow> path_join [''.'', ''.rillan'', ''logs'']
      | Some h \<Rightarrow>
          if goos = ''darwin'' then path_join [h, ''Library'', ''Logs'', ''rillan'']
          else (case env ''XDG_STATE_HOME'' of
                  Some base \<Rightarrow> if base \<noteq> [] then path_join [base, ''rillan'', ''logs'']
                               else path_join [h, ''.local'', ''state'', ''rillan'', ''logs'']
                | None \<Rightarrow> path_join [h, ''.local'', ''state'', ''rillan'', ''logs'']))"

section \<open>Deriving defaults is a closure\<close>

named_theorems derive_defs "the sections of the derived defaults"

lemmas [derive_defs] = derive_provider_def derive_runtime_def derive_index_def derive_graph_def
  derive_retrieval_def derive_server_def derive_local_model_def derive_mcp_def derive_agent_def

lemma or_str_idem [simp]: "or_str (or_str s d) d = or_str s d"
  by (simp add: or_str_def)

lemma or_str_eq_Nil [simp]: "or_str s d = [] \<longleftrightarrow> s = [] \<and> d = []"
  by (simp add: or_str_def)

lemma or_int_idem [simp]: "or_int (or_int n d) d = or_int n d"
  by (simp add: or_int_def)

lemma or_int_eq_0 [simp]: "or_int n d = 0 \<longleftrightarrow> n = 0 \<and> d = 0"
  by (simp add: or_int_def)

lemma default_blank_idem [simp]: "default_blank (default_blank s d) d = default_blank s d"
  by (simp add: default_blank_def)

lemma keyring_prefix_not_blank: "trim_space (''keyring://rillan/llm/'' @ s) \<noteq> []"
  by (rule trim_space_not_Nil) (simp_all add: space_runes_def)

lemma fill_frame [simp]:
  "lp_Preset (fill_from_preset q p) = lp_Preset p"
  "lp_ID (fill_from_preset q p) = lp_ID p"
  "lp_Command (fill_from_preset q p) = lp_Command p"
  by (simp_all add: fill_from_preset_def Let_def)

lemma fill_idem:
  assumes "ps_Capabilities q \<noteq> []" and "ps_ModelPins q \<noteq> []"
  shows "fill_from_preset q (fill_from_preset q p) = fill_from_preset q p"
  using assms by (simp add: fill_from_preset_def Let_def keyring_prefix_not_blank)

lemma preset_defaults_frame [simp]:
  "lp_Preset (applyLLMProviderPresetDefaults p) = lp_Preset p"
  "lp_ID (applyLLMProviderPresetDefaults p) = lp_ID p"
  "lp_Command (applyLLMProviderPresetDefaults p) = lp_Command p"
  by (simp_all add: applyLLMProviderPresetDefaults_def Let_def)

lemma preset_defaults_idem:
  "applyLLMProviderPresetDefaults (applyLLMProviderPresetDefaults p) = applyLLMProviderPresetDefaults p"
proof -
  have "ps_Capabilities q \<noteq> [] \<and> ps_ModelPins q \<noteq> []"
    if "q = BundledLLMProviderPreset i" and "ps_ID q \<noteq> []" for q i
    using that preset_ID_cases [of i] bundled_presets_fields [of q] by force
  then show ?thesis
    by (simp add: applyLLMProviderPresetDefaults_def Let_def fill_idem)
qed

lemma resolveProjectPath_shape:
  assumes "cwd = Some d" and "path_is_abs d"
  shows "resolveProjectPath cwd p v = [] \<or>
     (path_is_abs (resolveProjectPath cwd p v) \<and>
      path_clean (resolveProjectPath cwd p v) = resolveProjectPath cwd p v)"
proof -
  have j: "path_is_abs (path_join [d, x]) \<and> path_clean (path_join [d, x]) = path_join [d, x]" for x
    using assms(2)
    by (cases d) (auto simp: path_join_def path_clean_idem path_is_abs_def [of "_ @ _"]
        path_is_abs_def [of "_ # _"] has_prefix_def intro!: path_clean_abs)
  show ?thesis
    using assms j by (auto simp: resolveProjectPath_def Let_def path_abs_def path_clean_idem)
qed

lemma resolveIndexRoot_eq: "resolveIndexRoot = resolveProjectPath"
  by (intro ext) (simp add: resolveIndexRoot_def resolveProjectPath_def)

lemma resolveProjectPath_idem:
  assumes "cwd = Some d" and "path_is_abs d"
    and "trim_space (resolveProjectPath cwd p v) = resolveProjectPath cwd p v"
  shows "resolveProjectPath cwd p (resolveProjectPath cwd p v) = resolveProjectPath cwd p v"
proof -
  let ?r = "resolveProjectPath cwd p v"
  consider "?r = []" | "?r \<noteq> []" "path_is_abs ?r" "path_clean ?r = ?r"
    using resolveProjectPath_shape [OF assms(1,2), of p v] by blast
  then show ?thesis
  proof cases
    case 1
    then show ?thesis by (simp only: 1) (simp add: resolveProjectPath_def)
  next
    case 2
    then show ?thesis by (subst resolveProjectPath_def) (simp add: assms(3) Let_def)
  qed
qed

lemma resolveProjectPath_not_Nil:
  assumes "cwd = Some d" and "path_is_abs d" and "trim_space v \<noteq> []"
  shows "path_is_abs (resolveProjectPath cwd p v)"
proof -
  have "path_is_abs (path_join [d, x])" for x
    using assms(2)
    by (cases d) (auto simp: path_join_def path_is_abs_def [of "_ @ _"]
        path_is_abs_def [of "_ # _"] has_prefix_def intro!: path_clean_abs)
  then show ?thesis
    using assms by (auto simp: resolveProjectPath_def Let_def path_abs_def)
qed

text \<open>The fields the validator reads are set, and the registry is never nil, after the
  defaults are derived.\<close>

lemma derived_fields_set:
  "cfg_SchemaVersion (applyDerivedDefaults cwd cfg p) \<noteq> 0"
  "srv_Host (cfg_Server (applyDerivedDefaults cwd cfg p)) \<noteq> []"
  "srv_Port (cfg_Server (applyDerivedDefaults cwd cfg p)) \<noteq> 0"
  "ix_ChunkSizeLines (cfg_Index (applyDerivedDefaults cwd cfg p)) \<noteq> 0"
  "rc_TopK (cfg_Retrieval (applyDerivedDefaults cwd cfg p)) \<noteq> 0"
  "rc_MaxContextChars (cfg_Retrieval (applyDerivedDefaults cwd cfg p)) \<noteq> 0"
  "kg_MaxNodes (cfg_KnowledgeGraph (applyDerivedDefaults cwd cfg p)) \<noteq> 0"
  "lr_Providers (cfg_LLMs (applyDerivedDefaults cwd cfg p)) \<noteq> None"
  by (simp_all add: applyDerivedDefaults_def derive_defs derive_llms_def Let_def DefaultConfig_def)

lemma derive_llms_idem: "derive_llms (derive_llms lr) = derive_llms lr"
  by (cases "lr_Providers lr")
    (auto simp: derive_llms_def Let_def preset_defaults_idem comp_def hd_map)

lemma derive_idem_sections:
  "derive_provider (derive_provider pv) = derive_provider pv"
  "derive_runtime pv (derive_runtime pv rt) = derive_runtime pv rt"
  "derive_retrieval (derive_retrieval rc) = derive_retrieval rc"
  "derive_server (derive_server srv) = derive_server srv"
  "derive_local_model (derive_local_model lm) = derive_local_model lm"
  "derive_mcp (derive_mcp m) = derive_mcp m"
  by (simp_all add: derive_defs)

text \<open>The paths of a configuration, which the resolution may rewrite.\<close>

definition config_paths :: "config \<Rightarrow> string list" where
  "config_paths cfg =
     ix_Root (cfg_Index cfg) # kg_Path (cfg_KnowledgeGraph cfg) # ag_ApprovedRepoRoots (cfg_Agent cfg)"

lemma derive_idem_paths:
  assumes "cwd = Some d" and "path_is_abs d"
  shows "trim_space (ix_Root (derive_index cwd p ix)) = ix_Root (derive_index cwd p ix) \<Longrightarrow>
           derive_index cwd p (derive_index cwd p ix) = derive_index cwd p ix"
    and "trim_space (kg_Path (derive_graph cwd p kg)) = kg_Path (derive_graph cwd p kg) \<Longrightarrow>
           derive_graph cwd p (derive_graph cwd p kg) = derive_graph cwd p kg"
    and "\<forall>r \<in> set (ag_ApprovedRepoRoots (derive_agent cwd p ag)). trim_space r = r \<Longrightarrow>
           derive_agent cwd p (derive_agent cwd p ag) = derive_agent cwd p ag"
  using resolveProjectPath_idem [OF assms]
  by (auto simp: derive_index_def derive_graph_def derive_agent_def resolveIndexRoot_eq
      derive_idem_sections DefaultConfig_def)

section \<open>Properties\<close>

text \<open>Deriving the defaults of a configuration twice is the same as deriving them once, when
  the working directory is absolute and no resolved path ends in white space: loading a file that
  a load has completed changes nothing.\<close>

theorem derived_defaults_idempotent:
  assumes "cwd = Some d" and "path_is_abs d"
    and "\<forall>p \<in> set (config_paths (applyDerivedDefaults cwd cfg path)). trim_space p = p"
  shows "applyDerivedDefaults cwd (applyDerivedDefaults cwd cfg path) path = applyDerivedDefaults cwd cfg path"
  using assms(3) derive_idem_paths [OF assms(1,2), of path]
  by (simp add: applyDerivedDefaults_def Let_def derive_idem_sections derive_llms_idem config_paths_def)

definition sparse_config :: config where
  "sparse_config = DefaultConfig
     \<lparr>cfg_SchemaVersion := 0, cfg_LLMs := \<lparr>lr_Default = [], lr_Providers = None\<rparr>,
      cfg_Index := \<lparr>ix_Root = ''repo/../src'', ix_Includes = [], ix_Excludes = [], ix_ChunkSizeLines = 0\<rparr>\<rparr>"

theorem derived_defaults_idempotent_witness:
  "ix_Root (cfg_Index (applyDerivedDefaults (Some ''/home/dev'') sparse_config ''/etc/rillan.yaml'')) = ''/etc/src'' \<and>
   applyDerivedDefaults (Some ''/home/dev'')
     (applyDerivedDefaults (Some ''/home/dev'') sparse_config ''/etc/rillan.yaml'') ''/etc/rillan.yaml'' =
   applyDerivedDefaults (Some ''/home/dev'') sparse_config ''/etc/rillan.yaml''"
proof -
  have p: "config_paths (applyDerivedDefaults (Some ''/home/dev'') sparse_config ''/etc/rillan.yaml'') =
      [''/etc/src'', []]"
    by code_simp
  have "list_all (\<lambda>p. trim_space p = p) [''/etc/src'', []]" by code_simp
  moreover have "path_is_abs ''/home/dev''" by code_simp
  ultimately have "applyDerivedDefaults (Some ''/home/dev'')
      (applyDerivedDefaults (Some ''/home/dev'') sparse_config ''/etc/rillan.yaml'') ''/etc/rillan.yaml'' =
    applyDerivedDefaults (Some ''/home/dev'') sparse_config ''/etc/rillan.yaml''"
    by (intro derived_defaults_idempotent [OF refl]) (simp_all add: p)
  then show ?thesis using p by (simp add: config_paths_def)
qed

text \<open>A version 2 configuration is written without any API key, and otherwise unchanged.\<close>

theorem written_config_has_no_keys:
  assumes "cfg_SchemaVersion cfg \<ge> SchemaVersionV2"
  shows "oa_APIKey (pv_OpenAI (cfg_Provider (write_output cfg))) = [] \<and>
     an_APIKey (pv_Anthropic (cfg_Provider (write_output cfg))) = [] \<and>
     (write_output cfg)\<lparr>cfg_Provider := cfg_Provider cfg\<rparr> = cfg"
  using assms by (simp add: write_output_def)

theorem written_config_has_no_keys_witness:
  "oa_APIKey (pv_OpenAI (cfg_Provider (write_output (DefaultConfig
     \<lparr>cfg_Provider := (cfg_Provider DefaultConfig)
       \<lparr>pv_OpenAI := \<lparr>oa_BaseURL = ''https://api.openai.com/v1'', oa_APIKey = ''sk-secret''\<rparr>\<rparr>\<rparr>)))) = []"
  using written_config_has_no_keys [of "DefaultConfig
     \<lparr>cfg_Provider := (cfg_Provider DefaultConfig)
       \<lparr>pv_OpenAI := \<lparr>oa_BaseURL = ''https://api.openai.com/v1'', oa_APIKey = ''sk-secret''\<rparr>\<rparr>\<rparr>"]
  by (simp add: DefaultConfig_def)

end
