(* ===== verification/Secretstore.thy ===== *)
theory Secretstore
  imports Go_Stdlib
begin

text \<open>
  \<open>internal/secretstore/store.go\<close>: credentials in the operating system's keyring, bound to the
  endpoint and authentication strategy they were stored for. The keyring is a map from (service,
  account) to the stored credential; the JSON encoding between them is not modelled, and neither
  are the failures of the keyring other than a missing entry.
\<close>

record credential =
  cr_Kind :: string
  cr_APIKey :: string
  cr_AccessToken :: string
  cr_RefreshToken :: string
  cr_IDToken :: string
  cr_Endpoint :: string
  cr_AuthStrategy :: string
  cr_Issuer :: string
  cr_Audience :: string
  cr_StoredAt :: string

record binding =
  bd_Endpoint :: string
  bd_AuthStrategy :: string
  bd_Issuer :: string
  bd_Audience :: string

datatype secret_error =
    UnsupportedRef string
  | InvalidKeyringRef string
  | SecretNotFound
  | EndpointMismatch string string
  | AuthStrategyMismatch string string
  | IssuerMismatch string string
  | AudienceMismatch string string
  | NoBearerToken string

type_synonym keyring = "string \<times> string \<Rightarrow> credential option"

abbreviation keyring_scheme :: string where "keyring_scheme \<equiv> ''keyring://''"

definition IsNotFound :: "secret_error \<Rightarrow> bool" where
  "IsNotFound e \<longleftrightarrow> e = SecretNotFound"

definition parseRef :: "string \<Rightarrow> secret_error + string \<times> string" where
  "parseRef ref =
     (let trimmed = trim_space ref in
      if \<not> has_prefix trimmed keyring_scheme then Inl (UnsupportedRef ref)
      else let value = trim_prefix trimmed keyring_scheme in
        (case last_index_byte slash value of
           None \<Rightarrow> Inl (InvalidKeyringRef ref)
         | Some idx \<Rightarrow>
             if idx = 0 \<or> idx = length value - 1 then Inl (InvalidKeyringRef ref)
             else Inr (take idx value, drop (Suc idx) value)))"

definition Save :: "string \<Rightarrow> string \<Rightarrow> credential \<Rightarrow> keyring \<Rightarrow> secret_error + keyring" where
  "Save now ref credential k =
     (case parseRef ref of Inl e \<Rightarrow> Inl e
      | Inr key \<Rightarrow> Inr (k(key \<mapsto> credential\<lparr>cr_StoredAt := now\<rparr>)))"

definition Load :: "keyring \<Rightarrow> string \<Rightarrow> secret_error + credential" where
  "Load k ref =
     (case parseRef ref of Inl e \<Rightarrow> Inl e
      | Inr key \<Rightarrow> (case k key of None \<Rightarrow> Inl SecretNotFound | Some c \<Rightarrow> Inr c))"

definition Delete :: "string \<Rightarrow> keyring \<Rightarrow> secret_error + keyring" where
  "Delete ref k =
     (case parseRef ref of Inl e \<Rightarrow> Inl e | Inr key \<Rightarrow> Inr (k(key := None)))"

definition Exists :: "keyring \<Rightarrow> string \<Rightarrow> bool" where
  "Exists k ref \<longleftrightarrow> (case Load k ref of Inl _ \<Rightarrow> False | Inr _ \<Rightarrow> True)"

definition mismatch :: "string \<Rightarrow> string \<Rightarrow> bool" where
  "mismatch expected stored \<longleftrightarrow> expected \<noteq> [] \<and> stored \<noteq> [] \<and> stored \<noteq> expected"

definition validateBinding :: "credential \<Rightarrow> binding \<Rightarrow> secret_error option" where
  "validateBinding c b =
     (if mismatch (bd_Endpoint b) (cr_Endpoint c)
      then Some (EndpointMismatch (cr_Endpoint c) (bd_Endpoint b))
      else if mismatch (bd_AuthStrategy b) (cr_AuthStrategy c)
      then Some (AuthStrategyMismatch (cr_AuthStrategy c) (bd_AuthStrategy b))
      else if mismatch (bd_Issuer b) (cr_Issuer c)
      then Some (IssuerMismatch (cr_Issuer c) (bd_Issuer b))
      else if mismatch (bd_Audience b) (cr_Audience c)
      then Some (AudienceMismatch (cr_Audience c) (bd_Audience b))
      else None)"

definition ResolveBearer :: "keyring \<Rightarrow> string \<Rightarrow> binding \<Rightarrow> secret_error + string" where
  "ResolveBearer k ref b =
     (case Load k ref of Inl e \<Rightarrow> Inl e
      | Inr c \<Rightarrow>
          (case validateBinding c b of Some e \<Rightarrow> Inl e
           | None \<Rightarrow>
               if cr_AccessToken c \<noteq> [] then Inr (cr_AccessToken c)
               else if cr_APIKey c \<noteq> [] then Inr (cr_APIKey c)
               else Inl (NoBearerToken ref)))"

section \<open>The keyring as a keyed store\<close>

definition keyring_get :: "keyring \<Rightarrow> string \<times> string \<Rightarrow> credential option" where
  "keyring_get k key = k key"

definition keyring_put :: "string \<times> string \<Rightarrow> credential \<Rightarrow> keyring \<Rightarrow> keyring" where
  "keyring_put key c k = k(key \<mapsto> c)"

interpretation keyring: keyed_store keyring_get keyring_put
  by unfold_locales (simp_all add: keyring_get_def keyring_put_def)

lemma Save_put:
  "Save now ref c k =
     (case parseRef ref of Inl e \<Rightarrow> Inl e
      | Inr key \<Rightarrow> Inr (keyring_put key (c\<lparr>cr_StoredAt := now\<rparr>) k))"
  by (simp add: Save_def keyring_put_def split: sum.split)

lemma Load_get:
  "Load k ref =
     (case parseRef ref of Inl e \<Rightarrow> Inl e
      | Inr key \<Rightarrow> (case keyring_get k key of None \<Rightarrow> Inl SecretNotFound | Some c \<Rightarrow> Inr c))"
  by (simp add: Load_def keyring_get_def split: sum.split)

lemmas store_simps = Save_put Load_get keyring.get_put

section \<open>Laws\<close>

lemma split_at_last:
  assumes "last_index_byte d v = Some i"
  shows "v = take i v @ [d] @ drop (Suc i) v" and "d \<notin> set (drop (Suc i) v)" and "i < length v"
  using last_index_byte_Some [OF assms] id_take_nth_drop [of i v] by auto

lemma trim_prefix_append: "has_prefix t p \<Longrightarrow> t = p @ trim_prefix t p"
  by (simp add: trim_prefix_def has_prefix_def) (metis append_take_drop_id)

lemma parseRef_parts:
  assumes "parseRef ref = Inr (svc, acct)"
  shows "svc \<noteq> []" "acct \<noteq> []" "slash \<notin> set acct" "trim_space ref = keyring_scheme @ svc @ [slash] @ acct"
proof -
  define v where "v = trim_prefix (trim_space ref) keyring_scheme"
  from assms have p: "has_prefix (trim_space ref) keyring_scheme"
    by (auto simp: parseRef_def Let_def split: if_splits)
  from assms obtain i where i: "last_index_byte slash v = Some i" "i \<noteq> 0" "i \<noteq> length v - 1"
    and parts: "svc = take i v" "acct = drop (Suc i) v"
    by (auto simp: parseRef_def Let_def v_def split: if_splits option.splits)
  note sp = split_at_last [OF i(1)]
  from sp(3) i parts show "svc \<noteq> []" "acct \<noteq> []" by auto
  from sp(2) parts show "slash \<notin> set acct" by simp
  have "v = svc @ [slash] @ acct" using sp(1) parts by simp
  then show "trim_space ref = keyring_scheme @ svc @ [slash] @ acct"
    using trim_prefix_append [OF p] by (simp only: v_def)
qed

lemma parseRef_trim: "parseRef (trim_space ref) = Inr x \<longleftrightarrow> parseRef ref = Inr x"
  by (auto simp: parseRef_def Let_def split: option.splits)

lemma validateBinding_None:
  "validateBinding c b = None \<longleftrightarrow>
     \<not> mismatch (bd_Endpoint b) (cr_Endpoint c) \<and> \<not> mismatch (bd_AuthStrategy b) (cr_AuthStrategy c) \<and>
     \<not> mismatch (bd_Issuer b) (cr_Issuer c) \<and> \<not> mismatch (bd_Audience b) (cr_Audience c)"
  by (simp add: validateBinding_def)

lemma ResolveBearer_Inr:
  "ResolveBearer k ref b = Inr tok \<longleftrightarrow>
     (\<exists>c. Load k ref = Inr c \<and> validateBinding c b = None \<and> tok \<noteq> [] \<and>
          tok = (if cr_AccessToken c \<noteq> [] then cr_AccessToken c else cr_APIKey c))"
  by (auto simp: ResolveBearer_def split: sum.splits option.splits if_splits)

section \<open>Properties\<close>

text \<open>A saved credential is what a later load of the same reference returns, with the
  time it was stored, and no other reference is affected by the save.\<close>

theorem save_load_roundtrip:
  assumes "Save now ref c k = Inr k'"
  shows "Load k' ref = Inr (c\<lparr>cr_StoredAt := now\<rparr>) \<and>
     (\<forall>ref'. parseRef ref' \<noteq> parseRef ref \<longrightarrow> Load k' ref' = Load k ref')"
proof -
  from assms obtain key where key: "parseRef ref = Inr key"
    and k': "k' = keyring_put key (c\<lparr>cr_StoredAt := now\<rparr>) k"
    by (auto simp: Save_put split: sum.splits)
  show ?thesis
    using key by (auto simp: k' Load_get keyring.get_put split: sum.split)
qed

definition sample_credential :: credential where
  "sample_credential = \<lparr>cr_Kind = ''api_key'', cr_APIKey = ''sk-test'', cr_AccessToken = [],
     cr_RefreshToken = [], cr_IDToken = [], cr_Endpoint = ''https://api.openai.com/v1'',
     cr_AuthStrategy = ''api_key'', cr_Issuer = [], cr_Audience = [], cr_StoredAt = []\<rparr>"

lemma parseRef_sample: "parseRef ''keyring://rillan/llm/a'' = Inr (''rillan/llm'', ''a'')"
  by code_simp

theorem save_load_roundtrip_witness:
  "\<exists>k'. Save ''t0'' ''keyring://rillan/llm/a'' sample_credential Map.empty = Inr k' \<and>
     Load k' ''keyring://rillan/llm/a'' = Inr (sample_credential\<lparr>cr_StoredAt := ''t0''\<rparr>)"
proof -
  obtain k' where k': "Save ''t0'' ''keyring://rillan/llm/a'' sample_credential Map.empty = Inr k'"
    by (simp add: Save_def parseRef_sample)
  from save_load_roundtrip [OF k'] k' show ?thesis by blast
qed

text \<open>A bearer token is only handed out for the endpoint and strategy it was stored for:
  when the caller names an endpoint (or a strategy) and the stored credential carries one, they
  are equal; and the token is the stored access token, or the stored API key when there is no
  access token.\<close>

theorem bearer_is_bound:
  assumes "ResolveBearer k ref b = Inr tok"
  shows "\<exists>c. Load k ref = Inr c \<and> tok \<noteq> [] \<and> (tok = cr_AccessToken c \<or> tok = cr_APIKey c) \<and>
     (bd_Endpoint b = [] \<or> cr_Endpoint c = [] \<or> cr_Endpoint c = bd_Endpoint b) \<and>
     (bd_AuthStrategy b = [] \<or> cr_AuthStrategy c = [] \<or> cr_AuthStrategy c = bd_AuthStrategy b)"
proof -
  from assms obtain c where c: "Load k ref = Inr c" "validateBinding c b = None" "tok \<noteq> []"
      "tok = (if cr_AccessToken c \<noteq> [] then cr_AccessToken c else cr_APIKey c)"
    by (auto simp only: ResolveBearer_Inr)
  then have "tok = cr_AccessToken c \<or> tok = cr_APIKey c" by presburger
  moreover from c(2) have "bd_Endpoint b = [] \<or> cr_Endpoint c = [] \<or> cr_Endpoint c = bd_Endpoint b"
    and "bd_AuthStrategy b = [] \<or> cr_AuthStrategy c = [] \<or> cr_AuthStrategy c = bd_AuthStrategy b"
    by (simp_all only: validateBinding_None mismatch_def) blast+
  ultimately show ?thesis using c by blast
qed

theorem bearer_is_bound_witness:
  "\<exists>c. Load [(''rillan/llm'', ''a'') \<mapsto> sample_credential] ''keyring://rillan/llm/a'' = Inr c \<and>
     ''sk-test'' = cr_APIKey c"
proof -
  have "ResolveBearer [(''rillan/llm'', ''a'') \<mapsto> sample_credential] ''keyring://rillan/llm/a''
      \<lparr>bd_Endpoint = ''https://api.openai.com/v1'', bd_AuthStrategy = ''api_key'', bd_Issuer = [],
       bd_Audience = []\<rparr> = Inr ''sk-test''"
    by (simp add: ResolveBearer_def Load_def parseRef_sample validateBinding_def mismatch_def
        sample_credential_def)
  from bearer_is_bound [OF this] show ?thesis by (auto simp: sample_credential_def Load_def parseRef_sample)
qed

end
