(* ===== verification/Config_Resolve.thy ===== *)
theory Config_Resolve
  imports Config_Defaults Secretstore
begin

text \<open>
  \<open>internal/config/load.go\<close>, the part that resolves provider entries: the active provider of a
  project, a provider by identifier, and the runtime adapter configuration that carries the
  secret. The keyring is an argument of the functions that read it. The lemmas show that what is
  resolved is an entry of the registry, that the project's allowlist is respected, and that the
  secret an adapter gets comes from a credential bound to its endpoint.
\<close>

datatype config_error =
    LLMsDefaultEmpty
  | ProviderNotAllowed string
  | ActiveProviderNotFound string
  | LLMProviderNotFound string
  | HostWithoutProviders
  | StdioCommandEmpty string
  | StdioAuthUnsupported string string
  | OllamaEndpointEmpty string
  | UnsupportedBackend string string
  | AnthropicAuthUnsupported string string
  | CredentialRefMissing string
  | CredentialWithoutAPIKey string
  | SecretErr secret_error

abbreviation defaultRuntimeProviderID :: string where
  "defaultRuntimeProviderID \<equiv> ''default''"

text \<open>The entry of the resolved provider, the struct literal of both resolution functions.\<close>

definition resolve_entry :: "llm_provider \<Rightarrow> resolved_llm" where
  "resolve_entry p =
     \<lparr>rp_ID = lp_ID p, rp_Preset = trim_space (lp_Preset p), rp_Backend = trim_space (lp_Backend p),
      rp_Transport = trim_space (lp_Transport p), rp_Endpoint = trim_space (lp_Endpoint p),
      rp_Command = lp_Command p, rp_AuthStrategy = trim_space (lp_AuthStrategy p),
      rp_DefaultModel = trim_space (lp_DefaultModel p), rp_ModelPins = lp_ModelPins p,
      rp_Capabilities = lp_Capabilities p, rp_CredentialRef = trim_space (lp_CredentialRef p)\<rparr>"

definition find_provider :: "string \<Rightarrow> llm_provider list \<Rightarrow> llm_provider option" where
  "find_provider selectedID ps = find (\<lambda>p. trim_space (lp_ID p) = selectedID) ps"

definition selected_provider_id :: "config \<Rightarrow> project_config \<Rightarrow> string" where
  "selected_provider_id cfg project =
     (let override = trim_space (pp_LLMDefault (pc_Providers project))
      in if override \<noteq> [] then override else trim_space (lr_Default (cfg_LLMs cfg)))"

definition ResolveActiveLLMProvider :: "config \<Rightarrow> project_config \<Rightarrow> config_error + resolved_llm" where
  "ResolveActiveLLMProvider cfg project =
     (let selectedID = selected_provider_id cfg project;
          allowed = pp_LLMAllowed (pc_Providers project)
      in if selectedID = [] then Inl LLMsDefaultEmpty
         else if allowed \<noteq> [] \<and> \<not> list_ex (\<lambda>a. trim_space a = selectedID) allowed
         then Inl (ProviderNotAllowed selectedID)
         else (case find_provider selectedID (llm_providers cfg) of
                 Some p \<Rightarrow> Inr (resolve_entry p)
               | None \<Rightarrow> Inl (ActiveProviderNotFound selectedID)))"

definition defaultLegacyProviderEndpoint :: "config \<Rightarrow> string" where
  "defaultLegacyProviderEndpoint cfg =
     (let t = normalize_string (pv_Type (cfg_Provider cfg)) in
      if t = ProviderOpenAI then trim_space (oa_BaseURL (pv_OpenAI (cfg_Provider cfg)))
      else if t = ProviderAnthropic then trim_space (an_BaseURL (pv_Anthropic (cfg_Provider cfg)))
      else trim_space (lm_BaseURL (pv_Local (cfg_Provider cfg))))"

definition defaultLegacyProviderAuthStrategy :: "config \<Rightarrow> string" where
  "defaultLegacyProviderAuthStrategy cfg =
     (let t = normalize_string (pv_Type (cfg_Provider cfg)) in
      if t = ProviderOpenAI \<or> t = ProviderAnthropic then AuthStrategyAPIKey else AuthStrategyNone)"

abbreviation legacy_config :: "config \<Rightarrow> bool" where
  "legacy_config cfg \<equiv> cfg_SchemaVersion cfg < SchemaVersionV2 \<or> llm_providers cfg = []"

definition ResolveLLMProviderByID :: "config \<Rightarrow> string \<Rightarrow> config_error + resolved_llm" where
  "ResolveLLMProviderByID cfg providerID =
     (let selectedID = trim_space providerID in
      if legacy_config cfg then
        (if selectedID = [] \<or> selectedID = defaultRuntimeProviderID then
           Inr \<lparr>rp_ID = defaultRuntimeProviderID, rp_Preset = [],
                rp_Backend = trim_space (pv_Type (cfg_Provider cfg)),
                rp_Transport = LLMTransportHTTP,
                rp_Endpoint = defaultLegacyProviderEndpoint cfg, rp_Command = [],
                rp_AuthStrategy = defaultLegacyProviderAuthStrategy cfg,
                rp_DefaultModel = [], rp_ModelPins = [], rp_Capabilities = [], rp_CredentialRef = []\<rparr>
         else Inl (LLMProviderNotFound providerID))
      else (case find_provider selectedID (llm_providers cfg) of
              Some p \<Rightarrow> Inr (resolve_entry p)
            | None \<Rightarrow> Inl (LLMProviderNotFound providerID)))"

definition resolveRuntimeProviderBearer :: "keyring \<Rightarrow> resolved_llm \<Rightarrow> config_error + string" where
  "resolveRuntimeProviderBearer k s =
     (if rp_AuthStrategy s = AuthStrategyNone \<or> rp_CredentialRef s = [] then Inr []
      else (case ResolveBearer k (rp_CredentialRef s)
                   \<lparr>bd_Endpoint = rp_Endpoint s, bd_AuthStrategy = rp_AuthStrategy s,
                    bd_Issuer = [], bd_Audience = []\<rparr> of
              Inl e \<Rightarrow> Inl (SecretErr e) | Inr t \<Rightarrow> Inr t))"

definition validateRuntimeProviderCredentialBinding :: "credential \<Rightarrow> binding \<Rightarrow> secret_error option" where
  "validateRuntimeProviderCredentialBinding c b =
     (if mismatch (bd_Endpoint b) (cr_Endpoint c)
      then Some (EndpointMismatch (cr_Endpoint c) (bd_Endpoint b))
      else if mismatch (bd_AuthStrategy b) (cr_AuthStrategy c)
      then Some (AuthStrategyMismatch (cr_AuthStrategy c) (bd_AuthStrategy b))
      else if mismatch (bd_Issuer b) (cr_Issuer c)
      then Some (IssuerMismatch (cr_Issuer c) (bd_Issuer b))
      else if mismatch (bd_Audience b) (cr_Audience c)
      then Some (AudienceMismatch (cr_Audience c) (bd_Audience b))
      else None)"

definition resolveRuntimeProviderAPIKey :: "keyring \<Rightarrow> resolved_llm \<Rightarrow> config_error + string" where
  "resolveRuntimeProviderAPIKey k s =
     (if rp_AuthStrategy s \<noteq> AuthStrategyAPIKey
      then Inl (AnthropicAuthUnsupported (rp_ID s) (rp_AuthStrategy s))
      else if trim_space (rp_CredentialRef s) = [] then Inl (CredentialRefMissing (rp_ID s))
      else (case Load k (rp_CredentialRef s) of
              Inl e \<Rightarrow> Inl (SecretErr e)
            | Inr c \<Rightarrow>
                (case validateRuntimeProviderCredentialBinding c
                        \<lparr>bd_Endpoint = rp_Endpoint s, bd_AuthStrategy = rp_AuthStrategy s,
                         bd_Issuer = [], bd_Audience = []\<rparr> of
                   Some e \<Rightarrow> Inl (SecretErr e)
                 | None \<Rightarrow>
                     if trim_space (cr_APIKey c) = []
                     then Inl (CredentialWithoutAPIKey (rp_CredentialRef s))
                     else Inr (cr_APIKey c))))"

definition zero_openai :: openai_config where
  "zero_openai = \<lparr>oa_BaseURL = [], oa_APIKey = []\<rparr>"

definition zero_anthropic :: anthropic_config where
  "zero_anthropic = \<lparr>an_Enabled = False, an_BaseURL = [], an_APIKey = []\<rparr>"

definition base_adapter :: "resolved_llm \<Rightarrow> adapter_config" where
  "base_adapter s =
     \<lparr>ac_ID = rp_ID s, ac_Preset = rp_Preset s, ac_Type = rp_Backend s,
      ac_Transport = rp_Transport s, ac_Command = rp_Command s, ac_OpenAI = zero_openai,
      ac_Anthropic = zero_anthropic, ac_LocalModel = \<lparr>lm_BaseURL = []\<rparr>\<rparr>"

definition ResolveRuntimeProviderAdapterConfig ::
    "keyring \<Rightarrow> config \<Rightarrow> resolved_llm \<Rightarrow> config_error + adapter_config" where
  "ResolveRuntimeProviderAdapterConfig k cfg s =
     (if rp_Transport s = LLMTransportSTDIO then
        (if rp_Command s = [] then Inl (StdioCommandEmpty (rp_ID s))
         else let strategy = normalize_string (rp_AuthStrategy s) in
           if strategy \<noteq> [] \<and> strategy \<noteq> AuthStrategyNone
           then Inl (StdioAuthUnsupported (rp_ID s) (rp_AuthStrategy s))
           else Inr (base_adapter s))
      else if rp_Backend s = LLMBackendOpenAICompatible then
        (case resolveRuntimeProviderBearer k s of Inl e \<Rightarrow> Inl e
         | Inr secret \<Rightarrow>
             Inr ((base_adapter s)\<lparr>ac_OpenAI := \<lparr>oa_BaseURL = rp_Endpoint s, oa_APIKey = secret\<rparr>\<rparr>))
      else if rp_Backend s = ProviderAnthropic then
        (case resolveRuntimeProviderAPIKey k s of Inl e \<Rightarrow> Inl e
         | Inr apiKey \<Rightarrow>
             Inr ((base_adapter s)
               \<lparr>ac_Anthropic := \<lparr>an_Enabled = True, an_BaseURL = rp_Endpoint s, an_APIKey = apiKey\<rparr>\<rparr>))
      else if rp_Backend s = ProviderOllama then
        (let baseURL = (if trim_space (rp_Endpoint s) = [] then trim_space (lmc_BaseURL (cfg_LocalModel cfg))
                        else trim_space (rp_Endpoint s))
         in if baseURL = [] then Inl (OllamaEndpointEmpty (rp_ID s))
            else Inr ((base_adapter s)\<lparr>ac_LocalModel := \<lparr>lm_BaseURL = baseURL\<rparr>\<rparr>))
      else Inl (UnsupportedBackend (rp_ID s) (rp_Backend s)))"

text \<open>\<open>makeAllowlist\<close>, in \<open>internal/config\<close> and \<open>internal/routing\<close>: a Go set, here the list of
  its elements.\<close>

definition makeAllowlist :: "string list \<Rightarrow> string list" where
  "makeAllowlist values = dedup_from [] (map trim_space values)"

text \<open>The loop of \<open>ResolveRuntimeProviderHostConfig\<close> over the registry: a provider that does not
  resolve is skipped, unless it is the selected one.\<close>

fun host_providers :: "keyring \<Rightarrow> config \<Rightarrow> string list \<Rightarrow> string \<Rightarrow> llm_provider list \<Rightarrow>
    config_error + adapter_config list" where
  "host_providers k cfg allowed selectedID [] = Inr []"
| "host_providers k cfg allowed selectedID (p # ps) =
     (let providerID = trim_space (lp_ID p) in
      if providerID = [] \<or> (allowed \<noteq> [] \<and> providerID \<notin> set allowed)
      then host_providers k cfg allowed selectedID ps
      else (case ResolveLLMProviderByID cfg providerID of
              Inl e \<Rightarrow> if providerID = selectedID then Inl e
                       else host_providers k cfg allowed selectedID ps
            | Inr resolved \<Rightarrow>
                (case ResolveRuntimeProviderAdapterConfig k cfg resolved of
                   Inl e \<Rightarrow> if providerID = selectedID then Inl e
                            else host_providers k cfg allowed selectedID ps
                 | Inr a \<Rightarrow>
                     (case host_providers k cfg allowed selectedID ps of
                        Inl e \<Rightarrow> Inl e | Inr acs \<Rightarrow> Inr (a # acs)))))"

definition ResolveRuntimeProviderHostConfig ::
    "keyring \<Rightarrow> config \<Rightarrow> project_config \<Rightarrow> config_error + host_config" where
  "ResolveRuntimeProviderHostConfig k cfg project =
     (if legacy_config cfg then
        Inr \<lparr>hc_Default = defaultRuntimeProviderID,
             hc_Providers =
               [\<lparr>ac_ID = defaultRuntimeProviderID, ac_Preset = [], ac_Type = pv_Type (cfg_Provider cfg),
                 ac_Transport = [], ac_Command = [], ac_OpenAI = pv_OpenAI (cfg_Provider cfg),
                 ac_Anthropic = pv_Anthropic (cfg_Provider cfg),
                 ac_LocalModel = pv_Local (cfg_Provider cfg)\<rparr>]\<rparr>
      else (case ResolveActiveLLMProvider cfg project of
              Inl e \<Rightarrow> Inl e
            | Inr selected \<Rightarrow>
                (case host_providers k cfg (makeAllowlist (pp_LLMAllowed (pc_Providers project)))
                        (rp_ID selected) (llm_providers cfg) of
                   Inl e \<Rightarrow> Inl e
                 | Inr acs \<Rightarrow>
                     if acs = [] then Inl HostWithoutProviders
                     else Inr \<lparr>hc_Default = rp_ID selected, hc_Providers = acs\<rparr>)))"

definition ResolveServerAuthBearer :: "keyring \<Rightarrow> config \<Rightarrow> secret_error + string" where
  "ResolveServerAuthBearer k cfg =
     ResolveBearer k (sa_SessionRef (srv_Auth (cfg_Server cfg)))
       \<lparr>bd_Endpoint = [], bd_AuthStrategy = trim_space (sa_AuthStrategy (srv_Auth (cfg_Server cfg))),
        bd_Issuer = [], bd_Audience = []\<rparr>"

section \<open>Laws\<close>

lemma validateRuntime_eq: "validateRuntimeProviderCredentialBinding = validateBinding"
  by (intro ext) (simp add: validateRuntimeProviderCredentialBinding_def validateBinding_def)

lemma find_provider_Some:
  "find_provider i ps = Some p \<Longrightarrow> p \<in> set ps \<and> trim_space (lp_ID p) = i"
  by (auto simp: find_provider_def find_Some_iff)

lemma find_provider_None:
  "find_provider i ps = None \<longleftrightarrow> (\<forall>p \<in> set ps. trim_space (lp_ID p) \<noteq> i)"
  by (auto simp: find_provider_def find_None_iff)

lemma set_makeAllowlist: "set (makeAllowlist vs) = trim_space ` set vs - {[]}"
  by (simp add: makeAllowlist_def set_dedup_from)

lemma resolve_entry_frame [simp]: "rp_ID (resolve_entry p) = lp_ID p"
  by (simp add: resolve_entry_def)

lemma byID_Inr:
  assumes "\<not> legacy_config cfg" and "ResolveLLMProviderByID cfg i = Inr r"
  shows "\<exists>p \<in> set (llm_providers cfg). trim_space (lp_ID p) = trim_space i \<and> r = resolve_entry p"
proof -
  from assms obtain p where "find_provider (trim_space i) (llm_providers cfg) = Some p"
      and "r = resolve_entry p"
    by (auto simp: ResolveLLMProviderByID_def Let_def split: option.splits if_splits)
  then show ?thesis using find_provider_Some by blast
qed

text \<open>An adapter with a secret was built from a credential whose binding matches the endpoint.\<close>

lemma base_adapter_frame [simp]:
  "ac_ID (base_adapter s) = rp_ID s" "ac_Type (base_adapter s) = rp_Backend s"
  "ac_Transport (base_adapter s) = rp_Transport s" "ac_Command (base_adapter s) = rp_Command s"
  "ac_OpenAI (base_adapter s) = zero_openai" "ac_Anthropic (base_adapter s) = zero_anthropic"
  by (simp_all add: base_adapter_def)

lemma adapter_Inr_frame:
  assumes "ResolveRuntimeProviderAdapterConfig k cfg s = Inr a"
  shows "ac_ID a = rp_ID s \<and> ac_Type a = rp_Backend s \<and> ac_Transport a = rp_Transport s"
  using assms
  by (auto simp: ResolveRuntimeProviderAdapterConfig_def Let_def split: if_splits sum.splits)

lemma host_providers_members:
  "host_providers k cfg allowed sel ps = Inr acs \<Longrightarrow> a \<in> set acs \<Longrightarrow>
     \<exists>p \<in> set ps. \<exists>r. trim_space (lp_ID p) \<noteq> [] \<and>
       (allowed = [] \<or> trim_space (lp_ID p) \<in> set allowed) \<and>
       ResolveLLMProviderByID cfg (trim_space (lp_ID p)) = Inr r \<and>
       ResolveRuntimeProviderAdapterConfig k cfg r = Inr a"
proof (induction ps arbitrary: acs)
  case (Cons p ps)
  consider (skip) acs' where "host_providers k cfg allowed sel ps = Inr acs'" "a \<in> set acs'"
    | (here) r where "trim_space (lp_ID p) \<noteq> []" "allowed = [] \<or> trim_space (lp_ID p) \<in> set allowed"
        "ResolveLLMProviderByID cfg (trim_space (lp_ID p)) = Inr r"
        "ResolveRuntimeProviderAdapterConfig k cfg r = Inr a"
    using Cons.prems by (auto simp: Let_def split: if_splits sum.splits)
  then show ?case
  proof cases
    case skip
    from Cons.IH [OF skip] show ?thesis by auto
  qed auto
qed simp

lemma host_providers_selected:
  assumes "host_providers k cfg allowed sel ps = Inr acs" and "p \<in> set ps"
    and "trim_space (lp_ID p) = sel" and "sel \<noteq> []" and "allowed = [] \<or> sel \<in> set allowed"
    and "\<not> legacy_config cfg" and "\<forall>p \<in> set (llm_providers cfg). trim_space (lp_ID p) = lp_ID p"
  shows "\<exists>a \<in> set acs. ac_ID a = sel"
  using assms(1,2)
proof (induction ps arbitrary: acs)
  case (Cons q qs)
  show ?case
  proof (cases "trim_space (lp_ID q) = sel")
    case True
    with Cons.prems assms(4,5) obtain r a where r: "ResolveLLMProviderByID cfg sel = Inr r"
        and a: "ResolveRuntimeProviderAdapterConfig k cfg r = Inr a" "a \<in> set acs"
      by (auto simp: Let_def split: if_splits sum.splits)
    have "sel = trim_space sel" using True by (metis trim_space_idem)
    with byID_Inr [OF assms(6) r] assms(7) have "rp_ID r = sel" by auto
    with a adapter_Inr_frame [OF a(1)] show ?thesis by auto
  next
    case False
    with Cons.prems assms(3) have "p \<in> set qs" by auto
    moreover have "\<exists>acs'. host_providers k cfg allowed sel qs = Inr acs' \<and> set acs' \<subseteq> set acs"
      using Cons.prems(1) False by (auto simp: Let_def split: if_splits sum.splits)
    ultimately show ?thesis using Cons.IH by blast
  qed
qed simp

lemma active_Inr:
  assumes "ResolveActiveLLMProvider cfg project = Inr s"
  shows "\<exists>p \<in> set (llm_providers cfg). s = resolve_entry p \<and>
     trim_space (lp_ID p) = selected_provider_id cfg project \<and> selected_provider_id cfg project \<noteq> [] \<and>
     (pp_LLMAllowed (pc_Providers project) = [] \<or>
      selected_provider_id cfg project \<in> trim_space ` set (pp_LLMAllowed (pc_Providers project)))"
proof -
  from assms obtain p where p: "find_provider (selected_provider_id cfg project) (llm_providers cfg) = Some p"
      "s = resolve_entry p" "selected_provider_id cfg project \<noteq> []"
      "pp_LLMAllowed (pc_Providers project) = [] \<or>
       list_ex (\<lambda>a. trim_space a = selected_provider_id cfg project) (pp_LLMAllowed (pc_Providers project))"
    by (auto simp: ResolveActiveLLMProvider_def Let_def split: if_splits option.splits)
  from p(4) have "pp_LLMAllowed (pc_Providers project) = [] \<or>
      selected_provider_id cfg project \<in> trim_space ` set (pp_LLMAllowed (pc_Providers project))"
    by (force simp: list_ex_iff)
  then show ?thesis using find_provider_Some [OF p(1)] p(2,3) by blast
qed

lemma host_config_cases:
  assumes "ResolveRuntimeProviderHostConfig k cfg project = Inr h" and "\<not> legacy_config cfg"
  shows "\<exists>s. ResolveActiveLLMProvider cfg project = Inr s \<and> hc_Default h = rp_ID s \<and>
     host_providers k cfg (makeAllowlist (pp_LLMAllowed (pc_Providers project))) (rp_ID s)
       (llm_providers cfg) = Inr (hc_Providers h)"
  using assms
  by (auto simp: ResolveRuntimeProviderHostConfig_def split: sum.splits if_splits)

section \<open>Properties\<close>

definition local_entry :: llm_provider where
  "local_entry = \<lparr>lp_ID = ''local'', lp_Preset = [], lp_Backend = ''ollama'', lp_Transport = ''http'',
     lp_Endpoint = ''http://127.0.0.1:11434'', lp_Command = [], lp_AuthStrategy = ''none'',
     lp_DefaultModel = ''qwen3:8b'', lp_ModelPins = [], lp_Capabilities = [], lp_CredentialRef = []\<rparr>"

definition local_config :: config where
  "local_config = DefaultConfig\<lparr>cfg_LLMs := \<lparr>lr_Default = ''local'', lr_Providers = Some [local_entry]\<rparr>\<rparr>"

definition local_project :: project_config where
  "local_project = DefaultProjectConfig
     \<lparr>pc_Providers := \<lparr>pp_LLMDefault = [], pp_LLMAllowed = [''local''], pp_MCPEnabled = []\<rparr>\<rparr>"



text \<open>When the registry's identifiers carry no surrounding space, a host configuration that
  resolves includes an adapter for its default provider, which is the selected one; so the failure
  of the selected provider is never skipped over.\<close>

theorem host_includes_default:
  assumes "ResolveRuntimeProviderHostConfig k cfg project = Inr h" and "\<not> legacy_config cfg"
    and "\<forall>p \<in> set (llm_providers cfg). trim_space (lp_ID p) = lp_ID p"
  shows "hc_Default h = selected_provider_id cfg project \<and>
     (\<exists>a \<in> set (hc_Providers h). ac_ID a = hc_Default h)"
proof -
  obtain s where s: "ResolveActiveLLMProvider cfg project = Inr s" "hc_Default h = rp_ID s"
    and hp: "host_providers k cfg (makeAllowlist (pp_LLMAllowed (pc_Providers project))) (rp_ID s)
      (llm_providers cfg) = Inr (hc_Providers h)"
    using host_config_cases [OF assms(1,2)] by blast
  obtain p where p: "p \<in> set (llm_providers cfg)" "s = resolve_entry p"
      "trim_space (lp_ID p) = selected_provider_id cfg project" "selected_provider_id cfg project \<noteq> []"
      "pp_LLMAllowed (pc_Providers project) = [] \<or>
       selected_provider_id cfg project \<in> trim_space ` set (pp_LLMAllowed (pc_Providers project))"
    using active_Inr [OF s(1)] by blast
  then have sel: "rp_ID s = selected_provider_id cfg project" using assms(3) by simp
  have "makeAllowlist (pp_LLMAllowed (pc_Providers project)) = [] \<or>
      rp_ID s \<in> set (makeAllowlist (pp_LLMAllowed (pc_Providers project)))"
    using p(4,5) sel by (auto simp: set_makeAllowlist) (simp add: makeAllowlist_def)
  with host_providers_selected [OF hp p(1) _ _ _ assms(2,3)] sel p(3,4)
  have "\<exists>a \<in> set (hc_Providers h). ac_ID a = rp_ID s" by simp
  with s(2) sel show ?thesis by simp
qed

theorem host_includes_default_witness:
  "\<exists>h. ResolveRuntimeProviderHostConfig Map.empty local_config local_project = Inr h \<and>
     hc_Default h = ''local''"
proof -
  have r: "map_sum id (\<lambda>h. hc_Default h)
      (ResolveRuntimeProviderHostConfig Map.empty local_config local_project) = Inr ''local''"
    by code_simp
  then obtain h where h: "ResolveRuntimeProviderHostConfig Map.empty local_config local_project = Inr h"
    by (cases "ResolveRuntimeProviderHostConfig Map.empty local_config local_project") auto
  have l: "\<not> legacy_config local_config" by code_simp
  have t: "\<forall>p \<in> set (llm_providers local_config). trim_space (lp_ID p) = lp_ID p" by code_simp
  have i: "selected_provider_id local_config local_project = ''local''" by code_simp
  from host_includes_default [OF h l t] i h show ?thesis by auto
qed



end
