(* ===== verification/Go_Net.thy ===== *)
theory Go_Net
  imports Go_Stdlib
begin

text \<open>
  The address parsing of the Go standard library that the bind and admin checks rely on:
  \<open>net.ParseIP\<close> (dotted IPv4 without leading zeros, IPv6 with an optional \<open>::\<close> and an optional
  dotted tail, no zone) and \<open>IP.IsLoopback\<close>. An address is the list of its eight 16-bit groups,
  as IPv4 addresses are stored in their IPv4-in-IPv6 form. \<open>equal_fold_ascii\<close> is
  \<open>strings.EqualFold\<close> against an ASCII constant: the only non-ASCII runes that fold to an ASCII
  letter are U+017F and U+212A.
\<close>

fun fold_ascii :: "string \<Rightarrow> string" where
  "fold_ascii [] = []"
| "fold_ascii (c # s) =
     (if c = CHR 0xC5 \<and> take 1 s = [CHR 0xBF] then CHR ''s'' # fold_ascii (drop 1 s)
      else if c = CHR 0xE2 \<and> take 2 s = [CHR 0x84, CHR 0xAA] then CHR ''k'' # fold_ascii (drop 2 s)
      else ascii_lower c # fold_ascii s)"

definition equal_fold_ascii :: "string \<Rightarrow> string \<Rightarrow> bool" where
  "equal_fold_ascii s t \<longleftrightarrow> fold_ascii s = fold_ascii t"

section \<open>IPv4\<close>

text \<open>One decimal field: one to three digits, no leading zero, at most 255.\<close>

definition ipv4_field :: "string \<Rightarrow> int option" where
  "ipv4_field s =
     (if s = [] \<or> length s > 3 \<or> (length s > 1 \<and> hd s = CHR ''0'') then None
      else (case parse_digits 0 s of None \<Rightarrow> None
            | Some n \<Rightarrow> if n \<le> 255 then Some n else None))"

definition parse_ipv4 :: "string \<Rightarrow> int list option" where
  "parse_ipv4 s =
     (case map ipv4_field (split_byte (CHR ''.'') s) of
        [Some a, Some b, Some c, Some d] \<Rightarrow> Some [a, b, c, d]
      | _ \<Rightarrow> None)"

definition ipv4_groups :: "int list \<Rightarrow> int list" where
  "ipv4_groups v = [0, 0, 0, 0, 0, 65535, v ! 0 * 256 + v ! 1, v ! 2 * 256 + v ! 3]"

section \<open>IPv6\<close>

definition hex_value :: "char \<Rightarrow> int option" where
  "hex_value c =
     (let n = of_char c :: int in
      if 48 \<le> n \<and> n \<le> 57 then Some (n - 48)
      else if 97 \<le> n \<and> n \<le> 102 then Some (n - 87)
      else if 65 \<le> n \<and> n \<le> 70 then Some (n - 55)
      else None)"

text \<open>The hexadecimal prefix of a string: its value, the number of digits, and the rest.\<close>

fun hex_prefix :: "int \<Rightarrow> nat \<Rightarrow> string \<Rightarrow> int \<times> nat \<times> string" where
  "hex_prefix acc n [] = (acc, n, [])"
| "hex_prefix acc n (c # s) =
     (case hex_value c of None \<Rightarrow> (acc, n, c # s)
      | Some d \<Rightarrow> hex_prefix (16 * acc + d) (Suc n) s)"

text \<open>The loop of \<open>netip.parseIPv6\<close>: \<open>room\<close> groups may still be read, \<open>gs\<close> were read, \<open>ell\<close> is the
  position of the \<open>::\<close>. The result is the groups read, that position and the unread rest.\<close>

fun ipv6_loop :: "nat \<Rightarrow> int list \<Rightarrow> nat option \<Rightarrow> string \<Rightarrow> (int list \<times> nat option \<times> string) option" where
  "ipv6_loop 0 gs ell s = Some (gs, ell, s)"
| "ipv6_loop (Suc room) gs ell s =
     (case hex_prefix 0 0 s of (v, n, rest) \<Rightarrow>
        if n = 0 \<or> n > 4 then None
        else if rest \<noteq> [] \<and> hd rest = CHR ''.'' then
          (if (ell = None \<and> length gs \<noteq> 6) \<or> length gs > 6 then None
           else (case parse_ipv4 s of None \<Rightarrow> None
                 | Some q \<Rightarrow> Some (gs @ [q ! 0 * 256 + q ! 1, q ! 2 * 256 + q ! 3], ell, [])))
        else let gs' = gs @ [v] in
          if rest = [] then Some (gs', ell, [])
          else if hd rest \<noteq> CHR '':'' \<or> length rest = 1 then None
          else let s' = tl rest in
            if hd s' = CHR '':'' then
              (if ell \<noteq> None then None
               else if tl s' = [] then Some (gs', Some (length gs'), [])
               else ipv6_loop room gs' (Some (length gs')) (tl s'))
            else ipv6_loop room gs' ell s')"

definition parse_ipv6 :: "string \<Rightarrow> int list option" where
  "parse_ipv6 s =
     (let lead = has_prefix s ''::''; s' = (if lead then drop 2 s else s) in
      if lead \<and> s' = [] then Some (replicate 8 0)
      else (case ipv6_loop 8 [] (if lead then Some 0 else None) s' of None \<Rightarrow> None
            | Some (gs, ell, rest) \<Rightarrow>
                if rest \<noteq> [] then None
                else if length gs < 8 then
                  (case ell of None \<Rightarrow> None
                   | Some k \<Rightarrow> Some (take k gs @ replicate (8 - length gs) 0 @ drop k gs))
                else if ell \<noteq> None then None else Some gs))"

text \<open>\<open>netip.ParseAddr\<close> decides by the first of dot, colon and percent; \<open>net.ParseIP\<close> refuses zones.\<close>

definition parse_ip :: "string \<Rightarrow> int list option" where
  "parse_ip s =
     (if CHR ''%'' \<in> set s then None
      else (case filter (\<lambda>c. c = CHR ''.'' \<or> c = CHR '':'') s of
              [] \<Rightarrow> None
            | c # _ \<Rightarrow> if c = CHR ''.'' then map_option ipv4_groups (parse_ipv4 s) else parse_ipv6 s))"

definition is_loopback :: "int list \<Rightarrow> bool" where
  "is_loopback gs \<longleftrightarrow>
     (if take 6 gs = [0, 0, 0, 0, 0, 65535] then gs ! 6 div 256 = 127
      else gs = [0, 0, 0, 0, 0, 0, 0, 1])"

section \<open>Host and port\<close>

text \<open>\<open>net.SplitHostPort\<close>; only the host is used.\<close>

definition split_host_port :: "string \<Rightarrow> string option" where
  "split_host_port s =
     (case last_index_byte (CHR '':'') s of None \<Rightarrow> None
      | Some i \<Rightarrow>
          (if has_prefix s ''['' then
             (case index_byte (CHR '']'') s of None \<Rightarrow> None
              | Some e \<Rightarrow>
                  if Suc e \<noteq> i then None
                  else if CHR ''['' \<in> set (drop 1 s) \<or> CHR '']'' \<in> set (drop (Suc e) s) then None
                  else Some (take (e - 1) (drop 1 s)))
           else if CHR '':'' \<in> set (take i s) \<or> CHR ''['' \<in> set s \<or> CHR '']'' \<in> set s then None
           else Some (take i s)))"

text \<open>\<open>net.JoinHostPort\<close>.\<close>

definition join_host_port :: "string \<Rightarrow> string \<Rightarrow> string" where
  "join_host_port host port =
     (if CHR '':'' \<in> set host then ''['' @ host @ '']:'' @ port else host @ '':'' @ port)"

end
