(* ===== verification/Config_Validate.thy ===== *)
theory Config_Validate
  imports Config_Resolve Go_Net
begin

text \<open>
  \<open>internal/config/validate.go\<close>: the validators of the application, project and system
  configuration, one branch per error message, in the order the code checks them. A validator
  returns the error, or \<^const>\<open>None\<close>. \<open>or_err\<close> is the sequence of two checks with an early
  return. The lemmas say what an accepted configuration guarantees, above all how the daemon
  may be bound to the network.
\<close>

datatype (plugins only: code size) valid_error =
    ProjectNameEmpty
  | ClassificationInvalid
  | RoutePreferenceInvalid string
  | SourcePathEmpty nat
  | SourceTypeEmpty nat
  | TaskNameEmpty
  | InstructionEmpty nat
  | ModuleEmpty nat
  | SystemVersionEmpty
  | EncryptionMethodInvalid
  | KeyringServiceEmpty
  | KeyringAccountEmpty
  | EncryptedPayloadEmpty
  | HostEmpty
  | PortOutOfRange
  | LogLevelInvalid
  | VectorStoreModeInvalid
  | AuthStrategyInvalid
  | SessionRefEmpty
  | NonLoopbackNotAllowed
  | NonLoopbackWithoutAuth
  | NonLoopbackNotWildcard
  | ChunkSizeInvalid
  | AutoUpdateInvalid
  | TraversalDepthInvalid
  | MaxNodesInvalid
  | TopKInvalid
  | MaxContextCharsInvalid
  | IncludePatternEmpty
  | ExcludePatternEmpty
  | LocalModelBaseURLEmpty
  | EmbedModelEmpty
  | QueryRewriteWithoutLocalModel
  | QueryRewriteModelEmpty
  | MCPNotReadOnly
  | MCPMaxOpenFilesInvalid
  | MCPMaxDiagnosticsInvalid
  | DefaultLLMEmpty
  | PresetNotBundled string string
  | ActiveErr config_error
  | BackendEmpty string
  | LocalEndpointEmpty string
  | EndpointEmpty string
  | CommandEmpty string
  | TransportInvalid string
  | OpenAIKeyMissing
  | AnthropicNotEnabled
  | AnthropicKeyMissing
  | ProviderTypeInvalid
  | IndexRootMissing
  | ValidationModeUnsupported string

abbreviation ValidationModeServe :: string where "ValidationModeServe \<equiv> ''serve''"
abbreviation ValidationModeIndex :: string where "ValidationModeIndex \<equiv> ''index''"
abbreviation ValidationModeStatus :: string where "ValidationModeStatus \<equiv> ''status''"

definition or_err :: "'e option \<Rightarrow> 'e option \<Rightarrow> 'e option" where
  "or_err a b = (case a of Some e \<Rightarrow> Some e | None \<Rightarrow> b)"

definition reject_if :: "bool \<Rightarrow> 'e \<Rightarrow> 'e option" where
  "reject_if bad e = (if bad then Some e else None)"

fun run_checks :: "'e option list \<Rightarrow> 'e option" where
  "run_checks [] = None"
| "run_checks (c # cs) = or_err c (run_checks cs)"

lemma or_err_None [simp]: "or_err a b = None \<longleftrightarrow> a = None \<and> b = None"
  by (simp add: or_err_def split: option.split)

lemma reject_if_None [simp]: "reject_if bad e = None \<longleftrightarrow> \<not> bad"
  by (simp add: reject_if_def)

lemma run_checks_None: "run_checks cs = None \<longleftrightarrow> (\<forall>c \<in> set cs. c = None)"
  by (induction cs) auto

section \<open>The network exposure checks\<close>

definition bind_host :: "string \<Rightarrow> string" where
  "bind_host host = trim_chars ''[]'' (trim_space host)"

definition hostRequiresNonLoopbackOptIn :: "string \<Rightarrow> bool" where
  "hostRequiresNonLoopbackOptIn host =
     (let trimmed = bind_host host in
      if trimmed = [] \<or> equal_fold_ascii trimmed ''localhost'' then False
      else (case parse_ip trimmed of Some ip \<Rightarrow> \<not> is_loopback ip | None \<Rightarrow> True))"

definition isWildcardBindHost :: "string \<Rightarrow> bool" where
  "isWildcardBindHost host = (let trimmed = bind_host host in trimmed = ''0.0.0.0'' \<or> trimmed = ''::'')"

definition validateRoutePreference :: "string \<Rightarrow> string \<Rightarrow> valid_error option" where
  "validateRoutePreference field value =
     reject_if (normalize_string value \<notin>
         {RoutePreferenceAuto, RoutePreferencePreferLocal, RoutePreferencePreferCloud,
          RoutePreferenceLocalOnly})
       (RoutePreferenceInvalid field)"

section \<open>Project and system\<close>

definition ValidateProject :: "project_config \<Rightarrow> valid_error option" where
  "ValidateProject cfg = run_checks
     [reject_if (trim_space (pc_Name cfg) = []) ProjectNameEmpty,
      reject_if (normalize_string (pc_Classification cfg) \<notin>
          {ProjectClassificationOpenSource, ProjectClassificationInternal,
           ProjectClassificationProprietary, ProjectClassificationTradeSecret})
        ClassificationInvalid,
      validateRoutePreference ''project.routing.default'' (prt_Default (pc_Routing cfg)),
      first_error (\<lambda>i s. or_err (reject_if (trim_space (src_Path s) = []) (SourcePathEmpty i))
                              (reject_if (trim_space (src_Type s) = []) (SourceTypeEmpty i)))
        (pc_Sources cfg),
      first_error (\<lambda>i (key, value). or_err (reject_if (trim_space key = []) TaskNameEmpty)
          (validateRoutePreference (''project.routing.task_types['' @ key @ '']'') value))
        (prt_TaskTypes (pc_Routing cfg)),
      first_error (\<lambda>i s. reject_if (trim_space s = []) (InstructionEmpty i)) (pc_Instructions cfg),
      first_error (\<lambda>i s. reject_if (trim_space s = []) (ModuleEmpty i)) (pc_ModulesEnabled cfg)]"

definition ValidateSystem :: "system_config \<Rightarrow> valid_error option" where
  "ValidateSystem cfg = run_checks
     [reject_if (trim_space (sc_Version cfg) = []) SystemVersionEmpty,
      reject_if (normalize_string (se_Method (sc_Encryption cfg)) \<noteq> SystemEncryptionKeyringAESGCM)
        EncryptionMethodInvalid,
      reject_if (trim_space (se_KeyringService (sc_Encryption cfg)) = []) KeyringServiceEmpty,
      reject_if (trim_space (se_KeyringAccount (sc_Encryption cfg)) = []) KeyringAccountEmpty,
      reject_if (trim_space (sc_EncryptedPayload cfg) = []) EncryptedPayloadEmpty]"

section \<open>The application configuration\<close>

definition validate_server :: "server_config \<Rightarrow> runtime_config \<Rightarrow> valid_error option" where
  "validate_server srv rt = run_checks
     [reject_if (srv_Host srv = []) HostEmpty,
      reject_if (srv_Port srv < 1 \<or> srv_Port srv > 65535) PortOutOfRange,
      reject_if (normalize_string (srv_LogLevel srv) \<notin> {''debug'', ''info'', ''warn'', ''error''})
        LogLevelInvalid,
      reject_if (normalize_string (rt_VectorStoreMode rt) \<noteq> ''embedded'') VectorStoreModeInvalid,
      (if sa_Enabled (srv_Auth srv) then
         or_err (reject_if (normalize_string (sa_AuthStrategy (srv_Auth srv)) \<notin>
                   {AuthStrategyAPIKey, AuthStrategyBrowserOIDC, AuthStrategyDeviceOIDC})
                  AuthStrategyInvalid)
                (reject_if (trim_space (sa_SessionRef (srv_Auth srv)) = []) SessionRefEmpty)
       else None),
      (if hostRequiresNonLoopbackOptIn (srv_Host srv) then run_checks
         [reject_if (\<not> srv_AllowNonLoopbackBind srv) NonLoopbackNotAllowed,
          reject_if (\<not> sa_Enabled (srv_Auth srv)) NonLoopbackWithoutAuth,
          reject_if (\<not> isWildcardBindHost (srv_Host srv)) NonLoopbackNotWildcard]
       else None)]"

definition validate_index_sections ::
    "index_config \<Rightarrow> knowledge_graph \<Rightarrow> retrieval_config \<Rightarrow> valid_error option" where
  "validate_index_sections ix kg rc = run_checks
     [reject_if (ix_ChunkSizeLines ix < 1) ChunkSizeInvalid,
      reject_if (normalize_string (kg_AutoUpdate kg) \<notin> {''none'', ''poll'', ''watch''}) AutoUpdateInvalid,
      reject_if (kg_TraversalDepth kg < 0) TraversalDepthInvalid,
      reject_if (kg_MaxNodes kg < 1) MaxNodesInvalid,
      reject_if (rc_TopK rc < 1) TopKInvalid,
      reject_if (rc_MaxContextChars rc < 1) MaxContextCharsInvalid,
      reject_if (list_ex (\<lambda>p. trim_space p = []) (ix_Includes ix)) IncludePatternEmpty,
      reject_if (list_ex (\<lambda>p. trim_space p = []) (ix_Excludes ix)) ExcludePatternEmpty]"

definition validate_local_model :: "local_model \<Rightarrow> valid_error option" where
  "validate_local_model lm = run_checks
     [(if lmc_Enabled lm then
         or_err (reject_if (trim_space (lmc_BaseURL lm) = []) LocalModelBaseURLEmpty)
                (reject_if (trim_space (lmc_EmbedModel lm) = []) EmbedModelEmpty)
       else None),
      (if qr_Enabled (lmc_QueryRewrite lm) then
         or_err (reject_if (\<not> lmc_Enabled lm) QueryRewriteWithoutLocalModel)
                (reject_if (trim_space (qr_Model (lmc_QueryRewrite lm)) = []) QueryRewriteModelEmpty)
       else None)]"

definition validate_mcp :: "mcp_config \<Rightarrow> valid_error option" where
  "validate_mcp m =
     (if mcp_Enabled m then run_checks
        [reject_if (\<not> mcp_ReadOnly m) MCPNotReadOnly,
         reject_if (mcp_MaxOpenFiles m < 1) MCPMaxOpenFilesInvalid,
         reject_if (mcp_MaxDiagnostics m < 1) MCPMaxDiagnosticsInvalid]
      else None)"

definition validate_preset_name :: "llm_provider \<Rightarrow> valid_error option" where
  "validate_preset_name p =
     (let presetID = trim_space (lp_Preset p) in
      reject_if (presetID \<noteq> [] \<and> ps_ID (BundledLLMProviderPreset presetID) = [])
        (PresetNotBundled (lp_ID p) presetID))"

definition validate_active :: "local_model \<Rightarrow> resolved_llm \<Rightarrow> valid_error option" where
  "validate_active lm active =
     (if trim_space (rp_Backend active) = [] then Some (BackendEmpty (rp_ID active))
      else if rp_Transport active = LLMTransportHTTP then
        (if normalize_string (rp_Backend active) = ProviderOllama then
           reject_if (trim_space (rp_Endpoint active) = [] \<and> trim_space (lmc_BaseURL lm) = [])
             (LocalEndpointEmpty (rp_ID active))
         else reject_if (trim_space (rp_Endpoint active) = []) (EndpointEmpty (rp_ID active)))
      else if rp_Transport active = LLMTransportSTDIO then
        reject_if (rp_Command active = []) (CommandEmpty (rp_ID active))
      else Some (TransportInvalid (rp_ID active)))"

definition validate_registry :: "config \<Rightarrow> valid_error option" where
  "validate_registry cfg = run_checks
     [reject_if (trim_space (lr_Default (cfg_LLMs cfg)) = []) DefaultLLMEmpty,
      first_error (\<lambda>i. validate_preset_name) (llm_providers cfg),
      (case ResolveActiveLLMProvider cfg DefaultProjectConfig of
         Inl e \<Rightarrow> Some (ActiveErr e)
       | Inr active \<Rightarrow> validate_active (cfg_LocalModel cfg) active)]"

definition validate_legacy_provider :: "provider_config \<Rightarrow> valid_error option" where
  "validate_legacy_provider pv =
     (let t = normalize_string (pv_Type pv) in
      if t = ProviderOpenAI then reject_if (oa_APIKey (pv_OpenAI pv) = []) OpenAIKeyMissing
      else if t = ProviderAnthropic then
        or_err (reject_if (\<not> an_Enabled (pv_Anthropic pv)) AnthropicNotEnabled)
               (reject_if (an_APIKey (pv_Anthropic pv) = []) AnthropicKeyMissing)
      else Some ProviderTypeInvalid)"

definition validate_mode :: "config \<Rightarrow> string \<Rightarrow> valid_error option" where
  "validate_mode cfg mode =
     (if mode = ValidationModeServe then
        (if legacy_config cfg then validate_legacy_provider (cfg_Provider cfg)
         else validate_registry cfg)
      else if mode = ValidationModeIndex then
        reject_if (trim_space (ix_Root (cfg_Index cfg)) = []) IndexRootMissing
      else if mode = ValidationModeStatus then None
      else Some (ValidationModeUnsupported mode))"

definition ValidateForMode :: "config \<Rightarrow> string \<Rightarrow> valid_error option" where
  "ValidateForMode cfg mode = run_checks
     [validate_server (cfg_Server cfg) (cfg_Runtime cfg),
      validate_index_sections (cfg_Index cfg) (cfg_KnowledgeGraph cfg) (cfg_Retrieval cfg),
      validate_local_model (cfg_LocalModel cfg),
      validate_mcp (ag_MCP (cfg_Agent cfg)),
      validate_mode cfg mode]"

definition Validate :: "config \<Rightarrow> valid_error option" where
  "Validate cfg = ValidateForMode cfg ValidationModeServe"

section \<open>Laws\<close>

lemma ValidateForMode_None:
  "ValidateForMode cfg mode = None \<longleftrightarrow>
     validate_server (cfg_Server cfg) (cfg_Runtime cfg) = None \<and>
     validate_index_sections (cfg_Index cfg) (cfg_KnowledgeGraph cfg) (cfg_Retrieval cfg) = None \<and>
     validate_local_model (cfg_LocalModel cfg) = None \<and> validate_mcp (ag_MCP (cfg_Agent cfg)) = None \<and>
     validate_mode cfg mode = None"
  by (simp add: ValidateForMode_def)

lemma validate_server_None:
  "validate_server srv rt = None \<Longrightarrow> hostRequiresNonLoopbackOptIn (srv_Host srv) \<Longrightarrow>
     srv_AllowNonLoopbackBind srv \<and> sa_Enabled (srv_Auth srv) \<and> isWildcardBindHost (srv_Host srv)"
  by (simp add: validate_server_def)

lemma validate_server_auth:
  "validate_server srv rt = None \<Longrightarrow> sa_Enabled (srv_Auth srv) \<Longrightarrow>
     normalize_string (sa_AuthStrategy (srv_Auth srv)) \<in>
       {AuthStrategyAPIKey, AuthStrategyBrowserOIDC, AuthStrategyDeviceOIDC} \<and>
     trim_space (sa_SessionRef (srv_Auth srv)) \<noteq> []"
  by (auto simp: validate_server_def)

lemma validate_registry_active:
  assumes "validate_registry cfg = None"
  shows "\<exists>s. ResolveActiveLLMProvider cfg DefaultProjectConfig = Inr s \<and>
     validate_active (cfg_LocalModel cfg) s = None"
  using assms by (auto simp: validate_registry_def split: sum.splits)

section \<open>Properties\<close>

text \<open>A daemon configuration that passes validation either binds to a loopback or empty
  host, or it is a wildcard bind with the opt-in set, authentication enabled, a known
  authentication strategy and a session reference.\<close>

theorem accepted_bind_is_guarded:
  assumes "ValidateForMode cfg mode = None"
  shows "(let srv = cfg_Server cfg; h = bind_host (srv_Host srv) in
     h = [] \<or> equal_fold_ascii h ''localhost'' \<or> (\<exists>ip. parse_ip h = Some ip \<and> is_loopback ip) \<or>
     ((h = ''0.0.0.0'' \<or> h = ''::'') \<and> srv_AllowNonLoopbackBind srv \<and> sa_Enabled (srv_Auth srv) \<and>
      normalize_string (sa_AuthStrategy (srv_Auth srv)) \<in>
        {AuthStrategyAPIKey, AuthStrategyBrowserOIDC, AuthStrategyDeviceOIDC} \<and>
      trim_space (sa_SessionRef (srv_Auth srv)) \<noteq> []))"
proof (cases "hostRequiresNonLoopbackOptIn (srv_Host (cfg_Server cfg))")
  case True
  have v: "validate_server (cfg_Server cfg) (cfg_Runtime cfg) = None"
    using assms by (simp add: ValidateForMode_None)
  from validate_server_None [OF v True] have
    "srv_AllowNonLoopbackBind (cfg_Server cfg)" "sa_Enabled (srv_Auth (cfg_Server cfg))"
    "isWildcardBindHost (srv_Host (cfg_Server cfg))" by blast+
  with validate_server_auth [OF v] show ?thesis by (simp only: isWildcardBindHost_def Let_def) blast
next
  case False
  then show ?thesis
    by (simp only: hostRequiresNonLoopbackOptIn_def Let_def) (auto split: if_splits option.splits)
qed

definition wildcard_config :: config where
  "wildcard_config = DefaultConfig
     \<lparr>cfg_Server := \<lparr>srv_Host = ''0.0.0.0'', srv_Port = 8420, srv_LogLevel = ''info'',
        srv_AllowNonLoopbackBind = True,
        srv_Auth = \<lparr>sa_Enabled = True, sa_AuthStrategy = ''api_key'',
                    sa_SessionRef = ''keyring://rillan/auth/daemon''\<rparr>\<rparr>\<rparr>"

lemma wildcard_config_valid: "ValidateForMode wildcard_config ''status'' = None"
  by code_simp

theorem accepted_bind_is_guarded_witness:
  "ValidateForMode wildcard_config ''status'' = None \<and>
   sa_Enabled (srv_Auth (cfg_Server wildcard_config)) \<and>
   (let srv = cfg_Server wildcard_config; h = bind_host (srv_Host srv) in
     h = [] \<or> equal_fold_ascii h ''localhost'' \<or> (\<exists>ip. parse_ip h = Some ip \<and> is_loopback ip) \<or>
     ((h = ''0.0.0.0'' \<or> h = ''::'') \<and> srv_AllowNonLoopbackBind srv \<and> sa_Enabled (srv_Auth srv) \<and>
      normalize_string (sa_AuthStrategy (srv_Auth srv)) \<in>
        {AuthStrategyAPIKey, AuthStrategyBrowserOIDC, AuthStrategyDeviceOIDC} \<and>
      trim_space (sa_SessionRef (srv_Auth srv)) \<noteq> []))"
proof (intro conjI)
  show "sa_Enabled (srv_Auth (cfg_Server wildcard_config))" by (simp add: wildcard_config_def)
qed (fact wildcard_config_valid, fact accepted_bind_is_guarded [OF wildcard_config_valid])

text \<open>A version 2 configuration accepted for the serve command has an active provider: it
  resolves to an entry of the registry, with a non-empty backend, and with an endpoint or a
  command as its transport requires.\<close>

theorem accepted_config_has_active_provider:
  assumes "Validate cfg = None" and "\<not> legacy_config cfg"
  shows "\<exists>s. ResolveActiveLLMProvider cfg DefaultProjectConfig = Inr s \<and>
     (\<exists>p \<in> set (llm_providers cfg). s = resolve_entry p) \<and> rp_Backend s \<noteq> [] \<and>
     (rp_Transport s = LLMTransportSTDIO \<and> rp_Command s \<noteq> [] \<or>
      rp_Transport s = LLMTransportHTTP \<and>
        (rp_Endpoint s \<noteq> [] \<or> trim_space (lmc_BaseURL (cfg_LocalModel cfg)) \<noteq> []))"
proof -
  have "validate_registry cfg = None"
    using assms by (simp add: Validate_def ValidateForMode_None validate_mode_def split: if_splits)
  from validate_registry_active [OF this] obtain s where
      s: "ResolveActiveLLMProvider cfg DefaultProjectConfig = Inr s"
      and v: "validate_active (cfg_LocalModel cfg) s = None" by blast
  have "rp_Backend s \<noteq> [] \<and> (rp_Transport s = LLMTransportSTDIO \<and> rp_Command s \<noteq> [] \<or>
      rp_Transport s = LLMTransportHTTP \<and>
        (rp_Endpoint s \<noteq> [] \<or> trim_space (lmc_BaseURL (cfg_LocalModel cfg)) \<noteq> []))"
    using v by (auto simp: validate_active_def split: if_splits)
  with s active_Inr [OF s] show ?thesis by blast
qed

lemma DefaultConfig_valid: "Validate DefaultConfig = None \<and> \<not> legacy_config DefaultConfig"
  by code_simp

theorem accepted_config_has_active_provider_witness:
  "Validate DefaultConfig = None \<and>
   (\<exists>s. ResolveActiveLLMProvider DefaultConfig DefaultProjectConfig = Inr s \<and>
     (\<exists>p \<in> set (llm_providers DefaultConfig). s = resolve_entry p) \<and> rp_Backend s \<noteq> [])"
proof -
  have v: "Validate DefaultConfig = None" "\<not> legacy_config DefaultConfig"
    using DefaultConfig_valid by blast+
  from accepted_config_has_active_provider [OF v] v(1) show ?thesis by blast
qed

text \<open>The bind check treats a pair of brackets as an empty host, so a configuration with
  \<open>server.host: "[]"\<close>, without the opt-in and without authentication, is accepted whenever
  the same configuration with host \<open>127.0.0.1\<close> is.\<close>

theorem bracket_host_is_not_checked:
  "\<not> hostRequiresNonLoopbackOptIn ''[]'' \<and>
   ValidateForMode (cfg\<lparr>cfg_Server := (cfg_Server cfg)\<lparr>srv_Host := ''[]''\<rparr>\<rparr>) ''status'' =
   ValidateForMode (cfg\<lparr>cfg_Server := (cfg_Server cfg)\<lparr>srv_Host := ''127.0.0.1''\<rparr>\<rparr>) ''status''"
proof -
  have h: "\<not> hostRequiresNonLoopbackOptIn ''[]''" "\<not> hostRequiresNonLoopbackOptIn ''127.0.0.1''"
    by code_simp+
  then show ?thesis
    by (simp add: ValidateForMode_def validate_server_def validate_mode_def)
qed

end
