(* ===== verification/Config_Load.thy ===== *)
theory Config_Load
  imports Config_Validate
begin

text \<open>
  The entry points of \<open>internal/config/load.go\<close> and \<open>system_crypto.go\<close>: reading, decoding, completing
  and validating the three configuration files. The file system, the YAML decoder (it decodes
  into the default value it is given), the keyring and AES-GCM are parameters, gathered in the
  record \<open>loader\<close>; the order of the steps is the program's.
\<close>

datatype read_error = FileNotExist | FileUnreadable

datatype load_error =
    ConfigNotFound string
  | ConfigUnreadable
  | ConfigUnparsable
  | ConfigInvalid valid_error
  | PlaintextPolicy string
  | SystemKeyUnreadable
  | SystemKeyNotHex
  | SystemKeyLength nat
  | PayloadNotBase64
  | PayloadTooShort
  | PayloadUndecryptable
  | PolicyUndecodable

record loader =
  ld_ReadFile :: "string \<Rightarrow> read_error + string"
  ld_Config :: "string \<Rightarrow> config \<Rightarrow> config option"
  ld_Project :: "string \<Rightarrow> project_config \<Rightarrow> project_config option"
  ld_System :: "string \<Rightarrow> system_config \<Rightarrow> system_config option"
  ld_Keys :: "string \<Rightarrow> string list option"
  ld_Cwd :: "string option"
  ld_Env :: environment
  ld_SystemKey :: "string \<Rightarrow> string \<Rightarrow> string option"
  ld_GCMOpen :: "string \<Rightarrow> string \<Rightarrow> string \<Rightarrow> string option"
  ld_Policy :: "string \<Rightarrow> system_policy option"

section \<open>Hexadecimal and base 64\<close>

fun hex_decode :: "string \<Rightarrow> string option" where
  "hex_decode [] = Some []"
| "hex_decode [c] = None"
| "hex_decode (a # b # s) =
     (case (hex_value a, hex_value b) of
        (Some x, Some y) \<Rightarrow> map_option (\<lambda>t. char_of (16 * x + y) # t) (hex_decode s)
      | _ \<Rightarrow> None)"

definition b64_value :: "char \<Rightarrow> int option" where
  "b64_value c =
     (let n = of_char c :: int in
      if 65 \<le> n \<and> n \<le> 90 then Some (n - 65)
      else if 97 \<le> n \<and> n \<le> 122 then Some (n - 71)
      else if 48 \<le> n \<and> n \<le> 57 then Some (n + 4)
      else if c = CHR ''+'' then Some 62 else if c = CHR ''/'' then Some 63 else None)"

definition b64_bytes :: "int \<Rightarrow> int \<Rightarrow> int \<Rightarrow> int \<Rightarrow> string" where
  "b64_bytes a b c d =
     [char_of (a * 4 + b div 16), char_of (b mod 16 * 16 + c div 4), char_of (c mod 4 * 64 + d)]"

fun b64_groups :: "string \<Rightarrow> string option" where
  "b64_groups [] = Some []"
| "b64_groups (p # q # r # t # s) =
     (case (b64_value p, b64_value q) of
        (Some a, Some b) \<Rightarrow>
          if r = CHR ''='' then (if t = CHR ''='' \<and> s = [] then Some (take 1 (b64_bytes a b 0 0)) else None)
          else (case b64_value r of None \<Rightarrow> None
                | Some c \<Rightarrow>
                    if t = CHR ''='' then (if s = [] then Some (take 2 (b64_bytes a b c 0)) else None)
                    else (case b64_value t of None \<Rightarrow> None
                          | Some d \<Rightarrow> map_option (\<lambda>u. b64_bytes a b c d @ u) (b64_groups s)))
      | _ \<Rightarrow> None)"
| "b64_groups _ = None"

definition b64_decode :: "string \<Rightarrow> string option" where
  "b64_decode s = b64_groups (filter (\<lambda>c. c \<noteq> CHR 0x0A \<and> c \<noteq> CHR 0x0D) s)"

section \<open>The encrypted system policy\<close>

definition decryptSystemPolicyPayload :: "loader \<Rightarrow> string \<Rightarrow> string \<Rightarrow> load_error + system_policy" where
  "decryptSystemPolicyPayload ld payload key =
     (if length payload < 12 then Inl PayloadTooShort
      else (case ld_GCMOpen ld key (take 12 payload) (drop 12 payload) of
              None \<Rightarrow> Inl PayloadUndecryptable
            | Some plaintext \<Rightarrow>
                (case ld_Policy ld plaintext of None \<Rightarrow> Inl PolicyUndecodable | Some p \<Rightarrow> Inr p)))"

definition decryptSystemPolicy :: "loader \<Rightarrow> system_config \<Rightarrow> load_error + system_config" where
  "decryptSystemPolicy ld cfg =
     (case ld_SystemKey ld (se_KeyringService (sc_Encryption cfg)) (se_KeyringAccount (sc_Encryption cfg)) of
        None \<Rightarrow> Inl SystemKeyUnreadable
      | Some secret \<Rightarrow>
          (case hex_decode (trim_space secret) of
             None \<Rightarrow> Inl SystemKeyNotHex
           | Some key \<Rightarrow>
               if length key \<noteq> 32 then Inl (SystemKeyLength (length key))
               else (case b64_decode (trim_space (sc_EncryptedPayload cfg)) of
                       None \<Rightarrow> Inl PayloadNotBase64
                     | Some payload \<Rightarrow>
                         (case decryptSystemPolicyPayload ld payload key of
                            Inl e \<Rightarrow> Inl e | Inr p \<Rightarrow> Inr (cfg\<lparr>sc_Policy := p\<rparr>)))))"

definition rejectPlaintextSystemConfig :: "loader \<Rightarrow> string \<Rightarrow> load_error option" where
  "rejectPlaintextSystemConfig ld data =
     (case ld_Keys ld data of None \<Rightarrow> Some ConfigUnparsable
      | Some keys \<Rightarrow>
          map_option PlaintextPolicy
            (find (\<lambda>k. k \<in> set keys) [''identity'', ''rules'', ''policy'']))"

section \<open>Loading\<close>

definition LoadForEdit :: "loader \<Rightarrow> string \<Rightarrow> load_error + config" where
  "LoadForEdit ld path =
     (case ld_ReadFile ld path of
        Inl FileNotExist \<Rightarrow> Inr (applyDerivedDefaults (ld_Cwd ld) DefaultConfig path)
      | Inl FileUnreadable \<Rightarrow> Inl ConfigUnreadable
      | Inr data \<Rightarrow>
          (case ld_Config ld data DefaultConfig of None \<Rightarrow> Inl ConfigUnparsable
           | Some cfg \<Rightarrow> Inr (applyDerivedDefaults (ld_Cwd ld) cfg path)))"

definition LoadWithMode :: "loader \<Rightarrow> string \<Rightarrow> string \<Rightarrow> load_error + config" where
  "LoadWithMode ld path mode =
     (case ld_ReadFile ld path of
        Inl FileNotExist \<Rightarrow> Inl (ConfigNotFound path)
      | Inl FileUnreadable \<Rightarrow> Inl ConfigUnreadable
      | Inr data \<Rightarrow>
          (case ld_Config ld data DefaultConfig of None \<Rightarrow> Inl ConfigUnparsable
           | Some decoded \<Rightarrow>
               let cfg = applyDerivedDefaults (ld_Cwd ld) (applyEnvOverrides (ld_Env ld) decoded) path
               in (case ValidateForMode cfg mode of Some e \<Rightarrow> Inl (ConfigInvalid e) | None \<Rightarrow> Inr cfg)))"

definition Load_config :: "loader \<Rightarrow> string \<Rightarrow> load_error + config" where
  "Load_config ld path = LoadWithMode ld path ValidationModeServe"

definition LoadProject :: "loader \<Rightarrow> string \<Rightarrow> load_error + project_config" where
  "LoadProject ld path =
     (case ld_ReadFile ld path of
        Inl e \<Rightarrow> Inl ConfigUnreadable
      | Inr data \<Rightarrow>
          (case ld_Project ld data DefaultProjectConfig of None \<Rightarrow> Inl ConfigUnparsable
           | Some decoded \<Rightarrow>
               let cfg = applyProjectDerivedDefaults (ld_Cwd ld) decoded path
               in (case ValidateProject cfg of Some e \<Rightarrow> Inl (ConfigInvalid e) | None \<Rightarrow> Inr cfg)))"

definition LoadSystem :: "loader \<Rightarrow> string \<Rightarrow> load_error + system_config" where
  "LoadSystem ld path =
     (case ld_ReadFile ld path of
        Inl e \<Rightarrow> Inl ConfigUnreadable
      | Inr data \<Rightarrow>
          (case rejectPlaintextSystemConfig ld data of Some e \<Rightarrow> Inl e
           | None \<Rightarrow>
               (case ld_System ld data DefaultSystemConfig of None \<Rightarrow> Inl ConfigUnparsable
                | Some decoded \<Rightarrow>
                    let cfg = applySystemDerivedDefaults decoded
                    in (case ValidateSystem cfg of Some e \<Rightarrow> Inl (ConfigInvalid e)
                        | None \<Rightarrow> decryptSystemPolicy ld cfg))))"

section \<open>Laws\<close>

lemma LoadWithMode_Inr:
  "LoadWithMode ld path mode = Inr cfg \<Longrightarrow>
     ValidateForMode cfg mode = None \<and>
     (\<exists>c. cfg = applyDerivedDefaults (ld_Cwd ld) c path)"
  by (auto simp: LoadWithMode_def Let_def split: sum.splits read_error.splits option.splits)

section \<open>Properties\<close>

text \<open>A configuration that loads is complete and checked: it passes validation for its mode,
  every provider entry keeps its preset defaults, and the registry is configured.\<close>

theorem loaded_config_is_valid:
  assumes "LoadWithMode ld path mode = Inr cfg"
  shows "ValidateForMode cfg mode = None \<and> lr_Providers (cfg_LLMs cfg) \<noteq> None \<and>
     (\<forall>p \<in> set (llm_providers cfg). applyLLMProviderPresetDefaults p = p) \<and>
     derive_llms (cfg_LLMs cfg) = cfg_LLMs cfg"
proof -
  obtain c where c: "cfg = applyDerivedDefaults (ld_Cwd ld) c path" "ValidateForMode cfg mode = None"
    using LoadWithMode_Inr [OF assms] by blast
  have l: "cfg_LLMs cfg = derive_llms (cfg_LLMs c)"
    unfolding c(1) by (simp add: applyDerivedDefaults_def Let_def)
  have "\<forall>p \<in> set (llm_providers cfg). applyLLMProviderPresetDefaults p = p"
    unfolding l by (auto simp: derive_llms_def Let_def preset_defaults_idem)
  moreover have "lr_Providers (cfg_LLMs cfg) \<noteq> None" unfolding c(1) by (rule derived_fields_set(8))
  ultimately show ?thesis using c(2) l derive_llms_idem by metis
qed

definition sample_loader :: loader where
  "sample_loader =
     \<lparr>ld_ReadFile = (\<lambda>p. if p = ''/etc/rillan.yaml'' then Inr [] else Inl FileNotExist),
      ld_Config = (\<lambda>d c. Some c), ld_Project = (\<lambda>d c. Some c), ld_System = (\<lambda>d c. Some c),
      ld_Keys = (\<lambda>d. Some []), ld_Cwd = Some ''/home/dev'', ld_Env = Map.empty,
      ld_SystemKey = (\<lambda>s a. None), ld_GCMOpen = (\<lambda>k n c. None), ld_Policy = (\<lambda>p. None)\<rparr>"

theorem loaded_config_is_valid_witness:
  "\<exists>cfg. LoadWithMode sample_loader ''/etc/rillan.yaml'' ''status'' = Inr cfg \<and>
     ValidateForMode cfg ''status'' = None"
proof -
  have "case LoadWithMode sample_loader ''/etc/rillan.yaml'' ''status'' of Inl e \<Rightarrow> False | Inr c \<Rightarrow> True"
    by code_simp
  then obtain cfg where c: "LoadWithMode sample_loader ''/etc/rillan.yaml'' ''status'' = Inr cfg"
    by (auto split: sum.splits)
  with loaded_config_is_valid [OF c] show ?thesis by blast
qed

text \<open>A system file that names a plaintext policy key is refused, and a system configuration that
  loads has exactly the policy that its encrypted payload decrypts to under the keyring's 32-byte
  key.\<close>

theorem system_policy_is_decrypted:
  assumes "LoadSystem ld path = Inr cfg"
  shows "\<exists>data keys secret key payload plaintext.
     ld_ReadFile ld path = Inr data \<and> ld_Keys ld data = Some keys \<and>
     set keys \<inter> {''identity'', ''rules'', ''policy''} = {} \<and> ValidateSystem cfg = None \<and>
     ld_SystemKey ld (se_KeyringService (sc_Encryption cfg)) (se_KeyringAccount (sc_Encryption cfg)) = Some secret \<and>
     hex_decode (trim_space secret) = Some key \<and> length key = 32 \<and>
     b64_decode (trim_space (sc_EncryptedPayload cfg)) = Some payload \<and>
     ld_GCMOpen ld key (take 12 payload) (drop 12 payload) = Some plaintext \<and>
     ld_Policy ld plaintext = Some (sc_Policy cfg)"
proof -
  from assms obtain data decoded where r: "ld_ReadFile ld path = Inr data"
      "rejectPlaintextSystemConfig ld data = None" "ld_System ld data DefaultSystemConfig = Some decoded"
      "ValidateSystem (applySystemDerivedDefaults decoded) = None"
      "decryptSystemPolicy ld (applySystemDerivedDefaults decoded) = Inr cfg"
    by (auto simp: LoadSystem_def Let_def split: sum.splits option.splits)
  let ?c = "applySystemDerivedDefaults decoded"
  obtain keys where k: "ld_Keys ld data = Some keys" "set keys \<inter> {''identity'', ''rules'', ''policy''} = {}"
    using r(2) by (auto simp: rejectPlaintextSystemConfig_def split: option.splits if_splits)
  obtain secret key payload p where d:
      "ld_SystemKey ld (se_KeyringService (sc_Encryption ?c)) (se_KeyringAccount (sc_Encryption ?c)) = Some secret"
      "hex_decode (trim_space secret) = Some key" "length key = 32"
      "b64_decode (trim_space (sc_EncryptedPayload ?c)) = Some payload"
      "decryptSystemPolicyPayload ld payload key = Inr p" "cfg = ?c\<lparr>sc_Policy := p\<rparr>"
    using r(5) by (auto simp: decryptSystemPolicy_def split: option.splits sum.splits if_splits)
  obtain plaintext where t: "ld_GCMOpen ld key (take 12 payload) (drop 12 payload) = Some plaintext"
      "ld_Policy ld plaintext = Some p"
    using d(5) by (auto simp: decryptSystemPolicyPayload_def split: option.splits if_splits)
  have "ValidateSystem cfg = None" using r(4) d(6) by (simp add: ValidateSystem_def)
  then show ?thesis using r(1) k d t by (intro exI conjI) auto
qed

definition sample_system_loader :: loader where
  "sample_system_loader = sample_loader
     \<lparr>ld_System := (\<lambda>d c. Some (c\<lparr>sc_EncryptedPayload := ''AAAAAAAAAAAAAAAA''\<rparr>)),
      ld_SystemKey := (\<lambda>s a. Some (replicate 64 (CHR ''0''))),
      ld_GCMOpen := (\<lambda>k n c. Some []),
      ld_Policy := (\<lambda>p. Some (sc_Policy DefaultSystemConfig))\<rparr>"

theorem system_policy_is_decrypted_witness:
  "\<exists>cfg. LoadSystem sample_system_loader ''/etc/rillan.yaml'' = Inr cfg \<and>
     (\<exists>payload. b64_decode (trim_space (sc_EncryptedPayload cfg)) = Some payload)"
proof -
  have "case LoadSystem sample_system_loader ''/etc/rillan.yaml'' of Inl e \<Rightarrow> False | Inr c \<Rightarrow> True"
    by code_simp
  then obtain cfg where c: "LoadSystem sample_system_loader ''/etc/rillan.yaml'' = Inr cfg"
    by (auto split: sum.splits)
  with system_policy_is_decrypted [OF c] show ?thesis by blast
qed

end
