(* ===== verification/Go_Regexp.thy ===== *)
theory Go_Regexp
  imports Rillan_Prelude
begin

text \<open>
  The fragment of the Go \<open>regexp\<close> package the scanner and the classifier use: a sequence of
  character classes, word boundaries, greedy repetitions of a class and optional groups, with
  leftmost-first matching. \<open>rx_lens\<close> lists the lengths of the matches at a position in the order
  in which the backtracking semantics prefers them, so its head is the match that Go reports.
  Every class here is a set of ASCII bytes, for which matching bytes and matching runes agree, and
  Go's \<open>\b\<close> is an ASCII word boundary. \<open>find_all\<close> is \<open>FindAllStringIndex(s, -1)\<close> for patterns
  that do not match the empty string.
\<close>

definition char_code :: "char \<Rightarrow> int" where
  "char_code c = of_char c"

definition in_range :: "char \<Rightarrow> char \<Rightarrow> char \<Rightarrow> bool" where
  "in_range lo hi c \<longleftrightarrow> char_code lo \<le> char_code c \<and> char_code c \<le> char_code hi"

definition is_upper :: "char \<Rightarrow> bool" where "is_upper = in_range (CHR ''A'') (CHR ''Z'')"
definition is_lower :: "char \<Rightarrow> bool" where "is_lower = in_range (CHR ''a'') (CHR ''z'')"
definition is_digit :: "char \<Rightarrow> bool" where "is_digit = in_range (CHR ''0'') (CHR ''9'')"

definition is_alnum :: "char \<Rightarrow> bool" where
  "is_alnum c \<longleftrightarrow> is_upper c \<or> is_lower c \<or> is_digit c"

definition is_word :: "char \<Rightarrow> bool" where
  "is_word c \<longleftrightarrow> is_alnum c \<or> c = CHR ''_''"

definition is_regex_space :: "char \<Rightarrow> bool" where
  "is_regex_space c \<longleftrightarrow> c \<in> {CHR 0x09, CHR 0x0A, CHR 0x0C, CHR 0x0D, CHR '' ''}"

datatype rx =
    RCls "char \<Rightarrow> bool"        \<comment> \<open>one byte of a class\<close>
  | RWordB                    \<comment> \<open>\<open>\b\<close>\<close>
  | RRep nat "char \<Rightarrow> bool"    \<comment> \<open>\<open>class{n,}\<close>, greedy\<close>
  | ROpt "rx list"            \<comment> \<open>\<open>(?:...)?\<close>\<close>

abbreviation rx_lit :: "string \<Rightarrow> rx list" where
  "rx_lit s \<equiv> map (\<lambda>c. RCls (\<lambda>d. d = c)) s"

text \<open>A literal under \<open>(?i)\<close>; exact for literals without \<open>k\<close> and \<open>s\<close>, the two letters with a
  non-ASCII fold.\<close>

abbreviation rx_fold_lit :: "string \<Rightarrow> rx list" where
  "rx_fold_lit s \<equiv> map (\<lambda>c. RCls (\<lambda>d. ascii_lower d = ascii_lower c)) s"

definition word_at :: "char option \<Rightarrow> bool" where
  "word_at p = (case p of None \<Rightarrow> False | Some c \<Rightarrow> is_word c)"

definition hd_opt :: "string \<Rightarrow> char option" where
  "hd_opt s = (case s of [] \<Rightarrow> None | c # _ \<Rightarrow> Some c)"

text \<open>The byte before the text that is left after \<open>j\<close> more bytes were consumed.\<close>

definition prev_after :: "char option \<Rightarrow> string \<Rightarrow> nat \<Rightarrow> char option" where
  "prev_after p s j = (if j = 0 then p else Some (s ! (j - 1)))"

function rx_lens :: "rx list \<Rightarrow> char option \<Rightarrow> string \<Rightarrow> nat list" where
  "rx_lens [] p s = [0]"
| "rx_lens (RCls f # rs) p s =
     (case s of [] \<Rightarrow> [] | c # cs \<Rightarrow> if f c then map Suc (rx_lens rs (Some c) cs) else [])"
| "rx_lens (RWordB # rs) p s =
     (if word_at p \<noteq> word_at (hd_opt s) then rx_lens rs p s else [])"
| "rx_lens (RRep m f # rs) p s =
     concat (map (\<lambda>j. map (\<lambda>n. j + n) (rx_lens rs (prev_after p s j) (drop j s)))
       (rev [m..<Suc (length (takeWhile f s))]))"
| "rx_lens (ROpt qs # rs) p s = rx_lens (qs @ rs) p s @ rx_lens rs p s"
  by pat_completeness auto
termination
  by (relation "measure (\<lambda>(rs, p, s). size_list size rs)") (auto simp: size_list_append)

definition rx_match :: "rx list \<Rightarrow> char option \<Rightarrow> string \<Rightarrow> nat option" where
  "rx_match rs p s = (case rx_lens rs p s of [] \<Rightarrow> None | n # _ \<Rightarrow> Some n)"

lemma rx_lens_le: "n \<in> set (rx_lens rs p s) \<Longrightarrow> n \<le> length s"
proof (induction rs p s arbitrary: n rule: rx_lens.induct)
  case (4 m f rs p s)
  then obtain j k where j: "j \<in> set (rev [m..<Suc (length (takeWhile f s))])" "n = j + k"
      "k \<in> set (rx_lens rs (prev_after p s j) (drop j s))"
    by (auto simp del: upt_Suc simp: image_iff Bex_def)
  then have "k \<le> length (drop j s)" using "4.IH" [of j k] by simp
  moreover have "j \<le> length s" using j(1) length_takeWhile_le [of f s] by auto
  ultimately show ?case using j by simp
qed (auto split: list.splits if_splits)

function find_from :: "rx list \<Rightarrow> char option \<Rightarrow> nat \<Rightarrow> string \<Rightarrow> (nat \<times> nat) list" where
  "find_from rs p i s =
     (case s of [] \<Rightarrow> []
      | c # cs \<Rightarrow>
          (case rx_match rs p s of
             Some n \<Rightarrow> if n > 0 then (i, i + n) # find_from rs (prev_after p s n) (i + n) (drop n s)
                       else find_from rs (Some c) (Suc i) cs
           | None \<Rightarrow> find_from rs (Some c) (Suc i) cs))"
  by pat_completeness auto
termination by (relation "measure (\<lambda>(rs, p, i, s). length s)") auto

declare find_from.simps [simp del]

definition find_all :: "rx list \<Rightarrow> string \<Rightarrow> (nat \<times> nat) list" where
  "find_all rs s = find_from rs None 0 s"

lemma rx_match_le: "rx_match rs p s = Some n \<Longrightarrow> n \<le> length s"
  using rx_lens_le [of n rs p s] by (auto simp: rx_match_def split: list.splits)

lemma find_from_hit:
  "rx_match rs p s = Some n \<Longrightarrow> n > 0 \<Longrightarrow>
     find_from rs p i s = (i, i + n) # find_from rs (prev_after p s n) (i + n) (drop n s)"
  by (cases s; subst find_from.simps) (use rx_match_le in fastforce)+

lemma find_from_skip:
  "\<not> (\<exists>n > 0. rx_match rs p (c # cs) = Some n) \<Longrightarrow>
     find_from rs p i (c # cs) = find_from rs (Some c) (Suc i) cs"
  by (subst find_from.simps, cases "rx_match rs p (c # cs)") auto

lemma find_from_bounds:
  "(a, b) \<in> set (find_from rs p i s) \<Longrightarrow> i \<le> a \<and> a < b \<and> b \<le> i + length s"
proof (induction rs p i s rule: find_from.induct)
  case (1 rs p i s)
  show ?case
  proof (cases s)
    case Nil
    then show ?thesis using "1.prems" by (simp add: find_from.simps)
  next
    case (Cons c cs)
    show ?thesis
    proof (cases "\<exists>n > 0. rx_match rs p s = Some n")
      case True
      then obtain n where n: "n > 0" "rx_match rs p s = Some n" by blast
      have "n \<le> length s" using rx_match_le [OF n(2)] .
      moreover have "(a, b) = (i, i + n) \<or>
          (a, b) \<in> set (find_from rs (prev_after p s n) (i + n) (drop n s))"
        using "1.prems" find_from_hit [OF n(2,1), of i] by simp
      ultimately show ?thesis using "1.IH"(2) [OF Cons n(2,1)] n(1) by auto
    next
      case False
      then have *: "(a, b) \<in> set (find_from rs (Some c) (Suc i) cs)"
        using "1.prems" Cons find_from_skip by metis
      have "Suc i \<le> a \<and> a < b \<and> b \<le> Suc i + length cs"
        using False "1.IH"(1,3) [OF Cons] * by (cases "rx_match rs p s") auto
      then show ?thesis using Cons by simp
    qed
  qed
qed

lemma find_all_bounds: "(a, b) \<in> set (find_all rs s) \<Longrightarrow> a < b \<and> b \<le> length s"
  using find_from_bounds [of a b rs None 0 s] by (simp add: find_all_def)

text \<open>Completeness: a position where the pattern matches lies in a reported match.\<close>

lemma find_from_covers:
  "k < length s \<Longrightarrow> rx_match rs (prev_after p s k) (drop k s) = Some n \<Longrightarrow> n > 0 \<Longrightarrow>
     \<exists>(a, b) \<in> set (find_from rs p i s). a \<le> i + k \<and> i + k < b"
proof (induction rs p i s arbitrary: k rule: find_from.induct)
  case (1 rs p i s)
  from "1.prems"(1) obtain c cs where s: "s = c # cs" by (cases s) auto
  show ?case
  proof (cases "\<exists>m > 0. rx_match rs p s = Some m")
    case True
    then obtain m where m: "m > 0" "rx_match rs p s = Some m" by blast
    have ff: "find_from rs p i s = (i, i + m) # find_from rs (prev_after p s m) (i + m) (drop m s)"
      by (rule find_from_hit [OF m(2,1)])
    show ?thesis
    proof (cases "k < m")
      case False
      have "prev_after (prev_after p s m) (drop m s) (k - m) = prev_after p s k"
        using False "1.prems"(1) by (auto simp: prev_after_def nth_drop)
      with "1.IH"(2) [OF s m(2,1), of "k - m"] "1.prems" False
      have "\<exists>(a, b) \<in> set (find_from rs (prev_after p s m) (i + m) (drop m s)).
          a \<le> i + m + (k - m) \<and> i + m + (k - m) < b" by auto
      with False show ?thesis unfolding ff by auto
    qed (auto simp: ff)
  next
    case False
    then have ff: "find_from rs p i s = find_from rs (Some c) (Suc i) cs"
      using s find_from_skip by metis
    have k: "k > 0"
      using False "1.prems"(2,3) by (metis prev_after_def drop_0 gr0I)
    have pa: "prev_after (Some c) cs (k - 1) = prev_after p s k"
      using k s by (auto simp: prev_after_def nth_Cons')
    have "\<exists>(a, b) \<in> set (find_from rs (Some c) (Suc i) cs).
        a \<le> Suc i + (k - 1) \<and> Suc i + (k - 1) < b"
    proof (cases "rx_match rs p s")
      case None
      with "1.IH"(1) [OF s None, of "k - 1"] "1.prems" k s pa show ?thesis
        by (auto simp: drop_Cons')
    next
      case (Some m)
      with False have "\<not> m > 0" by auto
      with "1.IH"(3) [OF s Some, of "k - 1"] "1.prems" k s pa show ?thesis
        by (auto simp: drop_Cons')
    qed
    with k show ?thesis unfolding ff by auto
  qed
qed

lemma find_all_covers:
  assumes "k < length s" and "rx_match rs (prev_after None s k) (drop k s) = Some n" and "n > 0"
  shows "\<exists>(a, b) \<in> set (find_all rs s). a \<le> k \<and> k < b"
  using find_from_covers [OF assms, of 0] by (simp add: find_all_def)

text \<open>The matches of a sequence of classes.\<close>

lemma rx_lens_lit: "rx_lens (rx_lit l @ rs) p (l @ s) =
    map (\<lambda>n. length l + n) (rx_lens rs (if l = [] then p else Some (last l)) s)"
  by (induction l arbitrary: p) (auto simp: comp_def map_idI)

end
