(* ===== verification/Go_Json.thy ===== *)
theory Go_Json
  imports Go_Net
begin

text \<open>
  What the program uses of \<open>encoding/json\<close>. A value keeps the source text of its number and
  string literals (\<open>JNum\<close>, \<open>JStr\<close> and the keys of \<open>JObj\<close> hold the characters between the
  quotes, escapes included), because the code moves \<open>json.RawMessage\<close> fragments through without
  decoding them; a \<open>RawMessage\<close> is the value it spells, up to white space, which \<open>json.Marshal\<close>
  removes anyway. \<open>unquote\<close> decodes a literal to the Go string, \<open>quote\<close> encodes one.

  \<open>parse_json\<close> is \<open>json.Valid\<close> and the syntactic half of \<open>json.Unmarshal\<close>: a recursive descent
  whose fuel, twice the length of the input plus two, never runs out because each call either
  consumes a byte or hands over to a call that does; \<open>parse_render\<close> proves that the compact
  text of every well-formed value is parsed back. The library's nesting limit of 10000 is not
  modelled.
\<close>

datatype json =
    JNull
  | JBool bool
  | JNum string
  | JStr string
  | JArr "json list"
  | JObj "(string \<times> json) list"

definition code :: "char \<Rightarrow> int" where
  "code c = of_char c"

abbreviation quote_char :: char where "quote_char \<equiv> CHR 0x22"
abbreviation backslash :: char where "backslash \<equiv> CHR 0x5C"

section \<open>Lexical automata\<close>

definition is_dec :: "char \<Rightarrow> bool" where
  "is_dec c \<longleftrightarrow> 48 \<le> code c \<and> code c \<le> 57"

text \<open>The number states of the library's scanner, and its transitions.\<close>

datatype num_state = NumBegin | NumNeg | Num0 | Num1 | NumDot | NumDot0 | NumE | NumESign | NumE0

fun num_step :: "num_state \<Rightarrow> char \<Rightarrow> num_state option" where
  "num_step NumBegin c =
     (if c = CHR ''-'' then Some NumNeg else if c = CHR ''0'' then Some Num0
      else if is_dec c then Some Num1 else None)"
| "num_step NumNeg c =
     (if c = CHR ''0'' then Some Num0 else if is_dec c then Some Num1 else None)"
| "num_step Num0 c =
     (if c = CHR ''.'' then Some NumDot
      else if c = CHR ''e'' \<or> c = CHR ''E'' then Some NumE else None)"
| "num_step Num1 c =
     (if is_dec c then Some Num1 else if c = CHR ''.'' then Some NumDot
      else if c = CHR ''e'' \<or> c = CHR ''E'' then Some NumE else None)"
| "num_step NumDot c = (if is_dec c then Some NumDot0 else None)"
| "num_step NumDot0 c =
     (if is_dec c then Some NumDot0
      else if c = CHR ''e'' \<or> c = CHR ''E'' then Some NumE else None)"
| "num_step NumE c =
     (if c = CHR ''+'' \<or> c = CHR ''-'' then Some NumESign
      else if is_dec c then Some NumE0 else None)"
| "num_step NumESign c = (if is_dec c then Some NumE0 else None)"
| "num_step NumE0 c = (if is_dec c then Some NumE0 else None)"

definition num_accept :: "num_state \<Rightarrow> bool" where
  "num_accept st \<longleftrightarrow> st \<in> {Num0, Num1, NumDot0, NumE0}"

fun scan_num :: "num_state \<Rightarrow> string \<Rightarrow> (string \<times> string) option" where
  "scan_num st [] = (if num_accept st then Some ([], []) else None)"
| "scan_num st (c # s) =
     (case num_step st c of
        Some st' \<Rightarrow> map_option (\<lambda>(l, r). (c # l, r)) (scan_num st' s)
      | None \<Rightarrow> if num_accept st then Some ([], c # s) else None)"

fun hex4 :: "string \<Rightarrow> int option" where
  "hex4 [a, b, c, d] =
     (case (hex_value a, hex_value b, hex_value c, hex_value d) of
        (Some w, Some x, Some y, Some z) \<Rightarrow> Some (((w * 16 + x) * 16 + y) * 16 + z)
      | _ \<Rightarrow> None)"
| "hex4 _ = None"

text \<open>The rest of a string literal: its characters up to the closing quote, and what follows.\<close>

function scan_str :: "string \<Rightarrow> (string \<times> string) option" where
  "scan_str s =
     (case s of [] \<Rightarrow> None
      | c # cs \<Rightarrow>
          if c = quote_char then Some ([], cs)
          else if c = backslash then
            (case cs of [] \<Rightarrow> None
             | d # ds \<Rightarrow>
                 if d = CHR ''u'' then
                   (if hex4 (take 4 ds) = None then None
                    else map_option (\<lambda>(l, r). (c # d # take 4 ds @ l, r)) (scan_str (drop 4 ds)))
                 else if d \<in> {quote_char, backslash, CHR ''/'', CHR ''b'', CHR ''f'', CHR ''n'',
                              CHR ''r'', CHR ''t''}
                 then map_option (\<lambda>(l, r). (c # d # l, r)) (scan_str ds)
                 else None)
          else if code c < 32 then None
          else map_option (\<lambda>(l, r). (c # l, r)) (scan_str cs))"
  by pat_completeness auto
termination by (relation "measure length") auto

declare scan_str.simps [simp del]

section \<open>Parsing\<close>

fun skip_ws :: "string \<Rightarrow> string" where
  "skip_ws [] = []"
| "skip_ws (c # s) =
     (if c \<in> {CHR '' '', CHR 0x09, CHR 0x0A, CHR 0x0D} then skip_ws s else c # s)"

fun parse_value :: "nat \<Rightarrow> string \<Rightarrow> (json \<times> string) option"
and parse_elems :: "nat \<Rightarrow> string \<Rightarrow> (json list \<times> string) option"
and parse_fields :: "nat \<Rightarrow> string \<Rightarrow> ((string \<times> json) list \<times> string) option"
where
  "parse_value 0 s = None"
| "parse_value (Suc n) s =
     (case skip_ws s of [] \<Rightarrow> None
      | c # cs \<Rightarrow>
          if c = quote_char then map_option (\<lambda>(b, r). (JStr b, r)) (scan_str cs)
          else if c = CHR ''['' then
            (if has_prefix (skip_ws cs) '']'' then Some (JArr [], tl (skip_ws cs))
             else map_option (\<lambda>(vs, r). (JArr vs, r)) (parse_elems n cs))
          else if c = CHR ''{'' then
            (if has_prefix (skip_ws cs) ''}'' then Some (JObj [], tl (skip_ws cs))
             else map_option (\<lambda>(fs, r). (JObj fs, r)) (parse_fields n cs))
          else if has_prefix (c # cs) ''null'' then Some (JNull, drop 4 (c # cs))
          else if has_prefix (c # cs) ''true'' then Some (JBool True, drop 4 (c # cs))
          else if has_prefix (c # cs) ''false'' then Some (JBool False, drop 5 (c # cs))
          else map_option (\<lambda>(l, r). (JNum l, r)) (scan_num NumBegin (c # cs)))"
| "parse_elems 0 s = None"
| "parse_elems (Suc n) s =
     (case parse_value n s of None \<Rightarrow> None
      | Some (v, r) \<Rightarrow>
          (case skip_ws r of [] \<Rightarrow> None
           | c # cs \<Rightarrow>
               if c = CHR '']'' then Some ([v], cs)
               else if c = CHR '','' then map_option (\<lambda>(vs, t). (v # vs, t)) (parse_elems n cs)
               else None))"
| "parse_fields 0 s = None"
| "parse_fields (Suc n) s =
     (case skip_ws s of [] \<Rightarrow> None
      | c # cs \<Rightarrow>
          if c \<noteq> quote_char then None
          else (case scan_str cs of None \<Rightarrow> None
                | Some (k, r) \<Rightarrow>
                    (case skip_ws r of [] \<Rightarrow> None
                     | d # ds \<Rightarrow>
                         if d \<noteq> CHR '':'' then None
                         else (case parse_value n ds of None \<Rightarrow> None
                               | Some (v, t) \<Rightarrow>
                                   (case skip_ws t of [] \<Rightarrow> None
                                    | e # es \<Rightarrow>
                                        if e = CHR ''}'' then Some ([(k, v)], es)
                                        else if e = CHR '','' then
                                          map_option (\<lambda>(fs, u). ((k, v) # fs, u)) (parse_fields n es)
                                        else None)))))"

definition parse_json :: "string \<Rightarrow> json option" where
  "parse_json s =
     (case parse_value (length s + length s + 2) s of
        Some (v, r) \<Rightarrow> if skip_ws r = [] then Some v else None
      | None \<Rightarrow> None)"

text \<open>What a stream decoder takes from a body: the first value, whatever follows.\<close>

definition decode_first :: "string \<Rightarrow> json option" where
  "decode_first body = map_option fst (parse_value (length body + length body + 2) body)"

section \<open>Printing\<close>

fun render :: "json \<Rightarrow> string" where
  "render JNull = ''null''"
| "render (JBool b) = (if b then ''true'' else ''false'')"
| "render (JNum l) = l"
| "render (JStr b) = quote_char # b @ [quote_char]"
| "render (JArr vs) = ''['' @ join_with '','' (map render vs) @ '']''"
| "render (JObj fs) =
     ''{'' @ join_with '','' (map (\<lambda>(k, v). quote_char # k @ [quote_char] @ '':'' @ render v) fs) @ ''}''"

text \<open>The compaction of \<open>json.Marshal\<close> also escapes the HTML characters and the two line
  separators inside the literals it copies.\<close>

fun html_lit :: "string \<Rightarrow> string" where
  "html_lit [] = []"
| "html_lit (c # s) =
     (if c = CHR ''<'' then backslash # ''u003c'' @ html_lit s
      else if c = CHR ''>'' then backslash # ''u003e'' @ html_lit s
      else if c = CHR ''&'' then backslash # ''u0026'' @ html_lit s
      else if c = CHR 0xE2 \<and> take 2 s = [CHR 0x80, CHR 0xA8] then backslash # ''u2028'' @ html_lit (drop 2 s)
      else if c = CHR 0xE2 \<and> take 2 s = [CHR 0x80, CHR 0xA9] then backslash # ''u2029'' @ html_lit (drop 2 s)
      else c # html_lit s)"

fun html_json :: "json \<Rightarrow> json" where
  "html_json (JStr b) = JStr (html_lit b)"
| "html_json (JArr vs) = JArr (map html_json vs)"
| "html_json (JObj fs) = JObj (map (\<lambda>(k, v). (html_lit k, html_json v)) fs)"
| "html_json v = v"

definition marshal :: "json \<Rightarrow> string" where
  "marshal v = render (html_json v)"

section \<open>String literals\<close>

text \<open>The length of the valid UTF-8 encoding at the start of a string, 0 if there is none.\<close>

definition is_cont :: "char \<Rightarrow> bool" where
  "is_cont c \<longleftrightarrow> 0x80 \<le> code c \<and> code c \<le> 0xBF"

fun utf8_len :: "string \<Rightarrow> nat" where
  "utf8_len [] = 0"
| "utf8_len (a # s) =
     (if code a < 0x80 then 1
      else if 0xC2 \<le> code a \<and> code a \<le> 0xDF then
        (case s of b # _ \<Rightarrow> if is_cont b then 2 else 0 | _ \<Rightarrow> 0)
      else if 0xE0 \<le> code a \<and> code a \<le> 0xEF then
        (case s of b # c # _ \<Rightarrow>
           if is_cont b \<and> is_cont c \<and> (code a = 0xE0 \<longrightarrow> 0xA0 \<le> code b) \<and>
              (code a = 0xED \<longrightarrow> code b \<le> 0x9F) then 3 else 0
         | _ \<Rightarrow> 0)
      else if 0xF0 \<le> code a \<and> code a \<le> 0xF4 then
        (case s of b # c # d # _ \<Rightarrow>
           if is_cont b \<and> is_cont c \<and> is_cont d \<and> (code a = 0xF0 \<longrightarrow> 0x90 \<le> code b) \<and>
              (code a = 0xF4 \<longrightarrow> code b \<le> 0x8F) then 4 else 0
         | _ \<Rightarrow> 0)
      else 0)"

definition encode_rune :: "int \<Rightarrow> string" where
  "encode_rune r =
     (if r < 0x80 then [char_of r]
      else if r < 0x800 then [char_of (0xC0 + r div 64), char_of (0x80 + r mod 64)]
      else if 0xD800 \<le> r \<and> r \<le> 0xDFFF then [CHR 0xEF, CHR 0xBF, CHR 0xBD]
      else if r < 0x10000 then
        [char_of (0xE0 + r div 4096), char_of (0x80 + r div 64 mod 64), char_of (0x80 + r mod 64)]
      else [char_of (0xF0 + r div 262144), char_of (0x80 + r div 4096 mod 64),
            char_of (0x80 + r div 64 mod 64), char_of (0x80 + r mod 64)])"

definition replacement_rune :: string where
  "replacement_rune = [CHR 0xEF, CHR 0xBF, CHR 0xBD]"

definition escape_value :: "char \<Rightarrow> char" where
  "escape_value d =
     (if d = CHR ''b'' then CHR 0x08 else if d = CHR ''f'' then CHR 0x0C
      else if d = CHR ''n'' then CHR 0x0A else if d = CHR ''r'' then CHR 0x0D
      else if d = CHR ''t'' then CHR 0x09 else d)"

text \<open>A \<open>\u\<close> escape: its rune and the number of further characters it uses (a surrogate pair uses
  a second escape).\<close>

definition unquote_u :: "int \<Rightarrow> string \<Rightarrow> int \<times> nat" where
  "unquote_u r s =
     (if 0xD800 \<le> r \<and> r < 0xDC00 \<and> take 2 s = [backslash, CHR ''u''] then
        (case hex4 (take 4 (drop 2 s)) of
           Some r2 \<Rightarrow> if 0xDC00 \<le> r2 \<and> r2 < 0xE000
                      then (0x10000 + (r - 0xD800) * 1024 + (r2 - 0xDC00), 6) else (r, 0)
         | None \<Rightarrow> (r, 0))
      else (r, 0))"

function unquote :: "string \<Rightarrow> string" where
  "unquote s =
     (case s of [] \<Rightarrow> []
      | c # cs \<Rightarrow>
          if c = backslash then
            (case cs of [] \<Rightarrow> []
             | d # ds \<Rightarrow>
                 if d = CHR ''u'' then
                   (case hex4 (take 4 ds) of None \<Rightarrow> []
                    | Some r \<Rightarrow> (case unquote_u r (drop 4 ds) of
                        (q, n) \<Rightarrow> encode_rune q @ unquote (drop n (drop 4 ds))))
                 else escape_value d # unquote ds)
          else if utf8_len s = 0 then replacement_rune @ unquote cs
          else take (utf8_len s) s @ unquote (drop (utf8_len s) s))"
  by pat_completeness auto
termination by (relation "measure length") (auto split: if_splits)

declare unquote.simps [simp del]

definition hex_digit :: "int \<Rightarrow> char" where
  "hex_digit n = (if n < 10 then char_of (48 + n) else char_of (87 + n))"

definition quote_byte :: "char \<Rightarrow> string" where
  "quote_byte c =
     (if c = quote_char \<or> c = backslash then [backslash, c]
      else if c = CHR 0x08 then [backslash, CHR ''b''] else if c = CHR 0x0C then [backslash, CHR ''f'']
      else if c = CHR 0x0A then [backslash, CHR ''n''] else if c = CHR 0x0D then [backslash, CHR ''r'']
      else if c = CHR 0x09 then [backslash, CHR ''t'']
      else if code c < 32 \<or> c \<in> {CHR ''<'', CHR ''>'', CHR ''&''}
      then [backslash, CHR ''u'', CHR ''0'', CHR ''0'', hex_digit (code c div 16), hex_digit (code c mod 16)]
      else [c])"

function quote :: "string \<Rightarrow> string" where
  "quote s =
     (case s of [] \<Rightarrow> []
      | c # cs \<Rightarrow>
          if code c < 0x80 then quote_byte c @ quote cs
          else if utf8_len s = 0 then backslash # ''ufffd'' @ quote cs
          else if take 3 s = [CHR 0xE2, CHR 0x80, CHR 0xA8] then backslash # ''u2028'' @ quote (drop 3 s)
          else if take 3 s = [CHR 0xE2, CHR 0x80, CHR 0xA9] then backslash # ''u2029'' @ quote (drop 3 s)
          else take (utf8_len s) s @ quote (drop (utf8_len s) s))"
  by pat_completeness auto
termination by (relation "measure length") (auto split: if_splits)

declare quote.simps [simp del]

fun valid_utf8_from :: "nat \<Rightarrow> string \<Rightarrow> bool" where
  "valid_utf8_from k [] = (k = 0)"
| "valid_utf8_from (Suc k) (c # s) = valid_utf8_from k s"
| "valid_utf8_from 0 (c # s) =
     (utf8_len (c # s) \<noteq> 0 \<and> valid_utf8_from (utf8_len (c # s) - 1) s)"

definition valid_utf8 :: "string \<Rightarrow> bool" where
  "valid_utf8 s = valid_utf8_from 0 s"

definition jstring :: "string \<Rightarrow> json" where
  "jstring s = JStr (quote s)"

section \<open>Parsing what was printed\<close>

fun wf_json :: "json \<Rightarrow> bool" where
  "wf_json JNull = True"
| "wf_json (JBool b) = True"
| "wf_json (JNum l) = (scan_num NumBegin l = Some (l, []))"
| "wf_json (JStr b) = (scan_str (b @ [quote_char]) = Some (b, []))"
| "wf_json (JArr vs) = list_all wf_json vs"
| "wf_json (JObj fs) =
     list_all (\<lambda>(k, v). scan_str (k @ [quote_char]) = Some (k, []) \<and> wf_json v) fs"

lemma hex4_length: "hex4 s \<noteq> None \<Longrightarrow> length s = 4"
  by (induction s rule: hex4.induct) auto

lemma scan_str_append: "scan_str s = Some (l, t) \<Longrightarrow> scan_str (s @ r) = Some (l, t @ r)"
proof (induction s arbitrary: l t rule: scan_str.induct)
  case (1 s)
  show ?case
  proof (cases s)
    case Nil
    then show ?thesis using "1.prems" by (simp add: scan_str.simps)
  next
    case (Cons c cs)
    show ?thesis
    proof (cases "c = backslash")
      case False
      with Cons "1.prems" "1.IH"(3) [OF Cons _ False] show ?thesis
        by (subst scan_str.simps, subst (asm) (2) scan_str.simps) (auto split: if_splits)
    next
      case True
      with Cons "1.prems" obtain d ds where cs: "cs = d # ds"
        by (cases cs) (auto simp: scan_str.simps [of "[backslash]"])
      have q: "c \<noteq> quote_char" using True by simp
      show ?thesis
      proof (cases "d = CHR ''u''")
        case u: True
        note un = scan_str.simps [of "backslash # CHR ''u'' # ds"]
        have h: "hex4 (take 4 ds) \<noteq> None"
          using "1.prems" unfolding Cons cs True u un by (auto split: if_splits)
        have len: "4 \<le> length ds" using hex4_length [OF h] by simp
        obtain l' where l': "scan_str (drop 4 ds) = Some (l', t)" "l = c # d # take 4 ds @ l'"
          using "1.prems" h True u unfolding Cons cs True u un by auto
        have "scan_str (drop 4 ds @ r) = Some (l', t @ r)"
          using "1.IH"(1) [OF Cons q True cs u h l'(1)] by simp
        with h len l'(2) show ?thesis unfolding Cons cs True u
          by (simp add: scan_str.simps [of "backslash # CHR ''u'' # ds @ r"])
      next
        case False
        obtain l' where l': "scan_str ds = Some (l', t)" "l = c # d # l'"
            "d \<in> {quote_char, backslash, CHR ''/'', CHR ''b'', CHR ''f'', CHR ''n'', CHR ''r'', CHR ''t''}"
          using "1.prems" False True unfolding Cons cs True scan_str.simps [of "backslash # d # ds"]
          by (auto split: if_splits)
        have "scan_str (ds @ r) = Some (l', t @ r)"
          using "1.IH"(2) [OF Cons q True cs False l'(3) l'(1)] .
        with False l'(2,3) show ?thesis unfolding Cons cs True
          by (simp add: scan_str.simps [of "backslash # d # ds @ r"])
      qed
    qed
  qed
qed

lemma scan_str_lit: "scan_str (b @ [quote_char]) = Some (b, []) \<Longrightarrow> scan_str (b @ quote_char # r) = Some (b, r)"
  using scan_str_append [of "b @ [quote_char]" b "[]" r] by simp

definition num_stop :: "string \<Rightarrow> bool" where
  "num_stop r \<longleftrightarrow> r = [] \<or> hd r \<in> {CHR '','', CHR '']'', CHR ''}''}"

lemma num_step_stop: "c \<in> {CHR '','', CHR '']'', CHR ''}''} \<Longrightarrow> num_step st c = None"
  by (cases st) (auto simp: is_dec_def code_def)

lemma scan_num_append:
  "scan_num st s = Some (l, []) \<Longrightarrow> num_stop r \<Longrightarrow> scan_num st (s @ r) = Some (l, r)"
proof (induction st s arbitrary: l rule: scan_num.induct)
  case (1 st)
  then show ?case using num_step_stop [of "hd r" st]
    by (cases r) (auto simp: num_stop_def split: if_splits)
next
  case (2 st c s)
  then show ?case by (auto split: option.splits if_splits)
qed

text \<open>The first character of a printed value.\<close>

definition value_start :: "char \<Rightarrow> bool" where
  "value_start c \<longleftrightarrow> c \<notin> {CHR '' '', CHR 0x09, CHR 0x0A, CHR 0x0D, CHR '']'', CHR ''}'', CHR '',''}"

lemma num_start: "scan_num NumBegin l = Some (l, []) \<Longrightarrow>
    \<exists>c s. l = c # s \<and> (c = CHR ''-'' \<or> is_dec c)"
  by (cases l) (auto simp: num_accept_def is_dec_def code_def split: if_splits)

lemma is_dec_start: "is_dec c \<Longrightarrow> value_start c \<and>
    c \<notin> {quote_char, CHR ''['', CHR ''{'', CHR ''n'', CHR ''t'', CHR ''f''}"
  by (auto simp: is_dec_def code_def value_start_def)

lemma render_start: "wf_json v \<Longrightarrow> \<exists>c s. render v = c # s \<and> value_start c"
proof (cases v)
  case (JNum l)
  assume "wf_json v"
  with JNum num_start [of l] is_dec_start show ?thesis by (auto simp: value_start_def)
qed (auto simp: value_start_def)

lemma skip_ws_start: "value_start c \<Longrightarrow> skip_ws (c # s) = c # s"
  by (auto simp: value_start_def)

lemma not_prefix_start: "c \<noteq> d \<Longrightarrow> \<not> has_prefix (c # s) (d # t)"
  by (simp add: has_prefix_def)

lemma num_first: "c = CHR ''-'' \<or> is_dec c \<Longrightarrow> value_start c \<and>
    c \<notin> {quote_char, CHR ''['', CHR ''{'', CHR ''n'', CHR ''t'', CHR ''f''}"
  by (elim disjE) (simp add: value_start_def, rule is_dec_start)

lemma parse_num:
  assumes "scan_num NumBegin l = Some (l, [])" and "num_stop r" and "n > 0"
  shows "parse_value n (l @ r) = Some (JNum l, r)"
proof -
  obtain c s where l: "l = c # s" "c = CHR ''-'' \<or> is_dec c" using num_start [OF assms(1)] by blast
  have c: "value_start c" "c \<noteq> quote_char" "c \<noteq> CHR ''[''" "c \<noteq> CHR ''{''" "c \<noteq> CHR ''n''"
      "c \<noteq> CHR ''t''" "c \<noteq> CHR ''f''"
    using num_first [OF l(2)] by blast+
  obtain m where n: "n = Suc m" using assms(3) by (cases n) auto
  have "scan_num NumBegin (c # s @ r) = Some (l, r)"
    using scan_num_append [OF assms(1,2)] l(1) by simp
  with c n l(1) show ?thesis
    by (simp add: skip_ws_start not_prefix_start del: skip_ws.simps scan_num.simps)
qed

lemma parse_elems_render:
  assumes "\<And>v r n. v \<in> set vs \<Longrightarrow> num_stop r \<Longrightarrow> 2 * length (render v) \<le> n \<Longrightarrow>
      parse_value n (render v @ r) = Some (v, r)"
    and "\<And>v. v \<in> set vs \<Longrightarrow> wf_json v" and "vs \<noteq> []"
    and "2 * length (join_with '','' (map render vs)) + 1 \<le> n"
  shows "parse_elems n (join_with '','' (map render vs) @ '']'' @ r) = Some (vs, r)"
  using assms
proof (induction vs arbitrary: n)
  case (Cons v vs)
  obtain m where n: "n = Suc m" using Cons.prems(4) by (cases n) auto
  show ?case
  proof (cases "vs = []")
    case True
    have "parse_value m (render v @ '']'' @ r) = Some (v, '']'' @ r)"
      using Cons.prems(1) [of v "'']'' @ r" m] Cons.prems(4) True n by (simp add: num_stop_def)
    then show ?thesis using True n by simp
  next
    case False
    let ?rest = "join_with '','' (map render vs) @ '']'' @ r"
    have "length (render v) \<ge> 1" using render_start [of v] Cons.prems(2) by fastforce
    moreover have j: "join_with '','' (map render (v # vs)) = render v @ '','' @ join_with '','' (map render vs)"
      using False by (simp add: join_with_Cons)
    ultimately have "parse_value m (render v @ '','' @ ?rest) = Some (v, '','' @ ?rest)"
        "parse_elems m ?rest = Some (vs, r)"
      using Cons.prems(4) n False
      by (intro Cons.prems(1) Cons.IH; simp add: num_stop_def Cons.prems(1,2))+
    then show ?thesis unfolding j n by simp
  qed
qed simp

lemma parse_fields_render:
  assumes "\<And>k v r n. (k, v) \<in> set fs \<Longrightarrow> num_stop r \<Longrightarrow> 2 * length (render v) \<le> n \<Longrightarrow>
      parse_value n (render v @ r) = Some (v, r)"
    and "\<And>k v. (k, v) \<in> set fs \<Longrightarrow> scan_str (k @ [quote_char]) = Some (k, [])" and "fs \<noteq> []"
    and "2 * length (join_with '','' (map (\<lambda>(k, v). quote_char # k @ [quote_char] @ '':'' @ render v) fs)) + 1 \<le> n"
  shows "parse_fields n (join_with '','' (map (\<lambda>(k, v). quote_char # k @ [quote_char] @ '':'' @ render v) fs)
      @ ''}'' @ r) = Some (fs, r)"
  using assms
proof (induction fs arbitrary: n)
  case (Cons f fs)
  obtain k v where f: "f = (k, v)" by (cases f)
  obtain m where n: "n = Suc m" using Cons.prems(4) by (cases n) auto
  have k: "scan_str (k @ quote_char # t) = Some (k, t)" for t
    using Cons.prems(2) [of k v] f by (simp add: scan_str_lit)
  show ?case
  proof (cases "fs = []")
    case True
    have "parse_value m (render v @ ''}'' @ r) = Some (v, ''}'' @ r)"
      using Cons.prems(1) [of k v "''}'' @ r" m] Cons.prems(4) True n f by (simp add: num_stop_def)
    then show ?thesis using True n f k by simp
  next
    case False
    let ?pr = "map (\<lambda>(k, v). quote_char # k @ [quote_char] @ '':'' @ render v)"
    let ?rest = "join_with '','' (?pr fs) @ ''}'' @ r"
    have j: "join_with '','' (?pr (f # fs)) =
        (quote_char # k @ [quote_char] @ '':'' @ render v) @ '','' @ join_with '','' (?pr fs)"
      using False f by (simp add: join_with_Cons)
    have "parse_value m (render v @ '','' @ ?rest) = Some (v, '','' @ ?rest)"
      using Cons.prems(4) n f unfolding j by (intro Cons.prems(1)) (auto simp: num_stop_def)
    moreover have "parse_fields m ?rest = Some (fs, r)"
      using Cons.prems(4) n False unfolding j by (intro Cons.IH Cons.prems(1,2)) auto
    ultimately show ?thesis unfolding j n using k f by simp
  qed
qed simp

lemma parse_value_render:
  "wf_json v \<Longrightarrow> num_stop r \<Longrightarrow> 2 * length (render v) \<le> n \<Longrightarrow> parse_value n (render v @ r) = Some (v, r)"
proof (induction v arbitrary: r n)
  case JNull
  then obtain m where "n = Suc m" by (cases n) auto
  then show ?case by (simp add: has_prefix_def)
next
  case (JBool b)
  then obtain m where "n = Suc m" by (cases n) (auto split: if_splits)
  then show ?case by (simp add: has_prefix_def)
next
  case (JNum l)
  with num_start [of l] show ?case by (intro parse_num [THEN trans]) auto
next
  case (JStr b)
  then obtain m where "n = Suc m" by (cases n) auto
  with JStr.prems(1) show ?case by (simp add: scan_str_lit)
next
  case (JArr vs)
  then obtain m where n: "n = Suc m" by (cases n) auto
  show ?case
  proof (cases "vs = []")
    case True
    then show ?thesis by (simp add: n has_prefix_def)
  next
    case False
    have e: "parse_elems m (join_with '','' (map render vs) @ '']'' @ r) = Some (vs, r)"
      using JArr n False by (intro parse_elems_render) (auto simp: list_all_iff)
    obtain v ws where vs: "vs = v # ws" using False by (cases vs) auto
    with JArr.prems(1) obtain c s where c: "render v = c # s" "value_start c"
      using render_start [of v] by auto
    then obtain t where t: "join_with '','' (map render vs) = c # t"
      using vs by (cases ws) auto
    with e c(2) show ?thesis
      by (simp add: n skip_ws_start del: skip_ws.simps(2)) (auto simp: value_start_def not_prefix_start)
  qed
next
  case (JObj fs)
  let ?pr = "map (\<lambda>(k, v). quote_char # k @ [quote_char] @ '':'' @ render v)"
  obtain m where n: "n = Suc m" using JObj.prems(3) by (cases n) auto
  show ?case
  proof (cases "fs = []")
    case True
    then show ?thesis by (simp add: n has_prefix_def)
  next
    case False
    have e: "parse_fields m (join_with '','' (?pr fs) @ ''}'' @ r) = Some (fs, r)"
      using JObj n False by (intro parse_fields_render) (fastforce simp: list_all_iff)+
    obtain k v gs where fs: "fs = (k, v) # gs" using False by (cases fs) auto
    then obtain t where t: "join_with '','' (?pr fs) = quote_char # t"
      by (cases gs) auto
    with e show ?thesis by (simp add: n has_prefix_def)
  qed
qed

theorem parse_render: "wf_json v \<Longrightarrow> parse_json (render v) = Some v"
  using parse_value_render [of v "[]" "length (render v) + length (render v) + 2"]
  by (simp add: parse_json_def num_stop_def)

section \<open>String literals decode to what was encoded\<close>

lemma code_eq_iff: "code c = code d \<longleftrightarrow> c = d"
  by (simp add: code_def)

lemma code_bounds: "0 \<le> code c \<and> code c < 256"
proof -
  have "code c = code c mod 256" by (simp add: code_def)
  then show ?thesis by (metis pos_mod_bound pos_mod_sign zero_less_numeral)
qed

lemma hex_value_digit: "0 \<le> n \<Longrightarrow> n < 16 \<Longrightarrow> hex_value (hex_digit n) = Some n"
proof -
  have "list_all (\<lambda>n. hex_value (hex_digit n) = Some n) [0..15]" by code_simp
  then show "0 \<le> n \<Longrightarrow> n < 16 \<Longrightarrow> ?thesis" by (simp add: list_all_iff)
qed

lemma hex4_byte:
  "hex4 [CHR ''0'', CHR ''0'', hex_digit (code c div 16), hex_digit (code c mod 16)] = Some (code c)"
proof -
  have "hex_value (hex_digit (code c div 16)) = Some (code c div 16)"
    "hex_value (hex_digit (code c mod 16)) = Some (code c mod 16)"
    using code_bounds [of c] by (intro hex_value_digit; linarith)+
  moreover have "hex_value (CHR ''0'') = Some 0" by (simp add: hex_value_def)
  ultimately show ?thesis by simp
qed

text \<open>Bytes that stand for themselves in a literal.\<close>

definition plain_byte :: "char \<Rightarrow> bool" where
  "plain_byte c \<longleftrightarrow> c \<noteq> quote_char \<and> c \<noteq> backslash \<and> 32 \<le> code c"

lemma plain_high: "0x80 \<le> code c \<Longrightarrow> plain_byte c"
  by (auto simp: plain_byte_def code_def)

lemma scan_str_plain:
  "\<forall>c \<in> set l. plain_byte c \<Longrightarrow>
     scan_str (l @ t) = map_option (\<lambda>(x, r). (l @ x, r)) (scan_str t)"
proof (induction l)
  case Nil
  then show ?case by (cases "scan_str t") auto
next
  case (Cons c l)
  then show ?case
    by (simp add: scan_str.simps [of "c # l @ t"] plain_byte_def option.map_comp comp_def split_def)
qed

lemma utf8_high:
  "0x80 \<le> code (hd s) \<Longrightarrow> \<forall>c \<in> set (take (utf8_len s) s). plain_byte c"
  by (cases s; cases "tl s"; cases "tl (tl s)"; cases "tl (tl (tl s))")
    (auto simp: is_cont_def intro!: plain_high split: if_splits)

lemma utf8_len_prefix:
  "utf8_len s = k \<Longrightarrow> k \<noteq> 0 \<Longrightarrow> utf8_len (take k s @ t) = k \<and> k \<le> length s"
  by (cases s; cases "tl s"; cases "tl (tl s)"; cases "tl (tl (tl s))") (auto split: if_splits)

lemma scan_str_quote_byte:
  assumes "code c < 0x80"
  shows "scan_str (quote_byte c @ t) = map_option (\<lambda>(x, r). (quote_byte c @ x, r)) (scan_str t)"
proof (cases "\<exists>d. quote_byte c = [backslash, d]")
  case True
  then obtain d where d: "quote_byte c = [backslash, d]" by blast
  then have "d \<in> {quote_char, backslash, CHR ''/'', CHR ''b'', CHR ''f'', CHR ''n'', CHR ''r'', CHR ''t''}"
      "d \<noteq> CHR ''u''"
    by (auto simp: quote_byte_def split: if_splits)
  with d show ?thesis by (simp add: scan_str.simps [of "backslash # d # t"])
next
  case False
  then consider (u) "quote_byte c = [backslash, CHR ''u'', CHR ''0'', CHR ''0'', hex_digit (code c div 16),
      hex_digit (code c mod 16)]" | (plain) "quote_byte c = [c]" "plain_byte c"
    by (auto simp: quote_byte_def plain_byte_def split: if_splits)
  then show ?thesis
  proof cases
    case u
    then show ?thesis
      by (simp add: scan_str.simps [of "backslash # CHR ''u'' # _"] hex4_byte del: hex4.simps)
  next
    case plain
    then show ?thesis using scan_str_plain [of "[c]" t] by simp
  qed
qed

lemma scan_str_u:
  "hex4 h \<noteq> None \<Longrightarrow> scan_str (backslash # CHR ''u'' # h @ t) =
     map_option (\<lambda>(x, r). (backslash # CHR ''u'' # h @ x, r)) (scan_str t)"
  using hex4_length [of h] by (auto simp: scan_str.simps [of "backslash # CHR ''u'' # _"])

lemma quote_low: "code c < 0x80 \<Longrightarrow> quote (c # s) = quote_byte c @ quote s"
  by (simp add: quote.simps [of "c # s"])

declare utf8_len.simps [simp del]

lemma quote_high:
  "s = c # cs \<Longrightarrow> \<not> code c < 0x80 \<Longrightarrow> quote s =
     (if utf8_len s = 0 then backslash # ''ufffd'' @ quote cs
      else if take 3 s = [CHR 0xE2, CHR 0x80, CHR 0xA8] then backslash # ''u2028'' @ quote (drop 3 s)
      else if take 3 s = [CHR 0xE2, CHR 0x80, CHR 0xA9] then backslash # ''u2029'' @ quote (drop 3 s)
      else take (utf8_len s) s @ quote (drop (utf8_len s) s))"
  by (subst quote.simps) simp

lemma scan_str_quote_append:
  "scan_str (quote s @ t) = map_option (\<lambda>(x, r). (quote s @ x, r)) (scan_str t)"
proof (induction s rule: quote.induct)
  case (1 s)
  show ?case
  proof (cases s)
    case Nil
    then show ?thesis by (cases "scan_str t") (auto simp: quote.simps)
  next
    case (Cons c cs)
    note high = quote_high [OF Cons]
    note comp = option.map_comp comp_def split_def
    note lits = scan_str_u [of "''fffd''"] scan_str_u [of "''2028''"] scan_str_u [of "''2029''"]
    have h: "hex4 ''fffd'' \<noteq> None" "hex4 ''2028'' \<noteq> None" "hex4 ''2029'' \<noteq> None"
      by (simp_all add: hex_value_def)
    show ?thesis
    proof (cases "code c < 0x80")
      case True
      with "1.IH"(1) [OF Cons True] show ?thesis
        unfolding Cons quote_low [OF True] by (simp add: scan_str_quote_byte [OF True] comp)
    next
      case False
      consider "utf8_len s = 0" | "utf8_len s \<noteq> 0" "take 3 s = [CHR 0xE2, CHR 0x80, CHR 0xA8]"
        | "utf8_len s \<noteq> 0" "take 3 s = [CHR 0xE2, CHR 0x80, CHR 0xA9]"
        | "utf8_len s \<noteq> 0" "take 3 s \<noteq> [CHR 0xE2, CHR 0x80, CHR 0xA8]"
          "take 3 s \<noteq> [CHR 0xE2, CHR 0x80, CHR 0xA9]" by blast
      then show ?thesis
      proof cases
        case 1
        then have "quote s = backslash # ''ufffd'' @ quote cs"
          using high [OF False] by simp
        with "1.IH"(2) [OF Cons False 1] lits(1) [OF h(1)] show ?thesis by (simp add: comp)
      next
        case 2
        then have "quote s = backslash # ''u2028'' @ quote (drop 3 s)"
          using high [OF False] by simp
        with "1.IH"(3) [OF Cons False 2] lits(2) [OF h(2)] show ?thesis by (simp add: comp)
      next
        case 3
        then have "quote s = backslash # ''u2029'' @ quote (drop 3 s)"
          using high [OF False] by simp
        with "1.IH"(4) [OF Cons False 3(1) _ 3(2)] 3 lits(3) [OF h(3)] show ?thesis by (simp add: comp)
      next
        case 4
        then have "quote s = take (utf8_len s) s @ quote (drop (utf8_len s) s)"
          using high [OF False] by simp
        moreover have "\<forall>c \<in> set (take (utf8_len s) s). plain_byte c"
          using False Cons by (intro utf8_high) simp
        ultimately show ?thesis
          using "1.IH"(5) [OF Cons False 4] scan_str_plain [of "take (utf8_len s) s"]
          by (simp add: comp)
      qed
    qed
  qed
qed

lemma scan_str_quote: "scan_str (quote s @ [quote_char]) = Some (quote s, [])"
  by (simp add: scan_str_quote_append scan_str.simps [of "[quote_char]"])

lemma utf8_low: "utf8_len (c # s) = Suc 0 \<longleftrightarrow> code c < 0x80"
  by (auto simp: utf8_len.simps split: list.splits)

lemma valid_utf8_from_drop: "valid_utf8_from k s \<Longrightarrow> k \<le> length s \<and> valid_utf8 (drop k s)"
proof (induction k s rule: valid_utf8_from.induct)
  case (3 c s)
  then show ?case by (simp add: valid_utf8_def)
qed (auto simp: valid_utf8_def)

lemma valid_utf8_Cons:
  "valid_utf8 (c # s) \<Longrightarrow> utf8_len (c # s) \<noteq> 0 \<and> valid_utf8 (drop (utf8_len (c # s)) (c # s))"
  using valid_utf8_from_drop [of "utf8_len (c # s) - 1" s]
  by (auto simp: valid_utf8_def drop_Cons')

lemma char_of_code: "char_of (code c) = c"
  by (simp add: code_def)

lemma unquote_plain_byte: "code c < 0x80 \<Longrightarrow> c \<noteq> backslash \<Longrightarrow> unquote (c # t) = c # unquote t"
  using utf8_low [of c t] by (subst unquote.simps) simp

lemma unquote_u_small: "hex4 h = Some r \<Longrightarrow> r < 0xD800 \<Longrightarrow>
    unquote (backslash # CHR ''u'' # h @ t) = encode_rune r @ unquote t"
  using hex4_length [of h] by (subst unquote.simps) (simp add: unquote_u_def)

lemma unquote_quote_byte:
  assumes "code c < 0x80"
  shows "unquote (quote_byte c @ t) = c # unquote t"
proof (cases "\<exists>d. quote_byte c = [backslash, d]")
  case True
  then obtain d where d: "quote_byte c = [backslash, d]" by blast
  then have "escape_value d = c" "d \<noteq> CHR ''u''"
    by (auto simp: quote_byte_def escape_value_def split: if_splits)
  with d show ?thesis by (simp add: unquote.simps [of "backslash # d # t"])
next
  case False
  then consider (u) "quote_byte c = [backslash, CHR ''u'', CHR ''0'', CHR ''0'', hex_digit (code c div 16),
      hex_digit (code c mod 16)]" | (plain) "quote_byte c = [c]" "c \<noteq> backslash"
    by (auto simp: quote_byte_def split: if_splits)
  then show ?thesis
  proof cases
    case u
    then show ?thesis using unquote_u_small [OF hex4_byte, of c t] assms
      by (simp add: encode_rune_def char_of_code)
  next
    case plain
    then show ?thesis using unquote_plain_byte [OF assms] by simp
  qed
qed

lemma unquote_rune:
  assumes "s = c # cs" and "\<not> code c < 0x80" and "utf8_len s \<noteq> 0"
  shows "unquote (take (utf8_len s) s @ t) = take (utf8_len s) s @ unquote t"
proof -
  let ?k = "utf8_len s"
  have k: "utf8_len (take ?k s @ t) = ?k" "?k \<le> length s"
    using utf8_len_prefix [OF refl assms(3), of t] by auto
  obtain j where j: "?k = Suc j" using assms(3) by (cases ?k) auto
  have "c \<noteq> backslash" using assms(2) by (auto simp: code_def)
  moreover have hd: "take ?k s @ t = c # take j cs @ t" using assms(1) j by simp
  moreover have "take ?k (take ?k s @ t) = take ?k s" "drop ?k (take ?k s @ t) = t"
    using k(2) by auto
  ultimately show ?thesis
    using k(1) assms(3) by (subst unquote.simps) (simp add: hd)
qed

lemma hex4_separators: "hex4 ''2028'' = Some 0x2028" "hex4 ''2029'' = Some 0x2029"
  by (simp_all add: hex_value_def)

lemma encode_separators:
  "encode_rune 0x2028 = [CHR 0xE2, CHR 0x80, CHR 0xA8]"
  "encode_rune 0x2029 = [CHR 0xE2, CHR 0x80, CHR 0xA9]"
  by code_simp+

lemma utf8_len_separator:
  assumes "take 3 s \<in> {[CHR 0xE2, CHR 0x80, CHR 0xA8], [CHR 0xE2, CHR 0x80, CHR 0xA9]}"
  shows "utf8_len s = 3"
proof -
  obtain x where x: "take 3 s = [CHR 0xE2, CHR 0x80, x]" "is_cont x"
    using assms by (auto simp: is_cont_def code_def)
  then have "s = CHR 0xE2 # CHR 0x80 # x # drop 3 s"
    using append_take_drop_id [of 3 s] by simp
  then have "utf8_len s = utf8_len (CHR 0xE2 # CHR 0x80 # x # drop 3 s)" by (rule arg_cong)
  then show ?thesis using x(2) by (simp add: utf8_len.simps is_cont_def code_def)
qed

lemma unquote_quote: "valid_utf8 s \<Longrightarrow> unquote (quote s) = s"
proof (induction s rule: quote.induct)
  case (1 s)
  show ?case
  proof (cases s)
    case Nil
    then show ?thesis by (simp add: quote.simps unquote.simps)
  next
    case (Cons c cs)
    note v = valid_utf8_Cons [OF "1.prems" [unfolded Cons], folded Cons]
    show ?thesis
    proof (cases "code c < 0x80")
      case True
      then have "valid_utf8 cs" using v utf8_low [of c cs] Cons by simp
      with "1.IH"(1) [OF Cons True] show ?thesis
        unfolding Cons quote_low [OF True] by (simp add: unquote_quote_byte [OF True])
    next
      case False
      have un: "unquote (backslash # ''u2028'' @ t) = [CHR 0xE2, CHR 0x80, CHR 0xA8] @ unquote t"
        "unquote (backslash # ''u2029'' @ t) = [CHR 0xE2, CHR 0x80, CHR 0xA9] @ unquote t" for t
        using unquote_u_small [OF hex4_separators(1), of t] unquote_u_small [OF hex4_separators(2), of t]
        by (simp_all add: encode_separators)
      consider "take 3 s = [CHR 0xE2, CHR 0x80, CHR 0xA8]"
        | "take 3 s = [CHR 0xE2, CHR 0x80, CHR 0xA9]"
        | "take 3 s \<noteq> [CHR 0xE2, CHR 0x80, CHR 0xA8]" "take 3 s \<noteq> [CHR 0xE2, CHR 0x80, CHR 0xA9]"
        by blast
      then show ?thesis
      proof cases
        case 1
        then have "unquote (quote s) = take 3 s @ unquote (quote (drop 3 s))"
          using quote_high [OF Cons False] v un(1) by simp
        also have "unquote (quote (drop 3 s)) = drop 3 s"
          using "1.IH"(3) [OF Cons False _ 1] v utf8_len_separator [of s] 1 by simp
        finally show ?thesis by simp
      next
        case 2
        then have "unquote (quote s) = take 3 s @ unquote (quote (drop 3 s))"
          using quote_high [OF Cons False] v un(2) by simp
        also have "unquote (quote (drop 3 s)) = drop 3 s"
          using "1.IH"(4) [OF Cons False _ _ 2] v utf8_len_separator [of s] 2 by simp
        finally show ?thesis by simp
      next
        case 3
        then have "quote s = take (utf8_len s) s @ quote (drop (utf8_len s) s)"
          using quote_high [OF Cons False] v by simp
        then show ?thesis
          using "1.IH"(5) [OF Cons False _ 3] v unquote_rune [OF Cons False] by simp
      qed
    qed
  qed
qed

section \<open>Values that compaction leaves alone\<close>

lemma html_lit_plain:
  "\<forall>c \<in> set l. c \<notin> {CHR ''<'', CHR ''>'', CHR ''&'', CHR 0xE2} \<Longrightarrow> html_lit (l @ t) = l @ html_lit t"
  by (induction l) auto

lemma quote_byte_html:
  assumes "code c < 0x80"
  shows "\<forall>d \<in> set (quote_byte c). d \<notin> {CHR ''<'', CHR ''>'', CHR ''&'', CHR 0xE2}"
proof -
  have "list_all (\<lambda>n. hex_digit n \<notin> {CHR ''<'', CHR ''>'', CHR ''&'', CHR 0xE2}) [0..15]" by code_simp
  then have h: "hex_digit n \<notin> {CHR ''<'', CHR ''>'', CHR ''&'', CHR 0xE2}" if "0 \<le> n" "n < 16" for n
    using that by (simp add: list_all_iff)
  have "hex_digit (code c div 16) \<notin> {CHR ''<'', CHR ''>'', CHR ''&'', CHR 0xE2}"
    "hex_digit (code c mod 16) \<notin> {CHR ''<'', CHR ''>'', CHR ''&'', CHR 0xE2}"
    using code_bounds [of c] by (intro h; linarith)+
  moreover have "c \<noteq> CHR 0xE2" using assms by (auto simp: code_def)
  ultimately show ?thesis by (auto simp: quote_byte_def)
qed

lemma utf8_tail_cont:
  "\<not> code (hd s) < 0x80 \<Longrightarrow> \<forall>c \<in> set (tl (take (utf8_len s) s)). is_cont c"
  by (cases s; cases "tl s"; cases "tl (tl s)"; cases "tl (tl (tl s))")
    (auto simp: utf8_len.simps split: if_splits)

lemma cont_html: "is_cont c \<Longrightarrow> c \<notin> {CHR ''<'', CHR ''>'', CHR ''&'', CHR 0xE2}"
  by (auto simp: is_cont_def code_def)

lemma high_html: "\<not> code c < 0x80 \<Longrightarrow> c \<notin> {CHR ''<'', CHR ''>'', CHR ''&''}"
  by (auto simp: code_def)

lemma html_lit_rune:
  assumes "s = c # cs" and "\<not> code c < 0x80" and "utf8_len s \<noteq> 0"
    and "take 3 s \<noteq> [CHR 0xE2, CHR 0x80, CHR 0xA8]" and "take 3 s \<noteq> [CHR 0xE2, CHR 0x80, CHR 0xA9]"
  shows "html_lit (take (utf8_len s) s @ t) = take (utf8_len s) s @ html_lit t"
proof -
  let ?k = "utf8_len s"
  obtain j where j: "?k = Suc j" using assms(3) by (cases ?k) auto
  have tl: "\<forall>d \<in> set (take j cs). d \<notin> {CHR ''<'', CHR ''>'', CHR ''&'', CHR 0xE2}"
    using utf8_tail_cont [of s] cont_html assms(1,2) j by auto
  have "c \<notin> {CHR ''<'', CHR ''>'', CHR ''&''}" using high_html [OF assms(2)] .
  moreover have "\<not> (c = CHR 0xE2 \<and> (take 2 (take j cs @ t) = [CHR 0x80, CHR 0xA8] \<or>
      take 2 (take j cs @ t) = [CHR 0x80, CHR 0xA9]))"
  proof (cases "c = CHR 0xE2")
    case True
    then have "j = 2 \<and> 2 \<le> length cs"
      using assms(1,3) j by (cases cs; cases "tl cs") (auto simp: utf8_len.simps code_def split: if_splits)
    then show ?thesis using assms(1,4,5) True by (simp add: numeral_3_eq_3 numeral_2_eq_2)
  qed simp
  ultimately have "html_lit (c # take j cs @ t) = c # html_lit (take j cs @ t)" by auto
  then show ?thesis using assms(1) j html_lit_plain [OF tl, of t] by simp
qed

lemma html_lit_quote_append: "html_lit (quote s @ t) = quote s @ html_lit t"
proof (induction s rule: quote.induct)
  case (1 s)
  show ?case
  proof (cases s)
    case Nil
    then show ?thesis by (simp add: quote.simps)
  next
    case (Cons c cs)
    note high = quote_high [OF Cons]
    note esc = html_lit_plain [of "backslash # ''ufffd''"] html_lit_plain [of "backslash # ''u2028''"]
      html_lit_plain [of "backslash # ''u2029''"]
    show ?thesis
    proof (cases "code c < 0x80")
      case True
      with "1.IH"(1) [OF Cons True] html_lit_plain [OF quote_byte_html [OF True]] show ?thesis
        unfolding Cons quote_low [OF True] by simp
    next
      case False
      consider "utf8_len s = 0" | "utf8_len s \<noteq> 0" "take 3 s = [CHR 0xE2, CHR 0x80, CHR 0xA8]"
        | "utf8_len s \<noteq> 0" "take 3 s = [CHR 0xE2, CHR 0x80, CHR 0xA9]"
        | "utf8_len s \<noteq> 0" "take 3 s \<noteq> [CHR 0xE2, CHR 0x80, CHR 0xA8]"
          "take 3 s \<noteq> [CHR 0xE2, CHR 0x80, CHR 0xA9]" by blast
      then show ?thesis
      proof cases
        case 1
        with "1.IH"(2) [OF Cons False 1] high [OF False] show ?thesis by simp
      next
        case 2
        with "1.IH"(3) [OF Cons False 2] high [OF False] show ?thesis by simp
      next
        case 3
        with "1.IH"(4) [OF Cons False 3(1) _ 3(2)] high [OF False] show ?thesis by simp
      next
        case 4
        with "1.IH"(5) [OF Cons False 4] high [OF False] html_lit_rune [OF Cons False 4]
        show ?thesis by simp
      qed
    qed
  qed
qed

lemma html_lit_quote: "html_lit (quote s) = quote s"
  using html_lit_quote_append [of s "[]"] by simp

definition wire_safe :: "json \<Rightarrow> bool" where
  "wire_safe v \<longleftrightarrow> wf_json v \<and> html_json v = v"

lemma wire_safe_jstring: "wire_safe (jstring s)"
  by (simp add: wire_safe_def jstring_def scan_str_quote html_lit_quote)

lemma wire_safe_JArr: "wire_safe (JArr vs) \<longleftrightarrow> list_all wire_safe vs"
  by (induction vs) (auto simp: wire_safe_def)

lemma wire_safe_obj:
  "list_all (\<lambda>(k, v). wire_safe v) fs \<Longrightarrow> wire_safe (JObj (map (\<lambda>(k, v). (quote k, v)) fs))"
  by (induction fs) (auto simp: wire_safe_def scan_str_quote html_lit_quote)

theorem parse_marshal: "wire_safe v \<Longrightarrow> parse_json (marshal v) = Some v"
  by (simp add: wire_safe_def marshal_def parse_render)

end
