(* ===== verification/Retrieval_Types.thy ===== *)
theory Retrieval_Types
  imports Complex_Main
begin

text \<open>
  The records of \<open>internal/retrieval\<close> that travel in the metadata of a chat request, and the search
  results of \<open>internal/index\<close>. A score is an exact rational where the code has a \<open>float64\<close>.
\<close>

record search_result =
  se_ChunkID :: string
  se_DocumentPath :: string
  se_Ordinal :: int
  se_StartLine :: int
  se_EndLine :: int
  se_Content :: string
  se_Score :: rat

record source_reference =
  sf_ChunkID :: string
  sf_DocumentPath :: string
  sf_StartLine :: int
  sf_EndLine :: int
  sf_Score :: rat

record compiled_context =
  cc_Text :: string
  cc_Sources :: "source_reference list"
  cc_Truncated :: bool

record retrieval_settings =
  rs_Enabled :: bool
  rs_TopK :: int
  rs_MaxContextChars :: int

record debug_metadata =
  dm_Enabled :: bool
  dm_Query :: string
  dm_Settings :: retrieval_settings
  dm_Compiled :: compiled_context

end
