(* ===== verification/Openai_Types.thy ===== *)
theory Openai_Types
  imports Go_Json Retrieval_Types
begin

text \<open>
  \<open>internal/openai\<close> (and its alias \<open>internal/chat\<close>): the chat completion request, its custom
  JSON decoding and encoding, its validation and the capabilities it needs. A
  \<open>json.RawMessage\<close> is the JSON value it spells, \<^const>\<open>None\<close> where it is empty; a Go map of
  raw messages is its list of entries with ascending keys. The \<open>messages\<close> slice is optional
  because a nil slice is printed as \<open>null\<close>. The field \<open>Metadata\<close>, a list of any values, holds the
  debug metadata of the retrieval pipeline, the only values the code puts there; it is not printed.

  The lemmas show that a request survives encoding and decoding, fields the gateway does not
  know included.
\<close>

record retrieval_options =
  ro_Enabled :: "bool option"
  ro_TopK :: "int option"
  ro_MaxContextChars :: "int option"

type_synonym raw_map = "(string \<times> json) list"

record message =
  mg_Role :: string
  mg_Content :: "json option"
  mg_Extra :: raw_map

record chat_request =
  rq_Model :: string
  rq_Messages :: "message list option"
  rq_Stream :: bool
  rq_Retrieval :: "retrieval_options option"
  rq_Metadata :: "debug_metadata list"
  rq_Extra :: raw_map

definition messages :: "chat_request \<Rightarrow> message list" where
  "messages r = (case rq_Messages r of None \<Rightarrow> [] | Some ms \<Rightarrow> ms)"

section \<open>Decoding into Go values\<close>

text \<open>Each decoder takes the value that the Go variable holds already: JSON \<open>null\<close> leaves it, and
  a duplicate key decodes into what the first one left.\<close>

definition dec_string :: "json \<Rightarrow> string \<Rightarrow> string option" where
  "dec_string v old = (case v of JStr b \<Rightarrow> Some (unquote b) | JNull \<Rightarrow> Some old | _ \<Rightarrow> None)"

definition dec_bool :: "json \<Rightarrow> bool \<Rightarrow> bool option" where
  "dec_bool v old = (case v of JBool b \<Rightarrow> Some b | JNull \<Rightarrow> Some old | _ \<Rightarrow> None)"

definition dec_int :: "json \<Rightarrow> int \<Rightarrow> int option" where
  "dec_int v old = (case v of JNum l \<Rightarrow> atoi l | JNull \<Rightarrow> Some old | _ \<Rightarrow> None)"

definition dec_pointer :: "(json \<Rightarrow> 'a \<Rightarrow> 'a option) \<Rightarrow> 'a \<Rightarrow> json \<Rightarrow> 'a option \<Rightarrow> 'a option option" where
  "dec_pointer dec zero v old =
     (if v = JNull then Some None
      else map_option Some (dec v (case old of None \<Rightarrow> zero | Some x \<Rightarrow> x)))"

fun dec_all :: "(json \<Rightarrow> 'a option) \<Rightarrow> json list \<Rightarrow> 'a list option" where
  "dec_all f [] = Some []"
| "dec_all f (v # vs) =
     (case f v of None \<Rightarrow> None | Some x \<Rightarrow> map_option (\<lambda>xs. x # xs) (dec_all f vs))"

text \<open>A struct: the keys of the object are matched to the fields, exactly or up to case.\<close>

fun dec_fields :: "(string \<Rightarrow> json \<Rightarrow> 'a \<Rightarrow> 'a option) \<Rightarrow> (string \<times> json) list \<Rightarrow> 'a \<Rightarrow> 'a option" where
  "dec_fields f [] old = Some old"
| "dec_fields f ((k, v) # fs) old =
     (case f (unquote k) v old of None \<Rightarrow> None | Some new \<Rightarrow> dec_fields f fs new)"

definition dec_struct :: "(string \<Rightarrow> json \<Rightarrow> 'a \<Rightarrow> 'a option) \<Rightarrow> json \<Rightarrow> 'a \<Rightarrow> 'a option" where
  "dec_struct f v old =
     (case v of JObj fs \<Rightarrow> dec_fields f fs old | JNull \<Rightarrow> Some old | _ \<Rightarrow> None)"

fun kv_put :: "string \<Rightarrow> json \<Rightarrow> raw_map \<Rightarrow> raw_map" where
  "kv_put k v [] = [(k, v)]"
| "kv_put k v ((k', v') # m) =
     (if k = k' then (k, v) # m
      else if k < k' then (k, v) # (k', v') # m else (k', v') # kv_put k v m)"

definition raw_fields :: "json \<Rightarrow> raw_map" where
  "raw_fields v =
     (case v of JObj fs \<Rightarrow> fold (\<lambda>(k, v). kv_put (unquote k) v) fs [] | _ \<Rightarrow> [])"

definition delete_keys :: "string list \<Rightarrow> raw_map \<Rightarrow> raw_map" where
  "delete_keys ks m = filter (\<lambda>(k, v). k \<notin> set ks) m"

definition has_key :: "string \<Rightarrow> raw_map \<Rightarrow> bool" where
  "has_key k m \<longleftrightarrow> map_of m k \<noteq> None"

section \<open>Messages\<close>

definition zero_message :: message where
  "zero_message = \<lparr>mg_Role = [], mg_Content = None, mg_Extra = []\<rparr>"

definition message_field :: "string \<Rightarrow> json \<Rightarrow> message \<Rightarrow> message option" where
  "message_field k v m =
     (if equal_fold_ascii k ''role'' then map_option (\<lambda>s. m\<lparr>mg_Role := s\<rparr>) (dec_string v (mg_Role m))
      else if equal_fold_ascii k ''content'' then Some (m\<lparr>mg_Content := Some v\<rparr>)
      else Some m)"

definition unmarshal_message :: "json \<Rightarrow> message option" where
  "unmarshal_message v =
     map_option (\<lambda>m. m\<lparr>mg_Extra := delete_keys [''role'', ''content''] (raw_fields v)\<rparr>)
       (dec_struct message_field v zero_message)"

definition raw_or_null :: "json option \<Rightarrow> json" where
  "raw_or_null c = (case c of None \<Rightarrow> JNull | Some v \<Rightarrow> v)"

definition marshal_object :: "(string \<times> json) list \<Rightarrow> raw_map \<Rightarrow> json" where
  "marshal_object known extra = JObj (map (\<lambda>(k, v). (quote k, v)) (known @ extra))"

definition marshal_message :: "message \<Rightarrow> json" where
  "marshal_message m =
     marshal_object [(''role'', jstring (mg_Role m)), (''content'', raw_or_null (mg_Content m))]
       (mg_Extra m)"

section \<open>Requests\<close>

definition zero_retrieval :: retrieval_options where
  "zero_retrieval = \<lparr>ro_Enabled = None, ro_TopK = None, ro_MaxContextChars = None\<rparr>"

definition retrieval_field :: "string \<Rightarrow> json \<Rightarrow> retrieval_options \<Rightarrow> retrieval_options option" where
  "retrieval_field k v r =
     (if equal_fold_ascii k ''enabled''
      then map_option (\<lambda>x. r\<lparr>ro_Enabled := x\<rparr>) (dec_pointer dec_bool False v (ro_Enabled r))
      else if equal_fold_ascii k ''top_k''
      then map_option (\<lambda>x. r\<lparr>ro_TopK := x\<rparr>) (dec_pointer dec_int 0 v (ro_TopK r))
      else if equal_fold_ascii k ''max_context_chars''
      then map_option (\<lambda>x. r\<lparr>ro_MaxContextChars := x\<rparr>) (dec_pointer dec_int 0 v (ro_MaxContextChars r))
      else Some r)"

definition dec_messages :: "json \<Rightarrow> message list option option" where
  "dec_messages v =
     (case v of JArr vs \<Rightarrow> map_option Some (dec_all unmarshal_message vs)
      | JNull \<Rightarrow> Some None | _ \<Rightarrow> None)"

definition zero_request :: chat_request where
  "zero_request = \<lparr>rq_Model = [], rq_Messages = None, rq_Stream = False, rq_Retrieval = None,
     rq_Metadata = [], rq_Extra = []\<rparr>"

definition request_field :: "string \<Rightarrow> json \<Rightarrow> chat_request \<Rightarrow> chat_request option" where
  "request_field k v r =
     (if equal_fold_ascii k ''model''
      then map_option (\<lambda>x. r\<lparr>rq_Model := x\<rparr>) (dec_string v (rq_Model r))
      else if equal_fold_ascii k ''messages''
      then map_option (\<lambda>x. r\<lparr>rq_Messages := x\<rparr>) (dec_messages v)
      else if equal_fold_ascii k ''stream''
      then map_option (\<lambda>x. r\<lparr>rq_Stream := x\<rparr>) (dec_bool v (rq_Stream r))
      else if equal_fold_ascii k ''retrieval''
      then map_option (\<lambda>x. r\<lparr>rq_Retrieval := x\<rparr>)
             (dec_pointer (dec_struct retrieval_field) zero_retrieval v (rq_Retrieval r))
      else Some r)"

definition unmarshal_request :: "json \<Rightarrow> chat_request option" where
  "unmarshal_request v =
     map_option (\<lambda>r. r\<lparr>rq_Metadata := [], rq_Extra :=
         delete_keys [''model'', ''messages'', ''stream'', ''retrieval''] (raw_fields v)\<rparr>)
       (dec_struct request_field v zero_request)"

text \<open>\<open>json.Unmarshal(body, &request)\<close>.\<close>

definition decode_request :: "string \<Rightarrow> chat_request option" where
  "decode_request body =
     (case parse_json body of None \<Rightarrow> None | Some v \<Rightarrow> unmarshal_request v)"

definition opt_field :: "string \<Rightarrow> ('a \<Rightarrow> json) \<Rightarrow> 'a option \<Rightarrow> (string \<times> json) list" where
  "opt_field k f x = (case x of None \<Rightarrow> [] | Some y \<Rightarrow> [(k, f y)])"

definition marshal_retrieval :: "retrieval_options \<Rightarrow> json" where
  "marshal_retrieval r = marshal_object
     (opt_field ''enabled'' JBool (ro_Enabled r) @
      opt_field ''top_k'' (\<lambda>i. JNum (itoa i)) (ro_TopK r) @
      opt_field ''max_context_chars'' (\<lambda>i. JNum (itoa i)) (ro_MaxContextChars r)) []"

definition marshal_messages :: "message list option \<Rightarrow> json" where
  "marshal_messages ms = (case ms of None \<Rightarrow> JNull | Some xs \<Rightarrow> JArr (map marshal_message xs))"

definition marshal_request :: "chat_request \<Rightarrow> json" where
  "marshal_request r = marshal_object
     ([(''model'', jstring (rq_Model r)), (''messages'', marshal_messages (rq_Messages r))] @
      (if rq_Stream r then [(''stream'', JBool True)] else []) @
      opt_field ''retrieval'' marshal_retrieval (rq_Retrieval r)) (rq_Extra r)"

text \<open>\<open>json.Marshal(request)\<close>.\<close>

definition encode_request :: "chat_request \<Rightarrow> string" where
  "encode_request r = marshal (marshal_request r)"

section \<open>Validation\<close>

datatype request_error =
    ModelEmpty
  | MessagesEmpty
  | RoleInvalid nat
  | ContentMissing nat
  | ContentNull nat
  | ContentEmpty nat
  | RequestTopKInvalid
  | RequestMaxContextCharsInvalid

definition validRole :: "string \<Rightarrow> bool" where
  "validRole role \<longleftrightarrow> role \<in> set [''system'', ''developer'', ''user'', ''assistant'', ''tool'']"

text \<open>A raw content that came from the decoder is valid JSON, so the branch for invalid JSON
  does not arise.\<close>

definition validateMessageContent :: "nat \<Rightarrow> message \<Rightarrow> request_error option" where
  "validateMessageContent idx m =
     (case mg_Content m of
        None \<Rightarrow> if has_key ''tool_calls'' (mg_Extra m) then None else Some (ContentMissing idx)
      | Some JNull \<Rightarrow> if has_key ''tool_calls'' (mg_Extra m) then None else Some (ContentNull idx)
      | Some (JStr b) \<Rightarrow> if trim_space (unquote b) = [] then Some (ContentEmpty idx) else None
      | Some _ \<Rightarrow> None)"

definition validate_message :: "nat \<Rightarrow> message \<Rightarrow> request_error option" where
  "validate_message idx m =
     (if \<not> validRole (mg_Role m) then Some (RoleInvalid idx) else validateMessageContent idx m)"

definition ValidateChatCompletionRequest :: "chat_request \<Rightarrow> request_error option" where
  "ValidateChatCompletionRequest r =
     (if trim_space (rq_Model r) = [] then Some ModelEmpty
      else if messages r = [] then Some MessagesEmpty
      else (case first_error validate_message (messages r) of
              Some e \<Rightarrow> Some e
            | None \<Rightarrow>
                (case rq_Retrieval r of None \<Rightarrow> None
                 | Some ro \<Rightarrow>
                     if (case ro_TopK ro of None \<Rightarrow> False | Some k \<Rightarrow> k < 1) then Some RequestTopKInvalid
                     else if (case ro_MaxContextChars ro of None \<Rightarrow> False | Some k \<Rightarrow> k < 1)
                     then Some RequestMaxContextCharsInvalid
                     else None)))"

definition MessageText :: "message \<Rightarrow> string option" where
  "MessageText m = (case mg_Content m of None \<Rightarrow> None | Some v \<Rightarrow> dec_string v [])"

section \<open>Required capabilities\<close>

definition requestUsesTools :: "chat_request \<Rightarrow> bool" where
  "requestUsesTools r \<longleftrightarrow>
     (case map_of (rq_Extra r) ''tools'' of Some (JArr vs) \<Rightarrow> vs \<noteq> [] | _ \<Rightarrow> False) \<or>
     (case map_of (rq_Extra r) ''tool_choice'' of
        None \<Rightarrow> False
      | Some (JStr b) \<Rightarrow> trim_space (unquote b) \<noteq> [] \<and> trim_space (unquote b) \<noteq> ''none''
      | Some JNull \<Rightarrow> False
      | Some _ \<Rightarrow> True)"

definition part_field :: "string \<Rightarrow> json \<Rightarrow> string \<Rightarrow> string option" where
  "part_field k v t = (if equal_fold_ascii k ''type'' then dec_string v t else Some t)"

definition decodeContentParts :: "json option \<Rightarrow> string list option" where
  "decodeContentParts c =
     (case c of Some (JArr vs) \<Rightarrow> dec_all (\<lambda>v. dec_struct part_field v []) vs | _ \<Rightarrow> None)"

definition requestUsesMultimodal :: "chat_request \<Rightarrow> bool" where
  "requestUsesMultimodal r \<longleftrightarrow>
     list_ex (\<lambda>m. case decodeContentParts (mg_Content m) of
         None \<Rightarrow> False
       | Some ts \<Rightarrow> list_ex (\<lambda>t. normalize_string t \<noteq> ''text'') ts) (messages r)"

definition RequiredCapabilities :: "chat_request \<Rightarrow> string list" where
  "RequiredCapabilities r =
     (if requestUsesMultimodal r then [''multimodal''] else []) @
     (if requestUsesTools r then [''tool_calling''] else [])"

section \<open>Laws of raw maps\<close>

definition raw_map_ok :: "raw_map \<Rightarrow> bool" where
  "raw_map_ok m \<longleftrightarrow> sorted_wrt (<) (map fst m)"

lemma raw_map_ok_distinct: "raw_map_ok m \<Longrightarrow> distinct (map fst m)"
  by (simp add: raw_map_ok_def strict_sorted_iff)

lemma kv_put_keys: "set (map fst (kv_put k v m)) = insert k (set (map fst m))"
  by (induction k v m rule: kv_put.induct) auto

lemma kv_put_ok: "raw_map_ok m \<Longrightarrow> raw_map_ok (kv_put k v m)"
  unfolding raw_map_ok_def
proof (induction k v m rule: kv_put.induct)
  case (2 k v k' v' m)
  then show ?case using kv_put_keys [of k v m] by auto
qed simp

lemma map_of_kv_put: "map_of (kv_put k v m) = (map_of m)(k \<mapsto> v)"
  by (induction k v m rule: kv_put.induct) (auto simp: fun_eq_iff)

lemma raw_map_unique:
  assumes "raw_map_ok m" and "raw_map_ok n" and "map_of m = map_of n"
  shows "m = n"
proof -
  have "set m = set n"
    using assms map_of_inject_set raw_map_ok_distinct by blast
  moreover have "inj_on fst (set m)" using raw_map_ok_distinct [OF assms(1)] by (simp add: distinct_map)
  ultimately show ?thesis
    using assms(1,2) map_sorted_distinct_set_unique [of fst m n]
    by (simp add: raw_map_ok_def strict_sorted_iff)
qed

text \<open>A raw map is a keyed store.\<close>

interpretation raw_entries: keyed_store "map_of :: raw_map \<Rightarrow> string \<Rightarrow> json option" kv_put
  by unfold_locales (simp_all add: map_of_kv_put)

lemma fold_kv_put:
  "distinct (map fst fs) \<Longrightarrow> raw_map_ok m \<Longrightarrow> set (map fst fs) \<inter> set (map fst m) = {} \<Longrightarrow>
     raw_map_ok (fold (\<lambda>(k, v). kv_put k v) fs m) \<and>
     map_of (fold (\<lambda>(k, v). kv_put k v) fs m) = map_of m ++ map_of fs"
proof (induction fs arbitrary: m)
  case (Cons f fs)
  obtain k v where f: "f = (k, v)" by (cases f)
  have "raw_map_ok (fold (\<lambda>(k, v). kv_put k v) fs (kv_put k v m)) \<and>
      map_of (fold (\<lambda>(k, v). kv_put k v) fs (kv_put k v m)) = map_of (kv_put k v m) ++ map_of fs"
    using Cons.prems f kv_put_keys [of k v m] by (intro Cons.IH) (auto simp: kv_put_ok)
  moreover have "(map_of m)(k \<mapsto> v) ++ map_of fs = map_of m ++ (map_of fs)(k \<mapsto> v)"
  proof -
    have "map_of fs k = None" using Cons.prems(1) f by (simp add: map_of_eq_None_iff)
    then show ?thesis by (auto simp: fun_eq_iff map_add_def split: option.split)
  qed
  moreover have "map_of (f # fs) = (map_of fs)(k \<mapsto> v)" using f by simp
  ultimately show ?case using f by (simp only: fold_simps split map_of_kv_put)
qed simp

lemma delete_keys_ok: "raw_map_ok m \<Longrightarrow> raw_map_ok (delete_keys ks m)"
  unfolding raw_map_ok_def delete_keys_def
  by (induction m) (auto simp: sorted_wrt_append)

lemma map_of_delete_keys: "map_of (delete_keys ks m) k = (if k \<in> set ks then None else map_of m k)"
  unfolding delete_keys_def by (induction m) auto

text \<open>Decoding the fields of an encoded object returns the extra fields.\<close>

lemma raw_fields_marshal:
  assumes "raw_map_ok extra" and "\<forall>k \<in> set (map fst (known @ extra)). valid_utf8 k"
    and "distinct (map fst known)" and "set (map fst known) \<inter> set (map fst extra) = {}"
    and "set (map fst known) \<subseteq> set ks" and "set ks \<inter> set (map fst extra) = {}"
  shows "delete_keys ks (raw_fields (marshal_object known extra)) = extra"
proof -
  let ?fs = "known @ extra"
  have "fold (\<lambda>(k, v). kv_put (unquote k) v) (map (\<lambda>(k, v). (quote k, v)) fs) m =
      fold (\<lambda>(k, v). kv_put k v) fs m" if "\<forall>k \<in> set (map fst fs). valid_utf8 k" for fs m
    using that by (induction fs arbitrary: m) (auto simp: unquote_quote)
  then have r: "raw_fields (marshal_object known extra) = fold (\<lambda>(k, v). kv_put k v) ?fs []"
    using assms(2) by (simp add: raw_fields_def marshal_object_def)
  have d: "distinct (map fst ?fs)" using assms raw_map_ok_distinct by auto
  have f: "raw_map_ok (fold (\<lambda>(k, v). kv_put k v) ?fs [])"
      "map_of (fold (\<lambda>(k, v). kv_put k v) ?fs []) = map_of ?fs"
    using fold_kv_put [OF d, of "[]"] by (auto simp: raw_map_ok_def)
  have "map_of (delete_keys ks (fold (\<lambda>(k, v). kv_put k v) ?fs [])) = map_of extra"
  proof
    fix k
    show "map_of (delete_keys ks (fold (\<lambda>(k, v). kv_put k v) ?fs [])) k = map_of extra k"
    proof (cases "k \<in> set ks")
      case True
      then have "k \<notin> set (map fst extra)" using assms(6) by blast
      with True show ?thesis
        by (metis map_of_delete_keys map_of_eq_None_iff set_map)
    next
      case False
      then have "k \<notin> set (map fst known)" using assms(5) by blast
      then have "map_of known k = None" by (simp add: map_of_eq_None_iff)
      with False show ?thesis
        by (simp only: map_of_delete_keys f(2) map_of_append if_False)
          (simp add: map_add_def split: option.split)
    qed
  qed
  then show ?thesis
    using raw_map_unique [OF delete_keys_ok [OF f(1)] assms(1)] r by simp
qed

section \<open>Requests survive the wire\<close>

lemma dec_fields_append:
  "dec_fields f (xs @ ys) a = (case dec_fields f xs a of None \<Rightarrow> None | Some b \<Rightarrow> dec_fields f ys b)"
  by (induction xs arbitrary: a) (auto split: option.splits)

lemma dec_fields_skip:
  "\<forall>(k, v) \<in> set fs. f (unquote k) v a = Some a \<Longrightarrow> dec_fields f fs a = Some a"
  by (induction fs) auto

lemma dec_fields_known:
  assumes "\<forall>(k, v) \<in> set extra. valid_utf8 k \<and> (\<forall>a. f k v a = Some a)"
    and "\<forall>(k, v) \<in> set known. valid_utf8 k"
  shows "dec_struct f (marshal_object known extra) a =
     fold (\<lambda>(k, v) r. case r of None \<Rightarrow> None | Some b \<Rightarrow> f k v b) known (Some a)"
proof -
  have none: "fold (\<lambda>(k, v) r. case r of None \<Rightarrow> None | Some b \<Rightarrow> f k v b) xs None = None" for xs
    by (induction xs) auto
  have "dec_fields f (map (\<lambda>(k, v). (quote k, v)) known) a =
      fold (\<lambda>(k, v) r. case r of None \<Rightarrow> None | Some b \<Rightarrow> f k v b) known (Some a)" for a
    using assms(2) by (induction known arbitrary: a) (auto simp: unquote_quote none split: option.split)
  moreover have "dec_fields f (map (\<lambda>(k, v). (quote k, v)) extra) b = Some b" for b
    using assms(1) by (intro dec_fields_skip) (auto simp: unquote_quote)
  ultimately show ?thesis
    by (simp add: dec_struct_def marshal_object_def dec_fields_append split: option.split)
qed

lemma fold_refl: "equal_fold_ascii k k"
  by (simp add: equal_fold_ascii_def)

text \<open>Extra fields: keys in order, valid UTF-8, and none that Go would match with a field.\<close>

definition extra_ok :: "string list \<Rightarrow> raw_map \<Rightarrow> bool" where
  "extra_ok reserved m \<longleftrightarrow> raw_map_ok m \<and>
     (\<forall>(k, v) \<in> set m. valid_utf8 k \<and> (\<forall>n \<in> set reserved. \<not> equal_fold_ascii k n))"

lemma extra_ok_disjoint: "extra_ok reserved m \<Longrightarrow> set reserved \<inter> set (map fst m) = {}"
  using fold_refl by (fastforce simp: extra_ok_def)

definition message_ok :: "message \<Rightarrow> bool" where
  "message_ok m \<longleftrightarrow> valid_utf8 (mg_Role m) \<and> mg_Content m \<noteq> None \<and>
     extra_ok [''role'', ''content''] (mg_Extra m)"

lemma known_utf8:
  "list_all valid_utf8 [''role'', ''content'', ''model'', ''messages'', ''stream'', ''retrieval'',
     ''enabled'', ''top_k'', ''max_context_chars'']"
  by code_simp

lemma known_folds:
  "\<not> equal_fold_ascii ''content'' ''role''" "\<not> equal_fold_ascii ''messages'' ''model''"
  "\<not> equal_fold_ascii ''stream'' ''model''" "\<not> equal_fold_ascii ''stream'' ''messages''"
  "\<not> equal_fold_ascii ''retrieval'' ''model''" "\<not> equal_fold_ascii ''retrieval'' ''messages''"
  "\<not> equal_fold_ascii ''retrieval'' ''stream''" "\<not> equal_fold_ascii ''top_k'' ''enabled''"
  "\<not> equal_fold_ascii ''max_context_chars'' ''enabled''"
  "\<not> equal_fold_ascii ''max_context_chars'' ''top_k''"
  by code_simp+

lemma unmarshal_marshal_message: "message_ok m \<Longrightarrow> unmarshal_message (marshal_message m) = Some m"
proof -
  assume ok: "message_ok m"
  then obtain c where c: "mg_Content m = Some c" by (auto simp: message_ok_def)
  have x: "extra_ok [''role'', ''content''] (mg_Extra m)" using ok by (simp add: message_ok_def)
  have "dec_struct message_field (marshal_message m) zero_message =
      Some (zero_message\<lparr>mg_Role := mg_Role m, mg_Content := Some c\<rparr>)"
    unfolding marshal_message_def
    by (subst dec_fields_known)
      (use ok x c known_utf8 known_folds in \<open>auto simp: extra_ok_def message_field_def fold_refl message_ok_def
        jstring_def dec_string_def unquote_quote raw_or_null_def zero_message_def\<close>)
  moreover have "delete_keys [''role'', ''content''] (raw_fields (marshal_message m)) = mg_Extra m"
    unfolding marshal_message_def
    by (rule raw_fields_marshal)
      (use x extra_ok_disjoint [OF x] known_utf8 in \<open>auto simp: extra_ok_def\<close>)
  ultimately show ?thesis by (simp add: unmarshal_message_def zero_message_def c)
qed

text \<open>Decimal integers.\<close>

definition go_int :: "int \<Rightarrow> bool" where
  "go_int i \<longleftrightarrow> - (2 ^ 63) \<le> i \<and> i < 2 ^ 63"

lemma digit_char:
  "n < 10 \<Longrightarrow> is_dec (char_of (48 + n)) \<and> (char_of (48 + n) = CHR ''0'' \<longleftrightarrow> n = 0)" for n :: nat
proof -
  have "list_all (\<lambda>n. is_dec (char_of (48 + n)) \<and> (char_of (48 + n) = CHR ''0'' \<longleftrightarrow> n = 0)) [0..<10]"
    by code_simp
  then show "n < 10 \<Longrightarrow> ?thesis" by (simp add: list_all_iff)
qed

lemma nat_str_head: "\<exists>c s. nat_str n = c # s \<and> is_dec c \<and> (c = CHR ''0'' \<longrightarrow> n = 0 \<and> s = [])"
proof (induction n rule: nat_str.induct)
  case (1 n)
  show ?case
  proof (cases "n < 10")
    case True
    then show ?thesis using digit_char [of n] by (simp add: nat_str.simps [of n])
  next
    case False
    then have n: "nat_str n = nat_str (n div 10) @ [char_of (48 + n mod 10)]"
      by (simp add: nat_str.simps [of n])
    from 1 False obtain c s where "nat_str (n div 10) = c # s" "is_dec c"
        "c = CHR ''0'' \<longrightarrow> n div 10 = 0" by blast
    with False n show ?thesis by auto
  qed
qed

lemma nat_str_digits: "\<forall>c \<in> set (nat_str n). is_dec c"
proof (induction n rule: nat_str.induct)
  case (1 n)
  then show ?case using digit_char [of n] digit_char [of "n mod 10"]
    by (cases "n < 10") (simp_all add: nat_str.simps [of n])
qed

lemma dec_not_sign: "is_dec c \<Longrightarrow> c \<noteq> CHR ''-'' \<and> c \<noteq> CHR ''+''"
  by (auto simp: is_dec_def code_def)

lemma atoi_itoa: "go_int i \<Longrightarrow> atoi (itoa i) = Some i"
proof -
  assume i: "go_int i"
  obtain c s where c: "nat_str (nat i) = c # s" "is_dec c" using nat_str_head [of "nat i"] by blast
  have "\<not> has_prefix (c # s) ''-''" "\<not> has_prefix (c # s) ''+''"
    using dec_not_sign [OF c(2)] by (simp_all add: not_prefix_start)
  moreover have "nat_str (nat (- i)) \<noteq> []" using nat_str_head [of "nat (- i)"] by auto
  ultimately show ?thesis
    using i c(1) parse_nat_str [of "nat i"] parse_nat_str [of "nat (- i)"]
    by (cases "i < 0") (auto simp: atoi_def itoa_def go_int_def has_prefix_def Let_def)
qed

lemma scan_digits: "num_accept st \<Longrightarrow> st = Num1 \<Longrightarrow> \<forall>c \<in> set s. is_dec c \<Longrightarrow> scan_num st s = Some (s, [])"
  by (induction s) auto

lemma scan_nat_str:
  assumes "st = NumBegin \<or> st = NumNeg"
  shows "scan_num st (nat_str n) = Some (nat_str n, [])"
proof -
  obtain c s where c: "nat_str n = c # s" "is_dec c" "c = CHR ''0'' \<longrightarrow> s = []"
    using nat_str_head [of n] by blast
  have "scan_num Num1 s = Some (s, [])"
    using nat_str_digits [of n] c(1) by (intro scan_digits) (auto simp: num_accept_def)
  then have "scan_num NumBegin (c # s) = Some (c # s, [])" "scan_num NumNeg (c # s) = Some (c # s, [])"
    using c(2,3) dec_not_sign [OF c(2)]
    by (cases "c = CHR ''0''"; simp add: num_accept_def)+
  with assms c(1) show ?thesis by metis
qed

lemma scan_itoa: "scan_num NumBegin (itoa i) = Some (itoa i, [])"
  by (simp add: itoa_def scan_nat_str)

definition opt_all :: "('a \<Rightarrow> bool) \<Rightarrow> 'a option \<Rightarrow> bool" where
  "opt_all p x = (case x of None \<Rightarrow> True | Some y \<Rightarrow> p y)"

lemma opt_all_simps [simp]: "opt_all p None" "opt_all p (Some y) = p y"
  by (simp_all add: opt_all_def)

definition retrieval_ok :: "retrieval_options \<Rightarrow> bool" where
  "retrieval_ok r \<longleftrightarrow> opt_all go_int (ro_TopK r) \<and> opt_all go_int (ro_MaxContextChars r)"

lemma unmarshal_marshal_retrieval:
  assumes "retrieval_ok r"
  shows "dec_struct retrieval_field (marshal_retrieval r) zero_retrieval = Some r"
proof -
  obtain e k m where r: "r = \<lparr>ro_Enabled = e, ro_TopK = k, ro_MaxContextChars = m\<rparr>"
    by (cases r) auto
  have kv: "\<forall>(x, v) \<in> set (opt_field ''enabled'' JBool (ro_Enabled r) @
      opt_field ''top_k'' (\<lambda>i. JNum (itoa i)) (ro_TopK r) @
      opt_field ''max_context_chars'' (\<lambda>i. JNum (itoa i)) (ro_MaxContextChars r)). valid_utf8 x"
    using known_utf8 by (auto simp: opt_field_def split: option.splits)
  have "dec_struct retrieval_field (marshal_retrieval r) zero_retrieval =
      fold (\<lambda>(x, v) q. case q of None \<Rightarrow> None | Some b \<Rightarrow> retrieval_field x v b)
        (opt_field ''enabled'' JBool (ro_Enabled r) @
         opt_field ''top_k'' (\<lambda>i. JNum (itoa i)) (ro_TopK r) @
         opt_field ''max_context_chars'' (\<lambda>i. JNum (itoa i)) (ro_MaxContextChars r)) (Some zero_retrieval)"
    unfolding marshal_retrieval_def by (rule dec_fields_known [OF _ kv]) simp
  also have "\<dots> = Some r"
    using assms known_folds unfolding r
    by (cases e; cases k; cases m)
      (simp_all add: opt_field_def retrieval_field_def fold_refl zero_retrieval_def dec_pointer_def
        dec_bool_def dec_int_def atoi_itoa retrieval_ok_def)
  finally show ?thesis .
qed

definition request_ok :: "chat_request \<Rightarrow> bool" where
  "request_ok r \<longleftrightarrow> valid_utf8 (rq_Model r) \<and> list_all message_ok (messages r) \<and>
     opt_all retrieval_ok (rq_Retrieval r) \<and> rq_Metadata r = [] \<and>
     extra_ok [''model'', ''messages'', ''stream'', ''retrieval''] (rq_Extra r)"

lemma dec_messages_marshal:
  "list_all message_ok (messages r) \<Longrightarrow> dec_messages (marshal_messages (rq_Messages r)) = Some (rq_Messages r)"
proof -
  have "list_all message_ok ms \<Longrightarrow> dec_all unmarshal_message (map marshal_message ms) = Some ms" for ms
    by (induction ms) (simp_all add: unmarshal_marshal_message)
  then show "list_all message_ok (messages r) \<Longrightarrow> ?thesis"
    by (auto simp: dec_messages_def marshal_messages_def messages_def split: option.split)
qed

lemma unmarshal_marshal_request: "request_ok r \<Longrightarrow> unmarshal_request (marshal_request r) = Some r"
proof -
  assume ok: "request_ok r"
  let ?known = "[(''model'', jstring (rq_Model r)), (''messages'', marshal_messages (rq_Messages r))] @
      (if rq_Stream r then [(''stream'', JBool True)] else []) @
      opt_field ''retrieval'' marshal_retrieval (rq_Retrieval r)"
  have x: "extra_ok [''model'', ''messages'', ''stream'', ''retrieval''] (rq_Extra r)"
    using ok by (simp add: request_ok_def)
  have kv: "\<forall>(x, v) \<in> set ?known. valid_utf8 x"
    using known_utf8 by (auto simp: opt_field_def split: option.splits)
  have xs: "\<forall>(k, v) \<in> set (rq_Extra r). valid_utf8 k \<and> (\<forall>a. request_field k v a = Some a)"
    using x by (auto simp: extra_ok_def request_field_def)
  have "dec_struct request_field (marshal_request r) zero_request =
      fold (\<lambda>(x, v) q. case q of None \<Rightarrow> None | Some b \<Rightarrow> request_field x v b) ?known (Some zero_request)"
    unfolding marshal_request_def by (rule dec_fields_known [OF xs kv])
  also have "\<dots> = Some (r\<lparr>rq_Extra := []\<rparr>)"
  proof -
    have m: "dec_messages (marshal_messages (rq_Messages r)) = Some (rq_Messages r)"
      using ok dec_messages_marshal by (simp add: request_ok_def)
    have u: "dec_string (jstring (rq_Model r)) [] = Some (rq_Model r)"
      using ok by (simp add: request_ok_def jstring_def dec_string_def unquote_quote)
    have t: "ro = None \<or> dec_pointer (dec_struct retrieval_field) zero_retrieval (marshal_retrieval (the ro)) None = Some ro"
      if "opt_all retrieval_ok ro" for ro
      using that unmarshal_marshal_retrieval
      by (cases ro) (auto simp: dec_pointer_def marshal_retrieval_def marshal_object_def)
    show ?thesis
      using ok m u t [of "rq_Retrieval r"] known_folds
      by (cases "rq_Stream r"; cases "rq_Retrieval r")
        (simp_all add: request_field_def fold_refl zero_request_def opt_field_def dec_bool_def request_ok_def)
  qed
  finally have d: "dec_struct request_field (marshal_request r) zero_request = Some (r\<lparr>rq_Extra := []\<rparr>)" .
  let ?reserved = "[''model'', ''messages'', ''stream'', ''retrieval'']"
  have sub: "set (map fst ?known) \<subseteq> set ?reserved"
    by (auto simp: opt_field_def split: option.splits)
  have dis: "distinct (map fst ?known)" by (auto simp: opt_field_def split: option.splits)
  have utf: "\<forall>k \<in> set (map fst (?known @ rq_Extra r)). valid_utf8 k"
    unfolding map_append set_append using kv xs by fastforce
  have "set (map fst ?known) \<inter> set (map fst (rq_Extra r)) = {}"
    using sub extra_ok_disjoint [OF x] by blast
  then have "delete_keys ?reserved (raw_fields (marshal_request r)) = rq_Extra r"
    unfolding marshal_request_def using x
    by (intro raw_fields_marshal utf dis sub extra_ok_disjoint [OF x]) (simp_all add: extra_ok_def)
  with d ok show ?thesis by (simp add: unmarshal_request_def request_ok_def)
qed

definition message_wire :: "message \<Rightarrow> bool" where
  "message_wire m \<longleftrightarrow> opt_all wire_safe (mg_Content m) \<and> list_all (\<lambda>(k, v). wire_safe v) (mg_Extra m)"

definition request_wire :: "chat_request \<Rightarrow> bool" where
  "request_wire r \<longleftrightarrow> list_all message_wire (messages r) \<and> list_all (\<lambda>(k, v). wire_safe v) (rq_Extra r)"

lemma wire_safe_object:
  "list_all (\<lambda>(k, v). wire_safe v) known \<Longrightarrow> list_all (\<lambda>(k, v). wire_safe v) extra \<Longrightarrow>
     wire_safe (marshal_object known extra)"
  unfolding marshal_object_def by (rule wire_safe_obj) simp

lemma wire_safe_message: "message_wire m \<Longrightarrow> wire_safe (marshal_message m)"
  unfolding marshal_message_def message_wire_def
  by (rule wire_safe_object)
    (auto simp: wire_safe_jstring raw_or_null_def split: option.split, simp add: wire_safe_def)

lemma wire_safe_retrieval: "wire_safe (marshal_retrieval r)"
  unfolding marshal_retrieval_def
  by (rule wire_safe_object) (auto simp: opt_field_def wire_safe_def scan_itoa split: option.split)

lemma wire_safe_request: "request_wire r \<Longrightarrow> wire_safe (marshal_request r)"
proof -
  assume w: "request_wire r"
  have "wire_safe (marshal_messages (rq_Messages r))"
    using w by (auto simp: marshal_messages_def request_wire_def messages_def wire_safe_JArr list_all_iff
        wire_safe_message split: option.split) (simp add: wire_safe_def)
  then show ?thesis
    unfolding marshal_request_def using w wire_safe_retrieval
    by (intro wire_safe_object)
      (auto simp: wire_safe_jstring opt_field_def request_wire_def wire_safe_def [of "JBool _"] split: option.split)
qed

section \<open>Properties\<close>

text \<open>C40: a well-formed request survives the wire: encoding it as JSON text and decoding the
  text gives the same request, including the fields the gateway does not know.\<close>

theorem request_roundtrip:
  assumes "request_ok r" and "request_wire r"
  shows "decode_request (encode_request r) = Some r"
  using parse_marshal [OF wire_safe_request [OF assms(2)]] unmarshal_marshal_request [OF assms(1)]
  by (simp add: decode_request_def encode_request_def)

definition sample_request :: chat_request where
  "sample_request =
     \<lparr>rq_Model = ''gpt-5'',
      rq_Messages = Some [\<lparr>mg_Role = ''user'', mg_Content = Some (JStr ''hi''), mg_Extra = []\<rparr>],
      rq_Stream = True,
      rq_Retrieval = Some \<lparr>ro_Enabled = Some True, ro_TopK = Some 4, ro_MaxContextChars = None\<rparr>,
      rq_Metadata = [],
      rq_Extra = [(''temperature'', JNum ''0.2''), (''tools'', JArr [JObj []])]\<rparr>"

lemma sample_request_ok: "request_ok sample_request \<and> request_wire sample_request"
proof -
  have "valid_utf8 (rq_Model sample_request)" by code_simp
  moreover have "list_all message_ok (messages sample_request)"
    unfolding message_ok_def extra_ok_def raw_map_ok_def by code_simp
  moreover have "opt_all retrieval_ok (rq_Retrieval sample_request)"
    by (simp add: sample_request_def retrieval_ok_def go_int_def)
  moreover have "extra_ok [''model'', ''messages'', ''stream'', ''retrieval''] (rq_Extra sample_request)"
    unfolding extra_ok_def raw_map_ok_def by code_simp
  moreover have "rq_Metadata sample_request = []" by (simp add: sample_request_def)
  ultimately have "request_ok sample_request" by (simp add: request_ok_def)
  moreover have "request_wire sample_request"
    unfolding request_wire_def message_wire_def wire_safe_def by code_simp
  ultimately show ?thesis ..
qed

theorem request_roundtrip_witness:
  "decode_request (encode_request sample_request) = Some sample_request \<and>
   messages sample_request \<noteq> []"
proof
  show "decode_request (encode_request sample_request) = Some sample_request"
    using request_roundtrip sample_request_ok by blast
  show "messages sample_request \<noteq> []" by code_simp
qed

lemma validate_request_None:
  assumes "ValidateChatCompletionRequest r = None"
  shows "trim_space (rq_Model r) \<noteq> [] \<and> messages r \<noteq> [] \<and>
     (\<forall>m \<in> set (messages r). validRole (mg_Role m) \<and>
        (mg_Content m \<in> {None, Some JNull} \<longrightarrow> has_key ''tool_calls'' (mg_Extra m)))"
proof -
  have fe: "first_error_from i validate_message ms = None \<Longrightarrow> m \<in> set ms \<Longrightarrow>
      \<exists>j. validate_message j m = None" for i ms m
    by (induction ms arbitrary: i) (auto split: option.splits)
  have "trim_space (rq_Model r) \<noteq> []" "messages r \<noteq> []"
    "first_error validate_message (messages r) = None"
    using assms by (auto simp: ValidateChatCompletionRequest_def split: if_splits option.splits)
  moreover have "validRole (mg_Role m) \<and>
      (mg_Content m \<in> {None, Some JNull} \<longrightarrow> has_key ''tool_calls'' (mg_Extra m))"
    if "validate_message j m = None" for j m
    using that by (auto simp: validate_message_def validateMessageContent_def split: if_splits option.splits)
  ultimately show ?thesis using fe by blast
qed

end
