(* ===== verification/Routing_Decision.thy ===== *)
theory Routing_Decision
  imports Policy_Eval "HOL-Library.Product_Lexorder"
begin

text \<open>
  \<open>internal/routing/types.go\<close> and \<open>decision.go\<close>: ranking the candidate providers of a request by
  the policy verdict, the required capabilities, the route preference, the requested model and
  the strength for the task. The Go comparison is a total preorder because it is the
  lexicographic order of a key (\<open>state_key\<close>); it separates candidates with different
  identifiers, so the ranking does not depend on the order in which they are given.
\<close>

datatype location = LocationLocal | LocationRemote

datatype preference_source =
  PreferenceSourceDefault | PreferenceSourceProjectDefault | PreferenceSourceTaskType

record resolved_preference =
  rpf_Preference :: string
  rpf_Source :: preference_source

record candidate =
  cd_ID :: string
  cd_Backend :: string
  cd_Preset :: string
  cd_Transport :: string
  cd_Endpoint :: string
  cd_DefaultModel :: string
  cd_ModelPins :: "string list"
  cd_Capabilities :: "string list"
  cd_Location :: location

record candidate_trace =
  ct_ID :: string
  ct_Location :: location
  ct_Eligible :: bool
  ct_Rejected :: bool
  ct_Selected :: bool
  ct_Reason :: string
  ct_ModelMatch :: bool
  ct_MissingCapabilities :: "string list"
  ct_PreferenceScore :: int
  ct_TaskStrength :: int

record candidate_state =
  cs_candidate :: candidate
  cs_trace :: candidate_trace

record decision_input =
  di_RequestedModel :: string
  di_RequiredCapabilities :: "string list"
  di_Action :: string
  di_Project :: project_config
  di_PolicyVerdict :: verdict
  di_Candidates :: "candidate list"

record decision_trace =
  dt_PolicyVerdict :: verdict
  dt_ModelTarget :: string
  dt_ModelMatch :: string
  dt_RequiredCapabilities :: "string list"
  dt_Preference :: string
  dt_PreferenceSource :: preference_source
  dt_Candidates :: "candidate_trace list"

record decision =
  dc_Preference :: resolved_preference
  dc_Selected :: "candidate option"
  dc_Ranked :: "candidate list"
  dc_Trace :: decision_trace

section \<open>Preference, policy, capabilities and model\<close>

definition normalizePreference :: "string \<Rightarrow> string" where
  "normalizePreference value =
     (let v = normalize_string value in
      if v \<in> set [RoutePreferenceAuto, RoutePreferencePreferLocal, RoutePreferencePreferCloud,
                 RoutePreferenceLocalOnly] then v else [])"

definition ResolvePreference :: "project_config \<Rightarrow> string \<Rightarrow> resolved_preference" where
  "ResolvePreference project action =
     (let task = (case map_of (prt_TaskTypes (pc_Routing project)) action of
                    None \<Rightarrow> [] | Some raw \<Rightarrow> normalizePreference raw);
          default = normalizePreference (prt_Default (pc_Routing project))
      in if task \<noteq> [] then \<lparr>rpf_Preference = task, rpf_Source = PreferenceSourceTaskType\<rparr>
         else if default \<noteq> []
         then \<lparr>rpf_Preference = default, rpf_Source = PreferenceSourceProjectDefault\<rparr>
         else \<lparr>rpf_Preference = RoutePreferenceAuto, rpf_Source = PreferenceSourceDefault\<rparr>)"

definition policyEligible :: "verdict \<Rightarrow> candidate \<Rightarrow> bool \<times> string" where
  "policyEligible v c =
     (if v = VerdictBlock then (False, ''policy_blocked'')
      else if v = VerdictLocalOnly \<and> cd_Location c \<noteq> LocationLocal then (False, ''policy_local_only'')
      else (True, []))"

definition routePreferenceScore :: "string \<Rightarrow> candidate \<Rightarrow> int \<times> bool \<times> string" where
  "routePreferenceScore preference c =
     (let p = normalizePreference preference; local = (cd_Location c = LocationLocal) in
      if p = RoutePreferencePreferLocal then (if local then (1, True, []) else (0, True, []))
      else if p = RoutePreferencePreferCloud then (if \<not> local then (1, True, []) else (0, True, []))
      else if p = RoutePreferenceLocalOnly
      then (if \<not> local then (0, False, ''route_preference_local_only'') else (1, True, []))
      else (0, True, []))"

definition capabilityWeights :: "string \<Rightarrow> (string \<times> int) list" where
  "capabilityWeights action =
     (if action \<in> set [ActionTypeCodeDiagnosis, ActionTypeCodeGeneration, ActionTypeRefactor]
      then [(''tool_calling'', 3), (''reasoning'', 2), (''chat'', 1)]
      else if action \<in> set [ActionTypeReview, ActionTypeArchitecture, ActionTypeExplanation]
      then [(''reasoning'', 2), (''chat'', 1)]
      else [(''chat'', 1)])"

definition taskStrength :: "string \<Rightarrow> string list \<Rightarrow> int" where
  "taskStrength action capabilities =
     (let available = map normalize_string capabilities in
      sum_list (map (\<lambda>(c, w). if c \<in> set available then w else 0) (capabilityWeights action)))"

definition modelMatches :: "string \<Rightarrow> candidate \<Rightarrow> bool" where
  "modelMatches requestedModel c \<longleftrightarrow> requestedModel \<noteq> [] \<and>
     (list_ex (\<lambda>pin. normalize_string pin = requestedModel) (cd_ModelPins c) \<or>
      normalize_string (cd_DefaultModel c) = requestedModel)"

definition normalizeCapabilities :: "string list \<Rightarrow> string list" where
  "normalizeCapabilities values = sort_on id (dedup_from [] (map normalize_string values))"

definition missingCapabilities :: "string list \<Rightarrow> string list \<Rightarrow> string list" where
  "missingCapabilities required available =
     filter (\<lambda>c. c \<notin> set (map normalize_string available)) required"

section \<open>Decide\<close>

definition base_trace :: "string \<Rightarrow> candidate \<Rightarrow> candidate_trace" where
  "base_trace requestedModel c =
     \<lparr>ct_ID = cd_ID c, ct_Location = cd_Location c, ct_Eligible = False, ct_Rejected = False,
      ct_Selected = False, ct_Reason = [], ct_ModelMatch = modelMatches requestedModel c,
      ct_MissingCapabilities = [], ct_PreferenceScore = 0, ct_TaskStrength = 0\<rparr>"

text \<open>One iteration of the loop over the candidates.\<close>

definition evaluate_candidate :: "decision_input \<Rightarrow> candidate \<Rightarrow> candidate_state" where
  "evaluate_candidate input c =
     (let t = base_trace (normalize_string (di_RequestedModel input)) c;
          missing = missingCapabilities (normalizeCapabilities (di_RequiredCapabilities input))
                      (cd_Capabilities c);
          preference = ResolvePreference (di_Project input) (di_Action input)
      in \<lparr>cs_candidate = c,
          cs_trace =
            (case policyEligible (di_PolicyVerdict input) c of
               (False, reason) \<Rightarrow> t\<lparr>ct_Rejected := True, ct_Reason := reason\<rparr>
             | (True, _) \<Rightarrow>
                 if missing \<noteq> []
                 then t\<lparr>ct_Rejected := True, ct_Reason := ''missing_required_capabilities'',
                        ct_MissingCapabilities := missing\<rparr>
                 else (case routePreferenceScore (rpf_Preference preference) c of
                         (score, False, reason) \<Rightarrow>
                           t\<lparr>ct_PreferenceScore := score, ct_Rejected := True, ct_Reason := reason\<rparr>
                       | (score, True, _) \<Rightarrow>
                           t\<lparr>ct_PreferenceScore := score, ct_Eligible := True,
                             ct_TaskStrength := taskStrength (di_Action input) (cd_Capabilities c)\<rparr>))\<rparr>)"

abbreviation eligible :: "candidate_state \<Rightarrow> bool" where
  "eligible s \<equiv> ct_Eligible (cs_trace s)"

abbreviation model_match :: "candidate_state \<Rightarrow> bool" where
  "model_match s \<equiv> ct_ModelMatch (cs_trace s)"

definition reject_model :: "candidate_state \<Rightarrow> candidate_state" where
  "reject_model s =
     (if eligible s \<and> \<not> model_match s
      then s\<lparr>cs_trace := (cs_trace s)\<lparr>ct_Eligible := False, ct_Rejected := True,
             ct_Reason := ''requested_model_mismatch''\<rparr>\<rparr>
      else s)"

definition applyModelAffinity :: "candidate_state list \<Rightarrow> string \<Rightarrow> candidate_state list" where
  "applyModelAffinity states requestedModel =
     (if requestedModel = [] \<or> \<not> list_ex (\<lambda>s. eligible s \<and> model_match s) states then states
      else map reject_model states)"

definition compareCandidateState :: "candidate_state \<Rightarrow> candidate_state \<Rightarrow> int" where
  "compareCandidateState left right =
     (if eligible left \<noteq> eligible right then (if eligible left then - 1 else 1)
      else if ct_PreferenceScore (cs_trace left) \<noteq> ct_PreferenceScore (cs_trace right)
      then (if ct_PreferenceScore (cs_trace left) > ct_PreferenceScore (cs_trace right) then - 1 else 1)
      else if model_match left \<noteq> model_match right then (if model_match left then - 1 else 1)
      else if ct_TaskStrength (cs_trace left) \<noteq> ct_TaskStrength (cs_trace right)
      then (if ct_TaskStrength (cs_trace left) > ct_TaskStrength (cs_trace right) then - 1 else 1)
      else str_compare (cd_ID (cs_candidate left)) (cd_ID (cs_candidate right)))"

definition modelMatchLabel :: "candidate_state list \<Rightarrow> string \<Rightarrow> string" where
  "modelMatchLabel states requestedModel =
     (if requestedModel = [] then ''none''
      else if list_ex model_match states then ''exact'' else ''none'')"

text \<open>The last loop: the first eligible state is the selected one.\<close>

fun mark_selected :: "candidate_state list \<Rightarrow> candidate_state list" where
  "mark_selected [] = []"
| "mark_selected (s # ss) =
     (if eligible s then s\<lparr>cs_trace := (cs_trace s)\<lparr>ct_Selected := True\<rparr>\<rparr> # ss
      else s # mark_selected ss)"

definition decision_states :: "decision_input \<Rightarrow> candidate_state list" where
  "decision_states input =
     sort_by (\<lambda>x y. compareCandidateState x y \<le> 0)
       (applyModelAffinity (map (evaluate_candidate input) (di_Candidates input))
         (normalize_string (di_RequestedModel input)))"

definition Decide :: "decision_input \<Rightarrow> decision" where
  "Decide input =
     (let preference = ResolvePreference (di_Project input) (di_Action input);
          requestedModel = normalize_string (di_RequestedModel input);
          states = decision_states input;
          ranked = map cs_candidate (filter eligible states)
      in \<lparr>dc_Preference = preference,
          dc_Selected = (case ranked of [] \<Rightarrow> None | c # _ \<Rightarrow> Some c),
          dc_Ranked = ranked,
          dc_Trace =
            \<lparr>dt_PolicyVerdict = di_PolicyVerdict input, dt_ModelTarget = di_RequestedModel input,
             dt_ModelMatch = modelMatchLabel states requestedModel,
             dt_RequiredCapabilities = normalizeCapabilities (di_RequiredCapabilities input),
             dt_Preference = rpf_Preference preference, dt_PreferenceSource = rpf_Source preference,
             dt_Candidates = map cs_trace (mark_selected states)\<rparr>\<rparr>)"

section \<open>Laws\<close>

definition state_key :: "candidate_state \<Rightarrow> bool \<times> int \<times> bool \<times> int \<times> string" where
  "state_key s =
     (\<not> eligible s, - ct_PreferenceScore (cs_trace s), \<not> model_match s,
      - ct_TaskStrength (cs_trace s), cd_ID (cs_candidate s))"

lemma compare_key: "compareCandidateState x y \<le> 0 \<longleftrightarrow> state_key x \<le> state_key y"
  by (auto simp: compareCandidateState_def state_key_def less_eq_prod_def)

interpretation state_order: go_compare compareCandidateState
  by unfold_locales (auto simp: compare_key)

text \<open>What the loop decides about one candidate.\<close>

definition candidate_eligible :: "decision_input \<Rightarrow> candidate \<Rightarrow> bool" where
  "candidate_eligible input c \<longleftrightarrow>
     fst (policyEligible (di_PolicyVerdict input) c) \<and>
     missingCapabilities (normalizeCapabilities (di_RequiredCapabilities input)) (cd_Capabilities c) = [] \<and>
     fst (snd (routePreferenceScore (rpf_Preference (ResolvePreference (di_Project input) (di_Action input))) c))"

lemma evaluate_candidate_frame [simp]:
  "cs_candidate (evaluate_candidate input c) = c"
  "model_match (evaluate_candidate input c) = modelMatches (normalize_string (di_RequestedModel input)) c"
  "eligible (evaluate_candidate input c) = candidate_eligible input c"
  by (auto simp: evaluate_candidate_def Let_def base_trace_def candidate_eligible_def
      split: prod.splits bool.splits)

lemma reject_model_frame [simp]:
  "cs_candidate (reject_model s) = cs_candidate s"
  "model_match (reject_model s) = model_match s"
  "eligible (reject_model s) = (eligible s \<and> model_match s)"
  by (auto simp: reject_model_def)

text \<open>The abstract specification of the ranking: which candidates are ranked.\<close>

definition rankable :: "decision_input \<Rightarrow> candidate \<Rightarrow> bool" where
  "rankable input c \<longleftrightarrow> candidate_eligible input c \<and>
     (let model = normalize_string (di_RequestedModel input) in
      model = [] \<or> modelMatches model c \<or>
      \<not> (\<exists>d \<in> set (di_Candidates input). candidate_eligible input d \<and> modelMatches model d))"

lemma ranked_mset:
  "mset (dc_Ranked (Decide input)) = mset (filter (rankable input) (di_Candidates input))"
proof -
  let ?model = "normalize_string (di_RequestedModel input)"
  let ?states = "map (evaluate_candidate input) (di_Candidates input)"
  have "mset (dc_Ranked (Decide input)) =
      mset (map cs_candidate (filter eligible (applyModelAffinity ?states ?model)))"
    by (simp add: Decide_def Let_def decision_states_def)
  also have "map cs_candidate (filter eligible (applyModelAffinity ?states ?model)) =
      filter (rankable input) (di_Candidates input)"
  proof (cases "?model = [] \<or> \<not> list_ex (\<lambda>s. eligible s \<and> model_match s) ?states")
    case True
    then have "applyModelAffinity ?states ?model = ?states" by (simp add: applyModelAffinity_def)
    moreover have "rankable input = candidate_eligible input"
      using True by (auto simp: rankable_def Let_def list_ex_iff fun_eq_iff)
    ultimately show ?thesis by (simp add: filter_map comp_def)
  next
    case False
    then have "applyModelAffinity ?states ?model = map reject_model ?states"
      by (simp add: applyModelAffinity_def)
    moreover have "rankable input = (\<lambda>c. candidate_eligible input c \<and> modelMatches ?model c)"
      using False by (auto simp: rankable_def Let_def list_ex_iff fun_eq_iff)
    ultimately show ?thesis by (simp add: filter_map comp_def)
  qed
  finally show ?thesis .
qed

lemma set_ranked: "set (dc_Ranked (Decide input)) = {c \<in> set (di_Candidates input). rankable input c}"
  using arg_cong [OF ranked_mset, of set_mset input] by simp

lemma selected_ranked:
  "dc_Selected (Decide input) = (case dc_Ranked (Decide input) of [] \<Rightarrow> None | c # _ \<Rightarrow> Some c)"
  by (simp add: Decide_def Let_def)

text \<open>The final state of one candidate depends on the others only through their set.\<close>

definition final_state :: "decision_input \<Rightarrow> candidate \<Rightarrow> candidate_state" where
  "final_state input c =
     (if normalize_string (di_RequestedModel input) = [] \<or>
         \<not> (\<exists>d \<in> set (di_Candidates input). candidate_eligible input d \<and>
              modelMatches (normalize_string (di_RequestedModel input)) d)
      then evaluate_candidate input c else reject_model (evaluate_candidate input c))"

lemma decision_states_final:
  "decision_states input =
     sort_by (\<lambda>x y. compareCandidateState x y \<le> 0) (map (final_state input) (di_Candidates input))"
proof (cases "normalize_string (di_RequestedModel input) = [] \<or>
    \<not> (\<exists>d \<in> set (di_Candidates input). candidate_eligible input d \<and>
         modelMatches (normalize_string (di_RequestedModel input)) d)")
  case True
  then have "final_state input = evaluate_candidate input" by (auto simp: final_state_def fun_eq_iff)
  with True show ?thesis by (auto simp: decision_states_def applyModelAffinity_def list_ex_iff)
next
  case False
  then have "final_state input = (\<lambda>c. reject_model (evaluate_candidate input c))"
    by (auto simp: final_state_def fun_eq_iff)
  with False show ?thesis by (auto simp: decision_states_def applyModelAffinity_def list_ex_iff comp_def)
qed

lemma final_state_candidate [simp]: "cs_candidate (final_state input c) = c"
  by (simp add: final_state_def)

lemma final_state_eligible: "c \<in> set (di_Candidates input) \<Longrightarrow> eligible (final_state input c) = rankable input c"
  by (auto simp: final_state_def rankable_def Let_def)

lemma evaluate_candidate_perm:
  "evaluate_candidate (input\<lparr>di_Candidates := cs\<rparr>) = evaluate_candidate input"
  "candidate_eligible (input\<lparr>di_Candidates := cs\<rparr>) = candidate_eligible input"
proof -
  have sel: "di_RequestedModel (input\<lparr>di_Candidates := cs\<rparr>) = di_RequestedModel input"
    "di_RequiredCapabilities (input\<lparr>di_Candidates := cs\<rparr>) = di_RequiredCapabilities input"
    "di_Action (input\<lparr>di_Candidates := cs\<rparr>) = di_Action input"
    "di_Project (input\<lparr>di_Candidates := cs\<rparr>) = di_Project input"
    "di_PolicyVerdict (input\<lparr>di_Candidates := cs\<rparr>) = di_PolicyVerdict input" by simp_all
  show "evaluate_candidate (input\<lparr>di_Candidates := cs\<rparr>) = evaluate_candidate input"
    "candidate_eligible (input\<lparr>di_Candidates := cs\<rparr>) = candidate_eligible input"
    unfolding evaluate_candidate_def [abs_def] candidate_eligible_def [abs_def] sel by (rule refl)+
qed

lemma final_state_perm:
  "set cs = set (di_Candidates input) \<Longrightarrow> final_state (input\<lparr>di_Candidates := cs\<rparr>) = final_state input"
  by (auto simp: final_state_def evaluate_candidate_perm fun_eq_iff)

lemma decision_states_perm:
  assumes "mset cs = mset (di_Candidates input)" and "distinct (map cd_ID cs)"
  shows "decision_states (input\<lparr>di_Candidates := cs\<rparr>) = decision_states input"
proof -
  have sets: "set cs = set (di_Candidates input)" using assms(1) by (metis set_mset_mset)
  have inj: "x = y" if "x \<in> final_state input ` set cs" "y \<in> final_state input ` set cs"
      "compareCandidateState x y \<le> 0" "compareCandidateState y x \<le> 0" for x y
  proof -
    have "state_key x = state_key y" using that(3,4) by (simp add: compare_key)
    then have "cd_ID (cs_candidate x) = cd_ID (cs_candidate y)" by (simp add: state_key_def)
    moreover have "inj_on cd_ID (set cs)" using assms(2) by (simp add: distinct_map)
    ultimately show ?thesis using that(1,2) by (auto dest: inj_onD)
  qed
  show ?thesis
    unfolding decision_states_final final_state_perm [OF sets]
    by (rule state_order.sorted_perm_unique)
      (use assms(1) inj sets in \<open>auto simp: state_order.sorted_sort_by\<close>)
qed

section \<open>Properties\<close>

text \<open>C1: a request that must stay local is never routed to a remote provider, and a blocked one
  is never routed at all.\<close>

theorem policy_verdict_binds_routing:
  assumes "c \<in> set (dc_Ranked (Decide input)) \<or> dc_Selected (Decide input) = Some c"
  shows "di_PolicyVerdict input \<noteq> VerdictBlock \<and>
     (di_PolicyVerdict input = VerdictLocalOnly \<longrightarrow> cd_Location c = LocationLocal)"
proof -
  have "c \<in> set (dc_Ranked (Decide input))"
    using assms by (auto simp: selected_ranked split: list.splits)
  then have "candidate_eligible input c" by (simp add: set_ranked rankable_def)
  then show ?thesis by (auto simp: candidate_eligible_def policyEligible_def split: if_splits)
qed

definition local_candidate :: candidate where
  "local_candidate = \<lparr>cd_ID = ''local'', cd_Backend = ''ollama'', cd_Preset = [], cd_Transport = ''http'',
     cd_Endpoint = ''http://127.0.0.1:11434'', cd_DefaultModel = ''qwen3:8b'', cd_ModelPins = [],
     cd_Capabilities = [''chat''], cd_Location = LocationLocal\<rparr>"

definition remote_candidate :: candidate where
  "remote_candidate = \<lparr>cd_ID = ''openai'', cd_Backend = ''openai_compatible'', cd_Preset = ''openai'',
     cd_Transport = ''http'', cd_Endpoint = ''https://api.openai.com/v1'', cd_DefaultModel = ''gpt-5'',
     cd_ModelPins = [''gpt-5''], cd_Capabilities = [''chat'', ''reasoning'', ''tool_calling''],
     cd_Location = LocationRemote\<rparr>"

definition local_only_input :: decision_input where
  "local_only_input = \<lparr>di_RequestedModel = ''GPT-5'', di_RequiredCapabilities = [''chat''],
     di_Action = ''review'', di_Project = DefaultProjectConfig, di_PolicyVerdict = VerdictLocalOnly,
     di_Candidates = [remote_candidate, local_candidate]\<rparr>"

lemma local_only_ranked: "map cd_ID (dc_Ranked (Decide local_only_input)) = [''local'']"
  by code_simp

theorem policy_verdict_binds_routing_witness:
  "di_PolicyVerdict local_only_input = VerdictLocalOnly \<and>
   (\<exists>c \<in> set (dc_Ranked (Decide local_only_input)). cd_Location c = LocationLocal)"
proof -
  have v: "di_PolicyVerdict local_only_input = VerdictLocalOnly" by (simp add: local_only_input_def)
  obtain c where "c \<in> set (dc_Ranked (Decide local_only_input))"
    using local_only_ranked by (cases "dc_Ranked (Decide local_only_input)") auto
  with policy_verdict_binds_routing [of c local_only_input] v show ?thesis by blast
qed

text \<open>The ranking is exactly the set of the rankable candidates: eligible under the policy,
  with every required capability, allowed by the route preference, and, when some eligible
  candidate serves the requested model, serving it too. No candidate appears more often than it
  was offered.\<close>

theorem ranking_is_complete:
  "mset (dc_Ranked (Decide input)) = mset (filter (rankable input) (di_Candidates input))"
  by (rule ranked_mset)

text \<open>The decision does not depend on the order of the candidates: two lists with the same
  candidates, whose identifiers differ, give the same decision, trace included.\<close>

theorem decision_order_independent:
  assumes "mset cs = mset (di_Candidates input)" and "distinct (map cd_ID cs)"
  shows "Decide (input\<lparr>di_Candidates := cs\<rparr>) = Decide input"
  using decision_states_perm [OF assms] by (simp add: Decide_def Let_def)

theorem decision_order_independent_witness:
  "mset [local_candidate, remote_candidate] = mset (di_Candidates local_only_input) \<and>
   Decide (local_only_input\<lparr>di_Candidates := [local_candidate, remote_candidate]\<rparr>) = Decide local_only_input"
proof -
  have m: "mset [local_candidate, remote_candidate] = mset (di_Candidates local_only_input)"
    by (simp add: local_only_input_def)
  have "distinct (map cd_ID [local_candidate, remote_candidate])"
    by (simp add: local_candidate_def remote_candidate_def)
  from decision_order_independent [OF m this] m show ?thesis by blast
qed

text \<open>The selected provider is best: no ranked candidate has a higher preference score, and
  among those with an equal score none matches the requested model while it does not, nor is
  stronger for the task with the same match.\<close>

theorem selected_is_best:
  assumes "dc_Selected (Decide input) = Some c" and "d \<in> set (dc_Ranked (Decide input))"
  shows "state_key (final_state input c) \<le> state_key (final_state input d)"
proof -
  let ?le = "\<lambda>x y. compareCandidateState x y \<le> 0"
  let ?el = "filter eligible (decision_states input)"
  have fin: "s = final_state input (cs_candidate s)" if "s \<in> set (decision_states input)" for s
    using that by (auto simp: decision_states_final)
  have r: "dc_Ranked (Decide input) = map cs_candidate ?el" by (simp add: Decide_def Let_def)
  then obtain s ss where s: "?el = s # ss" "cs_candidate s = c"
    using assms(1) by (cases ?el) (auto simp: selected_ranked)
  obtain t where t: "t \<in> set ?el" "cs_candidate t = d" using assms(2) r by auto
  have "sorted_wrt ?le ?el"
    unfolding decision_states_final by (intro sorted_wrt_filter state_order.sorted_sort_by)
  then have "?le s t" using s(1) t(1) state_order.refl by auto
  moreover have "s \<in> set (decision_states input)" "t \<in> set (decision_states input)"
    using s(1) t(1) by (metis filter_is_subset list.set_intros(1) subsetD)+
  ultimately show ?thesis using fin s(2) t(2) compare_key by metis
qed

theorem selected_is_best_witness:
  "\<exists>c. dc_Selected (Decide local_only_input) = Some c \<and>
     (\<exists>d \<in> set (dc_Ranked (Decide local_only_input)).
        state_key (final_state local_only_input c) \<le> state_key (final_state local_only_input d))"
proof -
  obtain c cs where r: "dc_Ranked (Decide local_only_input) = c # cs"
    using local_only_ranked by (cases "dc_Ranked (Decide local_only_input)") auto
  then have "dc_Selected (Decide local_only_input) = Some c" by (simp add: selected_ranked)
  moreover from selected_is_best [OF this, of c] r
  have "state_key (final_state local_only_input c) \<le> state_key (final_state local_only_input c)" by simp
  ultimately show ?thesis using r by auto
qed

end
