(* ===== verification/Providers.thy ===== *)
theory Providers
  imports Config_Resolve Openai_Types
begin

text \<open>
  \<open>internal/providers\<close>: the adapters for OpenAI-compatible, Anthropic, Ollama and stdio providers
  (with the Ollama client of \<open>internal/ollama\<close>), and the host that owns them. What the adapters
  call outside the program is the parameter \<open>upstream\<close>: the HTTP transport, the lookup and the run
  of a command, the clock. An adapter either sends one HTTP request or runs one command.
\<close>

record http_request =
  hq_Method :: string
  hq_URL :: string
  hq_Headers :: "(string \<times> string) list"
  hq_Body :: string

record http_response =
  hr_Status :: int
  hr_Headers :: "(string \<times> string list) list"
  hr_Body :: string

record upstream =
  up_Do :: "http_request \<Rightarrow> http_response option"
  up_LookPath :: "string \<Rightarrow> bool"
  up_Run :: "string list \<Rightarrow> string \<Rightarrow> string option"
  up_Now :: int

datatype provider =
    OpenAIClient (pr_base: string) (pr_key: string)
  | AnthropicClient (pr_base: string) (pr_key: string)
  | OllamaClient (pr_base: string)
  | StdioClient (pr_command: "string list")

datatype (plugins only: code size) provider_error =
    UpstreamFailed
  | NotReadyStatus string int
  | ContentUnreadableAt nat
  | RoleUnsupported nat string
  | NoConversation
  | StreamUnsupported
  | StdioCommandMissing
  | StdioCommandUnresolved
  | StdioPayloadInvalid
  | StdioRunFailed
  | StdioEmptyOutput
  | StdioResponseInvalid
  | StdioStatusInvalid int
  | GenerateResponseInvalid
  | EmbeddingMissing

definition trim_slashes :: "string \<Rightarrow> string" where
  "trim_slashes s = rev (dropWhile (\<lambda>c. c = CHR ''/'') (rev s))"

definition provider_name :: "provider \<Rightarrow> string" where
  "provider_name p =
     (case p of OpenAIClient _ _ \<Rightarrow> ''openai'' | AnthropicClient _ _ \<Rightarrow> ''anthropic''
      | OllamaClient _ \<Rightarrow> ''ollama'' | StdioClient _ \<Rightarrow> ''stdio'')"

definition request_id_header :: "string \<Rightarrow> (string \<times> string) list" where
  "request_id_header rid = (if rid \<noteq> [] then [(''X-Request-ID'', rid)] else [])"

section \<open>OpenAI\<close>

definition openai_ready_request :: "string \<Rightarrow> string \<Rightarrow> string \<Rightarrow> http_request" where
  "openai_ready_request base key rid =
     \<lparr>hq_Method = ''GET'', hq_URL = base @ ''/models'',
      hq_Headers = [(''Authorization'', ''Bearer '' @ key), (''Accept'', ''application/json'')] @
        request_id_header rid,
      hq_Body = []\<rparr>"

definition openai_chat_request :: "string \<Rightarrow> string \<Rightarrow> string \<Rightarrow> string \<Rightarrow> http_request" where
  "openai_chat_request base key rid raw =
     \<lparr>hq_Method = ''POST'', hq_URL = base @ ''/chat/completions'',
      hq_Headers = [(''Authorization'', ''Bearer '' @ key), (''Content-Type'', ''application/json''),
        (''Accept'', ''application/json'')] @ request_id_header rid,
      hq_Body = raw\<rparr>"

section \<open>Anthropic\<close>

record messages_request =
  mr_Model :: string
  mr_System :: string
  mr_Messages :: "(string \<times> string) list"
  mr_MaxTokens :: int
  mr_Stream :: bool

text \<open>The loop of \<open>translateChatCompletionRequest\<close>: the system parts and the conversation.\<close>

fun translate_messages :: "nat \<Rightarrow> message list \<Rightarrow> string list \<Rightarrow> (string \<times> string) list \<Rightarrow>
    provider_error + string list \<times> (string \<times> string) list" where
  "translate_messages idx [] sys conv = Inr (sys, conv)"
| "translate_messages idx (m # ms) sys conv =
     (case MessageText m of None \<Rightarrow> Inl (ContentUnreadableAt idx)
      | Some content \<Rightarrow>
          if mg_Role m = ''system'' \<or> mg_Role m = ''developer''
          then translate_messages (Suc idx) ms (sys @ [content]) conv
          else if mg_Role m = ''user'' \<or> mg_Role m = ''assistant''
          then translate_messages (Suc idx) ms sys (conv @ [(mg_Role m, content)])
          else Inl (RoleUnsupported idx (mg_Role m)))"

definition translateChatCompletionRequest :: "chat_request \<Rightarrow> provider_error + messages_request" where
  "translateChatCompletionRequest req =
     (case translate_messages 0 (messages req) [] [] of
        Inl e \<Rightarrow> Inl e
      | Inr (sys, conv) \<Rightarrow>
          if conv = [] then Inl NoConversation
          else Inr \<lparr>mr_Model = rq_Model req, mr_System = join_with [CHR 0x0A, CHR 0x0A] sys,
                    mr_Messages = conv, mr_MaxTokens = 1024, mr_Stream = rq_Stream req\<rparr>)"

definition plain_object :: "(string \<times> json) list \<Rightarrow> json" where
  "plain_object fs = JObj (map (\<lambda>(k, v). (quote k, v)) fs)"

definition marshal_messages_request :: "messages_request \<Rightarrow> json" where
  "marshal_messages_request r = plain_object
     ([(''model'', jstring (mr_Model r))] @
      (if mr_System r \<noteq> [] then [(''system'', jstring (mr_System r))] else []) @
      [(''messages'', JArr (map (\<lambda>(role, content).
          plain_object [(''role'', jstring role), (''content'', jstring content)]) (mr_Messages r))),
       (''max_tokens'', JNum (itoa (mr_MaxTokens r)))] @
      (if mr_Stream r then [(''stream'', JBool True)] else []))"

definition anthropic_headers :: "string \<Rightarrow> (string \<times> string) list" where
  "anthropic_headers key = [(''x-api-key'', key), (''anthropic-version'', ''2023-06-01'')]"

definition anthropic_ready_request :: "string \<Rightarrow> string \<Rightarrow> string \<Rightarrow> http_request" where
  "anthropic_ready_request base key rid =
     \<lparr>hq_Method = ''GET'', hq_URL = base @ ''/v1/models'',
      hq_Headers = anthropic_headers key @ [(''Accept'', ''application/json'')] @ request_id_header rid,
      hq_Body = []\<rparr>"

definition anthropic_chat_request ::
    "string \<Rightarrow> string \<Rightarrow> string \<Rightarrow> chat_request \<Rightarrow> provider_error + http_request" where
  "anthropic_chat_request base key rid req =
     (case translateChatCompletionRequest req of
        Inl e \<Rightarrow> Inl e
      | Inr t \<Rightarrow> Inr
          \<lparr>hq_Method = ''POST'', hq_URL = base @ ''/v1/messages'',
           hq_Headers = anthropic_headers key @ [(''Content-Type'', ''application/json''),
             (''Accept'', ''application/json'')] @ request_id_header rid,
           hq_Body = marshal (marshal_messages_request t)\<rparr>)"

section \<open>Ollama\<close>

definition ollama_post :: "string \<Rightarrow> string \<Rightarrow> string \<Rightarrow> json \<Rightarrow> http_request" where
  "ollama_post base path rid body =
     \<lparr>hq_Method = ''POST'', hq_URL = base @ path,
      hq_Headers = [(''Content-Type'', ''application/json'')] @ request_id_header rid,
      hq_Body = marshal body\<rparr>"

definition ollama_ping_request :: "string \<Rightarrow> string \<Rightarrow> http_request" where
  "ollama_ping_request base rid =
     \<lparr>hq_Method = ''GET'', hq_URL = base @ ''/'', hq_Headers = request_id_header rid, hq_Body = []\<rparr>"

definition generate_field :: "string \<Rightarrow> json \<Rightarrow> string \<Rightarrow> string option" where
  "generate_field k v r = (if equal_fold_ascii k ''response'' then dec_string v r else Some r)"

definition ollama_generate ::
    "upstream \<Rightarrow> string \<Rightarrow> string \<Rightarrow> string \<Rightarrow> string \<Rightarrow> provider_error + string" where
  "ollama_generate up base rid model prompt =
     (case up_Do up (ollama_post base ''/api/generate'' rid
              (plain_object [(''model'', jstring model), (''prompt'', jstring prompt),
                             (''stream'', JBool False)])) of
        None \<Rightarrow> Inl UpstreamFailed
      | Some resp \<Rightarrow>
          if hr_Status resp \<noteq> 200 then Inl (NotReadyStatus ''ollama'' (hr_Status resp))
          else (case Option.bind (decode_first (hr_Body resp)) (\<lambda>v. dec_struct generate_field v []) of
                  None \<Rightarrow> Inl GenerateResponseInvalid | Some s \<Rightarrow> Inr s))"

text \<open>The prompt of the Ollama adapter.\<close>

fun prompt_parts :: "nat \<Rightarrow> message list \<Rightarrow> provider_error + string list" where
  "prompt_parts idx [] = Inr [''assistant:'']"
| "prompt_parts idx (m # ms) =
     (case MessageText m of None \<Rightarrow> Inl (ContentUnreadableAt idx)
      | Some content \<Rightarrow>
          (case prompt_parts (Suc idx) ms of Inl e \<Rightarrow> Inl e
           | Inr ps \<Rightarrow> Inr ((mg_Role m @ '': '' @ content) # ps)))"

definition buildPrompt :: "chat_request \<Rightarrow> provider_error + string" where
  "buildPrompt req =
     (case prompt_parts 0 (messages req) of Inl e \<Rightarrow> Inl e
      | Inr ps \<Rightarrow> Inr (join_with [CHR 0x0A, CHR 0x0A] ps))"

definition ollama_completion :: "int \<Rightarrow> string \<Rightarrow> string \<Rightarrow> json" where
  "ollama_completion now model content = plain_object
     [(''id'', jstring ''chatcmpl-ollama''), (''object'', jstring ''chat.completion''),
      (''created'', JNum (itoa now)), (''model'', jstring model),
      (''choices'', JArr [plain_object
         [(''index'', JNum ''0''),
          (''message'', plain_object [(''role'', jstring ''assistant''), (''content'', jstring content)]),
          (''finish_reason'', jstring ''stop'')]]),
      (''usage'', plain_object [(''prompt_tokens'', JNum ''0''), (''completion_tokens'', JNum ''0''),
         (''total_tokens'', JNum ''0'')])]"

section \<open>Stdio\<close>

record stdio_response =
  sr_StatusCode :: int
  sr_Headers :: "(string \<times> string list) list"
  sr_Body :: "json option"

definition dec_strings :: "json \<Rightarrow> string list option" where
  "dec_strings v =
     (case v of JArr vs \<Rightarrow> dec_all (\<lambda>x. dec_string x []) vs | JNull \<Rightarrow> Some [] | _ \<Rightarrow> None)"

definition dec_headers :: "json \<Rightarrow> (string \<times> string list) list \<Rightarrow> (string \<times> string list) list option" where
  "dec_headers v old =
     (case v of
        JNull \<Rightarrow> Some []
      | JObj fs \<Rightarrow> fold (\<lambda>(k, x) acc. case acc of None \<Rightarrow> None
           | Some m \<Rightarrow> map_option (\<lambda>ss. filter (\<lambda>(k', _). k' \<noteq> unquote k) m @ [(unquote k, ss)]) (dec_strings x))
           fs (Some old)
      | _ \<Rightarrow> None)"

definition stdio_field :: "string \<Rightarrow> json \<Rightarrow> stdio_response \<Rightarrow> stdio_response option" where
  "stdio_field k v r =
     (if equal_fold_ascii k ''status_code''
      then map_option (\<lambda>x. r\<lparr>sr_StatusCode := x\<rparr>) (dec_int v (sr_StatusCode r))
      else if equal_fold_ascii k ''headers''
      then map_option (\<lambda>x. r\<lparr>sr_Headers := x\<rparr>) (dec_headers v (sr_Headers r))
      else if equal_fold_ascii k ''body'' then Some (r\<lparr>sr_Body := Some v\<rparr>)
      else Some r)"

definition stdio_payload :: "chat_request \<Rightarrow> string \<Rightarrow> string option" where
  "stdio_payload req raw =
     map_option (\<lambda>v. marshal (plain_object [(''request'', marshal_request req), (''raw_body'', v)]))
       (if raw = [] then Some JNull else parse_json raw)"

definition stdio_ready :: "upstream \<Rightarrow> string list \<Rightarrow> provider_error option" where
  "stdio_ready up command =
     (if command = [] then Some StdioCommandMissing
      else if \<not> up_LookPath up (hd command) then Some StdioCommandUnresolved else None)"

definition stdio_chat ::
    "upstream \<Rightarrow> string list \<Rightarrow> chat_request \<Rightarrow> string \<Rightarrow> provider_error + http_response" where
  "stdio_chat up command req raw =
     (if rq_Stream req then Inl StreamUnsupported
      else (case stdio_ready up command of Some e \<Rightarrow> Inl e
       | None \<Rightarrow>
      (case stdio_payload req raw of None \<Rightarrow> Inl StdioPayloadInvalid
       | Some payload \<Rightarrow>
      (case up_Run up command payload of None \<Rightarrow> Inl StdioRunFailed
       | Some stdout \<Rightarrow>
           if stdout = [] then Inl StdioEmptyOutput
           else (case Option.bind (parse_json stdout) (\<lambda>v. dec_struct stdio_field v
                        \<lparr>sr_StatusCode = 0, sr_Headers = [], sr_Body = None\<rparr>) of
                   None \<Rightarrow> Inl StdioResponseInvalid
                 | Some r \<Rightarrow>
                     let status = (if sr_StatusCode r = 0 then 200 else sr_StatusCode r) in
                     if status < 100 \<or> status > 999 then Inl (StdioStatusInvalid status)
                     else Inr
                       \<lparr>hr_Status = status,
                        hr_Headers =
                          (case map_of (sr_Headers r) ''Content-Type'' of
                             Some (v # _) \<Rightarrow> if v \<noteq> [] then sr_Headers r
                                          else filter (\<lambda>(k, _). k \<noteq> ''Content-Type'') (sr_Headers r) @
                                               [(''Content-Type'', [''application/json''])]
                           | _ \<Rightarrow> filter (\<lambda>(k, _). k \<noteq> ''Content-Type'') (sr_Headers r) @
                                  [(''Content-Type'', [''application/json''])]),
                        hr_Body = (case sr_Body r of None \<Rightarrow> [] | Some v \<Rightarrow> render v)\<rparr>)))))"

section \<open>The provider interface\<close>

definition http_status_ok :: "string \<Rightarrow> http_response option \<Rightarrow> provider_error option" where
  "http_status_ok name resp =
     (case resp of None \<Rightarrow> Some UpstreamFailed
      | Some r \<Rightarrow> if hr_Status r \<noteq> 200 then Some (NotReadyStatus name (hr_Status r)) else None)"

definition provider_Ready :: "upstream \<Rightarrow> string \<Rightarrow> provider \<Rightarrow> provider_error option" where
  "provider_Ready up rid p =
     (case p of
        OpenAIClient base key \<Rightarrow> http_status_ok ''openai'' (up_Do up (openai_ready_request base key rid))
      | AnthropicClient base key \<Rightarrow>
          http_status_ok ''anthropic'' (up_Do up (anthropic_ready_request base key rid))
      | OllamaClient base \<Rightarrow> http_status_ok ''ollama'' (up_Do up (ollama_ping_request base rid))
      | StdioClient command \<Rightarrow> stdio_ready up command)"

definition http_result :: "http_response option \<Rightarrow> provider_error + http_response" where
  "http_result resp = (case resp of None \<Rightarrow> Inl UpstreamFailed | Some r \<Rightarrow> Inr r)"

definition provider_ChatCompletions ::
    "upstream \<Rightarrow> string \<Rightarrow> provider \<Rightarrow> chat_request \<Rightarrow> string \<Rightarrow> provider_error + http_response" where
  "provider_ChatCompletions up rid p req raw =
     (case p of
        OpenAIClient base key \<Rightarrow> http_result (up_Do up (openai_chat_request base key rid raw))
      | AnthropicClient base key \<Rightarrow>
          (case anthropic_chat_request base key rid req of
             Inl e \<Rightarrow> Inl e | Inr hq \<Rightarrow> http_result (up_Do up hq))
      | OllamaClient base \<Rightarrow>
          (case buildPrompt req of Inl e \<Rightarrow> Inl e
           | Inr prompt \<Rightarrow>
               (case ollama_generate up base rid (rq_Model req) prompt of Inl e \<Rightarrow> Inl e
                | Inr content \<Rightarrow> Inr
                    \<lparr>hr_Status = 200, hr_Headers = [(''Content-Type'', [''application/json''])],
                     hr_Body = marshal (ollama_completion (up_Now up) (rq_Model req) content)\<rparr>))
      | StdioClient command \<Rightarrow> stdio_chat up command req raw)"

section \<open>The host\<close>

datatype host_error =
    HostDefaultEmpty
  | HostEmptyProviders
  | ProviderIDEmpty
  | ProviderDeclaredTwice string
  | TransportUnsupported string string
  | TypeUnsupported string string
  | HostDefaultMissing string
  | RuntimeProviderMissing string

record host =
  ho_Default :: string
  ho_Providers :: "(string \<times> provider) list"

definition newAdapter :: "string \<Rightarrow> adapter_config \<Rightarrow> host_error + provider" where
  "newAdapter providerID ac =
     (let transport = normalize_string (ac_Transport ac); t = normalize_string (ac_Type ac) in
      if transport = LLMTransportSTDIO then Inr (StdioClient (ac_Command ac))
      else if transport \<noteq> [] \<and> transport \<noteq> LLMTransportHTTP
      then Inl (TransportUnsupported providerID (ac_Transport ac))
      else if t = ProviderOpenAI \<or> t = ProviderOpenAICompatible
      then Inr (OpenAIClient (trim_slashes (oa_BaseURL (ac_OpenAI ac))) (oa_APIKey (ac_OpenAI ac)))
      else if t = ProviderAnthropic
      then Inr (AnthropicClient (trim_slashes (an_BaseURL (ac_Anthropic ac))) (an_APIKey (ac_Anthropic ac)))
      else if t = ProviderOllama then Inr (OllamaClient (trim_slashes (lm_BaseURL (ac_LocalModel ac))))
      else Inl (TypeUnsupported providerID (ac_Type ac)))"

fun host_adapters :: "(string \<times> provider) list \<Rightarrow> adapter_config list \<Rightarrow>
    host_error + (string \<times> provider) list" where
  "host_adapters acc [] = Inr acc"
| "host_adapters acc (ac # acs) =
     (let providerID = trim_space (ac_ID ac) in
      if providerID = [] then Inl ProviderIDEmpty
      else if map_of acc providerID \<noteq> None then Inl (ProviderDeclaredTwice providerID)
      else (case newAdapter providerID ac of Inl e \<Rightarrow> Inl e
            | Inr p \<Rightarrow> host_adapters (acc @ [(providerID, p)]) acs))"

definition NewHost :: "host_config \<Rightarrow> host_error + host" where
  "NewHost cfg =
     (let default = trim_space (hc_Default cfg) in
      if default = [] then Inl HostDefaultEmpty
      else if hc_Providers cfg = [] then Inl HostEmptyProviders
      else (case host_adapters [] (hc_Providers cfg) of Inl e \<Rightarrow> Inl e
            | Inr ps \<Rightarrow> if map_of ps default = None then Inl (HostDefaultMissing default)
                        else Inr \<lparr>ho_Default = default, ho_Providers = ps\<rparr>))"

definition host_Provider :: "host \<Rightarrow> string \<Rightarrow> host_error + provider" where
  "host_Provider h i =
     (case map_of (ho_Providers h) (trim_space i) of
        None \<Rightarrow> Inl (RuntimeProviderMissing (trim_space i)) | Some p \<Rightarrow> Inr p)"

definition host_DefaultProvider :: "host \<Rightarrow> host_error + provider" where
  "host_DefaultProvider h = host_Provider h (ho_Default h)"

section \<open>Laws\<close>

text \<open>A host holds each adapter under its own identifier, and its default exists.\<close>

lemma host_adapters_spec:
  "host_adapters acc acs = Inr ps \<Longrightarrow> distinct (map fst acc) \<Longrightarrow>
     distinct (map fst ps) \<and> map fst ps = map fst acc @ map (\<lambda>ac. trim_space (ac_ID ac)) acs \<and>
     (\<forall>(i, p) \<in> set ps. (i, p) \<in> set acc \<or> (\<exists>ac \<in> set acs. trim_space (ac_ID ac) = i \<and> newAdapter i ac = Inr p))"
proof (induction acs arbitrary: acc)
  case (Cons ac acs)
  let ?i = "trim_space (ac_ID ac)"
  from Cons.prems(1) obtain p where p: "newAdapter ?i ac = Inr p" "map_of acc ?i = None"
      "host_adapters (acc @ [(?i, p)]) acs = Inr ps"
    by (auto simp: Let_def split: if_splits sum.splits)
  then have "?i \<notin> set (map fst acc)" by (simp add: map_of_eq_None_iff)
  then have "distinct (map fst (acc @ [(?i, p)]))" using Cons.prems(2) by auto
  from Cons.IH [OF p(3) this] p(1) show ?case by fastforce
qed simp

lemma NewHost_spec:
  assumes "NewHost cfg = Inr h"
  shows "distinct (map fst (ho_Providers h)) \<and> ho_Default h = trim_space (hc_Default cfg) \<and>
     map fst (ho_Providers h) = map (\<lambda>ac. trim_space (ac_ID ac)) (hc_Providers cfg) \<and>
     (\<forall>(i, p) \<in> set (ho_Providers h).
        \<exists>ac \<in> set (hc_Providers cfg). trim_space (ac_ID ac) = i \<and> newAdapter i ac = Inr p)"
proof -
  from assms have "host_adapters [] (hc_Providers cfg) = Inr (ho_Providers h)"
      "ho_Default h = trim_space (hc_Default cfg)"
    by (auto simp: NewHost_def Let_def split: if_splits sum.splits)
  with host_adapters_spec [of "[]" "hc_Providers cfg" "ho_Providers h"] show ?thesis by fastforce
qed

lemma host_Provider_adapter:
  assumes "NewHost cfg = Inr h" and "host_Provider h i = Inr p"
  shows "\<exists>ac \<in> set (hc_Providers cfg). trim_space (ac_ID ac) = trim_space i \<and> newAdapter (trim_space i) ac = Inr p"
proof -
  have "(trim_space i, p) \<in> set (ho_Providers h)"
    using assms(2) by (auto simp: host_Provider_def dest: map_of_SomeD split: option.splits)
  then show ?thesis using NewHost_spec [OF assms(1)] by blast
qed

text \<open>The Anthropic translation keeps the conversation, in order, and drops no message.\<close>

lemma translate_messages_spec:
  "translate_messages idx ms sys conv = Inr (sys', conv') \<Longrightarrow>
     sys' = sys @ map (the \<circ> MessageText) (filter (\<lambda>m. mg_Role m \<in> {''system'', ''developer''}) ms) \<and>
     conv' = conv @ map (\<lambda>m. (mg_Role m, the (MessageText m)))
       (filter (\<lambda>m. mg_Role m \<in> {''user'', ''assistant''}) ms) \<and>
     (\<forall>m \<in> set ms. mg_Role m \<in> {''system'', ''developer'', ''user'', ''assistant''} \<and> MessageText m \<noteq> None)"
proof (induction idx ms sys conv rule: translate_messages.induct)
  case (2 idx m ms sys conv)
  then show ?case by (auto split: option.splits if_splits)
qed simp

section \<open>Properties\<close>

text \<open>A host that was built has a default provider, and every provider it hands out is the
  adapter of the configuration entry with the identifier asked for.\<close>

theorem host_serves_configured_adapters:
  assumes "NewHost cfg = Inr h"
  shows "(\<exists>p. host_DefaultProvider h = Inr p) \<and>
     (\<forall>i p. host_Provider h i = Inr p \<longrightarrow>
        (\<exists>ac \<in> set (hc_Providers cfg). trim_space (ac_ID ac) = trim_space i \<and>
           newAdapter (trim_space i) ac = Inr p))"
proof -
  have "map_of (ho_Providers h) (trim_space (ho_Default h)) \<noteq> None"
    using assms by (auto simp: NewHost_def Let_def split: if_splits sum.splits)
  then have "\<exists>p. host_DefaultProvider h = Inr p"
    by (auto simp: host_DefaultProvider_def host_Provider_def)
  then show ?thesis using host_Provider_adapter [OF assms] by blast
qed

definition sample_host_config :: host_config where
  "sample_host_config =
     \<lparr>hc_Default = ''local'', hc_Providers =
        [\<lparr>ac_ID = ''local'', ac_Preset = [], ac_Type = ''ollama'', ac_Transport = ''http'', ac_Command = [],
          ac_OpenAI = zero_openai, ac_Anthropic = zero_anthropic,
          ac_LocalModel = \<lparr>lm_BaseURL = ''http://127.0.0.1:11434/''\<rparr>\<rparr>]\<rparr>"

lemma sample_host: "NewHost sample_host_config =
    Inr \<lparr>ho_Default = ''local'', ho_Providers = [(''local'', OllamaClient ''http://127.0.0.1:11434'')]\<rparr>"
  by code_simp

theorem host_serves_configured_adapters_witness:
  "\<exists>h p. NewHost sample_host_config = Inr h \<and> host_DefaultProvider h = Inr p"
  using host_serves_configured_adapters [OF sample_host] sample_host by blast

text \<open>C39: the Anthropic adapter sends the conversation unchanged: the user and assistant messages in
  order, the system and developer texts joined in order, and nothing when any other role or an
  unreadable content occurs.\<close>

theorem anthropic_translation_faithful:
  assumes "translateChatCompletionRequest req = Inr t"
  shows "mr_Messages t = map (\<lambda>m. (mg_Role m, the (MessageText m)))
       (filter (\<lambda>m. mg_Role m \<in> {''user'', ''assistant''}) (messages req)) \<and>
     mr_System t = join_with [CHR 0x0A, CHR 0x0A] (map (the \<circ> MessageText)
       (filter (\<lambda>m. mg_Role m \<in> {''system'', ''developer''}) (messages req))) \<and>
     mr_Messages t \<noteq> [] \<and> mr_Model t = rq_Model req \<and> mr_Stream t = rq_Stream req \<and>
     (\<forall>m \<in> set (messages req). mg_Role m \<in> {''system'', ''developer'', ''user'', ''assistant''} \<and>
        MessageText m \<noteq> None)"
proof -
  from assms obtain sys conv where tr: "translate_messages 0 (messages req) [] [] = Inr (sys, conv)"
      "conv \<noteq> []" "mr_Messages t = conv" "mr_System t = join_with [CHR 0x0A, CHR 0x0A] sys"
      "mr_Model t = rq_Model req" "mr_Stream t = rq_Stream req"
    by (auto simp: translateChatCompletionRequest_def split: sum.splits if_splits)
  with translate_messages_spec [OF tr(1)] show ?thesis by simp
qed

theorem anthropic_translation_faithful_witness:
  "\<exists>t. translateChatCompletionRequest sample_request = Inr t \<and> mr_Messages t = [(''user'', ''hi'')]"
proof -
  have "translateChatCompletionRequest sample_request \<noteq> Inl NoConversation \<and>
      (case translateChatCompletionRequest sample_request of Inl e \<Rightarrow> False | Inr t \<Rightarrow> True)"
    by code_simp
  then obtain t where t: "translateChatCompletionRequest sample_request = Inr t"
    by (auto split: sum.splits)
  have "map (\<lambda>m. (mg_Role m, the (MessageText m)))
      (filter (\<lambda>m. mg_Role m \<in> {''user'', ''assistant''}) (messages sample_request)) = [(''user'', ''hi'')]"
    by code_simp
  with anthropic_translation_faithful [OF t] t show ?thesis by auto
qed

end
