(* ===== verification/Routing_Status.thy ===== *)
theory Routing_Status
  imports Routing_Decision Providers
begin

text \<open>
  \<open>internal/routing/catalog.go\<close> and \<open>status.go\<close>: the candidates of a configuration and their
  runtime status. The Go map \<open>ByID\<close> is the association list of the candidates in their order,
  in which a later entry with the same identifier wins. The readiness probe goes through the
  \<open>upstream\<close> parameter of the providers. The names of unavailability reasons are constructors,
  with the error as their detail.
\<close>

record catalog =
  cl_Candidates :: "candidate list"
  cl_ByID :: "(string \<times> candidate) list"
  cl_Allowed :: bool

definition providerFamily :: "llm_provider \<Rightarrow> string" where
  "providerFamily p =
     (let family = normalize_string (lp_Backend p); preset = BundledLLMProviderPreset (lp_Preset p) in
      if family \<noteq> [] then family
      else if ps_ID preset \<noteq> [] then normalize_string (ps_Family preset) else [])"

definition providerCapabilities :: "llm_provider \<Rightarrow> string list" where
  "providerCapabilities p =
     (let preset = BundledLLMProviderPreset (lp_Preset p) in
      if lp_Capabilities p \<noteq> [] then lp_Capabilities p
      else if ps_ID preset \<noteq> [] then ps_Capabilities preset else [''chat''])"

definition providerModelPins :: "llm_provider \<Rightarrow> string list" where
  "providerModelPins p =
     (let preset = BundledLLMProviderPreset (lp_Preset p); model = trim_space (lp_DefaultModel p) in
      if lp_ModelPins p \<noteq> [] then lp_ModelPins p
      else if ps_ID preset \<noteq> [] \<and> ps_ModelPins preset \<noteq> [] then ps_ModelPins preset
      else if model \<noteq> [] then [model] else [])"

definition locationForProvider :: "string \<Rightarrow> string \<Rightarrow> location" where
  "locationForProvider family transport =
     (if normalize_string transport = LLMTransportSTDIO then LocationLocal
      else if normalize_string family = ProviderOllama then LocationLocal
      else LocationRemote)"

definition legacyCandidate :: "config \<Rightarrow> candidate" where
  "legacyCandidate cfg =
     (let backend = normalize_string (pv_Type (cfg_Provider cfg)) in
      \<lparr>cd_ID = ''default'', cd_Backend = backend, cd_Preset = [], cd_Transport = LLMTransportHTTP,
       cd_Endpoint = [], cd_DefaultModel = [], cd_ModelPins = [], cd_Capabilities = [''chat''],
       cd_Location = locationForProvider backend LLMTransportHTTP\<rparr>)"

definition provider_candidate :: "llm_provider \<Rightarrow> candidate" where
  "provider_candidate p =
     \<lparr>cd_ID = trim_space (lp_ID p), cd_Backend = providerFamily p, cd_Preset = trim_space (lp_Preset p),
      cd_Transport = trim_space (lp_Transport p), cd_Endpoint = trim_space (lp_Endpoint p),
      cd_DefaultModel = trim_space (lp_DefaultModel p), cd_ModelPins = providerModelPins p,
      cd_Capabilities = providerCapabilities p,
      cd_Location = locationForProvider (providerFamily p) (lp_Transport p)\<rparr>"

definition buildCandidates :: "config \<Rightarrow> candidate list" where
  "buildCandidates cfg =
     (if legacy_config cfg then [legacyCandidate cfg] else map provider_candidate (llm_providers cfg))"

definition BuildCatalog :: "config \<Rightarrow> project_config \<Rightarrow> catalog" where
  "BuildCatalog cfg project =
     (let allowed = makeAllowlist (pp_LLMAllowed (pc_Providers project));
          cs = buildCandidates cfg;
          filtered = (if allowed \<noteq> [] then filter (\<lambda>c. cd_ID c \<in> set allowed) cs else cs);
          sorted = sort_on cd_ID filtered
      in \<lparr>cl_Candidates = sorted, cl_ByID = rev (map (\<lambda>c. (cd_ID c, c)) sorted),
          cl_Allowed = (allowed \<noteq> [])\<rparr>)"

section \<open>Status\<close>

datatype unavailable_detail =
    ConfigDetail config_error
  | RequiresCredentials string
  | HostDetail host_error
  | ReadyDetail provider_error

datatype unavailable_reason =
    UnavailableReasonNotConfigured unavailable_detail
  | UnavailableReasonMissingCredentials unavailable_detail
  | UnavailableReasonInvalidCredentials unavailable_detail
  | UnavailableReasonUnsupportedRuntime unavailable_detail
  | UnavailableReasonNotReady unavailable_detail

record candidate_status =
  st_Candidate :: candidate
  st_Configured :: bool
  st_AuthValid :: bool
  st_Ready :: bool
  st_Available :: bool
  st_UnavailableReasons :: "unavailable_reason list"

definition requiresCredential :: "resolved_llm \<Rightarrow> bool" where
  "requiresCredential s \<longleftrightarrow>
     normalize_string (rp_AuthStrategy s) \<noteq> [] \<and> normalize_string (rp_AuthStrategy s) \<noteq> AuthStrategyNone"

text \<open>\<open>secretstore.IsNotFound\<close> sees through the wrapping of the error.\<close>

definition is_not_found :: "config_error \<Rightarrow> bool" where
  "is_not_found e \<longleftrightarrow> (case e of SecretErr s \<Rightarrow> IsNotFound s | _ \<Rightarrow> False)"

definition classifyResolutionError :: "config_error \<Rightarrow> unavailable_reason" where
  "classifyResolutionError e =
     (if is_not_found e then UnavailableReasonMissingCredentials (ConfigDetail e)
      else UnavailableReasonInvalidCredentials (ConfigDetail e))"

definition finalizeCandidateStatus :: "candidate_status \<Rightarrow> candidate_status" where
  "finalizeCandidateStatus s = s\<lparr>st_Available :=
     (st_Configured s \<and> st_AuthValid s \<and> st_Ready s \<and> st_UnavailableReasons s = [])\<rparr>"

definition add_reason :: "unavailable_reason \<Rightarrow> candidate_status \<Rightarrow> candidate_status" where
  "add_reason r s = s\<lparr>st_UnavailableReasons := st_UnavailableReasons s @ [r]\<rparr>"

definition buildCandidateStatus ::
    "upstream \<Rightarrow> string \<Rightarrow> keyring \<Rightarrow> config \<Rightarrow> candidate \<Rightarrow> candidate_status" where
  "buildCandidateStatus up rid k cfg c =
     (let s0 = \<lparr>st_Candidate = c, st_Configured = False, st_AuthValid = False, st_Ready = False,
                st_Available = False, st_UnavailableReasons = []\<rparr> in
      case ResolveLLMProviderByID cfg (cd_ID c) of
        Inl e \<Rightarrow> add_reason (UnavailableReasonNotConfigured (ConfigDetail e)) s0
      | Inr p \<Rightarrow>
          let s1 = s0\<lparr>st_Configured := True\<rparr> in
          if requiresCredential p \<and> trim_space (rp_CredentialRef p) = [] then
            finalizeCandidateStatus
              (add_reason (UnavailableReasonMissingCredentials (RequiresCredentials (rp_ID p))) s1)
          else (case ResolveRuntimeProviderAdapterConfig k cfg p of
             Inl e \<Rightarrow> finalizeCandidateStatus (add_reason (classifyResolutionError e) s1)
           | Inr a \<Rightarrow>
               let s2 = s1\<lparr>st_AuthValid := True\<rparr> in
               (case NewHost \<lparr>hc_Default = rp_ID p, hc_Providers = [a]\<rparr> of
                  Inl e \<Rightarrow> finalizeCandidateStatus
                    (add_reason (UnavailableReasonUnsupportedRuntime (HostDetail e)) s2)
                | Inr h \<Rightarrow>
                    (case host_DefaultProvider h of
                       Inl e \<Rightarrow> finalizeCandidateStatus
                         (add_reason (UnavailableReasonUnsupportedRuntime (HostDetail e)) s2)
                     | Inr provider \<Rightarrow>
                         (case provider_Ready up rid provider of
                            Some e \<Rightarrow> finalizeCandidateStatus
                              (add_reason (UnavailableReasonNotReady (ReadyDetail e)) s2)
                          | None \<Rightarrow> s2\<lparr>st_Ready := True, st_Available := True\<rparr>)))))"

record status_catalog =
  sl_Candidates :: "candidate_status list"
  sl_ByID :: "(string \<times> candidate_status) list"

definition BuildStatusCatalog ::
    "upstream \<Rightarrow> string \<Rightarrow> keyring \<Rightarrow> config \<Rightarrow> catalog \<Rightarrow> status_catalog" where
  "BuildStatusCatalog up rid k cfg cat =
     (let statuses = sort_on (\<lambda>s. cd_ID (st_Candidate s))
            (map (buildCandidateStatus up rid k cfg) (cl_Candidates cat))
      in \<lparr>sl_Candidates = statuses,
          sl_ByID = rev (map (\<lambda>s. (cd_ID (st_Candidate s), s)) statuses)\<rparr>)"

section \<open>Laws\<close>

text \<open>The invariant of a status: available means configured, authenticated and ready with no
  reason against it, ready implies the earlier stages, and unavailable has a reason.\<close>

definition status_ok :: "candidate_status \<Rightarrow> bool" where
  "status_ok s \<longleftrightarrow>
     (st_Available s \<longleftrightarrow> st_Configured s \<and> st_AuthValid s \<and> st_Ready s \<and> st_UnavailableReasons s = []) \<and>
     (st_Ready s \<longrightarrow> st_AuthValid s) \<and> (st_AuthValid s \<longrightarrow> st_Configured s) \<and>
     (\<not> st_Available s \<longrightarrow> st_UnavailableReasons s \<noteq> [])"

lemma buildCandidateStatus_ok: "status_ok (buildCandidateStatus up rid k cfg c)"
  by (simp add: buildCandidateStatus_def Let_def status_ok_def finalizeCandidateStatus_def add_reason_def
      split: sum.split option.split)

lemma buildCandidateStatus_candidate [simp]: "st_Candidate (buildCandidateStatus up rid k cfg c) = c"
  by (simp add: buildCandidateStatus_def Let_def finalizeCandidateStatus_def add_reason_def
      split: sum.split option.split)

lemma buildCandidateStatus_available:
  assumes "st_Available (buildCandidateStatus up rid k cfg c)"
  shows "\<exists>p a h provider. ResolveLLMProviderByID cfg (cd_ID c) = Inr p \<and>
     ResolveRuntimeProviderAdapterConfig k cfg p = Inr a \<and>
     NewHost \<lparr>hc_Default = rp_ID p, hc_Providers = [a]\<rparr> = Inr h \<and>
     host_DefaultProvider h = Inr provider \<and> provider_Ready up rid provider = None"
  using assms
  by (simp add: buildCandidateStatus_def Let_def finalizeCandidateStatus_def add_reason_def
      split: sum.splits option.splits if_splits)

lemma BuildCatalog_sorted: "sorted (map cd_ID (cl_Candidates (BuildCatalog cfg project)))"
  by (simp add: BuildCatalog_def Let_def sorted_sort_on)

lemma BuildCatalog_members:
  "set (cl_Candidates (BuildCatalog cfg project)) =
     {c \<in> set (buildCandidates cfg). makeAllowlist (pp_LLMAllowed (pc_Providers project)) = [] \<or>
        cd_ID c \<in> trim_space ` set (pp_LLMAllowed (pc_Providers project)) - {[]}}"
  by (auto simp: BuildCatalog_def Let_def set_makeAllowlist)

section \<open>Properties\<close>

text \<open>A candidate is reported available exactly when it is configured, its credentials resolve,
  a provider can be built from them and its readiness probe succeeds; otherwise it carries a
  reason.\<close>

theorem status_is_accurate:
  "status_ok (buildCandidateStatus up rid k cfg c) \<and>
   (st_Available (buildCandidateStatus up rid k cfg c) \<longleftrightarrow>
     (\<exists>p a h provider. ResolveLLMProviderByID cfg (cd_ID c) = Inr p \<and>
        \<not> (requiresCredential p \<and> trim_space (rp_CredentialRef p) = []) \<and>
        ResolveRuntimeProviderAdapterConfig k cfg p = Inr a \<and>
        NewHost \<lparr>hc_Default = rp_ID p, hc_Providers = [a]\<rparr> = Inr h \<and>
        host_DefaultProvider h = Inr provider \<and> provider_Ready up rid provider = None))"
  using buildCandidateStatus_ok [of up rid k cfg c]
  by (auto simp: buildCandidateStatus_def Let_def finalizeCandidateStatus_def add_reason_def
      split: sum.splits option.splits if_splits)

text \<open>The catalog of a project with an allowlist offers only allowed providers, in the order of
  their identifiers, and it offers all of them.\<close>

theorem catalog_respects_allowlist:
  "sorted (map cd_ID (cl_Candidates (BuildCatalog cfg project))) \<and>
   set (cl_Candidates (BuildCatalog cfg project)) =
     {c \<in> set (buildCandidates cfg). makeAllowlist (pp_LLMAllowed (pc_Providers project)) = [] \<or>
        cd_ID c \<in> trim_space ` set (pp_LLMAllowed (pc_Providers project)) - {[]}}"
  using BuildCatalog_sorted BuildCatalog_members by blast

text \<open>The location of a candidate is decided by its backend and transport only, so an Ollama
  provider at a remote endpoint counts as local, and a request that policy keeps local is routed
  to it.\<close>

theorem remote_ollama_counts_as_local:
  assumes "providerFamily p = ProviderOllama"
  shows "cd_Location (provider_candidate p) = LocationLocal \<and>
     dc_Selected (Decide \<lparr>di_RequestedModel = [], di_RequiredCapabilities = [], di_Action = [],
        di_Project = DefaultProjectConfig, di_PolicyVerdict = VerdictLocalOnly,
        di_Candidates = [provider_candidate p]\<rparr>) = Some (provider_candidate p)"
proof -
  let ?c = "provider_candidate p"
  let ?i = "\<lparr>di_RequestedModel = [], di_RequiredCapabilities = [], di_Action = [],
        di_Project = DefaultProjectConfig, di_PolicyVerdict = VerdictLocalOnly, di_Candidates = [?c]\<rparr>"
  have "normalize_string ProviderOllama = ProviderOllama" by code_simp
  then have l: "cd_Location ?c = LocationLocal"
    using assms by (simp add: provider_candidate_def locationForProvider_def)
  have pref: "normalizePreference RoutePreferenceAuto = RoutePreferenceAuto"
      "rpf_Preference (ResolvePreference DefaultProjectConfig []) = RoutePreferenceAuto"
    by code_simp+
  have "normalizeCapabilities [] = []" by code_simp
  then have "rankable ?i ?c"
    using l pref by (simp add: rankable_def candidate_eligible_def policyEligible_def Let_def
        missingCapabilities_def routePreferenceScore_def)
  then have "mset (dc_Ranked (Decide ?i)) = {#?c#}" using ranked_mset [of ?i] by simp
  then have "dc_Ranked (Decide ?i) = [?c]" by simp
  with l show ?thesis by (simp add: selected_ranked)
qed

definition remote_ollama :: llm_provider where
  "remote_ollama = local_entry\<lparr>lp_Endpoint := ''https://models.example.com''\<rparr>"

theorem remote_ollama_counts_as_local_witness:
  "lp_Endpoint remote_ollama = ''https://models.example.com'' \<and>
   cd_Location (provider_candidate remote_ollama) = LocationLocal"
proof -
  have "providerFamily remote_ollama = ProviderOllama" by code_simp
  from remote_ollama_counts_as_local [OF this] show ?thesis by (simp add: remote_ollama_def)
qed

end
