(* ===== verification/Classify.thy ===== *)
theory Classify
  imports Policy_Eval
begin

text \<open>
  \<open>internal/classify/classifier.go\<close>. The Ollama client that answers the prompt is a parameter
  \<open>generate\<close> (\<^const>\<open>None\<close> for a transport error). A confidence is kept as the decimal literal
  of the answer; the code rounds it to a \<open>float64\<close> before comparing it with 0.5.
\<close>

datatype classify_error =
    NoJSONObject
  | ClassifyJSONInvalid
  | ActionTypeInvalid string
  | SensitivityInvalid string
  | ExecutionModeInvalid string
  | ContentUnreadable
  | GenerateFailed
  | LowConfidence

record raw_classification =
  rcl_ActionType :: string
  rcl_Sensitivity :: string
  rcl_RequiresContext :: bool
  rcl_ExecutionMode :: string
  rcl_Confidence :: "int \<times> int"

section \<open>Decimal literals\<close>

fun digits_value :: "int \<Rightarrow> string \<Rightarrow> int" where
  "digits_value acc [] = acc"
| "digits_value acc (c # s) = digits_value (10 * acc + (code c - 48)) s"

definition is_exp_mark :: "char \<Rightarrow> bool" where
  "is_exp_mark c \<longleftrightarrow> c = CHR ''e'' \<or> c = CHR ''E''"

text \<open>A valid JSON number as mantissa and power of ten.\<close>

definition decimal :: "string \<Rightarrow> int \<times> int" where
  "decimal l =
     (let neg = has_prefix l ''-'';
          u = (if neg then tl l else l);
          base = takeWhile (\<lambda>c. \<not> is_exp_mark c) u;
          ex = drop 1 (dropWhile (\<lambda>c. \<not> is_exp_mark c) u);
          whole = takeWhile (\<lambda>c. c \<noteq> CHR ''.'') base;
          frac = drop 1 (dropWhile (\<lambda>c. c \<noteq> CHR ''.'') base);
          m = digits_value 0 (whole @ frac);
          e = (if ex = [] then 0
               else if hd ex = CHR ''-'' then - digits_value 0 (tl ex)
               else if hd ex = CHR ''+'' then digits_value 0 (tl ex) else digits_value 0 ex)
      in (if neg then - m else m, e - int (length frac)))"

text \<open>\<open>confidence < 0.5\<close>, with \<open>defaultMinConfidence = 0.5\<close>.\<close>

definition below_half :: "int \<times> int \<Rightarrow> bool" where
  "below_half d =
     (case d of (m, e) \<Rightarrow> if 0 \<le> e then 2 * m * 10 ^ nat e < 1 else 2 * m < 10 ^ nat (- e))"

definition dec_decimal :: "json \<Rightarrow> int \<times> int \<Rightarrow> (int \<times> int) option" where
  "dec_decimal v old = (case v of JNum l \<Rightarrow> Some (decimal l) | JNull \<Rightarrow> Some old | _ \<Rightarrow> None)"

section \<open>The classifier\<close>

definition validActionType :: "string \<Rightarrow> bool" where
  "validActionType v \<longleftrightarrow> v \<in> set [ActionTypeCodeDiagnosis, ActionTypeCodeGeneration,
     ActionTypeArchitecture, ActionTypeExplanation, ActionTypeRefactor, ActionTypeReview,
     ActionTypeGeneralQA]"

definition validSensitivity :: "string \<Rightarrow> bool" where
  "validSensitivity v \<longleftrightarrow> v \<in> set [SensitivityPublic, SensitivityInternal, SensitivityProprietary,
     SensitivityTradeSecret]"

definition validExecutionMode :: "string \<Rightarrow> bool" where
  "validExecutionMode v \<longleftrightarrow> v \<in> set [ExecutionModeDirect, ExecutionModePlanFirst]"

definition classification_field ::
    "string \<Rightarrow> json \<Rightarrow> raw_classification \<Rightarrow> raw_classification option" where
  "classification_field k v r =
     (if equal_fold_ascii k ''action_type''
      then map_option (\<lambda>x. r\<lparr>rcl_ActionType := x\<rparr>) (dec_string v (rcl_ActionType r))
      else if equal_fold_ascii k ''sensitivity''
      then map_option (\<lambda>x. r\<lparr>rcl_Sensitivity := x\<rparr>) (dec_string v (rcl_Sensitivity r))
      else if equal_fold_ascii k ''requires_context''
      then map_option (\<lambda>x. r\<lparr>rcl_RequiresContext := x\<rparr>) (dec_bool v (rcl_RequiresContext r))
      else if equal_fold_ascii k ''execution_mode''
      then map_option (\<lambda>x. r\<lparr>rcl_ExecutionMode := x\<rparr>) (dec_string v (rcl_ExecutionMode r))
      else if equal_fold_ascii k ''confidence''
      then map_option (\<lambda>x. r\<lparr>rcl_Confidence := x\<rparr>) (dec_decimal v (rcl_Confidence r))
      else Some r)"

definition zero_classification :: raw_classification where
  "zero_classification = \<lparr>rcl_ActionType = [], rcl_Sensitivity = [], rcl_RequiresContext = False,
     rcl_ExecutionMode = [], rcl_Confidence = (0, 0)\<rparr>"

text \<open>\<open>response[start:end+1]\<close> from the first opening to the last closing brace.\<close>

definition json_object_slice :: "string \<Rightarrow> string option" where
  "json_object_slice response =
     (case (index_byte (CHR ''{'') response, last_index_byte (CHR ''}'') response) of
        (Some s, Some e) \<Rightarrow> if e < s then None else Some (take (e + 1 - s) (drop s response))
      | _ \<Rightarrow> None)"

definition parseClassification :: "string \<Rightarrow> classify_error + intent" where
  "parseClassification response =
     (case json_object_slice response of None \<Rightarrow> Inl NoJSONObject
      | Some body \<Rightarrow>
          (case Option.bind (parse_json body) (\<lambda>v. dec_struct classification_field v zero_classification) of
             None \<Rightarrow> Inl ClassifyJSONInvalid
           | Some p \<Rightarrow>
               let i = \<lparr>ic_Action = trim_space (rcl_ActionType p),
                        ic_Sensitivity = trim_space (rcl_Sensitivity p),
                        ic_RequiresContext = rcl_RequiresContext p,
                        ic_ExecutionMode = trim_space (rcl_ExecutionMode p),
                        ic_Confidence = rcl_Confidence p\<rparr>
               in if \<not> validActionType (ic_Action i) then Inl (ActionTypeInvalid (rcl_ActionType p))
                  else if \<not> validSensitivity (ic_Sensitivity i) then Inl (SensitivityInvalid (rcl_Sensitivity p))
                  else if \<not> validExecutionMode (ic_ExecutionMode i)
                  then Inl (ExecutionModeInvalid (rcl_ExecutionMode p))
                  else Inr i))"

fun input_parts :: "message list \<Rightarrow> string list option" where
  "input_parts [] = Some []"
| "input_parts (m # ms) =
     (case MessageText m of None \<Rightarrow> None
      | Some content \<Rightarrow>
          map_option (\<lambda>ps. (mg_Role m @ '': '' @ trim_space content) # ps) (input_parts ms))"

definition buildInput :: "chat_request \<Rightarrow> string option" where
  "buildInput req =
     map_option (\<lambda>ps. trim_space (join_with [CHR 0x0A] ps)) (input_parts (messages req))"

definition classifyPrompt :: "string \<Rightarrow> string" where
  "classifyPrompt input = join_with [CHR 0x0A]
     [''Classify the following chat request for a local policy engine. Return only JSON with these fields:'',
      ''- action_type: one of code_diagnosis, code_generation, architecture, explanation, refactor, review, general_qa'',
      ''- sensitivity: one of public, internal, proprietary, trade_secret'',
      ''- requires_context: boolean'',
      ''- execution_mode: one of direct, plan_first'',
      ''- confidence: number from 0 to 1'',
      [],
      ''Request:'',
      input]"

definition OllamaClassify ::
    "(string \<Rightarrow> string \<Rightarrow> string option) \<Rightarrow> string \<Rightarrow> chat_request \<Rightarrow> classify_error + intent" where
  "OllamaClassify generate model req =
     (case buildInput req of None \<Rightarrow> Inl ContentUnreadable
      | Some input \<Rightarrow>
          (case generate model (classifyPrompt input) of None \<Rightarrow> Inl GenerateFailed
           | Some response \<Rightarrow>
               (case parseClassification response of
                  Inl e \<Rightarrow> Inl e
                | Inr i \<Rightarrow> if below_half (ic_Confidence i) then Inl LowConfidence else Inr i)))"

text \<open>\<open>SafeClassifier\<close>: no classifier, or an error of it, is no classification.\<close>

definition SafeClassify :: "(chat_request \<Rightarrow> classify_error + intent) option \<Rightarrow> chat_request \<Rightarrow> intent option" where
  "SafeClassify primary req =
     (case primary of None \<Rightarrow> None
      | Some classify \<Rightarrow> (case classify req of Inl e \<Rightarrow> None | Inr i \<Rightarrow> Some i))"

definition intent_ok :: "intent \<Rightarrow> bool" where
  "intent_ok i \<longleftrightarrow> validActionType (ic_Action i) \<and> validSensitivity (ic_Sensitivity i) \<and>
     validExecutionMode (ic_ExecutionMode i)"

lemma parseClassification_ok: "parseClassification response = Inr i \<Longrightarrow> intent_ok i"
  by (auto simp: parseClassification_def intent_ok_def Let_def split: option.splits if_splits)

lemma SafeClassify_cases:
  "SafeClassify (Some (OllamaClassify generate model)) req = Some i \<Longrightarrow>
     intent_ok i \<and> \<not> below_half (ic_Confidence i)"
  by (auto simp: SafeClassify_def OllamaClassify_def dest: parseClassification_ok
      split: option.splits sum.splits if_splits)

end
