(* ===== verification/Index_Chunks.thy ===== *)
theory Index_Chunks
  imports Go_Json "HOL-Library.Word"
begin

text \<open>
  \<open>internal/index/chunker.go\<close>, \<open>vectors.go\<close> and the content checks of \<open>discovery.go\<close>: splitting a
  file into chunks of lines, and the binary form of an embedding. SHA-256 is the parameter
  \<open>hash\<close> (the lower-case hexadecimal digest). A \<open>float32\<close> is its 32-bit pattern, as
  \<open>math.Float32bits\<close> gives it, so encoding and decoding are exact. Line counts are natural
  numbers; the loop advances by a positive number of lines.
\<close>

record source_file =
  sfl_AbsolutePath :: string
  sfl_RelativePath :: string
  sfl_Content :: string
  sfl_SizeBytes :: int

record document_record =
  dr_Path :: string
  dr_ContentHash :: string
  dr_SizeBytes :: int

record chunk_record =
  ck_ID :: string
  ck_DocumentPath :: string
  ck_Ordinal :: nat
  ck_StartLine :: nat
  ck_EndLine :: nat
  ck_Content :: string
  ck_ContentHash :: string

record vector_record =
  vr_ChunkID :: string
  vr_Dimensions :: nat
  vr_Embedding :: "8 word list"

abbreviation newline :: char where "newline \<equiv> CHR 0x0A"

definition BuildDocument :: "(string \<Rightarrow> string) \<Rightarrow> source_file \<Rightarrow> document_record" where
  "BuildDocument hash f =
     \<lparr>dr_Path = sfl_RelativePath f, dr_ContentHash = hash (sfl_Content f), dr_SizeBytes = sfl_SizeBytes f\<rparr>"

section \<open>Chunks\<close>

definition make_chunk :: "(string \<Rightarrow> string) \<Rightarrow> string \<Rightarrow> nat \<Rightarrow> nat \<Rightarrow> string list \<Rightarrow> chunk_record" where
  "make_chunk hash path ordinal start part =
     (let content = join_with [newline] part; h = hash content in
      \<lparr>ck_ID = hash (path @ '':'' @ nat_str ordinal @ '':'' @ h), ck_DocumentPath = path,
       ck_Ordinal = ordinal, ck_StartLine = start + 1, ck_EndLine = start + length part,
       ck_Content = content, ck_ContentHash = h\<rparr>)"

text \<open>The loop \<open>for start := 0; start < len(lines); start += linesPerChunk\<close>; \<open>lines\<close> are the lines
  from \<open>start\<close> on. A part without content is skipped and takes no ordinal.\<close>

function chunk_lines :: "(string \<Rightarrow> string) \<Rightarrow> string \<Rightarrow> nat \<Rightarrow> nat \<Rightarrow> nat \<Rightarrow> string list \<Rightarrow> chunk_record list" where
  "chunk_lines hash path n ordinal start ls =
     (if ls = [] \<or> n = 0 then []
      else let part = take n ls in
        if join_with [newline] part = [] then chunk_lines hash path n ordinal (start + n) (drop n ls)
        else make_chunk hash path ordinal start part #
             chunk_lines hash path n (Suc ordinal) (start + n) (drop n ls))"
  by pat_completeness auto
termination by (relation "measure (\<lambda>(hash, path, n, ordinal, start, ls). length ls)") auto

declare chunk_lines.simps [simp del]

definition ChunkFile :: "(string \<Rightarrow> string) \<Rightarrow> source_file \<Rightarrow> int \<Rightarrow> chunk_record list" where
  "ChunkFile hash f linesPerChunk =
     (let n = (if linesPerChunk < 1 then 120 else nat linesPerChunk) in
      if sfl_Content f = [] then []
      else chunk_lines hash (sfl_RelativePath f) n 0 0 (split_byte newline (sfl_Content f)))"

section \<open>Content\<close>

definition isIndexableText :: "string \<Rightarrow> bool" where
  "isIndexableText data \<longleftrightarrow> data = [] \<or> (CHR 0x00 \<notin> set data \<and> valid_utf8 data)"

fun crlf_to_lf :: "string \<Rightarrow> string" where
  "crlf_to_lf [] = []"
| "crlf_to_lf (c # s) =
     (if c = CHR 0x0D \<and> s \<noteq> [] \<and> hd s = newline then newline # crlf_to_lf (tl s)
      else c # crlf_to_lf s)"

definition normalizeContent :: "string \<Rightarrow> string" where
  "normalizeContent content =
     map (\<lambda>c. if c = CHR 0x0D then newline else c) (crlf_to_lf content)"

section \<open>Embeddings\<close>

definition put_uint32 :: "32 word \<Rightarrow> 8 word list" where
  "put_uint32 w = [ucast w, ucast (drop_bit 8 w), ucast (drop_bit 16 w), ucast (drop_bit 24 w)]"

definition get_uint32 :: "8 word \<Rightarrow> 8 word \<Rightarrow> 8 word \<Rightarrow> 8 word \<Rightarrow> 32 word" where
  "get_uint32 a b c d =
     or (ucast a) (or (push_bit 8 (ucast b)) (or (push_bit 16 (ucast c)) (push_bit 24 (ucast d))))"

definition EncodeEmbedding :: "32 word list \<Rightarrow> 8 word list" where
  "EncodeEmbedding values = concat (map put_uint32 values)"

fun decode_values :: "8 word list \<Rightarrow> 32 word list" where
  "decode_values (a # b # c # d # bs) = get_uint32 a b c d # decode_values bs"
| "decode_values _ = []"

definition DecodeEmbedding :: "8 word list \<Rightarrow> 32 word list option" where
  "DecodeEmbedding blob = (if length blob mod 4 \<noteq> 0 then None else Some (decode_values blob))"

section \<open>Laws\<close>

lemma get_put_uint32:
  "put_uint32 w = [a, b, c, d] \<Longrightarrow> get_uint32 a b c d = w"
proof -
  have "get_uint32 (ucast w) (ucast (drop_bit 8 w)) (ucast (drop_bit 16 w)) (ucast (drop_bit 24 w)) = w"
  proof (rule bit_word_eqI)
    fix n :: nat
    assume n: "n < LENGTH(32)"
    then have n32: "n < 32" by simp
    have "n < 8 \<or> 8 \<le> n \<and> n < 16 \<or> 16 \<le> n \<and> n < 24 \<or> 24 \<le> n \<and> n < 32" using n32 by auto
    then show "bit (get_uint32 (ucast w) (ucast (drop_bit 8 w)) (ucast (drop_bit 16 w)) (ucast (drop_bit 24 w))) n = bit w n"
      using n32 by (auto simp: get_uint32_def bit_simps)
  qed
  then show "put_uint32 w = [a, b, c, d] \<Longrightarrow> ?thesis" by (auto simp: put_uint32_def)
qed

lemma decode_values_put: "decode_values (put_uint32 w @ bs) = w # decode_values bs"
proof -
  obtain a b c d where "put_uint32 w = [a, b, c, d]" by (auto simp: put_uint32_def)
  with get_put_uint32 [OF this] show ?thesis by simp
qed

lemma decode_values_encode: "decode_values (EncodeEmbedding vs) = vs"
  by (induction vs) (simp_all add: EncodeEmbedding_def decode_values_put)

lemma length_EncodeEmbedding: "length (EncodeEmbedding vs) = 4 * length vs"
  by (induction vs) (simp_all add: EncodeEmbedding_def put_uint32_def)

lemma put_get_uint32: "put_uint32 (get_uint32 a b c d) = [a, b, c, d]"
  by (auto simp: put_uint32_def get_uint32_def intro!: bit_word_eqI)
    (auto simp: bit_simps dest: bit_imp_le_length)

text \<open>The invariant of a chunking of the lines \<open>ls\<close> from position \<open>start\<close> on.\<close>

definition chunk_of :: "string list \<Rightarrow> nat \<Rightarrow> chunk_record \<Rightarrow> bool" where
  "chunk_of ls n c \<longleftrightarrow> 0 < ck_StartLine c \<and> ck_StartLine c \<le> ck_EndLine c \<and> ck_EndLine c \<le> length ls \<and>
     ck_EndLine c < ck_StartLine c + n \<and>
     ck_Content c = join_with [newline] (take (ck_EndLine c + 1 - ck_StartLine c) (drop (ck_StartLine c - 1) ls))"

lemma chunk_lines_Nil [simp]: "chunk_lines hash path n ordinal start [] = []"
  by (simp add: chunk_lines.simps)

lemma chunk_lines_step:
  "ls \<noteq> [] \<Longrightarrow> n > 0 \<Longrightarrow> chunk_lines hash path n ordinal start ls =
     (if join_with [newline] (take n ls) = [] then chunk_lines hash path n ordinal (start + n) (drop n ls)
      else make_chunk hash path ordinal start (take n ls) #
           chunk_lines hash path n (Suc ordinal) (start + n) (drop n ls))"
  by (subst chunk_lines.simps) (simp add: Let_def)

lemma join_Nil_lines: "join_with [newline] ls = [] \<Longrightarrow> x \<in> set ls \<Longrightarrow> x = []"
  by (induction ls rule: induct_list012) auto

text \<open>A chunking, seen from position \<open>start\<close>: chunks of the lines, in order, disjoint, numbered
  from \<open>ordinal\<close>, and covering every line with content.\<close>

definition chunking :: "string list \<Rightarrow> nat \<Rightarrow> nat \<Rightarrow> nat \<Rightarrow> chunk_record list \<Rightarrow> bool" where
  "chunking whole n ordinal start cs \<longleftrightarrow>
     (\<forall>c \<in> set cs. chunk_of whole n c \<and> start < ck_StartLine c) \<and>
     sorted_wrt (\<lambda>c d. ck_EndLine c < ck_StartLine d) cs \<and>
     map ck_Ordinal cs = [ordinal..<ordinal + length cs] \<and>
     (\<forall>i. start \<le> i \<and> i < length whole \<and> whole ! i \<noteq> [] \<longrightarrow>
        (\<exists>c \<in> set cs. ck_StartLine c \<le> i + 1 \<and> i + 1 \<le> ck_EndLine c))"

lemma chunking_extend:
  assumes "chunking whole n ordinal s' cs" and "s \<le> s'"
    and "\<And>i. s \<le> i \<Longrightarrow> i < s' \<Longrightarrow> whole ! i = []"
  shows "chunking whole n ordinal s cs"
proof -
  have "\<exists>c \<in> set cs. ck_StartLine c \<le> i + 1 \<and> i + 1 \<le> ck_EndLine c"
    if "s \<le> i" "i < length whole" "whole ! i \<noteq> []" for i
  proof -
    have "s' \<le> i" using assms(3) [of i] that by (cases "i < s'") auto
    with assms(1) that(2,3) show ?thesis by (auto simp: chunking_def)
  qed
  with assms(1,2) show ?thesis by (auto simp: chunking_def)
qed

lemma chunk_lines_chunking:
  assumes "n > 0"
  shows "chunking (pre @ ls) n ordinal (length pre) (chunk_lines hash path n ordinal (length pre) ls)"
proof (induction "length ls" arbitrary: pre ls ordinal rule: less_induct)
  case less
  show ?case
  proof (cases "ls = []")
    case True
    then show ?thesis by (auto simp: chunking_def)
  next
    case False
    let ?part = "take n ls" and ?rest = "drop n ls"
    let ?pre = "pre @ ?part"
    have whole: "pre @ ls = ?pre @ ?rest" by simp
    have step: "chunking (pre @ ls) n ord (length ?pre) (chunk_lines hash path n ord (length pre + n) ?rest)" for ord
    proof (cases "length ls \<le> n")
      case True
      then show ?thesis by (auto simp: chunking_def)
    next
      case long: False
      then have len: "length ?pre = length pre + n" by simp
      have "length ?rest < length ls" using assms False by (simp add: length_greater_0_conv)
      from less [OF this, of ?pre ord] show ?thesis unfolding whole len .
    qed
    have lp: "length pre \<le> length ?pre" "length ?part \<le> n" "0 < length ?part"
      using assms False by auto
    show ?thesis
    proof (cases "join_with [newline] ?part = []")
      case True
      have "(pre @ ls) ! i = []" if "length pre \<le> i" "i < length ?pre" for i
      proof -
        have "(pre @ ls) ! i = ?part ! (i - length pre)" using that unfolding whole by (simp add: nth_append)
        moreover have "?part ! (i - length pre) \<in> set ?part" using that by (intro nth_mem) auto
        ultimately show ?thesis using join_Nil_lines [OF True] by simp
      qed
      then have "chunking (pre @ ls) n ordinal (length pre)
          (chunk_lines hash path n ordinal (length pre + n) ?rest)"
        using chunking_extend [OF step lp(1)] by blast
      then show ?thesis using True chunk_lines_step [OF False assms] by simp
    next
      case notNil: False
      let ?c = "make_chunk hash path ordinal (length pre) ?part"
      let ?cs = "chunk_lines hash path n (Suc ordinal) (length pre + n) ?rest"
      have c: "ck_StartLine ?c = length pre + 1" "ck_EndLine ?c = length ?pre" "ck_Ordinal ?c = ordinal"
        "ck_Content ?c = join_with [newline] ?part"
        by (simp_all add: make_chunk_def Let_def)
      have st: "chunking (pre @ ls) n (Suc ordinal) (length ?pre) ?cs" by (rule step)
      have "chunk_of (pre @ ls) n ?c" using lp using False assms by (simp add: chunk_of_def c min_def Suc_le_eq)
      moreover have "[ordinal..<ordinal + length (?c # ?cs)] = ordinal # [Suc ordinal..<Suc ordinal + length ?cs]"
        using upt_conv_Cons [of ordinal "ordinal + length (?c # ?cs)"] by simp
      moreover have "\<exists>d \<in> set (?c # ?cs). ck_StartLine d \<le> i + 1 \<and> i + 1 \<le> ck_EndLine d"
        if "length pre \<le> i" "i < length (pre @ ls)" "(pre @ ls) ! i \<noteq> []" for i
      proof (cases "i < length ?pre")
        case True
        then show ?thesis using that c by auto
      next
        case False
        then have "length ?pre \<le> i" by simp
        with st that(2,3) show ?thesis unfolding chunking_def by (meson list.set_intros(2))
      qed
      ultimately have "chunking (pre @ ls) n ordinal (length pre) (?c # ?cs)"
        using st lp c unfolding chunking_def by auto
      then show ?thesis using notNil chunk_lines_step [OF False assms] by simp
    qed
  qed
qed

lemma normalizeContent_no_cr: "CHR 0x0D \<notin> set (normalizeContent s)"
  by (auto simp: normalizeContent_def)

section \<open>Properties\<close>

text \<open>The chunks of a file are runs of at most the configured number of its lines, in order,
  disjoint and numbered from 0; each holds exactly its lines, and every line with content is in one.\<close>

theorem chunks_partition_file:
  "chunking (split_byte newline (sfl_Content f)) (if k < 1 then 120 else nat k) 0 0 (ChunkFile hash f k)"
proof (cases "sfl_Content f = []")
  case True
  have "split_byte newline (sfl_Content f) ! i = []" if "i < length (split_byte newline (sfl_Content f))" for i
    using that True by simp
  then have "chunking (split_byte newline (sfl_Content f)) (if k < 1 then 120 else nat k) 0 0 []"
    unfolding chunking_def by auto
  then show ?thesis using True by (simp add: ChunkFile_def)
next
  case False
  then show ?thesis
    using chunk_lines_chunking [of "if k < 1 then 120 else nat k" "[]" "split_byte newline (sfl_Content f)" 0]
    by (simp add: ChunkFile_def Let_def)
qed

text \<open>Embeddings survive their binary form, and the decoder refuses exactly the blobs whose
  length is not a multiple of four.\<close>

theorem embedding_roundtrip:
  "DecodeEmbedding (EncodeEmbedding values) = Some values \<and>
   (DecodeEmbedding blob = None \<longleftrightarrow> length blob mod 4 \<noteq> 0)"
  by (simp add: DecodeEmbedding_def length_EncodeEmbedding decode_values_encode)

end
