(* ===== verification/Audit_Ledger.thy ===== *)
theory Audit_Ledger
  imports Providers Index_Chunks
begin

text \<open>
  \<open>internal/audit\<close>: the append-only ledger. The file is its content, \<^const>\<open>None\<close> while it does not
  exist; a timestamp is its RFC 3339 text, the empty text the zero time. A failing system call is a
  field of the environment; a write that fails may have written a part of the line.
\<close>

abbreviation EventTypeRemoteEgress :: string where "EventTypeRemoteEgress \<equiv> ''remote_egress''"
abbreviation EventTypeRemoteDeny :: string where "EventTypeRemoteDeny \<equiv> ''remote_deny''"
abbreviation EventTypeAgentProposal :: string where "EventTypeAgentProposal \<equiv> ''agent_action_proposed''"
abbreviation EventTypeAgentApproved :: string where "EventTypeAgentApproved \<equiv> ''agent_action_approved''"
abbreviation EventTypeAgentDenied :: string where "EventTypeAgentDenied \<equiv> ''agent_action_denied''"

record event =
  ev_Timestamp :: string
  ev_Type :: string
  ev_RequestID :: string
  ev_Provider :: string
  ev_Model :: string
  ev_Verdict :: string
  ev_Reason :: string
  ev_RouteSource :: string
  ev_OutboundSHA256 :: string
  ev_SourceRefs :: "string list"
  ev_ResponseStatus :: int
  ev_ResponseSHA256 :: string
  ev_Error :: string

definition zero_event :: event where
  "zero_event = \<lparr>ev_Timestamp = [], ev_Type = [], ev_RequestID = [], ev_Provider = [], ev_Model = [],
     ev_Verdict = [], ev_Reason = [], ev_RouteSource = [], ev_OutboundSHA256 = [], ev_SourceRefs = [],
     ev_ResponseStatus = 0, ev_ResponseSHA256 = [], ev_Error = []\<rparr>"

text \<open>\<open>HashBytes\<close>; the digest is SHA-256 in hexadecimal.\<close>

definition HashBytes :: "(string \<Rightarrow> string) \<Rightarrow> string \<Rightarrow> string" where
  "HashBytes digest val = (if val = [] then [] else digest val)"

section \<open>The JSON form of an event\<close>

definition text_field :: "string \<Rightarrow> string \<Rightarrow> (string \<times> json) list" where
  "text_field k s = (if s = [] then [] else [(k, jstring s)])"

definition event_fields :: "event \<Rightarrow> (string \<times> json) list" where
  "event_fields e =
     [(''timestamp'', jstring (if ev_Timestamp e = [] then ''0001-01-01T00:00:00Z'' else ev_Timestamp e)),
      (''type'', jstring (ev_Type e)), (''request_id'', jstring (ev_RequestID e)),
      (''provider'', jstring (ev_Provider e)), (''model'', jstring (ev_Model e)),
      (''verdict'', jstring (ev_Verdict e)), (''reason'', jstring (ev_Reason e)),
      (''route_source'', jstring (ev_RouteSource e))] @
     text_field ''outbound_sha256'' (ev_OutboundSHA256 e) @
     (if ev_SourceRefs e = [] then [] else [(''source_refs'', JArr (map jstring (ev_SourceRefs e)))]) @
     (if ev_ResponseStatus e = 0 then [] else [(''response_status'', JNum (itoa (ev_ResponseStatus e)))]) @
     text_field ''response_sha256'' (ev_ResponseSHA256 e) @ text_field ''error'' (ev_Error e)"

definition encode_event :: "event \<Rightarrow> string" where
  "encode_event e = marshal (marshal_object (event_fields e) [])"

text \<open>\<open>time.Time.UnmarshalJSON\<close>: a date and time of day in RFC 3339 with a zone.\<close>

definition days_in_month :: "int \<Rightarrow> int \<Rightarrow> int" where
  "days_in_month y m =
     (if m = 2 then (if y mod 4 = 0 \<and> (y mod 100 \<noteq> 0 \<or> y mod 400 = 0) then 29 else 28)
      else if m \<in> {4, 6, 9, 11} then 30 else 31)"

definition digits_field :: "nat \<Rightarrow> nat \<Rightarrow> string \<Rightarrow> int option" where
  "digits_field i n s =
     (let d = take n (drop i s) in if length d = n \<and> list_all is_dec d then parse_digits 0 d else None)"

definition zone_ok :: "string \<Rightarrow> bool" where
  "zone_ok z \<longleftrightarrow> z = ''Z'' \<or>
     (length z = 6 \<and> hd z \<in> {CHR ''+'', CHR ''-''} \<and> z ! 3 = CHR '':'' \<and>
      (case (digits_field 1 2 z, digits_field 4 2 z) of (Some h, Some m) \<Rightarrow> h < 24 \<and> m < 60 | _ \<Rightarrow> False))"

definition rfc3339 :: "string \<Rightarrow> bool" where
  "rfc3339 s \<longleftrightarrow>
     (case (digits_field 0 4 s, digits_field 5 2 s, digits_field 8 2 s) of
        (Some y, Some m, Some d) \<Rightarrow> 1 \<le> m \<and> m \<le> 12 \<and> 1 \<le> d \<and> d \<le> days_in_month y m
      | _ \<Rightarrow> False) \<and>
     (case (digits_field 11 2 s, digits_field 14 2 s, digits_field 17 2 s) of
        (Some h, Some m, Some sec) \<Rightarrow> h < 24 \<and> m < 60 \<and> sec < 60 | _ \<Rightarrow> False) \<and>
     s ! 4 = CHR ''-'' \<and> s ! 7 = CHR ''-'' \<and> s ! 10 = CHR ''T'' \<and> s ! 13 = CHR '':'' \<and> s ! 16 = CHR '':'' \<and>
     (let r = drop 19 s in
      if has_prefix r ''.''
      then takeWhile is_dec (tl r) \<noteq> [] \<and> zone_ok (dropWhile is_dec (tl r)) else zone_ok r)"

definition dec_time :: "json \<Rightarrow> string \<Rightarrow> string option" where
  "dec_time v old =
     (case v of JNull \<Rightarrow> Some old
      | JStr b \<Rightarrow> if rfc3339 b then Some (if b = ''0001-01-01T00:00:00Z'' then [] else b) else None
      | _ \<Rightarrow> None)"

definition event_field :: "string \<Rightarrow> json \<Rightarrow> event \<Rightarrow> event option" where
  "event_field k v e =
     (let n = fold_ascii k in
      if n = ''timestamp'' then map_option (\<lambda>x. e\<lparr>ev_Timestamp := x\<rparr>) (dec_time v (ev_Timestamp e))
      else if n = ''type'' then map_option (\<lambda>x. e\<lparr>ev_Type := x\<rparr>) (dec_string v (ev_Type e))
      else if n = ''request_id'' then map_option (\<lambda>x. e\<lparr>ev_RequestID := x\<rparr>) (dec_string v (ev_RequestID e))
      else if n = ''provider'' then map_option (\<lambda>x. e\<lparr>ev_Provider := x\<rparr>) (dec_string v (ev_Provider e))
      else if n = ''model'' then map_option (\<lambda>x. e\<lparr>ev_Model := x\<rparr>) (dec_string v (ev_Model e))
      else if n = ''verdict'' then map_option (\<lambda>x. e\<lparr>ev_Verdict := x\<rparr>) (dec_string v (ev_Verdict e))
      else if n = ''reason'' then map_option (\<lambda>x. e\<lparr>ev_Reason := x\<rparr>) (dec_string v (ev_Reason e))
      else if n = ''route_source'' then map_option (\<lambda>x. e\<lparr>ev_RouteSource := x\<rparr>) (dec_string v (ev_RouteSource e))
      else if n = ''outbound_sha256''
      then map_option (\<lambda>x. e\<lparr>ev_OutboundSHA256 := x\<rparr>) (dec_string v (ev_OutboundSHA256 e))
      else if n = ''source_refs'' then map_option (\<lambda>x. e\<lparr>ev_SourceRefs := x\<rparr>) (dec_strings v)
      else if n = ''response_status''
      then map_option (\<lambda>x. e\<lparr>ev_ResponseStatus := x\<rparr>) (dec_int v (ev_ResponseStatus e))
      else if n = ''response_sha256''
      then map_option (\<lambda>x. e\<lparr>ev_ResponseSHA256 := x\<rparr>) (dec_string v (ev_ResponseSHA256 e))
      else if n = ''error'' then map_option (\<lambda>x. e\<lparr>ev_Error := x\<rparr>) (dec_string v (ev_Error e))
      else Some e)"

definition decode_event :: "string \<Rightarrow> event option" where
  "decode_event line =
     (case parse_json line of None \<Rightarrow> None | Some v \<Rightarrow> dec_struct event_field v zero_event)"

section \<open>The ledger\<close>

datatype audit_error =
    CreateAuditDirectory | AuditContextDone | OpenLedger | AppendEvent | DecodeEvent | ScanLedger

record audit_env =
  au_Done :: bool
  au_OpenFails :: bool
  au_WriteFails :: "nat option"
  au_ReadFails :: bool
  au_Now :: string

type_synonym ledger = "string option"

definition NewStore :: "bool \<Rightarrow> string \<Rightarrow> audit_error + string" where
  "NewStore mkdirFails path = (if mkdirFails then Inl CreateAuditDirectory else Inr path)"

definition Record :: "audit_env \<Rightarrow> event \<Rightarrow> ledger \<Rightarrow> audit_error option \<times> ledger" where
  "Record env e file =
     (if au_Done env then (Some AuditContextDone, file)
      else if au_OpenFails env then (Some OpenLedger, file)
      else
        (let content = (case file of None \<Rightarrow> [] | Some c \<Rightarrow> c);
             stamped = (if ev_Timestamp e = [] then e\<lparr>ev_Timestamp := au_Now env\<rparr> else e);
             line = encode_event stamped @ [newline] in
         case au_WriteFails env of
           Some n \<Rightarrow> (Some AppendEvent, Some (content @ take n line))
         | None \<Rightarrow> (None, Some (content @ line))))"

text \<open>\<open>bufio.Scanner\<close> with its default buffer: lines without their end, a last empty line is none, a
  line of 64 KiB or more is an error, a carriage return at the end of a line is dropped.\<close>

definition scan_lines :: "string \<Rightarrow> string list" where
  "scan_lines content =
     (let ls = split_byte newline content in if last ls = [] then butlast ls else ls)"

fun read_events :: "string list \<Rightarrow> audit_error + event list" where
  "read_events [] = Inr []"
| "read_events (l # ls) =
     (if 65536 \<le> int (length l) then Inl ScanLedger
      else (case decode_event (trim_suffix l [CHR 0x0D]) of None \<Rightarrow> Inl DecodeEvent
        | Some e \<Rightarrow> (case read_events ls of Inl x \<Rightarrow> Inl x | Inr es \<Rightarrow> Inr (e # es))))"

definition ReadAll :: "audit_env \<Rightarrow> ledger \<Rightarrow> audit_error + event list" where
  "ReadAll env file =
     (if au_Done env then Inl AuditContextDone
      else (case file of None \<Rightarrow> Inr []
        | Some c \<Rightarrow> if au_OpenFails env then Inl OpenLedger
            else if au_ReadFails env then Inl ScanLedger
            else read_events (scan_lines c)))"


section \<open>Events survive the ledger\<close>

lemma scan_str_no_control: "scan_str s = Some (l, r) \<Longrightarrow> newline \<notin> set l"
proof (induction s arbitrary: l r rule: scan_str.induct)
  case (1 s)
  have nl: "hex_value newline = None" by code_simp
  have hex: "newline \<notin> set (take 4 t)" if "hex4 (take 4 t) \<noteq> None" for t
    using that nl by (cases "take 4 t" rule: hex4.cases) (auto split: option.splits)
  have step: "Some (l, r) = scan_str s" using "1.prems" by simp
  show ?case
    using step [unfolded scan_str.simps [of s], symmetric] "1.IH" hex
    by (auto split: list.splits if_splits simp: code_def)
qed

lemma num_step_newline [simp]: "num_step st newline = None"
  by (cases st) (simp_all add: is_dec_def code_def)

lemma scan_num_no_newline: "scan_num st s = Some (l, r) \<Longrightarrow> newline \<notin> set l"
  by (induction st s arbitrary: l r rule: scan_num.induct)
     (auto split: option.splits if_splits)

lemma join_with_set: "c \<in> set (join_with sep ss) \<Longrightarrow> c \<in> set sep \<or> (\<exists>s \<in> set ss. c \<in> set s)"
  by (induction sep ss rule: join_with.induct) auto

lemma render_no_newline: "wf_json v \<Longrightarrow> newline \<notin> set (render v)"
proof (induction v)
  case (JArr vs)
  then show ?case by (auto simp: list_all_iff dest!: join_with_set)
next
  case (JObj fs)
  then show ?case
    by (fastforce simp: list_all_iff dest!: join_with_set dest: scan_str_no_control)
qed (auto dest: scan_str_no_control scan_num_no_newline)


definition time_char :: "char \<Rightarrow> bool" where
  "time_char c \<longleftrightarrow> c \<in> set ''0123456789-+:.TZ''"

definition event_ok :: "event \<Rightarrow> bool" where
  "event_ok e \<longleftrightarrow> rfc3339 (ev_Timestamp e) \<and> list_all time_char (ev_Timestamp e) \<and>
     ev_Timestamp e \<noteq> ''0001-01-01T00:00:00Z'' \<and>
     list_all valid_utf8 [ev_Type e, ev_RequestID e, ev_Provider e, ev_Model e, ev_Verdict e, ev_Reason e,
       ev_RouteSource e, ev_OutboundSHA256 e, ev_ResponseSHA256 e, ev_Error e] \<and>
     list_all valid_utf8 (ev_SourceRefs e) \<and> go_int (ev_ResponseStatus e) \<and> int (length (encode_event e)) < 65536"

lemma event_keys_fold:
  "list_all (\<lambda>k. fold_ascii k = k \<and> valid_utf8 k)
     [''timestamp'', ''type'', ''request_id'', ''provider'', ''model'', ''verdict'', ''reason'', ''route_source'',
      ''outbound_sha256'', ''source_refs'', ''response_status'', ''response_sha256'', ''error'']"
  by code_simp

lemma quote_time: "list_all time_char s \<Longrightarrow> quote s = s"
proof (induction s)
  case Nil
  show ?case by code_simp
next
  case (Cons c s)
  have "list_all (\<lambda>c. code c < 0x80 \<and> quote_byte c = [c]) ''0123456789-+:.TZ''" by code_simp
  then have "code c < 0x80 \<and> quote_byte c = [c]"
    using Cons.prems unfolding time_char_def list_all_iff by fastforce
  with Cons show ?case by (simp add: quote_low)
qed

lemma dec_strings_jstring: "list_all valid_utf8 ss \<Longrightarrow> dec_strings (JArr (map jstring ss)) = Some ss"
proof -
  have "list_all valid_utf8 ss \<Longrightarrow> dec_all (\<lambda>x. dec_string x []) (map jstring ss) = Some ss"
    by (induction ss) (simp_all add: jstring_def dec_string_def unquote_quote)
  then show "list_all valid_utf8 ss \<Longrightarrow> ?thesis" by (simp add: dec_strings_def)
qed

lemma dec_string_jstring: "valid_utf8 s \<Longrightarrow> dec_string (jstring s) old = Some s"
  by (simp add: jstring_def dec_string_def unquote_quote)

lemma dec_time_jstring:
  assumes "event_ok e"
  shows "dec_time (jstring (ev_Timestamp e)) old = Some (ev_Timestamp e)" and "ev_Timestamp e \<noteq> []"
proof -
  have "\<not> rfc3339 []" by (simp add: rfc3339_def digits_field_def)
  then show "ev_Timestamp e \<noteq> []" using assms by (auto simp: event_ok_def)
  show "dec_time (jstring (ev_Timestamp e)) old = Some (ev_Timestamp e)"
    using assms quote_time [of "ev_Timestamp e"] by (simp add: event_ok_def dec_time_def jstring_def)
qed

lemma wire_safe_event: "wire_safe (marshal_object (event_fields e) [])"
  by (rule wire_safe_object)
     (auto simp: event_fields_def text_field_def wire_safe_jstring wire_safe_JArr list_all_iff,
      simp add: wire_safe_def scan_itoa)

lemma event_object_decodes:
  assumes "event_ok e"
  shows "dec_struct event_field (marshal_object (event_fields e) []) zero_event = Some e"
proof -
  have keys: "\<forall>(k, v) \<in> set (event_fields e). valid_utf8 k"
    using event_keys_fold by (auto simp: event_fields_def text_field_def)
  have "dec_struct event_field (marshal_object (event_fields e) []) zero_event =
      fold (\<lambda>(k, v) r. case r of None \<Rightarrow> None | Some b \<Rightarrow> event_field k v b) (event_fields e) (Some zero_event)"
    by (rule dec_fields_known [OF _ keys]) simp
  also have "\<dots> = Some e"
    using assms event_keys_fold dec_time_jstring [OF assms]
    by (simp add: event_fields_def text_field_def event_field_def Let_def zero_event_def dec_string_jstring
        dec_strings_jstring event_ok_def dec_int_def atoi_itoa)
  finally show ?thesis .
qed

lemma decode_encode_event: "event_ok e \<Longrightarrow> decode_event (encode_event e) = Some e"
  using parse_marshal [OF wire_safe_event] event_object_decodes
  by (simp add: decode_event_def encode_event_def)


definition stamp :: "audit_env \<Rightarrow> event \<Rightarrow> event" where
  "stamp env e = (if ev_Timestamp e = [] then e\<lparr>ev_Timestamp := au_Now env\<rparr> else e)"

definition ledger_text :: "event list \<Rightarrow> string" where
  "ledger_text es = concat (map (\<lambda>e. encode_event e @ [newline]) es)"

lemma encode_event_shape:
  "newline \<notin> set (encode_event e)" "\<exists>s. encode_event e = s @ ''}''"
proof -
  have "wf_json (marshal_object (event_fields e) [])" and same: "html_json (marshal_object (event_fields e) []) = marshal_object (event_fields e) []"
    using wire_safe_event [of e] by (simp_all add: wire_safe_def)
  then show "newline \<notin> set (encode_event e)"
    using render_no_newline by (simp add: encode_event_def marshal_def)
  show "\<exists>s. encode_event e = s @ ''}''"
    unfolding encode_event_def marshal_def same by (simp add: marshal_object_def)
qed

lemma split_byte_line: "d \<notin> set l \<Longrightarrow> split_byte d (l @ d # rest) = l # split_byte d rest"
  by (induction l) auto

lemma split_ledger: "split_byte newline (ledger_text es) = map encode_event es @ [[]]"
  by (induction es) (simp_all add: ledger_text_def split_byte_line encode_event_shape)

lemma scan_ledger: "scan_lines (ledger_text es) = map encode_event es"
  by (simp add: scan_lines_def split_ledger)

lemma event_line_kept: "trim_suffix (encode_event e) [CHR 0x0D] = encode_event e"
  using encode_event_shape(2) [of e] by (auto simp: trim_suffix_def has_suffix_def)

lemma read_ledger: "list_all event_ok es \<Longrightarrow> read_events (map encode_event es) = Inr es"
  by (induction es) (simp_all add: event_line_kept decode_encode_event, simp add: event_ok_def)

lemma Record_ok:
  assumes "\<not> au_Done env" and "\<not> au_OpenFails env" and "au_WriteFails env = None"
  shows "Record env e (Some (ledger_text es)) = (None, Some (ledger_text (es @ [stamp env e])))"
    and "Record env e None = (None, Some (ledger_text [stamp env e]))"
  using assms by (simp_all add: Record_def Let_def ledger_text_def stamp_def)

lemma record_all:
  assumes "\<not> au_Done env" and "\<not> au_OpenFails env" and "au_WriteFails env = None"
  shows "fold (\<lambda>e f. snd (Record env e f)) es (Some (ledger_text ds)) = Some (ledger_text (ds @ map (stamp env) es))"
  by (induction es arbitrary: ds) (simp_all add: Record_ok [OF assms])


definition sample_audit_env :: audit_env where
  "sample_audit_env = \<lparr>au_Done = False, au_OpenFails = False, au_WriteFails = None, au_ReadFails = False,
     au_Now = ''2026-04-01T12:00:00Z''\<rparr>"

definition sample_event :: event where
  "sample_event = zero_event\<lparr>ev_Type := EventTypeRemoteEgress, ev_Provider := ''openai'', ev_ResponseStatus := 200,
     ev_SourceRefs := [''docs/guide.md:1-2'']\<rparr>"


text \<open>The ledger is append-only: whatever fails, recording leaves every byte that was there.\<close>

theorem ledger_is_append_only:
  "\<exists>rest. snd (Record env e (Some content)) = Some (content @ rest)"
  by (simp add: Record_def Let_def split: option.split)

text \<open>A write that stops in the middle of a line corrupts the ledger for good: the next event is
  appended to the torn line, and no event can be read any more.\<close>

theorem torn_line_hides_the_ledger:
  "ReadAll sample_audit_env
     (snd (Record sample_audit_env sample_event
        (snd (Record (sample_audit_env\<lparr>au_WriteFails := Some 20\<rparr>) sample_event
           (snd (Record sample_audit_env sample_event None)))))) = Inl DecodeEvent"
  by code_simp

end
