(* ===== verification/Agent_Gate.thy ===== *)
theory Agent_Gate
  imports Audit_Ledger "HOL-Library.AList" "HOL-Library.Word"
begin

text \<open>
  The approval gate of \<open>internal/agent\<close> (\<open>action_proposal.go\<close>, \<open>proposal_store.go\<close>,
  \<open>gating.go\<close>): the proposals under their ids, the counter the ids come from and the audit events the
  gate records. An \<open>execute\<close> callback is a function on the state \<open>'w\<close> of the world. The methods are
  first given as they run alone, then as the sequence of critical sections that concurrent calls
  interleave: the mutex of the store covers one access, not a whole \<open>Resolve\<close>.
\<close>

abbreviation ActionKindApplyPatch :: string where "ActionKindApplyPatch \<equiv> ''apply_patch''"
abbreviation ActionKindRunTests :: string where "ActionKindRunTests \<equiv> ''run_tests''"

type_synonym payload = "(string \<times> string) list option"

record action_request =
  aq_Kind :: string
  aq_Summary :: string
  aq_Payload :: payload

record proposal =
  pr_ID :: string
  pr_Kind :: string
  pr_Summary :: string
  pr_Payload :: payload
  pr_RequestID :: string
  pr_Status :: string

datatype 'e gate_error =
    UnsupportedActionKind string | ActionSummaryEmpty | ErrProposalNotFound
  | AlreadyResolved string string | ErrApprovalRequired | ExecuteFailed 'e

definition zero_proposal :: proposal where
  "zero_proposal = \<lparr>pr_ID = [], pr_Kind = [], pr_Summary = [], pr_Payload = None, pr_RequestID = [], pr_Status = []\<rparr>"

definition validateActionRequest :: "action_request \<Rightarrow> 'e gate_error option" where
  "validateActionRequest req =
     (if aq_Kind req \<notin> {ActionKindApplyPatch, ActionKindRunTests} then Some (UnsupportedActionKind (aq_Kind req))
      else if trim_space (aq_Summary req) = [] then Some ActionSummaryEmpty
      else None)"

section \<open>The store\<close>

type_synonym proposal_store = "(string \<times> proposal) list"

definition NewProposalStore :: proposal_store where
  "NewProposalStore = []"

definition store_Put :: "proposal \<Rightarrow> proposal_store \<Rightarrow> proposal_store" where
  "store_Put p s = AList.update (pr_ID p) p s"

definition store_Get :: "string \<Rightarrow> proposal_store \<Rightarrow> 'e gate_error + proposal" where
  "store_Get i s = (case map_of s i of None \<Rightarrow> Inl ErrProposalNotFound | Some p \<Rightarrow> Inr p)"

definition store_UpdateStatus :: "string \<Rightarrow> string \<Rightarrow> proposal_store \<Rightarrow> 'e gate_error + (proposal \<times> proposal_store)" where
  "store_UpdateStatus i status s =
     (case map_of s i of None \<Rightarrow> Inl ErrProposalNotFound
      | Some p \<Rightarrow> (let q = p\<lparr>pr_Status := status\<rparr> in Inr (q, AList.update i q s)))"

definition store_Count :: "proposal_store \<Rightarrow> nat" where
  "store_Count s = length s"

interpretation proposals: keyed_store "map_of :: proposal_store \<Rightarrow> string \<Rightarrow> proposal option" AList.update
  by unfold_locales (simp_all add: update_conv')

section \<open>The gate\<close>

record gate =
  gt_Recorder :: bool
  gt_Events :: "event list"
  gt_Store :: proposal_store
  gt_Counter :: "64 word"

definition NewApprovalGate :: "bool \<Rightarrow> gate" where
  "NewApprovalGate recorder = \<lparr>gt_Recorder = recorder, gt_Events = [], gt_Store = NewProposalStore, gt_Counter = 0\<rparr>"

definition gate_record :: "event \<Rightarrow> gate \<Rightarrow> gate" where
  "gate_record e g = (if gt_Recorder g then g\<lparr>gt_Events := gt_Events g @ [e]\<rparr> else g)"

definition gate_event :: "string \<Rightarrow> proposal \<Rightarrow> string \<Rightarrow> event" where
  "gate_event type p verdict = zero_event\<lparr>ev_Type := type, ev_RequestID := pr_RequestID p, ev_Verdict := verdict,
     ev_Reason := pr_Kind p\<rparr>"

definition clonePayload :: "payload \<Rightarrow> payload" where
  "clonePayload input = map_option (\<lambda>m. fold (\<lambda>(k, v). AList.update k v) m []) input"

definition proposal_id :: "64 word \<Rightarrow> string" where
  "proposal_id n = ''proposal-'' @ nat_str (unat n)"

definition Propose :: "string \<Rightarrow> action_request \<Rightarrow> gate \<Rightarrow> ('e gate_error + proposal) \<times> gate" where
  "Propose requestID req g =
     (case validateActionRequest req of Some e \<Rightarrow> (Inl e, g)
      | None \<Rightarrow>
          (let n = gt_Counter g + 1;
               p = \<lparr>pr_ID = proposal_id n, pr_Kind = aq_Kind req, pr_Summary = aq_Summary req,
                    pr_Payload = clonePayload (aq_Payload req), pr_RequestID = requestID, pr_Status = ''pending''\<rparr> in
           (Inr p, gate_record (gate_event EventTypeAgentProposal p (pr_Status p))
                     (g\<lparr>gt_Counter := n, gt_Store := store_Put p (gt_Store g)\<rparr>))))"

type_synonym ('w, 'e) callback = "('w \<Rightarrow> 'e option \<times> 'w) option"

definition run_callback :: "('w, 'e) callback \<Rightarrow> 'w \<Rightarrow> 'e gate_error option \<times> 'w" where
  "run_callback execute w =
     (case execute of None \<Rightarrow> (None, w) | Some f \<Rightarrow> (let (e, w') = f w in (map_option ExecuteFailed e, w')))"

definition decision_status :: "bool \<Rightarrow> string" where
  "decision_status approved = (if approved then ''approved'' else ''denied'')"

definition decision_event :: "bool \<Rightarrow> string" where
  "decision_event approved = (if approved then EventTypeAgentApproved else EventTypeAgentDenied)"

definition Resolve :: "string \<Rightarrow> bool \<Rightarrow> ('w, 'e) callback \<Rightarrow> gate \<Rightarrow> 'w
    \<Rightarrow> (proposal \<times> 'e gate_error option) \<times> gate \<times> 'w" where
  "Resolve proposalID approved execute g w =
     (case store_Get proposalID (gt_Store g) of
        Inl e \<Rightarrow> ((zero_proposal, Some e), g, w)
      | Inr p \<Rightarrow>
          if pr_Status p \<noteq> ''pending'' then ((p, Some (AlreadyResolved (pr_ID p) (pr_Status p))), g, w)
          else (case store_UpdateStatus proposalID (decision_status approved) (gt_Store g) of
              Inl e \<Rightarrow> ((zero_proposal, Some e), g, w)
            | Inr (updated, s) \<Rightarrow>
                (let g' = gate_record (gate_event (decision_event approved) updated (pr_Status updated)) (g\<lparr>gt_Store := s\<rparr>) in
                 if \<not> approved then ((updated, Some ErrApprovalRequired), g', w)
                 else (let (e, w') = run_callback execute w in ((updated, e), g', w')))))"

definition Execute :: "proposal \<Rightarrow> bool \<Rightarrow> ('w, 'e) callback \<Rightarrow> gate \<Rightarrow> 'w \<Rightarrow> 'e gate_error option \<times> gate \<times> 'w" where
  "Execute p approved execute g w =
     (if \<not> approved then (Some ErrApprovalRequired, gate_record (gate_event EventTypeAgentDenied p ''denied'') g, w)
      else (let (e, w') = run_callback execute w in
            (e, gate_record (gate_event EventTypeAgentApproved p ''approved'') g, w')))"

section \<open>Concurrent calls\<close>

text \<open>A call of \<open>Resolve\<close> between its accesses to shared state.\<close>

datatype 'e phase =
    Arrived | SawPending proposal | StatusWritten proposal | EventRecorded proposal
  | Answered "proposal \<times> 'e gate_error option"

record ('w, 'e) call =
  cl_Proposal :: string
  cl_Approved :: bool
  cl_Execute :: "('w, 'e) callback"
  cl_Phase :: "'e phase"

definition advance :: "('w, 'e) call \<Rightarrow> gate \<Rightarrow> 'w \<Rightarrow> 'e phase \<times> gate \<times> 'w" where
  "advance c g w =
     (case cl_Phase c of
        Arrived \<Rightarrow>
          (case store_Get (cl_Proposal c) (gt_Store g) of
             Inl e \<Rightarrow> (Answered (zero_proposal, Some e), g, w)
           | Inr p \<Rightarrow> if pr_Status p \<noteq> ''pending''
               then (Answered (p, Some (AlreadyResolved (pr_ID p) (pr_Status p))), g, w)
               else (SawPending p, g, w))
      | SawPending p \<Rightarrow>
          (case store_UpdateStatus (cl_Proposal c) (decision_status (cl_Approved c)) (gt_Store g) of
             Inl e \<Rightarrow> (Answered (zero_proposal, Some e), g, w)
           | Inr (updated, s) \<Rightarrow> (StatusWritten updated, g\<lparr>gt_Store := s\<rparr>, w))
      | StatusWritten updated \<Rightarrow>
          (EventRecorded updated,
           gate_record (gate_event (decision_event (cl_Approved c)) updated (pr_Status updated)) g, w)
      | EventRecorded updated \<Rightarrow>
          (if \<not> cl_Approved c then (Answered (updated, Some ErrApprovalRequired), g, w)
           else (let (e, w') = run_callback (cl_Execute c) w in (Answered (updated, e), g, w')))
      | Answered r \<Rightarrow> (Answered r, g, w))"

fun answered :: "'e phase \<Rightarrow> bool" where
  "answered (Answered r) = True"
| "answered _ = False"

record ('w, 'e) system =
  sy_Gate :: gate
  sy_World :: 'w
  sy_Calls :: "('w, 'e) call list"

inductive gate_step :: "('w, 'e) system \<Rightarrow> ('w, 'e) system \<Rightarrow> bool" where
  step: "i < length (sy_Calls s) \<Longrightarrow> \<not> answered (cl_Phase (sy_Calls s ! i)) \<Longrightarrow>
     advance (sy_Calls s ! i) (sy_Gate s) (sy_World s) = (ph, g, w) \<Longrightarrow>
     gate_step s (s\<lparr>sy_Gate := g, sy_World := w, sy_Calls := (sy_Calls s)[i := (sy_Calls s ! i)\<lparr>cl_Phase := ph\<rparr>]\<rparr>)"

inductive_cases gate_stepE: "gate_step s t"


section \<open>A call that runs alone\<close>

fun run_alone :: "nat \<Rightarrow> ('w, 'e) call \<Rightarrow> gate \<Rightarrow> 'w \<Rightarrow> 'e phase \<times> gate \<times> 'w" where
  "run_alone 0 c g w = (cl_Phase c, g, w)"
| "run_alone (Suc n) c g w = (let (ph, g', w') = advance c g w in run_alone n (c\<lparr>cl_Phase := ph\<rparr>) g' w')"

lemma run_alone_answered: "cl_Phase c = Answered r \<Longrightarrow> run_alone n c g w = (Answered r, g, w)"
  by (induction n arbitrary: c) (simp_all add: advance_def)

text \<open>The critical sections refine the method: a call that no other call interrupts has
  answered after four of them, with the result, the gate and the world of \<open>Resolve\<close>.\<close>

theorem uninterrupted_call_is_resolve:
  "run_alone 4 \<lparr>cl_Proposal = i, cl_Approved = a, cl_Execute = f, cl_Phase = Arrived\<rparr> g w =
     (let (r, g', w') = Resolve i a f g w in (Answered r, g', w'))"
proof -
  have four: "(4::nat) = Suc (Suc (Suc (Suc 0)))" by simp
  show ?thesis
    by (cases a; cases "map_of (gt_Store g) i")
       (auto simp: four Resolve_def advance_def store_Get_def store_UpdateStatus_def Let_def split: prod.split)
qed

section \<open>Every call answers\<close>

fun phase_left :: "'e phase \<Rightarrow> nat" where
  "phase_left Arrived = 4"
| "phase_left (SawPending p) = 3"
| "phase_left (StatusWritten p) = 2"
| "phase_left (EventRecorded p) = 1"
| "phase_left (Answered r) = 0"

definition calls_left :: "('w, 'e) system \<Rightarrow> nat" where
  "calls_left s = (\<Sum>c \<leftarrow> sy_Calls s. phase_left (cl_Phase c))"

lemma advance_progress:
  "\<not> answered (cl_Phase c) \<Longrightarrow> phase_left (fst (advance c g w)) < phase_left (cl_Phase c)"
  by (cases "cl_Phase c") (auto simp: advance_def store_Get_def store_UpdateStatus_def Let_def split: option.split prod.split)

lemma sum_list_update_less:
  "i < length xs \<Longrightarrow> f y < f (xs ! i) \<Longrightarrow> (\<Sum>x \<leftarrow> xs[i := y]. f x) < (\<Sum>x \<leftarrow> xs. f x)" for f :: "'a \<Rightarrow> nat"
  by (induction xs arbitrary: i) (auto split: nat.splits)

lemma gate_step_decreases: "gate_step s t \<Longrightarrow> calls_left t < calls_left s"
proof (induction rule: gate_step.induct)
  case (step i s ph g w)
  from advance_progress [OF step(2), of "sy_Gate s" "sy_World s"] step(3)
  have "phase_left ph < phase_left (cl_Phase (sy_Calls s ! i))" by simp
  with step(1) show ?case
    by (simp add: calls_left_def) (rule sum_list_update_less, auto)
qed


section \<open>Only approved calls execute\<close>

text \<open>Callbacks that note the number of their call.\<close>

definition noting :: "nat \<Rightarrow> (nat list, 'e) callback" where
  "noting i = Some (\<lambda>log. (None, log @ [i]))"

definition logging_start :: "gate \<Rightarrow> (string \<times> bool) list \<Rightarrow> (nat list, 'e) system" where
  "logging_start g reqs =
     \<lparr>sy_Gate = g, sy_World = [],
      sy_Calls = map (\<lambda>(n, i, a). \<lparr>cl_Proposal = i, cl_Approved = a, cl_Execute = noting n, cl_Phase = Arrived\<rparr>)
                   (enumerate 0 reqs)\<rparr>"

definition log_ok :: "(string \<times> bool) list \<Rightarrow> (nat list, 'e) system \<Rightarrow> bool" where
  "log_ok reqs s \<longleftrightarrow> distinct (sy_World s) \<and> length (sy_Calls s) = length reqs \<and>
     (\<forall>n < length reqs. cl_Proposal (sy_Calls s ! n) = fst (reqs ! n) \<and> cl_Approved (sy_Calls s ! n) = snd (reqs ! n) \<and>
        cl_Execute (sy_Calls s ! n) = noting n) \<and>
     (\<forall>n \<in> set (sy_World s). n < length reqs \<and> snd (reqs ! n) \<and> answered (cl_Phase (sy_Calls s ! n)))"

lemma advance_world:
  assumes "advance c g w = (ph, g', w')" and "cl_Execute c = noting n" and "\<not> answered (cl_Phase c)"
  shows "w' = w \<or> (w' = w @ [n] \<and> cl_Approved c \<and> answered ph)"
  using assms
  by (cases "cl_Phase c")
     (auto simp: advance_def noting_def run_callback_def Let_def store_Get_def store_UpdateStatus_def split: option.splits if_splits)

lemma log_ok_start: "log_ok reqs (logging_start g reqs)"
  by (auto simp: log_ok_def logging_start_def nth_enumerate_eq split: prod.split)

lemma log_ok_step: "gate_step s t \<Longrightarrow> log_ok reqs s \<Longrightarrow> log_ok reqs t"
proof (induction rule: gate_step.induct)
  case (step i s ph g w)
  let ?c = "sy_Calls s ! i"
  have i: "i < length reqs" "cl_Execute ?c = noting i" "cl_Approved ?c = snd (reqs ! i)"
    using step(1,4) by (auto simp: log_ok_def)
  have "i \<notin> set (sy_World s)" using step(2,4) by (auto simp: log_ok_def)
  with advance_world [OF step(3) i(2) step(2)] i step(2,4) show ?case
    by (auto simp: log_ok_def nth_list_update)
qed

text \<open>C14: Whatever the interleaving of concurrent decisions, only approving calls execute, each at
  most once, and only when they have answered.\<close>

theorem only_approved_calls_execute:
  assumes "gate_step\<^sup>*\<^sup>* (logging_start g reqs) t"
  shows "distinct (sy_World t) \<and>
    (\<forall>n \<in> set (sy_World t). n < length reqs \<and> snd (reqs ! n) \<and> answered (cl_Phase (sy_Calls t ! n)))"
proof -
  from assms have "log_ok reqs t" by (induction rule: rtranclp_induct) (auto intro: log_ok_start log_ok_step)
  then show ?thesis by (simp add: log_ok_def)
qed


section \<open>Schedules\<close>

definition sched_step :: "nat \<Rightarrow> ('w, 'e) system \<Rightarrow> ('w, 'e) system" where
  "sched_step i s =
     (if i < length (sy_Calls s) \<and> \<not> answered (cl_Phase (sy_Calls s ! i)) then
        (let (ph, g, w) = advance (sy_Calls s ! i) (sy_Gate s) (sy_World s) in
         s\<lparr>sy_Gate := g, sy_World := w, sy_Calls := (sy_Calls s)[i := (sy_Calls s ! i)\<lparr>cl_Phase := ph\<rparr>]\<rparr>)
      else s)"

lemma sched_step_reachable: "gate_step\<^sup>*\<^sup>* s (sched_step i s)"
  by (auto simp: sched_step_def split: prod.split intro: gate_step.step)

lemma schedule_reachable: "gate_step\<^sup>*\<^sup>* s (fold sched_step is s)"
proof (induction "is" arbitrary: s)
  case (Cons i "is")
  then show ?case using sched_step_reachable by (auto intro: rtranclp_trans)
qed simp

definition one_pending :: gate where
  "one_pending = snd (Propose ''req-1'' \<lparr>aq_Kind = ActionKindRunTests, aq_Summary = ''tests'', aq_Payload = None\<rparr>
     (NewApprovalGate True) :: (unit gate_error + proposal) \<times> gate)"

text \<open>The number of times each call ran and the status the proposal is left with.\<close>

definition outcome :: "(nat list, unit) system \<Rightarrow> nat list \<times> string option \<times> string list" where
  "outcome s = (sy_World s, map_option pr_Status (map_of (gt_Store (sy_Gate s)) ''proposal-1''),
     map ev_Verdict (gt_Events (sy_Gate s)))"

lemma only_approved_calls_execute_witness:
  "distinct (sy_World (fold sched_step [0, 1, 0, 0, 0]
     (logging_start one_pending [(''proposal-1'', True), (''proposal-1'', False)] :: (nat list, unit) system)))"
  using only_approved_calls_execute [OF schedule_reachable] by blast

text \<open>C17: The status is tested and written in two critical sections, so two decisions on one proposal
  can both see it pending: an approved action is executed twice, and an action runs although the
  proposal ends up denied.\<close>

theorem pending_proposal_can_be_resolved_twice:
  "\<exists>s t. gate_step\<^sup>*\<^sup>* (logging_start one_pending [(''proposal-1'', True), (''proposal-1'', True)]) s \<and>
     gate_step\<^sup>*\<^sup>* (logging_start one_pending [(''proposal-1'', True), (''proposal-1'', False)]) t \<and>
     outcome s = ([0, 1], Some ''approved'', [''pending'', ''approved'', ''approved'']) \<and>
     outcome t = ([0], Some ''denied'', [''pending'', ''approved'', ''denied''])"
proof (intro exI conjI)
  let ?s = "fold sched_step [0, 1, 0, 0, 0, 1, 1, 1]
    (logging_start one_pending [(''proposal-1'', True), (''proposal-1'', True)])"
  let ?t = "fold sched_step [0, 1, 0, 1, 0, 0, 1, 1]
    (logging_start one_pending [(''proposal-1'', True), (''proposal-1'', False)])"
  show "gate_step\<^sup>*\<^sup>* (logging_start one_pending [(''proposal-1'', True), (''proposal-1'', True)]) ?s"
    and "gate_step\<^sup>*\<^sup>* (logging_start one_pending [(''proposal-1'', True), (''proposal-1'', False)]) ?t"
    by (rule schedule_reachable)+
  show "outcome ?s = ([0, 1], Some ''approved'', [''pending'', ''approved'', ''approved''])" by code_simp
  show "outcome ?t = ([0], Some ''denied'', [''pending'', ''approved'', ''denied''])" by code_simp
qed

section \<open>Decisions one after another\<close>

datatype gate_op = OpPropose string action_request | OpResolve string bool

text \<open>The operations of a client that waits for each answer; the world is the log of executed ids.\<close>

definition run_op :: "gate_op \<Rightarrow> gate \<times> string list \<Rightarrow> gate \<times> string list" where
  "run_op op s =
     (case op of
        OpPropose rid req \<Rightarrow> (snd (Propose rid req (fst s) :: (unit gate_error + proposal) \<times> gate), snd s)
      | OpResolve i a \<Rightarrow> snd (Resolve i a (Some (\<lambda>log. (None :: unit option, log @ [i]))) (fst s) (snd s)))"

definition status_of :: "gate \<Rightarrow> string \<Rightarrow> string option" where
  "status_of g i = map_option pr_Status (map_of (gt_Store g) i)"

definition gate_ok :: "gate \<times> string list \<Rightarrow> bool" where
  "gate_ok s \<longleftrightarrow>
     (\<forall>i. status_of (fst s) i \<noteq> None \<longrightarrow> (\<exists>n. 1 \<le> n \<and> n \<le> unat (gt_Counter (fst s)) \<and> i = ''proposal-'' @ nat_str n)) \<and>
     (\<forall>i. count_list (snd s) i = (if status_of (fst s) i = Some ''approved'' then 1 else 0)) \<and>
     (\<forall>i. status_of (fst s) i \<in> {None, Some ''pending'', Some ''approved'', Some ''denied''})"

lemma gate_record_store [simp]:
  "gt_Store (gate_record e g) = gt_Store g" "gt_Counter (gate_record e g) = gt_Counter g"
  by (simp_all add: gate_record_def)

lemma status_of_update [simp]:
  "status_of (gate_record e g) i = status_of g i"
  "status_of (g\<lparr>gt_Store := AList.update k p s\<rparr>) i = (if i = k then Some (pr_Status p) else status_of (g\<lparr>gt_Store := s\<rparr>) i)"
  by (simp_all add: status_of_def proposals.get_put)


lemma run_op_propose:
  "(run_op (OpPropose rid req) s = s) \<or>
   (snd (run_op (OpPropose rid req) s) = snd s \<and>
    gt_Counter (fst (run_op (OpPropose rid req) s)) = gt_Counter (fst s) + 1 \<and>
    status_of (fst (run_op (OpPropose rid req) s)) = (status_of (fst s))(proposal_id (gt_Counter (fst s) + 1) \<mapsto> ''pending''))"
  by (cases s) (auto simp: run_op_def Propose_def Let_def store_Put_def fun_eq_iff status_of_def proposals.get_put
      split: option.split)

lemma run_op_resolve:
  "run_op (OpResolve i a) s = s \<and> status_of (fst s) i \<noteq> Some ''pending'' \<or>
   status_of (fst s) i = Some ''pending'' \<and>
   gt_Counter (fst (run_op (OpResolve i a) s)) = gt_Counter (fst s) \<and>
   snd (run_op (OpResolve i a) s) = snd s @ (if a then [i] else []) \<and>
   status_of (fst (run_op (OpResolve i a) s)) = (status_of (fst s))(i \<mapsto> decision_status a)"
  by (cases s)
     (auto simp: run_op_def Resolve_def Let_def store_Get_def store_UpdateStatus_def run_callback_def fun_eq_iff
       status_of_def proposals.get_put split: option.split)

lemma run_op_ok:
  assumes ok: "gate_ok s" and room: "unat (gt_Counter (fst s)) < 2 ^ 64 - 1"
  shows "gate_ok (run_op op s) \<and> unat (gt_Counter (fst (run_op op s))) \<le> Suc (unat (gt_Counter (fst s)))"
proof (cases op)
  case (OpPropose rid req)
  let ?i = "proposal_id (gt_Counter (fst s) + 1)"
  have next_id: "unat (gt_Counter (fst s) + 1) = Suc (unat (gt_Counter (fst s)))"
    using room by (simp add: unat_word_ariths take_bit_nat_eq_self)
  have "?i \<noteq> ''proposal-'' @ nat_str n" if "n \<le> unat (gt_Counter (fst s))" for n
    using that next_id nat_str_inj by (fastforce simp: proposal_id_def)
  then have new: "status_of (fst s) ?i = None" using ok unfolding gate_ok_def by blast
  from run_op_propose [of rid req s] show ?thesis
  proof
    assume "run_op (OpPropose rid req) s = s"
    with ok OpPropose show ?thesis by simp
  next
    assume *: "snd (run_op (OpPropose rid req) s) = snd s \<and>
      gt_Counter (fst (run_op (OpPropose rid req) s)) = gt_Counter (fst s) + 1 \<and>
      status_of (fst (run_op (OpPropose rid req) s)) = (status_of (fst s))(?i \<mapsto> ''pending'')"
    have "\<exists>n. 1 \<le> n \<and> n \<le> unat (gt_Counter (fst s) + 1) \<and> ?i = ''proposal-'' @ nat_str n"
      unfolding next_id by (rule exI [of _ "Suc (unat (gt_Counter (fst s)))"]) (simp add: proposal_id_def next_id)
    then have "\<exists>n. 1 \<le> n \<and> n \<le> unat (gt_Counter (fst s) + 1) \<and> k = ''proposal-'' @ nat_str n"
      if "status_of (fst s) k \<noteq> None \<or> k = ?i" for k
      using that ok le_SucI unfolding gate_ok_def next_id by metis
    moreover have "count_list (snd s) k = (if ((status_of (fst s))(?i \<mapsto> ''pending'')) k = Some ''approved'' then 1 else 0)" for k
      using ok new unfolding gate_ok_def by simp
    moreover have "((status_of (fst s))(?i \<mapsto> ''pending'')) k \<in> {None, Some ''pending'', Some ''approved'', Some ''denied''}" for k
      using ok unfolding gate_ok_def by simp
    ultimately show ?thesis using * next_id OpPropose unfolding gate_ok_def by simp
  qed
next
  case (OpResolve i a)
  from run_op_resolve [of i a s] show ?thesis
  proof
    assume "run_op (OpResolve i a) s = s \<and> status_of (fst s) i \<noteq> Some ''pending''"
    with ok OpResolve show ?thesis by simp
  next
    assume *: "status_of (fst s) i = Some ''pending'' \<and>
      gt_Counter (fst (run_op (OpResolve i a) s)) = gt_Counter (fst s) \<and>
      snd (run_op (OpResolve i a) s) = snd s @ (if a then [i] else []) \<and>
      status_of (fst (run_op (OpResolve i a) s)) = (status_of (fst s))(i \<mapsto> decision_status a)"
    let ?st = "(status_of (fst s))(i \<mapsto> decision_status a)"
    have "\<exists>n. 1 \<le> n \<and> n \<le> unat (gt_Counter (fst s)) \<and> k = ''proposal-'' @ nat_str n" if "?st k \<noteq> None" for k
      using that ok * unfolding gate_ok_def by (metis fun_upd_apply option.distinct(1))
    moreover have "count_list (snd s @ (if a then [i] else [])) k = (if ?st k = Some ''approved'' then 1 else 0)" for k
      using ok * unfolding gate_ok_def by (simp add: decision_status_def)
    moreover have "?st k \<in> {None, Some ''pending'', Some ''approved'', Some ''denied''}" for k
      using ok unfolding gate_ok_def by (simp add: decision_status_def)
    ultimately show ?thesis using * OpResolve unfolding gate_ok_def by simp
  qed
qed

lemma run_ops_ok:
  assumes "gate_ok s" and "unat (gt_Counter (fst s)) + length ops < 2 ^ 64"
  shows "gate_ok (fold run_op ops s)"
  using assms
proof (induction ops arbitrary: s)
  case (Cons op ops)
  have "gate_ok (run_op op s) \<and> unat (gt_Counter (fst (run_op op s))) \<le> Suc (unat (gt_Counter (fst s)))"
    by (rule run_op_ok) (use Cons.prems in auto)
  with Cons show ?case by simp
qed simp



end
