(* ===== verification/Index_Discovery.thy ===== *)
theory Index_Discovery
  imports Index_Chunks Config_Types
begin

text \<open>
  \<open>internal/index/discovery.go\<close> and the walk of \<open>graphify.go\<close>: which files of a tree are indexed.
  A file tree is the datatype \<open>fs_node\<close>, as \<open>lstat\<close> sees it; the entries of a directory come in the
  order \<open>filepath.WalkDir\<close> reads them, and a failure of the operating system (an unreadable directory
  or file, an entry that vanished) is a node of its own. A symbolic link carries the node it leads
  to. \<open>path.Match\<close> is modelled without its error: \<open>matchPathSegments\<close> treats a malformed pattern
  as one that does not match.
\<close>

section \<open>Patterns\<close>

text \<open>The first rune of a string, as its bytes; a byte that starts no valid encoding decodes to
  U+FFFD and is one byte wide. Runes are compared through their encodings, whose bytewise order is
  the order of the code points.\<close>

definition decode_rune :: "string \<Rightarrow> string \<times> nat" where
  "decode_rune s =
     (if utf8_len s = 0 then (replacement_rune, min 1 (length s)) else (take (utf8_len s) s, utf8_len s))"

text \<open>A possibly escaped character of a class: the rune and the rest of the pattern, which may not
  be empty.\<close>

definition get_esc :: "string \<Rightarrow> (string \<times> string) option" where
  "get_esc chunk =
     (let c = (case chunk of [] \<Rightarrow> None
               | x # xs \<Rightarrow> if x = CHR ''-'' \<or> x = CHR '']'' then None
                          else if x = backslash then (if xs = [] then None else Some xs)
                          else Some chunk)
      in case c of None \<Rightarrow> None
         | Some s \<Rightarrow> if utf8_len s = 0 \<or> drop (utf8_len s) s = [] then None
                    else Some (take (utf8_len s) s, drop (utf8_len s) s))"

lemma get_esc_shorter: "get_esc s = Some (r, t) \<Longrightarrow> length t < length s"
  by (auto simp: get_esc_def Let_def split: list.splits if_splits option.splits)

text \<open>The ranges of a class up to the closing bracket: whether the rune is in one, and the rest.\<close>

function class_ranges :: "string \<Rightarrow> bool \<Rightarrow> bool \<Rightarrow> string \<Rightarrow> (bool \<times> string) option" where
  "class_ranges r started found chunk =
     (if started \<and> has_prefix chunk '']'' then Some (found, drop 1 chunk)
      else (case get_esc chunk of None \<Rightarrow> None
            | Some (lo, rest) \<Rightarrow>
                (if has_prefix rest ''-'' then
                   (case get_esc (drop 1 rest) of None \<Rightarrow> None
                    | Some (hi, rest') \<Rightarrow> class_ranges r True (found \<or> (lo \<le> r \<and> r \<le> hi)) rest')
                 else class_ranges r True (found \<or> r = lo) rest)))"
  by pat_completeness auto
termination
  by (relation "measure (\<lambda>(r, b, f, s). length s)") (auto dest!: get_esc_shorter)

declare class_ranges.simps [simp del]

lemma class_ranges_shorter:
  "class_ranges r b f s = Some (g, t) \<Longrightarrow> length t \<le> length s"
proof (induction r b f s rule: class_ranges.induct)
  case (1 r b f s)
  show ?case
    using 1 get_esc_shorter [of s] get_esc_shorter [of "drop 1 _"]
    by (subst (asm) (3) class_ranges.simps) (fastforce split: if_splits option.splits)
qed

text \<open>\<open>matchChunk\<close>: the rest of the string after a chunk without stars has matched its start.\<close>

function match_chunk :: "string \<Rightarrow> string \<Rightarrow> string option" where
  "match_chunk chunk s =
     (case chunk of [] \<Rightarrow> Some s
      | p # ps \<Rightarrow>
          if s = [] then None
          else if p = CHR ''['' then
            (let neg = has_prefix ps ''^'' in
             case class_ranges (fst (decode_rune s)) False False (if neg then drop 1 ps else ps) of
               None \<Rightarrow> None
             | Some (found, rest) \<Rightarrow>
                 if found = neg then None else match_chunk rest (drop (snd (decode_rune s)) s))
          else if p = CHR ''?'' then
            (if hd s = slash then None else match_chunk ps (drop (snd (decode_rune s)) s))
          else if p = backslash then
            (case ps of [] \<Rightarrow> None | q # qs \<Rightarrow> if q = hd s then match_chunk qs (tl s) else None)
          else if p = hd s then match_chunk ps (tl s) else None)"
  by pat_completeness auto
termination
  by (relation "measure (\<lambda>(c, s). length c)") (auto dest!: class_ranges_shorter split: if_splits)

declare match_chunk.simps [simp del]

fun scan_chunk :: "bool \<Rightarrow> string \<Rightarrow> string \<times> string" where
  "scan_chunk inrange [] = ([], [])"
| "scan_chunk inrange (c # s) =
     (if c = backslash \<and> s \<noteq> [] then (let (a, b) = scan_chunk inrange (tl s) in (c # hd s # a, b))
      else if c = CHR ''*'' \<and> \<not> inrange then ([], c # s)
      else (let (a, b) = scan_chunk (if c = CHR ''['' then True else if c = CHR '']'' then False else inrange) s
            in (c # a, b)))"

lemma scan_chunk_append: "scan_chunk r s = (a, b) \<Longrightarrow> s = a @ b"
proof (induction r s arbitrary: a b rule: scan_chunk.induct)
  case (2 r c s)
  then show ?case by (cases s) (auto split: if_splits prod.splits)
qed simp

lemma scan_chunk_progress: "scan_chunk False s = (a, b) \<Longrightarrow> s \<noteq> [] \<Longrightarrow> hd s \<noteq> CHR ''*'' \<Longrightarrow> length b < length s"
  by (cases s) (auto split: if_splits prod.splits dest!: scan_chunk_append simp: neq_Nil_conv)

text \<open>The first position, reached over bytes other than a slash, where the chunk matches; the last
  chunk has to match to the end.\<close>

fun star_skip :: "string \<Rightarrow> bool \<Rightarrow> string \<Rightarrow> string option" where
  "star_skip chunk last_one [] = None"
| "star_skip chunk last_one (c # s) =
     (if c = slash then None
      else (case match_chunk chunk s of
              Some t \<Rightarrow> if last_one \<and> t \<noteq> [] then star_skip chunk last_one s else Some t
            | None \<Rightarrow> star_skip chunk last_one s))"

function path_match :: "string \<Rightarrow> string \<Rightarrow> bool" where
  "path_match pattern name =
     (if pattern = [] then name = []
      else let star = (hd pattern = CHR ''*'');
               (chunk, rest) = scan_chunk False (dropWhile (\<lambda>c. c = CHR ''*'') pattern) in
        if star \<and> chunk = [] then slash \<notin> set name
        else if length rest < length pattern then
          (case match_chunk chunk name of
             Some t \<Rightarrow> if t = [] \<or> rest \<noteq> [] then path_match rest t
                      else if star then (case star_skip chunk (rest = []) name of
                                           Some u \<Rightarrow> path_match rest u | None \<Rightarrow> False)
                      else False
           | None \<Rightarrow> if star then (case star_skip chunk (rest = []) name of
                                     Some u \<Rightarrow> path_match rest u | None \<Rightarrow> False)
                    else False)
        else False)"
  by pat_completeness auto
termination
  by (relation "measure (\<lambda>(p, n). length p)") auto

declare path_match.simps [simp del]

text \<open>The length test above always holds: scanning a chunk consumes part of the pattern.\<close>

lemma path_match_progress:
  assumes "pattern \<noteq> []" and "scan_chunk False (dropWhile (\<lambda>c. c = CHR ''*'') pattern) = (chunk, rest)"
    and "\<not> (hd pattern = CHR ''*'' \<and> chunk = [])"
  shows "length rest < length pattern"
proof -
  let ?p = "dropWhile (\<lambda>c. c = CHR ''*'') pattern"
  have le: "length ?p \<le> length pattern" by (rule length_dropWhile_le)
  show ?thesis
  proof (cases "?p = []")
    case True
    with assms have "rest = []" by simp
    with assms(1) show ?thesis by simp
  next
    case False
    then have "hd ?p \<noteq> CHR ''*''" using hd_dropWhile by blast
    with scan_chunk_progress [OF assms(2) False] le show ?thesis by simp
  qed
qed

text \<open>\<open>strings.ContainsAny(pattern, "*?[")\<close>.\<close>

definition has_glob :: "string \<Rightarrow> bool" where
  "has_glob pattern \<longleftrightarrow> list_ex (\<lambda>c. c \<in> {CHR ''*'', CHR ''?'', CHR ''[''}) pattern"

function matchPathSegments :: "string list \<Rightarrow> string list \<Rightarrow> bool" where
  "matchPathSegments ps vs =
     (case ps of [] \<Rightarrow> vs = []
      | p # ps' \<Rightarrow>
          if p = ''**'' then
            matchPathSegments ps' vs \<or> (case vs of [] \<Rightarrow> False | v # vs' \<Rightarrow> matchPathSegments ps vs')
          else (case vs of [] \<Rightarrow> False | v # vs' \<Rightarrow> path_match p v \<and> matchPathSegments ps' vs'))"
  by pat_completeness auto
termination
  by (relation "measure (\<lambda>(ps, vs). length ps + length vs)") auto

declare matchPathSegments.simps [simp del]

definition matchesGlob :: "string \<Rightarrow> string \<Rightarrow> bool" where
  "matchesGlob pattern value \<longleftrightarrow>
     has_glob pattern \<and> matchPathSegments (split_byte slash pattern) (split_byte slash value)"

definition pattern_hit :: "string \<Rightarrow> string \<Rightarrow> bool" where
  "pattern_hit value pattern \<longleftrightarrow>
     (let p = trim_space pattern in
      p \<noteq> [] \<and>
      (value = p \<or> has_prefix value (p @ ''/'') \<or> matchesGlob p value \<or>
       (slash \<notin> set p \<and> matchesGlob p (path_base value))))"

definition matchesPattern :: "string \<Rightarrow> string list \<Rightarrow> bool" where
  "matchesPattern value patterns \<longleftrightarrow> list_ex (pattern_hit (trim_space value)) patterns"

definition shouldSkipDir :: "string \<Rightarrow> bool" where
  "shouldSkipDir name \<longleftrightarrow> name \<in> {''.git'', ''node_modules'', ''.direnv'', ''.idea''}"

section \<open>The walk\<close>

datatype fs_node =
    FileNode string
  | UnreadableFile int
  | VanishedFile
  | DirNode "(string \<times> fs_node) list"
  | UnreadableDir
  | SymNode "fs_node option"

datatype walk_error = ErrEntryInfo string | ErrReadFile string | ErrReadDir string

definition maxIndexableBytes :: int where
  "maxIndexableBytes = 1048576"

definition child_path :: "string \<Rightarrow> string \<Rightarrow> string" where
  "child_path dir name = (if dir = [] then name else if dir = ''/'' then ''/'' @ name else dir @ ''/'' @ name)"

definition path_filtered :: "index_config \<Rightarrow> string \<Rightarrow> bool" where
  "path_filtered cfg rel \<longleftrightarrow>
     matchesPattern rel (ix_Excludes cfg) \<or>
     (ix_Includes cfg \<noteq> [] \<and> \<not> matchesPattern rel (ix_Includes cfg))"

text \<open>The callback on one entry of a directory, and \<open>WalkDir\<close> below it; \<open>absp\<close> and \<open>rel\<close> are the
  path of the entry and its path relative to the root.\<close>

fun walk_node :: "index_config \<Rightarrow> string \<Rightarrow> string \<Rightarrow> string \<Rightarrow> fs_node \<Rightarrow> walk_error + source_file list"
and walk_entries :: "index_config \<Rightarrow> string \<Rightarrow> string \<Rightarrow> (string \<times> fs_node) list \<Rightarrow> walk_error + source_file list"
where
  "walk_node cfg absp rel name (FileNode data) =
     (if path_filtered cfg rel \<or> int (length data) > maxIndexableBytes \<or> \<not> isIndexableText data then Inr []
      else Inr [\<lparr>sfl_AbsolutePath = absp, sfl_RelativePath = rel,
                sfl_Content = normalizeContent data, sfl_SizeBytes = int (length data)\<rparr>])"
| "walk_node cfg absp rel name (UnreadableFile bytes) =
     (if path_filtered cfg rel \<or> bytes > maxIndexableBytes then Inr [] else Inl (ErrReadFile absp))"
| "walk_node cfg absp rel name VanishedFile =
     (if path_filtered cfg rel then Inr [] else Inl (ErrEntryInfo absp))"
| "walk_node cfg absp rel name (DirNode es) =
     (if shouldSkipDir name \<or> matchesPattern rel (ix_Excludes cfg) then Inr []
      else walk_entries cfg absp rel es)"
| "walk_node cfg absp rel name UnreadableDir =
     (if shouldSkipDir name \<or> matchesPattern rel (ix_Excludes cfg) then Inr [] else Inl (ErrReadDir absp))"
| "walk_node cfg absp rel name (SymNode target) = Inr []"
| "walk_entries cfg absp rel [] = Inr []"
| "walk_entries cfg absp rel ((name, node) # es) =
     (case walk_node cfg (child_path absp name) (child_path rel name) name node of
        Inl e \<Rightarrow> Inl e
      | Inr fs \<Rightarrow> (case walk_entries cfg absp rel es of Inl e \<Rightarrow> Inl e | Inr gs \<Rightarrow> Inr (fs @ gs)))"

datatype discover_error =
  ErrRootEmpty | ErrResolveRoot | ErrStatRoot | ErrRootNotDir | ErrWalk walk_error

fun stat_node :: "fs_node \<Rightarrow> fs_node option" where
  "stat_node (SymNode None) = None"
| "stat_node (SymNode (Some n)) = stat_node n"
| "stat_node n = Some n"

definition is_dir :: "fs_node \<Rightarrow> bool" where
  "is_dir n = (case n of DirNode es \<Rightarrow> True | UnreadableDir \<Rightarrow> True | _ \<Rightarrow> False)"

text \<open>\<open>lookup\<close> is the file system: the node at an absolute path. The callback returns at once for
  the root itself, which \<open>WalkDir\<close> looks up without following a symbolic link.\<close>

definition DiscoverFiles :: "string option \<Rightarrow> (string \<Rightarrow> fs_node option) \<Rightarrow> index_config \<Rightarrow> discover_error + source_file list" where
  "DiscoverFiles cwd lookup cfg =
     (let root = trim_space (ix_Root cfg) in
      if root = [] then Inl ErrRootEmpty
      else case path_abs cwd root of
        None \<Rightarrow> Inl ErrResolveRoot
      | Some absRoot \<Rightarrow>
          (case lookup absRoot of None \<Rightarrow> Inl ErrStatRoot
           | Some node \<Rightarrow>
               (case stat_node node of None \<Rightarrow> Inl ErrStatRoot
                | Some target \<Rightarrow>
                    if \<not> is_dir target then Inl ErrRootNotDir
                    else (case node of
                            DirNode es \<Rightarrow>
                              (case walk_entries cfg absRoot [] es of
                                 Inl e \<Rightarrow> Inl (ErrWalk e)
                               | Inr fs \<Rightarrow> Inr (sort_on sfl_RelativePath fs))
                          | UnreadableDir \<Rightarrow> Inl (ErrWalk (ErrReadDir absRoot))
                          | _ \<Rightarrow> Inr []))))"

section \<open>What is discovered\<close>

text \<open>The files the configuration admits: regular files of indexable text and admissible size that no
  exclusion matches, below directories that are neither excluded nor skipped.\<close>

inductive admitted :: "index_config \<Rightarrow> string \<Rightarrow> (string \<times> fs_node) list \<Rightarrow> string \<Rightarrow> string \<Rightarrow> bool" where
  admitted_file: "(name, FileNode data) \<in> set es \<Longrightarrow> \<not> path_filtered cfg (child_path dir name) \<Longrightarrow>
     int (length data) \<le> maxIndexableBytes \<Longrightarrow> isIndexableText data \<Longrightarrow>
     admitted cfg dir es (child_path dir name) data"
| admitted_dir: "(name, DirNode es') \<in> set es \<Longrightarrow> \<not> shouldSkipDir name \<Longrightarrow>
     \<not> matchesPattern (child_path dir name) (ix_Excludes cfg) \<Longrightarrow>
     admitted cfg (child_path dir name) es' rel data \<Longrightarrow> admitted cfg dir es rel data"

inductive_cases admitted_elim: "admitted cfg dir es rel data"

lemma admitted_mono: "admitted cfg dir es rel data \<Longrightarrow> set es \<subseteq> set es' \<Longrightarrow> admitted cfg dir es' rel data"
  by (erule admitted_elim) (auto intro: admitted.intros)

definition file_entry :: "source_file \<Rightarrow> string \<times> string \<times> int" where
  "file_entry f = (sfl_RelativePath f, sfl_Content f, sfl_SizeBytes f)"

definition admitted_entries :: "index_config \<Rightarrow> string \<Rightarrow> (string \<times> fs_node) list \<Rightarrow> (string \<times> string \<times> int) set" where
  "admitted_entries cfg dir es =
     {(rel, normalizeContent data, int (length data)) |rel data. admitted cfg dir es rel data}"

lemma admitted_Nil [simp]: "\<not> admitted cfg dir [] rel data"
  by (auto elim: admitted_elim)

lemma admitted_Cons:
  "admitted cfg dir ((name, node) # es) rel data \<longleftrightarrow> admitted cfg dir [(name, node)] rel data \<or> admitted cfg dir es rel data"
  (is "?l \<longleftrightarrow> ?r")
proof
  assume ?l
  then show ?r by (rule admitted_elim) (auto intro: admitted.intros)
next
  assume ?r
  then show ?l by (auto intro: admitted_mono)
qed

lemma admitted_single:
  "admitted cfg dir [(name, node)] rel data \<longleftrightarrow>
     (case node of
        FileNode d \<Rightarrow> d = data \<and> rel = child_path dir name \<and> \<not> path_filtered cfg rel \<and>
          int (length data) \<le> maxIndexableBytes \<and> isIndexableText data
      | DirNode es \<Rightarrow> \<not> shouldSkipDir name \<and> \<not> matchesPattern (child_path dir name) (ix_Excludes cfg) \<and>
          admitted cfg (child_path dir name) es rel data
      | _ \<Rightarrow> False)"
  by (auto elim: admitted_elim intro: admitted.intros split: fs_node.splits)

lemma admitted_entries_Nil [simp]: "admitted_entries cfg dir [] = {}"
  by (simp add: admitted_entries_def)

lemma admitted_entries_Cons:
  "admitted_entries cfg dir ((name, node) # es) = admitted_entries cfg dir [(name, node)] \<union> admitted_entries cfg dir es"
  by (auto simp: admitted_entries_def admitted_Cons [of cfg dir name node es])

lemma admitted_entries_dir:
  "admitted_entries cfg dir [(name, DirNode es)] =
     (if shouldSkipDir name \<or> matchesPattern (child_path dir name) (ix_Excludes cfg) then {}
      else admitted_entries cfg (child_path dir name) es)"
  by (auto simp: admitted_entries_def admitted_single)

lemma admitted_entries_file:
  "admitted_entries cfg dir [(name, FileNode data)] =
     (if path_filtered cfg (child_path dir name) \<or> int (length data) > maxIndexableBytes \<or> \<not> isIndexableText data then {}
      else {(child_path dir name, normalizeContent data, int (length data))})"
  by (auto simp: admitted_entries_def admitted_single)

lemma walk_exact:
  "walk_node cfg absp rel name node = Inr fs \<Longrightarrow> rel = child_path dir name \<Longrightarrow>
     file_entry ` set fs = admitted_entries cfg dir [(name, node)]"
  "walk_entries cfg absp dir es = Inr fs \<Longrightarrow> file_entry ` set fs = admitted_entries cfg dir es"
proof (induction cfg absp rel name node and cfg absp dir es arbitrary: fs dir and fs
    rule: walk_node_walk_entries.induct)
  case (1 cfg absp rel name data)
  then show ?case by (auto simp: admitted_entries_file file_entry_def split: if_splits)
next
  case (4 cfg absp rel name es)
  then show ?case by (auto simp: admitted_entries_dir split: if_splits)
next
  case (8 cfg absp rel name node es)
  obtain as bs where a: "walk_node cfg (child_path absp name) (child_path rel name) name node = Inr as"
    and b: "walk_entries cfg absp rel es = Inr bs" and fs: "fs = as @ bs"
    using "8.prems" by (auto split: sum.splits)
  show ?case
    using "8.IH"(1) [OF a refl] "8.IH"(2) [OF a b]
    by (simp add: fs image_Un admitted_entries_Cons [of cfg rel name node es])
qed (auto simp: admitted_entries_def admitted_single split: if_splits)

section \<open>Properties\<close>

text \<open>C36: for a readable index root that is a directory, the discovered files are exactly the regular
  text files that the configuration admits, with normalised content, sorted by relative path:
  no excluded file and no file below an excluded or skipped directory is ever indexed.\<close>

theorem discovers_admitted_files:
  assumes "DiscoverFiles cwd lookup cfg = Inr files"
    and "path_abs cwd (trim_space (ix_Root cfg)) = Some absRoot" and "lookup absRoot = Some (DirNode es)"
  shows "file_entry ` set files = admitted_entries cfg [] es \<and> sorted (map sfl_RelativePath files)"
proof -
  obtain fs where "walk_entries cfg absRoot [] es = Inr fs" and "files = sort_on sfl_RelativePath fs"
    using assms by (auto simp: DiscoverFiles_def Let_def is_dir_def split: if_splits sum.splits)
  then show ?thesis using walk_exact(2) by (simp add: sorted_sort_on)
qed

definition sample_index :: index_config where
  "sample_index = \<lparr>ix_Root = ''/r'', ix_Includes = [], ix_Excludes = [''*.log'', ''out/**''], ix_ChunkSizeLines = 1\<rparr>"

definition sample_tree :: "(string \<times> fs_node) list" where
  "sample_tree = [(''.git'', DirNode [(''c'', FileNode ''x'')]), (''a.log'', FileNode ''l''),
     (''m'', FileNode ''hi''), (''out'', DirNode [(''o'', FileNode ''o'')])]"

theorem discovers_admitted_files_witness:
  "file_entry ` {\<lparr>sfl_AbsolutePath = ''/r/m'', sfl_RelativePath = ''m'', sfl_Content = ''hi'', sfl_SizeBytes = 2\<rparr>} =
     admitted_entries sample_index [] sample_tree"
proof -
  have "DiscoverFiles None (\<lambda>_. Some (DirNode sample_tree)) sample_index =
      Inr [\<lparr>sfl_AbsolutePath = ''/r/m'', sfl_RelativePath = ''m'', sfl_Content = ''hi'', sfl_SizeBytes = 2\<rparr>]"
    by code_simp
  moreover have "path_abs None (trim_space (ix_Root sample_index)) = Some ''/r''" by code_simp
  ultimately show ?thesis using discovers_admitted_files by fastforce
qed

text \<open>An index root that is a symbolic link to a directory passes every check and nothing below it
  is indexed.\<close>

theorem symlinked_root_indexes_nothing:
  assumes "trim_space (ix_Root cfg) \<noteq> []"
    and "path_abs cwd (trim_space (ix_Root cfg)) = Some absRoot"
    and "lookup absRoot = Some (SymNode (Some (DirNode es)))"
  shows "DiscoverFiles cwd lookup cfg = Inr []"
  using assms by (simp add: DiscoverFiles_def Let_def is_dir_def)

theorem symlinked_root_indexes_nothing_witness:
  "DiscoverFiles None (\<lambda>_. Some (SymNode (Some (DirNode sample_tree)))) sample_index = Inr []"
proof -
  have "trim_space (ix_Root sample_index) \<noteq> []" "path_abs None (trim_space (ix_Root sample_index)) = Some ''/r''"
    by code_simp+
  then show ?thesis by (rule symlinked_root_indexes_nothing) simp
qed

end
