(* ===== verification/Index_Graphify.thy ===== *)
theory Index_Graphify
  imports Index_Discovery Openai_Types
begin

text \<open>
  \<open>internal/index/graphify.go\<close> and \<open>graphify_status.go\<close>: the artifacts of a knowledge graph as
  files of the index. Every failure below the configured directory skips the artifact it concerns,
  so the function of the code never returns its error and has none here. The text that \<open>%v\<close> gives for a
  JSON number, array or object is the parameter \<open>fmt\<close>.
\<close>

definition graphifyPrefix :: string where
  "graphifyPrefix = ''graphify/''"

record graphify_graph =
  gg_Nodes :: "json list"
  gg_Edges :: "json list"

text \<open>A field of type \<open>[]map[string]any\<close>.\<close>

definition is_object_or_null :: "json \<Rightarrow> bool" where
  "is_object_or_null v = (case v of JObj fs \<Rightarrow> True | JNull \<Rightarrow> True | _ \<Rightarrow> False)"

definition dec_objects :: "json \<Rightarrow> json list option" where
  "dec_objects v =
     (case v of JArr vs \<Rightarrow> if list_all is_object_or_null vs then Some vs else None
      | JNull \<Rightarrow> Some [] | _ \<Rightarrow> None)"

definition graph_field :: "string \<Rightarrow> json \<Rightarrow> graphify_graph \<Rightarrow> graphify_graph option" where
  "graph_field k v g =
     (if equal_fold_ascii k ''nodes'' then map_option (\<lambda>x. g\<lparr>gg_Nodes := x\<rparr>) (dec_objects v)
      else if equal_fold_ascii k ''edges'' then map_option (\<lambda>x. g\<lparr>gg_Edges := x\<rparr>) (dec_objects v)
      else Some g)"

definition decode_graph :: "string \<Rightarrow> graphify_graph option" where
  "decode_graph data =
     (case parse_json data of None \<Rightarrow> None
      | Some v \<Rightarrow> dec_struct graph_field v \<lparr>gg_Nodes = [], gg_Edges = []\<rparr>)"

definition fmt_value :: "(json \<Rightarrow> string) \<Rightarrow> json option \<Rightarrow> string" where
  "fmt_value fmt v =
     (case v of None \<Rightarrow> ''<nil>'' | Some JNull \<Rightarrow> ''<nil>''
      | Some (JBool b) \<Rightarrow> (if b then ''true'' else ''false'')
      | Some (JStr b) \<Rightarrow> unquote b | Some w \<Rightarrow> fmt w)"

definition graph_node_line :: "(json \<Rightarrow> string) \<Rightarrow> nat \<Rightarrow> json \<Rightarrow> string" where
  "graph_node_line fmt i node =
     (let get = (\<lambda>k. fmt_value fmt (map_of (raw_fields node) k)) in
      ''node['' @ nat_str i @ '']: id='' @ get ''id'' @ '' label='' @ get ''label'' @ '' type='' @ get ''type'')"

text \<open>The bundled default of \<open>MaxNodes\<close> is that of \<open>DefaultConfig\<close>.\<close>

definition summarizeGraphJSON :: "(json \<Rightarrow> string) \<Rightarrow> int \<Rightarrow> string \<Rightarrow> knowledge_graph \<Rightarrow> string option" where
  "summarizeGraphJSON fmt default_max data cfg =
     (case decode_graph data of None \<Rightarrow> None
      | Some g \<Rightarrow>
          (let asked = (if kg_MaxNodes cfg \<le> 0 then default_max else kg_MaxNodes cfg);
               limit = min (nat asked) (length (gg_Nodes g)) in
           Some (join_with [newline]
             ([''nodes: '' @ nat_str (length (gg_Nodes g)), ''edges: '' @ nat_str (length (gg_Edges g))] @
              map (\<lambda>i. graph_node_line fmt i (gg_Nodes g ! i)) [0..<limit]))))"

section \<open>The walk\<close>

definition markdown_name :: "string \<Rightarrow> bool" where
  "markdown_name name \<longleftrightarrow> has_suffix name ''.md''"

definition markdown_file :: "string \<Rightarrow> string \<Rightarrow> string \<Rightarrow> source_file list" where
  "markdown_file absp rel data =
     (let content = normalizeContent data in
      if trim_space content = [] then []
      else [\<lparr>sfl_AbsolutePath = absp, sfl_RelativePath = graphifyPrefix @ rel,
            sfl_Content = content, sfl_SizeBytes = int (length data)\<rparr>])"

text \<open>\<open>os.ReadFile\<close>, which follows symbolic links.\<close>

definition read_node :: "fs_node \<Rightarrow> string option" where
  "read_node n = (case stat_node n of Some (FileNode data) \<Rightarrow> Some data | _ \<Rightarrow> None)"

fun graph_walk :: "string \<Rightarrow> string \<Rightarrow> string \<Rightarrow> fs_node \<Rightarrow> source_file list"
and graph_walk_entries :: "string \<Rightarrow> string \<Rightarrow> (string \<times> fs_node) list \<Rightarrow> source_file list"
where
  "graph_walk absp rel name (DirNode es) = graph_walk_entries absp rel es"
| "graph_walk absp rel name UnreadableDir = []"
| "graph_walk absp rel name (FileNode data) = (if markdown_name name then markdown_file absp rel data else [])"
| "graph_walk absp rel name (SymNode t) =
     (if markdown_name name
      then (case read_node (SymNode t) of None \<Rightarrow> [] | Some data \<Rightarrow> markdown_file absp rel data) else [])"
| "graph_walk absp rel name (UnreadableFile b) = []"
| "graph_walk absp rel name VanishedFile = []"
| "graph_walk_entries absp rel [] = []"
| "graph_walk_entries absp rel ((name, node) # es) =
     graph_walk (child_path absp name) (child_path rel name) name node @ graph_walk_entries absp rel es"

definition graph_summary_file :: "(json \<Rightarrow> string) \<Rightarrow> int \<Rightarrow> string \<Rightarrow> (string \<times> fs_node) list \<Rightarrow> knowledge_graph \<Rightarrow> source_file list" where
  "graph_summary_file fmt default_max base_dir es cfg =
     (case Option.bind (map_of es ''graph.json'') read_node of None \<Rightarrow> []
      | Some data \<Rightarrow>
          (case summarizeGraphJSON fmt default_max data cfg of None \<Rightarrow> []
           | Some content \<Rightarrow>
               [\<lparr>sfl_AbsolutePath = child_path base_dir ''graph.json'',
                 sfl_RelativePath = graphifyPrefix @ ''graph.json'',
                 sfl_Content = content, sfl_SizeBytes = int (length content)\<rparr>]))"

definition DiscoverGraphifyFiles ::
  "(json \<Rightarrow> string) \<Rightarrow> int \<Rightarrow> string option \<Rightarrow> (string \<Rightarrow> fs_node option) \<Rightarrow> knowledge_graph \<Rightarrow> source_file list" where
  "DiscoverGraphifyFiles fmt default_max cwd lookup cfg =
     (if \<not> kg_Enabled cfg \<or> trim_space (kg_Path cfg) = [] then []
      else case path_abs cwd (kg_Path cfg) of None \<Rightarrow> []
      | Some base_dir \<Rightarrow>
          (case lookup base_dir of None \<Rightarrow> []
           | Some node \<Rightarrow>
               (case stat_node node of
                  Some (DirNode es) \<Rightarrow>
                    sort_on sfl_RelativePath
                      (graph_summary_file fmt default_max base_dir es cfg @
                       (case node of DirNode _ \<Rightarrow> graph_walk_entries base_dir [] es | _ \<Rightarrow> []))
                | _ \<Rightarrow> [])))"

section \<open>Laws\<close>

lemma has_prefix_append [simp]: "has_prefix (p @ s) p"
  by (simp add: has_prefix_def)

lemma markdown_prefix: "f \<in> set (markdown_file absp rel data) \<Longrightarrow> has_prefix (sfl_RelativePath f) graphifyPrefix"
  by (auto simp: markdown_file_def Let_def split: if_splits)

definition graph_named :: "source_file list \<Rightarrow> bool" where
  "graph_named fs \<longleftrightarrow> (\<forall>f \<in> set fs. has_prefix (sfl_RelativePath f) graphifyPrefix)"

lemma graph_named_simps [simp]: "graph_named []" "graph_named (fs @ gs) \<longleftrightarrow> graph_named fs \<and> graph_named gs"
  "graph_named (markdown_file absp rel data)"
  by (auto simp: graph_named_def markdown_file_def Let_def)

lemma graph_walk_named: "graph_named (graph_walk absp rel name node)"
  "graph_named (graph_walk_entries absp rel es)"
  by (induction absp rel name node and absp rel es rule: graph_walk_graph_walk_entries.induct)
    (simp_all split: option.split)

lemma graph_file_prefix:
  "f \<in> set (DiscoverGraphifyFiles fmt d cwd lookup cfg) \<Longrightarrow> has_prefix (sfl_RelativePath f) graphifyPrefix"
  by (auto simp: DiscoverGraphifyFiles_def graph_summary_file_def
      graph_walk_named(2) [unfolded graph_named_def, rule_format]
      split: if_splits option.splits fs_node.splits)

lemma sorted_graph_files: "sorted (map sfl_RelativePath (DiscoverGraphifyFiles fmt d cwd lookup cfg))"
  by (auto simp: DiscoverGraphifyFiles_def sorted_sort_on split: option.splits fs_node.splits)

end
