(* ===== verification/Index_Store.thy ===== *)
theory Index_Store
  imports Index_Graphify
begin

text \<open>
  \<open>internal/index/store.go\<close>, \<open>vector_store.go\<close> and \<open>indexer.go\<close>: the SQLite index as a record of
  tables, with the constraints of \<open>schema.go\<close> (primary keys and the two foreign keys). Rows stand
  in insertion order. A statement may fail for a reason outside the program (a full disk, a
  cancelled context): \<open>fault\<close> says which. A transaction that is not committed leaves the tables
  as they were. A time is the text \<open>CURRENT_TIMESTAMP\<close> stores, the empty text the zero time.
\<close>

section \<open>Tables\<close>

record run_row =
  rn_ID :: nat
  rn_RootPath :: string
  rn_Status :: string
  rn_Documents :: nat
  rn_Chunks :: nat
  rn_Vectors :: nat
  rn_Error :: "string option"
  rn_CompletedAt :: "string option"

record fts_row =
  ft_ChunkID :: string
  ft_DocumentPath :: string
  ft_Ordinal :: nat
  ft_StartLine :: nat
  ft_EndLine :: nat
  ft_Content :: string

record database =
  db_NextRun :: nat
  db_Runs :: "run_row list"
  db_Documents :: "document_record list"
  db_Chunks :: "chunk_record list"
  db_Fts :: "fts_row list"
  db_Vectors :: "vector_record list"

datatype sql_op =
    OpBegin | OpDelete string | OpPrepare string | OpInsertDocument string | OpInsertChunk string
  | OpInsertFts string | OpInsertVector string | OpCommit | OpInsertRun | OpUpdateRun nat
  | OpSelectRun | OpCount string | OpSelectSuccess | OpSelectVectors | OpSelectFts

datatype (plugins only: code size) store_error =
    ErrOpenStore | ErrBeginReplace | ErrClearIndex string | ErrPrepareInsert string
  | ErrInsertDocument string | ErrInsertChunk string | ErrInsertChunkFts string | ErrInsertVector string
  | ErrCommitReplace | ErrRunStart | ErrRunCompletion | ErrReadStatus | ErrCountRows string
  | ErrReadSuccess | ErrSearchLimit | ErrQuerySearch | ErrDecodeEmbedding string
  | ErrDimensions nat string nat | ErrCancelled | ErrEmbedChunk string | ErrVectorStoreMode string
  | ErrDiscover discover_error

type_synonym faults = "sql_op \<Rightarrow> bool"

abbreviation RunStatusSucceeded :: string where "RunStatusSucceeded \<equiv> ''succeeded''"
abbreviation RunStatusFailed :: string where "RunStatusFailed \<equiv> ''failed''"
abbreviation RunStatusNeverIndexed :: string where "RunStatusNeverIndexed \<equiv> ''never_indexed''"

definition empty_database :: database where
  "empty_database = \<lparr>db_NextRun = 1, db_Runs = [], db_Documents = [], db_Chunks = [], db_Fts = [], db_Vectors = []\<rparr>"

section \<open>Runs\<close>

definition RecordRunStart :: "faults \<Rightarrow> string \<Rightarrow> database \<Rightarrow> (store_error + nat) \<times> database" where
  "RecordRunStart fault path db =
     (if fault OpInsertRun then (Inl ErrRunStart, db)
      else (Inr (db_NextRun db),
            db\<lparr>db_NextRun := Suc (db_NextRun db),
               db_Runs := db_Runs db @ [\<lparr>rn_ID = db_NextRun db, rn_RootPath = path, rn_Status = ''running'',
                 rn_Documents = 0, rn_Chunks = 0, rn_Vectors = 0, rn_Error = None, rn_CompletedAt = None\<rparr>]\<rparr>))"

definition nullableString :: "string \<Rightarrow> string option" where
  "nullableString value = (if value = [] then None else Some value)"

definition complete_run :: "string \<Rightarrow> string \<Rightarrow> nat \<Rightarrow> nat \<Rightarrow> nat \<Rightarrow> string \<Rightarrow> run_row \<Rightarrow> run_row" where
  "complete_run now status documents chunks vectors message r =
     r\<lparr>rn_Status := status, rn_Documents := documents, rn_Chunks := chunks, rn_Vectors := vectors,
       rn_Error := nullableString message, rn_CompletedAt := Some now\<rparr>"

definition RecordRunCompletion ::
  "faults \<Rightarrow> string \<Rightarrow> nat \<Rightarrow> string \<Rightarrow> nat \<Rightarrow> nat \<Rightarrow> nat \<Rightarrow> string \<Rightarrow> database \<Rightarrow> store_error option \<times> database" where
  "RecordRunCompletion fault now run status documents chunks vectors message db =
     (if fault (OpUpdateRun run) then (Some ErrRunCompletion, db)
      else (None, db\<lparr>db_Runs := map (\<lambda>r. if rn_ID r = run
              then complete_run now status documents chunks vectors message r else r) (db_Runs db)\<rparr>))"

section \<open>Replacing the index\<close>

fun run_all :: "('a \<Rightarrow> 's \<Rightarrow> 'e + 's) \<Rightarrow> 'a list \<Rightarrow> 's \<Rightarrow> 'e + 's" where
  "run_all step [] s = Inr s"
| "run_all step (x # xs) s = (case step x s of Inl e \<Rightarrow> Inl e | Inr s' \<Rightarrow> run_all step xs s')"

definition clear_table :: "string \<Rightarrow> database \<Rightarrow> database" where
  "clear_table name db =
     (if name = ''vectors'' then db\<lparr>db_Vectors := []\<rparr>
      else if name = ''chunks_fts'' then db\<lparr>db_Fts := []\<rparr>
      else if name = ''chunks'' then db\<lparr>db_Chunks := [], db_Vectors := []\<rparr>
      else db\<lparr>db_Documents := [], db_Chunks := [], db_Vectors := []\<rparr>)"

definition delete_table :: "faults \<Rightarrow> string \<Rightarrow> database \<Rightarrow> store_error + database" where
  "delete_table fault name db = (if fault (OpDelete name) then Inl (ErrClearIndex name) else Inr (clear_table name db))"

definition prepare :: "faults \<Rightarrow> string \<Rightarrow> database \<Rightarrow> store_error + database" where
  "prepare fault name db = (if fault (OpPrepare name) then Inl (ErrPrepareInsert name) else Inr db)"

definition insert_document :: "faults \<Rightarrow> document_record \<Rightarrow> database \<Rightarrow> store_error + database" where
  "insert_document fault d db =
     (if fault (OpInsertDocument (dr_Path d)) \<or> dr_Path d \<in> dr_Path ` set (db_Documents db)
      then Inl (ErrInsertDocument (dr_Path d))
      else Inr (db\<lparr>db_Documents := db_Documents db @ [d]\<rparr>))"

definition fts_of :: "chunk_record \<Rightarrow> fts_row" where
  "fts_of c = \<lparr>ft_ChunkID = ck_ID c, ft_DocumentPath = ck_DocumentPath c, ft_Ordinal = ck_Ordinal c,
     ft_StartLine = ck_StartLine c, ft_EndLine = ck_EndLine c, ft_Content = ck_Content c\<rparr>"

definition insert_chunk :: "faults \<Rightarrow> chunk_record \<Rightarrow> database \<Rightarrow> store_error + database" where
  "insert_chunk fault c db =
     (if fault (OpInsertChunk (ck_ID c)) \<or> ck_ID c \<in> ck_ID ` set (db_Chunks db) \<or>
         ck_DocumentPath c \<notin> dr_Path ` set (db_Documents db)
      then Inl (ErrInsertChunk (ck_ID c))
      else if fault (OpInsertFts (ck_ID c)) then Inl (ErrInsertChunkFts (ck_ID c))
      else Inr (db\<lparr>db_Chunks := db_Chunks db @ [c], db_Fts := db_Fts db @ [fts_of c]\<rparr>))"

definition insert_vector :: "faults \<Rightarrow> vector_record \<Rightarrow> database \<Rightarrow> store_error + database" where
  "insert_vector fault v db =
     (if fault (OpInsertVector (vr_ChunkID v)) \<or> vr_ChunkID v \<in> vr_ChunkID ` set (db_Vectors db) \<or>
         vr_ChunkID v \<notin> ck_ID ` set (db_Chunks db)
      then Inl (ErrInsertVector (vr_ChunkID v))
      else Inr (db\<lparr>db_Vectors := db_Vectors db @ [v]\<rparr>))"

definition and_then :: "('e + 's) \<Rightarrow> ('s \<Rightarrow> 'e + 's) \<Rightarrow> 'e + 's" where
  "and_then r f = (case r of Inl e \<Rightarrow> Inl e | Inr s \<Rightarrow> f s)"

text \<open>The statements between \<open>BEGIN\<close> and \<open>COMMIT\<close>.\<close>

definition replace_in_tx ::
  "faults \<Rightarrow> document_record list \<Rightarrow> chunk_record list \<Rightarrow> vector_record list \<Rightarrow> database \<Rightarrow> store_error + database" where
  "replace_in_tx fault documents chunks vectors db =
     and_then (run_all (delete_table fault) [''vectors'', ''chunks_fts'', ''chunks'', ''documents''] db) (\<lambda>db.
     and_then (prepare fault ''documents'' db) (\<lambda>db.
     and_then (run_all (insert_document fault) documents db) (\<lambda>db.
     and_then (prepare fault ''chunks'' db) (\<lambda>db.
     and_then (prepare fault ''chunks_fts'' db) (\<lambda>db.
     and_then (run_all (insert_chunk fault) chunks db) (\<lambda>db.
     and_then (prepare fault ''vectors'' db)
       (run_all (insert_vector fault) vectors)))))))"

definition ReplaceAll ::
  "faults \<Rightarrow> document_record list \<Rightarrow> chunk_record list \<Rightarrow> vector_record list \<Rightarrow> database \<Rightarrow> store_error option \<times> database" where
  "ReplaceAll fault documents chunks vectors db =
     (if fault OpBegin then (Some ErrBeginReplace, db)
      else case replace_in_tx fault documents chunks vectors db of
        Inl e \<Rightarrow> (Some e, db)
      | Inr db' \<Rightarrow> if fault OpCommit then (Some ErrCommitReplace, db) else (None, db'))"

section \<open>Status\<close>

record index_status =
  is_ConfiguredRootPath :: string
  is_LastAttemptState :: string
  is_LastAttemptRootPath :: string
  is_LastAttemptAt :: string
  is_LastAttemptError :: string
  is_CommittedRootPath :: string
  is_CommittedIndexedAt :: string
  is_Documents :: nat
  is_Chunks :: nat
  is_Vectors :: nat

definition no_status :: index_status where
  "no_status = \<lparr>is_ConfiguredRootPath = [], is_LastAttemptState = [], is_LastAttemptRootPath = [],
     is_LastAttemptAt = [], is_LastAttemptError = [], is_CommittedRootPath = [], is_CommittedIndexedAt = [],
     is_Documents = 0, is_Chunks = 0, is_Vectors = 0\<rparr>"

text \<open>\<open>ORDER BY id DESC LIMIT 1\<close>: the ids grow with insertion, so it is the last row.\<close>

definition last_run :: "run_row list \<Rightarrow> run_row option" where
  "last_run rs = (if rs = [] then None else Some (last rs))"

definition or_empty :: "string option \<Rightarrow> string" where
  "or_empty s = (case s of None \<Rightarrow> [] | Some x \<Rightarrow> x)"

definition store_ReadStatus :: "faults \<Rightarrow> database \<Rightarrow> store_error + index_status" where
  "store_ReadStatus fault db =
     (if fault OpSelectRun then Inl ErrReadStatus
      else case last_run (db_Runs db) of
        None \<Rightarrow> Inr (no_status\<lparr>is_LastAttemptState := RunStatusNeverIndexed\<rparr>)
      | Some r \<Rightarrow>
          if fault (OpCount ''documents'') then Inl (ErrCountRows ''documents'')
          else if fault (OpCount ''chunks'') then Inl (ErrCountRows ''chunks'')
          else if fault (OpCount ''vectors'') then Inl (ErrCountRows ''vectors'')
          else if fault OpSelectSuccess then Inl ErrReadSuccess
          else
            (let done_run = last_run (filter (\<lambda>r. rn_Status r = RunStatusSucceeded) (db_Runs db)) in
             Inr (no_status\<lparr>
               is_LastAttemptState := rn_Status r, is_LastAttemptRootPath := rn_RootPath r,
               is_LastAttemptError := or_empty (rn_Error r), is_LastAttemptAt := or_empty (rn_CompletedAt r),
               is_Documents := length (db_Documents db), is_Chunks := length (db_Chunks db),
               is_Vectors := length (db_Vectors db),
               is_CommittedRootPath := (case done_run of None \<Rightarrow> [] | Some s \<Rightarrow> rn_RootPath s),
               is_CommittedIndexedAt := (case done_run of None \<Rightarrow> [] | Some s \<Rightarrow> or_empty (rn_CompletedAt s))\<rparr>)))"

section \<open>Search\<close>

text \<open>The quotient of the dot product and the norms is the parameter \<open>ratio\<close>: floating-point
  arithmetic on finite values. A norm is 0 exactly when every value is a zero (of either sign).\<close>

definition zero_float :: "32 word \<Rightarrow> bool" where
  "zero_float w \<longleftrightarrow> and w 0x7FFFFFFF = 0"

definition cosineSimilarity :: "(32 word list \<Rightarrow> 32 word list \<Rightarrow> rat) \<Rightarrow> 32 word list \<Rightarrow> 32 word list \<Rightarrow> rat" where
  "cosineSimilarity ratio left right =
     (if left = [] \<or> right = [] \<or> length left \<noteq> length right then 0
      else if list_all zero_float left \<or> list_all zero_float right then 0
      else ratio left right)"

definition result_less :: "search_result \<Rightarrow> search_result \<Rightarrow> bool" where
  "result_less a b =
     (if se_Score a \<noteq> se_Score b then se_Score a > se_Score b
      else if se_DocumentPath a \<noteq> se_DocumentPath b then se_DocumentPath a < se_DocumentPath b
      else if se_Ordinal a \<noteq> se_Ordinal b then se_Ordinal a < se_Ordinal b
      else se_ChunkID a < se_ChunkID b)"

definition result_of :: "chunk_record \<Rightarrow> rat \<Rightarrow> search_result" where
  "result_of c score = \<lparr>se_ChunkID = ck_ID c, se_DocumentPath = ck_DocumentPath c, se_Ordinal = int (ck_Ordinal c),
     se_StartLine = int (ck_StartLine c), se_EndLine = int (ck_EndLine c), se_Content = ck_Content c, se_Score = score\<rparr>"

definition search_row ::
  "(32 word list \<Rightarrow> 32 word list \<Rightarrow> rat) \<Rightarrow> 32 word list \<Rightarrow> chunk_record \<times> vector_record \<Rightarrow> store_error + search_result" where
  "search_row ratio query row =
     (case DecodeEmbedding (vr_Embedding (snd row)) of
        None \<Rightarrow> Inl (ErrDecodeEmbedding (ck_ID (fst row)))
      | Some e \<Rightarrow>
          if length query \<noteq> length e then Inl (ErrDimensions (length query) (ck_ID (fst row)) (length e))
          else Inr (result_of (fst row) (cosineSimilarity ratio query e)))"

definition joined_rows :: "database \<Rightarrow> (chunk_record \<times> vector_record) list" where
  "joined_rows db =
     concat (map (\<lambda>c. map (\<lambda>v. (c, v)) (filter (\<lambda>v. vr_ChunkID v = ck_ID c) (db_Vectors db))) (db_Chunks db))"

definition sort_results :: "search_result list \<Rightarrow> search_result list" where
  "sort_results = sort_by (\<lambda>a b. \<not> result_less b a)"

text \<open>\<open>rows\<close> are the rows of the join, in the order the database returns them.\<close>

definition search_rows ::
  "faults \<Rightarrow> (32 word list \<Rightarrow> 32 word list \<Rightarrow> rat) \<Rightarrow> 32 word list \<Rightarrow> int \<Rightarrow> (chunk_record \<times> vector_record) list
     \<Rightarrow> store_error + search_result list" where
  "search_rows fault ratio query limit rows =
     (if limit < 1 then Inl ErrSearchLimit
      else if fault OpSelectVectors then Inl ErrQuerySearch
      else case map_res (search_row ratio query) rows of
        Inl e \<Rightarrow> Inl e
      | Inr results \<Rightarrow> Inr (take (nat limit) (sort_results results)))"

definition SearchChunks ::
  "faults \<Rightarrow> (32 word list \<Rightarrow> 32 word list \<Rightarrow> rat) \<Rightarrow> 32 word list \<Rightarrow> int \<Rightarrow> database \<Rightarrow> store_error + search_result list" where
  "SearchChunks fault ratio query limit db = search_rows fault ratio query limit (joined_rows db)"

text \<open>The query of the full-text search, exact for ASCII queries (\<open>to_lower\<close> leaves other letters alone). \<open>unicode.IsLetter\<close> and \<open>IsDigit\<close> beyond ASCII are the
  parameter \<open>word_rune\<close>, over the bytes of a rune.\<close>

definition ascii_word :: "char \<Rightarrow> bool" where
  "ascii_word c \<longleftrightarrow> is_dec c \<or> (97 \<le> code c \<and> code c \<le> 122) \<or> (65 \<le> code c \<and> code c \<le> 90) \<or> c = CHR ''_''"

function fields_words :: "(string \<Rightarrow> bool) \<Rightarrow> string \<Rightarrow> string \<Rightarrow> string list" where
  "fields_words word_rune cur s =
     (if s = [] then (if cur = [] then [] else [cur])
      else let (r, n) = decode_rune s in
        if (if n = 1 then ascii_word (hd s) else word_rune r)
        then fields_words word_rune (cur @ take (max 1 n) s) (drop (max 1 n) s)
        else (if cur = [] then id else (#) cur) (fields_words word_rune [] (drop (max 1 n) s)))"
  by pat_completeness auto
termination by (relation "measure (\<lambda>(w, c, s). length s)") auto

declare fields_words.simps [simp del]

definition buildFTSQuery :: "(string \<Rightarrow> bool) \<Rightarrow> string \<Rightarrow> string" where
  "buildFTSQuery word_rune query =
     join_with '' OR ''
       (map (\<lambda>p. quote_char # p @ [quote_char])
         (dedup_from [] (filter (\<lambda>p. \<not> length p < 2)
           (map trim_space (fields_words word_rune [] (to_lower query))))))"

text \<open>\<open>fts_match q rows\<close> are the rows the full-text engine matches with \<open>q\<close>, best rank first.\<close>

definition SearchChunksKeyword ::
  "faults \<Rightarrow> (string \<Rightarrow> fts_row list \<Rightarrow> fts_row list) \<Rightarrow> (string \<Rightarrow> bool) \<Rightarrow> string \<Rightarrow> int \<Rightarrow> database
     \<Rightarrow> store_error + search_result list" where
  "SearchChunksKeyword fault fts_match word_rune query limit db =
     (if limit < 1 then Inl ErrSearchLimit
      else let q = buildFTSQuery word_rune query in
        if q = [] then Inr []
        else if fault OpSelectFts then Inl ErrQuerySearch
        else Inr (map (\<lambda>(i, r). \<lparr>se_ChunkID = ft_ChunkID r, se_DocumentPath = ft_DocumentPath r,
               se_Ordinal = int (ft_Ordinal r), se_StartLine = int (ft_StartLine r), se_EndLine = int (ft_EndLine r),
               se_Content = ft_Content r, se_Score = 1 / (of_nat i + 1)\<rparr>)
             (enumerate 0 (take (nat limit) (fts_match q (db_Fts db))))))"
section \<open>Vector stores\<close>

text \<open>What the indexer relies on in a vector store: one vector for each chunk, in order, whose binary
  form has the recorded number of dimensions.\<close>

locale vector_builder =
  fixes build :: "chunk_record list \<Rightarrow> store_error + vector_record list"
  assumes build_ids: "build cs = Inr vs \<Longrightarrow> map vr_ChunkID vs = map ck_ID cs"
    and build_dims: "build cs = Inr vs \<Longrightarrow> v \<in> set vs \<Longrightarrow> length (vr_Embedding v) = 4 * vr_Dimensions v"
begin

lemma build_length: "build cs = Inr vs \<Longrightarrow> length vs = length cs"
  by (metis build_ids length_map)

lemma build_id_set: "build cs = Inr vs \<Longrightarrow> vr_ChunkID ` set vs = ck_ID ` set cs"
  by (metis build_ids list.set_map)

lemma build_distinct: "build cs = Inr vs \<Longrightarrow> distinct (map ck_ID cs) \<Longrightarrow> distinct (map vr_ChunkID vs)"
  by (simp add: build_ids)

lemma build_decodable: "build cs = Inr vs \<Longrightarrow> v \<in> set vs \<Longrightarrow> DecodeEmbedding (vr_Embedding v) \<noteq> None"
  using build_dims by (simp add: DecodeEmbedding_def)

end

text \<open>\<open>digest\<close> is SHA-256 (32 bytes) and \<open>thousandth v\<close> the bits of \<open>float32(v) / 1000\<close>.\<close>

definition PlaceholderEmbedding :: "(string \<Rightarrow> 8 word list) \<Rightarrow> (32 word \<Rightarrow> 32 word) \<Rightarrow> string \<Rightarrow> 32 word list" where
  "PlaceholderEmbedding digest thousandth body =
     (let sum = digest body in
      map (\<lambda>i. thousandth (get_uint32 (sum ! (i * 4)) (sum ! (i * 4 + 1)) (sum ! (i * 4 + 2)) (sum ! (i * 4 + 3)) mod 1000))
        [0..<8])"

definition vector_of :: "chunk_record \<Rightarrow> 32 word list \<Rightarrow> vector_record" where
  "vector_of c e = \<lparr>vr_ChunkID = ck_ID c, vr_Dimensions = length e, vr_Embedding = EncodeEmbedding e\<rparr>"

text \<open>\<open>cancelled i\<close>: the context is cancelled when the loop reaches chunk \<open>i\<close>.\<close>

fun build_from :: "nat \<Rightarrow> (nat \<Rightarrow> bool) \<Rightarrow> (string \<Rightarrow> 32 word list option) \<Rightarrow> chunk_record list \<Rightarrow> store_error + vector_record list" where
  "build_from i cancelled emb [] = Inr []"
| "build_from i cancelled emb (c # cs) =
     (if cancelled i then Inl ErrCancelled
      else case emb (ck_Content c) of None \<Rightarrow> Inl (ErrEmbedChunk (ck_ID c))
           | Some e \<Rightarrow> (case build_from (Suc i) cancelled emb cs of Inl x \<Rightarrow> Inl x
                       | Inr vs \<Rightarrow> Inr (vector_of c e # vs)))"

datatype vector_store = EmbeddedVectorStore | OllamaVectorStore "string \<Rightarrow> string \<Rightarrow> 32 word list option" string

definition NewVectorStore :: "string \<Rightarrow> store_error + vector_store" where
  "NewVectorStore mode =
     (if mode \<in> {[], ''embedded''} then Inr EmbeddedVectorStore else Inl (ErrVectorStoreMode mode))"

definition BuildRecords ::
  "(nat \<Rightarrow> bool) \<Rightarrow> (string \<Rightarrow> 8 word list) \<Rightarrow> (32 word \<Rightarrow> 32 word) \<Rightarrow> vector_store
     \<Rightarrow> chunk_record list \<Rightarrow> store_error + vector_record list" where
  "BuildRecords cancelled digest thousandth vs =
     (case vs of
        EmbeddedVectorStore \<Rightarrow> build_from 0 cancelled (\<lambda>t. Some (PlaceholderEmbedding digest thousandth t))
      | OllamaVectorStore emb model \<Rightarrow> build_from 0 cancelled (emb model))"

lemma build_from_ids: "build_from i cancelled emb cs = Inr vs \<Longrightarrow> map vr_ChunkID vs = map ck_ID cs"
  by (induction cs arbitrary: i vs) (auto simp: vector_of_def split: if_splits option.splits sum.splits)

lemma build_from_dims:
  "build_from i cancelled emb cs = Inr vs \<Longrightarrow> v \<in> set vs \<Longrightarrow> length (vr_Embedding v) = 4 * vr_Dimensions v"
  by (induction cs arbitrary: i vs)
    (auto simp: vector_of_def length_EncodeEmbedding split: if_splits option.splits sum.splits)

lemma build_from_vectors:
  "build_from i cancelled emb cs = Inr vs \<Longrightarrow>
     list_all2 (\<lambda>c v. \<exists>e. emb (ck_Content c) = Some e \<and> v = vector_of c e) cs vs"
  by (induction cs arbitrary: i vs) (auto split: if_splits option.splits sum.splits)

interpretation records: vector_builder "BuildRecords cancelled digest thousandth vs"
  for cancelled digest thousandth vs
  by unfold_locales
    (auto simp: BuildRecords_def build_from_ids build_from_dims split: vector_store.splits)

section \<open>Rebuild\<close>

record rebuild_env =
  en_OpenFails :: bool
  en_Fault :: faults
  en_Cancelled :: "nat \<Rightarrow> bool"
  en_Now :: string
  en_Cwd :: "string option"
  en_Lookup :: "string \<Rightarrow> fs_node option"
  en_Fmt :: "json \<Rightarrow> string"
  en_DefaultMaxNodes :: int
  en_Digest :: "string \<Rightarrow> 8 word list"
  en_Hex :: "8 word list \<Rightarrow> string"
  en_Thousandth :: "32 word \<Rightarrow> 32 word"
  en_ErrorText :: "store_error \<Rightarrow> string"

definition en_hash :: "rebuild_env \<Rightarrow> string \<Rightarrow> string" where
  "en_hash en s = en_Hex en (en_Digest en s)"

text \<open>\<open>embedder\<close> is the option \<open>WithEmbedder\<close>: the embedder of a reachable local model.\<close>

definition choose_vector_store ::
  "(string \<Rightarrow> string \<Rightarrow> 32 word list option) option \<Rightarrow> config \<Rightarrow> store_error + vector_store" where
  "choose_vector_store embedder cfg =
     (case embedder of Some e \<Rightarrow> Inr (OllamaVectorStore e (lmc_EmbedModel (cfg_LocalModel cfg)))
      | None \<Rightarrow> NewVectorStore (rt_VectorStoreMode (cfg_Runtime cfg)))"

definition indexed_files :: "rebuild_env \<Rightarrow> config \<Rightarrow> discover_error + source_file list" where
  "indexed_files en cfg =
     (case DiscoverFiles (en_Cwd en) (en_Lookup en) (cfg_Index cfg) of
        Inl e \<Rightarrow> Inl e
      | Inr fs \<Rightarrow> Inr (fs @ DiscoverGraphifyFiles (en_Fmt en) (en_DefaultMaxNodes en) (en_Cwd en) (en_Lookup en)
                          (cfg_KnowledgeGraph cfg)))"

definition file_chunks :: "rebuild_env \<Rightarrow> config \<Rightarrow> source_file list \<Rightarrow> chunk_record list" where
  "file_chunks en cfg files =
     concat (map (\<lambda>f. ChunkFile (en_hash en) f (ix_ChunkSizeLines (cfg_Index cfg))) files)"

definition fail_run :: "rebuild_env \<Rightarrow> nat \<Rightarrow> store_error \<Rightarrow> database \<Rightarrow> (store_error + index_status) \<times> database" where
  "fail_run en run e db =
     (Inl e, snd (RecordRunCompletion (en_Fault en) (en_Now en) run RunStatusFailed 0 0 0 (en_ErrorText en e) db))"

definition Rebuild ::
  "rebuild_env \<Rightarrow> (string \<Rightarrow> string \<Rightarrow> 32 word list option) option \<Rightarrow> config \<Rightarrow> database
     \<Rightarrow> (store_error + index_status) \<times> database" where
  "Rebuild en embedder cfg db0 =
     (if en_OpenFails en then (Inl ErrOpenStore, db0)
      else case choose_vector_store embedder cfg of Inl e \<Rightarrow> (Inl e, db0)
      | Inr vs \<Rightarrow>
      (case RecordRunStart (en_Fault en) (ix_Root (cfg_Index cfg)) db0 of
         (Inl e, db) \<Rightarrow> (Inl e, db)
       | (Inr run, db) \<Rightarrow>
           (case indexed_files en cfg of
              Inl e \<Rightarrow> fail_run en run (ErrDiscover e) db
            | Inr files \<Rightarrow>
                (let documents = map (BuildDocument (en_hash en)) files;
                     chunks = file_chunks en cfg files in
                 case BuildRecords (en_Cancelled en) (en_Digest en) (en_Thousandth en) vs chunks of
                   Inl e \<Rightarrow> fail_run en run e db
                 | Inr vectors \<Rightarrow>
                     (case ReplaceAll (en_Fault en) documents chunks vectors db of
                        (Some e, db') \<Rightarrow> fail_run en run e db'
                      | (None, db') \<Rightarrow>
                          (case RecordRunCompletion (en_Fault en) (en_Now en) run RunStatusSucceeded
                                  (length documents) (length chunks) (length vectors) [] db' of
                             (Some e, db'') \<Rightarrow> (Inl e, db'')
                           | (None, db'') \<Rightarrow> (store_ReadStatus (en_Fault en) db'', db'')))))))"

definition index_ReadStatus :: "bool \<Rightarrow> faults \<Rightarrow> config \<Rightarrow> database \<Rightarrow> store_error + index_status" where
  "index_ReadStatus open_fails fault cfg db =
     (if open_fails then Inl ErrOpenStore
      else case store_ReadStatus fault db of Inl e \<Rightarrow> Inl e
           | Inr st \<Rightarrow> Inr (st\<lparr>is_ConfiguredRootPath := ix_Root (cfg_Index cfg)\<rparr>))"
section \<open>The tables of an index\<close>

text \<open>The constraints of the schema, and that the full-text table mirrors the chunks.\<close>

definition wf_index :: "document_record list \<Rightarrow> chunk_record list \<Rightarrow> vector_record list \<Rightarrow> bool" where
  "wf_index documents chunks vectors \<longleftrightarrow>
     distinct (map dr_Path documents) \<and> distinct (map ck_ID chunks) \<and> distinct (map vr_ChunkID vectors) \<and>
     ck_DocumentPath ` set chunks \<subseteq> dr_Path ` set documents \<and> vr_ChunkID ` set vectors \<subseteq> ck_ID ` set chunks"

definition wf_database :: "database \<Rightarrow> bool" where
  "wf_database db \<longleftrightarrow>
     wf_index (db_Documents db) (db_Chunks db) (db_Vectors db) \<and> db_Fts db = map fts_of (db_Chunks db) \<and>
     sorted_wrt (<) (map rn_ID (db_Runs db)) \<and> (\<forall>r \<in> set (db_Runs db). rn_ID r < db_NextRun db)"

definition same_index :: "database \<Rightarrow> database \<Rightarrow> bool" where
  "same_index a b \<longleftrightarrow> db_Documents a = db_Documents b \<and> db_Chunks a = db_Chunks b \<and>
     db_Fts a = db_Fts b \<and> db_Vectors a = db_Vectors b"

lemma same_index_refl [simp]: "same_index db db"
  by (simp add: same_index_def)

lemma same_index_trans: "same_index a b \<Longrightarrow> same_index b c \<Longrightarrow> same_index a c"
  by (simp add: same_index_def)

definition with_index :: "document_record list \<Rightarrow> chunk_record list \<Rightarrow> vector_record list \<Rightarrow> database \<Rightarrow> database" where
  "with_index documents chunks vectors db =
     db\<lparr>db_Documents := documents, db_Chunks := chunks, db_Fts := map fts_of chunks, db_Vectors := vectors\<rparr>"

lemma and_then_Inr [simp]: "and_then r f = Inr s \<longleftrightarrow> (\<exists>t. r = Inr t \<and> f t = Inr s)"
  by (auto simp: and_then_def split: sum.splits)

lemma prepare_Inr [simp]: "prepare fault name db = Inr db' \<longleftrightarrow> \<not> fault (OpPrepare name) \<and> db' = db"
  by (auto simp: prepare_def)

lemma delete_all_Inr:
  "run_all (delete_table fault) [''vectors'', ''chunks_fts'', ''chunks'', ''documents''] db = Inr db' \<Longrightarrow>
     db' = with_index [] [] [] db"
  by (auto simp: delete_table_def clear_table_def with_index_def split: if_splits)

lemma insert_documents_Inr:
  "run_all (insert_document fault) ds db = Inr db' \<longleftrightarrow>
     (\<forall>d \<in> set ds. \<not> fault (OpInsertDocument (dr_Path d))) \<and> distinct (map dr_Path ds) \<and>
     dr_Path ` set ds \<inter> dr_Path ` set (db_Documents db) = {} \<and>
     db' = db\<lparr>db_Documents := db_Documents db @ ds\<rparr>"
proof (induction ds arbitrary: db)
  case (Cons d ds)
  then show ?case by (auto simp: insert_document_def)
qed auto

lemma insert_chunks_Inr:
  "run_all (insert_chunk fault) cs db = Inr db' \<longleftrightarrow>
     (\<forall>c \<in> set cs. \<not> fault (OpInsertChunk (ck_ID c)) \<and> \<not> fault (OpInsertFts (ck_ID c))) \<and>
     distinct (map ck_ID cs) \<and> ck_ID ` set cs \<inter> ck_ID ` set (db_Chunks db) = {} \<and>
     ck_DocumentPath ` set cs \<subseteq> dr_Path ` set (db_Documents db) \<and>
     db' = db\<lparr>db_Chunks := db_Chunks db @ cs, db_Fts := db_Fts db @ map fts_of cs\<rparr>"
proof (induction cs arbitrary: db)
  case (Cons c cs)
  then show ?case by (auto simp: insert_chunk_def)
qed auto

lemma insert_vectors_Inr:
  "run_all (insert_vector fault) vs db = Inr db' \<longleftrightarrow>
     (\<forall>v \<in> set vs. \<not> fault (OpInsertVector (vr_ChunkID v))) \<and> distinct (map vr_ChunkID vs) \<and>
     vr_ChunkID ` set vs \<inter> vr_ChunkID ` set (db_Vectors db) = {} \<and>
     vr_ChunkID ` set vs \<subseteq> ck_ID ` set (db_Chunks db) \<and>
     db' = db\<lparr>db_Vectors := db_Vectors db @ vs\<rparr>"
proof (induction vs arbitrary: db)
  case (Cons v vs)
  then show ?case by (auto simp: insert_vector_def)
qed auto

lemma replace_in_tx_Inr:
  assumes "replace_in_tx fault documents chunks vectors db = Inr db'"
  shows "wf_index documents chunks vectors \<and> db' = with_index documents chunks vectors db"
proof -
  obtain d1 d2 d3 where
    1: "run_all (delete_table fault) [''vectors'', ''chunks_fts'', ''chunks'', ''documents''] db = Inr d1"
    and 2: "run_all (insert_document fault) documents d1 = Inr d2"
    and 3: "run_all (insert_chunk fault) chunks d2 = Inr d3"
    and 4: "run_all (insert_vector fault) vectors d3 = Inr db'"
    using assms unfolding replace_in_tx_def by auto
  from delete_all_Inr [OF 1] have d1: "d1 = with_index [] [] [] db" .
  from 2 3 4 show ?thesis
    unfolding insert_documents_Inr insert_chunks_Inr insert_vectors_Inr d1
    by (auto simp: wf_index_def with_index_def)
qed

lemma replace_in_tx_ok:
  assumes "\<And>op. \<not> fault op" and "wf_index documents chunks vectors"
  shows "replace_in_tx fault documents chunks vectors db = Inr (with_index documents chunks vectors db)"
proof -
  have "run_all (delete_table fault) [''vectors'', ''chunks_fts'', ''chunks'', ''documents''] db =
      Inr (with_index [] [] [] db)"
    using assms(1) by (simp add: delete_table_def clear_table_def with_index_def)
  then show ?thesis
    using assms unfolding replace_in_tx_def
    by (simp add: insert_documents_Inr insert_chunks_Inr insert_vectors_Inr wf_index_def with_index_def)
qed

lemma ReplaceAll_cases:
  "ReplaceAll fault documents chunks vectors db = (r, db') \<Longrightarrow>
     (r = None \<and> wf_index documents chunks vectors \<and> db' = with_index documents chunks vectors db) \<or>
     ((\<exists>e. r = Some e) \<and> db' = db)"
  by (auto simp: ReplaceAll_def dest: replace_in_tx_Inr split: if_splits sum.splits)

lemma wf_with_index: "wf_database db \<Longrightarrow> wf_index d c v \<Longrightarrow> wf_database (with_index d c v db)"
  by (simp add: wf_database_def with_index_def)

lemma complete_run_ID [simp]: "rn_ID (complete_run now status d c v m r) = rn_ID r"
  by (simp add: complete_run_def)

lemma RecordRunCompletion_keeps:
  assumes "RecordRunCompletion fault now run status d c v m db = (r, db')"
  shows "same_index db db' \<and> (wf_database db \<longrightarrow> wf_database db') \<and> map rn_ID (db_Runs db') = map rn_ID (db_Runs db)"
proof -
  have ids: "map rn_ID (map (\<lambda>r. if rn_ID r = run then complete_run now status d c v m r else r) (db_Runs db)) =
      map rn_ID (db_Runs db)" by auto
  show ?thesis
    using assms unfolding RecordRunCompletion_def
    by (auto simp: same_index_def wf_database_def ids simp del: map_map split: if_splits)
qed

lemma RecordRunStart_keeps:
  assumes "RecordRunStart fault path db = (r, db')"
  shows "same_index db db' \<and> (wf_database db \<longrightarrow> wf_database db')"
  using assms
  by (auto simp: RecordRunStart_def same_index_def wf_database_def sorted_wrt_append less_SucI split: if_splits)


lemma fail_run_keeps:
  "fail_run en run e db = (r, db') \<Longrightarrow> r = Inl e \<and> same_index db db' \<and> (wf_database db \<longrightarrow> wf_database db')"
  using RecordRunCompletion_keeps [OF prod.collapse [symmetric]] by (auto simp: fail_run_def)

text \<open>The errors a rebuild can still return after its transaction has been committed.\<close>

definition after_commit :: "store_error \<Rightarrow> bool" where
  "after_commit e \<longleftrightarrow> e \<in> {ErrRunCompletion, ErrReadStatus, ErrReadSuccess} \<or> (\<exists>t. e = ErrCountRows t)"

definition rebuilt_from :: "rebuild_env \<Rightarrow> config \<Rightarrow> source_file list \<Rightarrow> vector_store \<Rightarrow> database \<Rightarrow> bool" where
  "rebuilt_from en cfg files vs db \<longleftrightarrow>
     db_Documents db = map (BuildDocument (en_hash en)) files \<and>
     db_Chunks db = file_chunks en cfg files \<and>
     BuildRecords (en_Cancelled en) (en_Digest en) (en_Thousandth en) vs (db_Chunks db) = Inr (db_Vectors db)"

lemma store_ReadStatus_error: "store_ReadStatus fault db = Inl e \<Longrightarrow> after_commit e"
  by (auto simp: store_ReadStatus_def after_commit_def Let_def split: if_splits option.splits)

lemma RecordRunCompletion_error: "RecordRunCompletion fault now run st d c v m db = (Some e, db') \<Longrightarrow> after_commit e"
  by (auto simp: RecordRunCompletion_def after_commit_def split: if_splits)

lemma Rebuild_cases:
  assumes "Rebuild en embedder cfg db0 = (r, db')"
  shows "(\<exists>e. r = Inl e \<and> same_index db0 db' \<and> (wf_database db0 \<longrightarrow> wf_database db')) \<or>
    (\<exists>files vs. indexed_files en cfg = Inr files \<and> choose_vector_store embedder cfg = Inr vs \<and>
       rebuilt_from en cfg files vs db' \<and> (wf_database db0 \<longrightarrow> wf_database db') \<and> db_Fts db' = map fts_of (db_Chunks db') \<and>
       wf_index (db_Documents db') (db_Chunks db') (db_Vectors db') \<and>
       (case r of Inl e \<Rightarrow> after_commit e | Inr st \<Rightarrow> store_ReadStatus (en_Fault en) db' = Inr st))"
proof (cases "en_OpenFails en \<or> (\<exists>e. choose_vector_store embedder cfg = Inl e)")
  case True
  with assms have "\<exists>e. r = Inl e" "db' = db0" by (auto simp: Rebuild_def split: if_splits)
  then show ?thesis by auto
next
  case False
  then obtain vs where vs: "choose_vector_store embedder cfg = Inr vs" and opened: "\<not> en_OpenFails en"
    by (cases "choose_vector_store embedder cfg") auto
  obtain r1 db where start: "RecordRunStart (en_Fault en) (ix_Root (cfg_Index cfg)) db0 = (r1, db)"
    by (cases "RecordRunStart (en_Fault en) (ix_Root (cfg_Index cfg)) db0") auto
  note k1 = RecordRunStart_keeps [OF start]
  show ?thesis
  proof (cases "\<exists>e. r1 = Inl e")
    case True
    with assms vs opened start k1 show ?thesis by (auto simp: Rebuild_def)
  next
    case False
    then obtain run where start': "RecordRunStart (en_Fault en) (ix_Root (cfg_Index cfg)) db0 = (Inr run, db)"
      using start by (cases r1) auto
    have failed: ?thesis if "fail_run en run e db = (r, db')" for e
      using fail_run_keeps [OF that] k1 same_index_trans by blast
    show ?thesis
    proof (cases "indexed_files en cfg")
      case (Inl e)
      then show ?thesis using assms vs opened start' failed by (auto simp: Rebuild_def)
    next
      case (Inr files)
      let ?ds = "map (BuildDocument (en_hash en)) files" and ?cs = "file_chunks en cfg files"
      show ?thesis
      proof (cases "BuildRecords (en_Cancelled en) (en_Digest en) (en_Thousandth en) vs ?cs")
        case (Inl e)
        then show ?thesis using assms vs opened start' failed Inr by (auto simp: Rebuild_def Let_def)
      next
        case vectors: (Inr vectors)
        obtain e db2 where repl: "ReplaceAll (en_Fault en) ?ds ?cs vectors db = (e, db2)"
          by (cases "ReplaceAll (en_Fault en) ?ds ?cs vectors db") auto
        show ?thesis
        proof (cases e)
          case (Some err)
          then have "db2 = db" using ReplaceAll_cases [OF repl] by auto
          with Some repl show ?thesis using assms vs opened start' failed Inr vectors by (auto simp: Rebuild_def Let_def)
        next
          case None
          then have wf: "wf_index ?ds ?cs vectors" and db2: "db2 = with_index ?ds ?cs vectors db"
            using ReplaceAll_cases [OF repl] by auto
          obtain f db3 where fin: "RecordRunCompletion (en_Fault en) (en_Now en) run RunStatusSucceeded
              (length ?ds) (length ?cs) (length vectors) [] db2 = (f, db3)"
            by (cases "RecordRunCompletion (en_Fault en) (en_Now en) run RunStatusSucceeded
              (length ?ds) (length ?cs) (length vectors) [] db2") auto
          note k2 = RecordRunCompletion_keeps [OF fin]
          have res: "db' = db3" "r = (case f of None \<Rightarrow> store_ReadStatus (en_Fault en) db3 | Some e \<Rightarrow> Inl e)"
            using assms vs opened start' Inr vectors repl None fin
            by (auto simp: Rebuild_def Let_def split: option.splits)
          have tables: "db_Documents db3 = ?ds" "db_Chunks db3 = ?cs" "db_Vectors db3 = vectors" "db_Fts db3 = map fts_of ?cs"
            using k2 by (auto simp: same_index_def db2 with_index_def)
          have "case r of Inl e \<Rightarrow> after_commit e | Inr st \<Rightarrow> store_ReadStatus (en_Fault en) db' = Inr st"
            using res fin by (auto dest: store_ReadStatus_error RecordRunCompletion_error split: option.splits sum.splits)
          moreover have "wf_database db0 \<longrightarrow> wf_database db3" using k1 k2 wf db2 wf_with_index by auto
          ultimately show ?thesis
            using Inr vs vectors res(1) tables wf by (auto simp: rebuilt_from_def)
        qed
      qed
    qed
  qed
qed

section \<open>Searching\<close>

interpretation result_order: go_less result_less
  by unfold_locales (auto simp: result_less_def split: if_splits)

lemma result_le_antisym:
  assumes "\<not> result_less a b" and "\<not> result_less b a"
  shows "se_ChunkID a = se_ChunkID b \<and> se_Score a = se_Score b \<and> se_DocumentPath a = se_DocumentPath b \<and>
    se_Ordinal a = se_Ordinal b"
  using assms by (auto simp: result_less_def split: if_splits)

text \<open>The first \<open>k\<close> of a sorted list: nothing outside ranks before anything inside.\<close>

lemma take_sort_best:
  assumes "a \<in> set (take k (sort_results xs))" and "mset xs = mset (take k (sort_results xs)) + mset rest"
    and "b \<in> set rest"
  shows "\<not> result_less b a"
proof -
  let ?s = "sort_results xs"
  have "mset ?s = mset (take k ?s) + mset (drop k ?s)" by (metis append_take_drop_id mset_append)
  moreover have "mset ?s = mset xs" by (simp add: sort_results_def)
  ultimately have "set rest = set (drop k ?s)" using assms(2) by (metis add_left_imp_eq set_mset_mset)
  then have b: "b \<in> set (drop k ?s)" using assms(3) by simp
  have "sorted_wrt (\<lambda>a b. \<not> result_less b a) (take k ?s @ drop k ?s)"
    using result_order.sorted_sort_by [of xs] by (simp add: sort_results_def)
  with assms(1) b show ?thesis by (simp only: sorted_wrt_append) blast
qed

lemma search_row_ID: "search_row ratio q row = Inr r \<Longrightarrow> se_ChunkID r = ck_ID (fst row)"
  by (auto simp: search_row_def result_of_def split: option.splits if_splits)

lemma search_row_ok:
  assumes "DecodeEmbedding (vr_Embedding v) = Some e" and "length q = length e"
  shows "search_row ratio q (c, v) = Inr (result_of c (cosineSimilarity ratio q e))"
  using assms by (simp add: search_row_def)

lemma joined_rows_mem:
  "(c, v) \<in> set (joined_rows db) \<longleftrightarrow> c \<in> set (db_Chunks db) \<and> v \<in> set (db_Vectors db) \<and> vr_ChunkID v = ck_ID c"
  by (auto simp: joined_rows_def)

lemma map_res_all_Inr: "\<forall>x \<in> set xs. f x = Inr (g x) \<Longrightarrow> map_res f xs = Inr (map g xs)"
  by (induction xs) auto

lemma distinct_filter_eq: "distinct vs \<Longrightarrow> v \<in> set vs \<Longrightarrow> filter (\<lambda>w. w = v) vs = [v]"
  by (induction vs) (auto simp: filter_empty_conv)

lemma distinct_filter_key:
  assumes "distinct (map key vs)" and "v \<in> set vs"
  shows "filter (\<lambda>w. key w = key v) vs = [v]"
proof -
  have "inj_on key (set vs)" and d: "distinct vs" using assms(1) by (simp_all add: distinct_map)
  then have "filter (\<lambda>w. key w = key v) vs = filter (\<lambda>w. w = v) vs"
    using assms(2) by (intro filter_cong) (auto dest: inj_onD)
  then show ?thesis using distinct_filter_eq [OF d assms(2)] by simp
qed

text \<open>With one vector for each chunk, in order, the join pairs each chunk with its vector.\<close>

lemma join_pairs:
  assumes "distinct (map ck_ID cs)" and "list_all2 (\<lambda>c v. vr_ChunkID v = ck_ID c) cs vs"
  shows "concat (map (\<lambda>c. map (\<lambda>v. (c, v)) (filter (\<lambda>v. vr_ChunkID v = ck_ID c) vs)) cs) = zip cs vs"
proof -
  have ids: "map vr_ChunkID vs = map ck_ID cs"
    using assms(2) by (induction rule: list_all2_induct) simp_all
  then have d: "distinct (map vr_ChunkID vs)" using assms(1) by simp
  have len: "length vs = length cs" using ids by (metis length_map)
  have one: "filter (\<lambda>v. vr_ChunkID v = ck_ID (cs ! i)) vs = [vs ! i]" if "i < length cs" for i
  proof -
    have "vr_ChunkID (vs ! i) = ck_ID (cs ! i)" using ids that len by (metis nth_map)
    then show ?thesis using distinct_filter_key [OF d, of "vs ! i"] that len by simp
  qed
  have "map (\<lambda>c. map (\<lambda>v. (c, v)) (filter (\<lambda>v. vr_ChunkID v = ck_ID c) vs)) cs = map (\<lambda>p. [p]) (zip cs vs)"
    by (rule nth_equalityI) (simp_all add: one len)
  then show ?thesis by simp
qed

lemma result_of_ID [simp]: "se_ChunkID (result_of c x) = ck_ID c"
  by (simp add: result_of_def)

lemma search_rows_perm:
  assumes "map_res (search_row ratio q) rows = Inr xs" and "map_res (search_row ratio q) rows' = Inr ys"
    and "mset rows = mset rows'" and "distinct (map (ck_ID \<circ> fst) rows)"
  shows "sort_results xs = sort_results ys"
proof -
  have get: "zs = map (projr \<circ> search_row ratio q) rs" if "map_res (search_row ratio q) rs = Inr zs" for rs zs
    using map_res_Inr_all2 [OF that] by (induction rule: list_all2_induct) simp_all
  have m: "mset xs = mset ys" using get [OF assms(1)] get [OF assms(2)] assms(3) by simp
  have ids: "map se_ChunkID zs = map (ck_ID \<circ> fst) rs" if "map_res (search_row ratio q) rs = Inr zs" for rs zs
    using map_res_Inr_all2 [OF that] by (induction rule: list_all2_induct) (simp_all add: search_row_ID)
  have "distinct (map se_ChunkID ys)"
    using ids [OF assms(1)] assms(4) m by (metis mset_eq_imp_distinct_iff mset_map)
  then have "x = y" if "x \<in> set ys" "y \<in> set ys" "se_ChunkID x = se_ChunkID y" for x y
    using that by (simp add: distinct_map inj_on_def)
  then have "x = y" if "x \<in> set xs" "y \<in> set xs" "\<not> result_less y x" "\<not> result_less x y" for x y
    using that result_le_antisym m by (metis set_mset_mset)
  then show ?thesis unfolding sort_results_def using m
    by (intro result_order.sort_by_unique result_order.sorted_sort_by) (simp_all add: m)
qed

lemma embedded_dims: "length (PlaceholderEmbedding digest thousandth t) = 8"
  by (simp add: PlaceholderEmbedding_def Let_def)

lemma embedded_search_rows:
  assumes "list_all2 (\<lambda>c v. \<exists>e. emb (ck_Content c) = Some e \<and> length e = length q \<and> v = vector_of c e) cs vs"
  shows "\<exists>xs. map_res (search_row ratio q) (zip cs vs) = Inr xs \<and> map se_ChunkID xs = map ck_ID cs"
  using assms
proof (induction rule: list_all2_induct)
  case (Cons c cs v vs)
  then obtain e xs where "length e = length q" "v = vector_of c e"
    "map_res (search_row ratio q) (zip cs vs) = Inr xs" "map se_ChunkID xs = map ck_ID cs" by auto
  moreover from this have "search_row ratio q (c, v) = Inr (result_of c (cosineSimilarity ratio q e))"
    by (intro search_row_ok) (simp_all add: DecodeEmbedding_def vector_of_def length_EncodeEmbedding decode_values_encode)
  ultimately show ?case by simp
qed simp

section \<open>The full-text query\<close>

lemma utf8_rune_no_quote: "utf8_len s > 1 \<Longrightarrow> quote_char \<notin> set (take (utf8_len s) s)"
proof -
  assume n: "utf8_len s > 1"
  then have "0x80 \<le> code (hd s)" by (cases s) (auto simp: utf8_len.simps split: if_splits)
  moreover have "\<not> plain_byte quote_char" by (simp add: plain_byte_def)
  ultimately show ?thesis using utf8_high by blast
qed

lemma fields_words_simps:
  "fields_words w cur [] = (if cur = [] then [] else [cur])"
  "s \<noteq> [] \<Longrightarrow> decode_rune s = (r, n) \<Longrightarrow> (if n = 1 then ascii_word (hd s) else w r) \<Longrightarrow>
     fields_words w cur s = fields_words w (cur @ take (max 1 n) s) (drop (max 1 n) s)"
  "s \<noteq> [] \<Longrightarrow> decode_rune s = (r, n) \<Longrightarrow> \<not> (if n = 1 then ascii_word (hd s) else w r) \<Longrightarrow>
     fields_words w cur s = (if cur = [] then id else (#) cur) (fields_words w [] (drop (max 1 n) s))"
  by (simp_all add: fields_words.simps [of w cur s] fields_words.simps [of w cur "[]"] Let_def)

lemma fields_words_no_quote:
  "quote_char \<notin> set cur \<Longrightarrow> p \<in> set (fields_words w cur s) \<Longrightarrow> quote_char \<notin> set p"
proof (induction w cur s rule: fields_words.induct)
  case (1 w cur s)
  let ?n = "snd (decode_rune s)"
  show ?case
  proof (cases "s = []")
    case True
    with "1.prems" show ?thesis by (auto simp: fields_words_simps(1) split: if_splits)
  next
    case False
    obtain r n where rn: "decode_rune s = (r, n)" by (cases "decode_rune s") auto
    show ?thesis
    proof (cases "if n = 1 then ascii_word (hd s) else w r")
      case word: True
      have "quote_char \<notin> set (take (max 1 n) s)"
      proof (cases "n > 1")
        case True
        with rn have "utf8_len s = n" by (auto simp: decode_rune_def split: if_splits)
        with True utf8_rune_no_quote [of s] show ?thesis by simp
      next
        case small: False
        have "n = 1" using rn small False by (cases s) (auto simp: decode_rune_def split: if_splits)
        with word False show ?thesis by (cases s) (auto simp: ascii_word_def is_dec_def code_def)
      qed
      moreover have "p \<in> set (fields_words w (cur @ take (max 1 n) s) (drop (max 1 n) s))"
        using "1.prems"(2) fields_words_simps(2) [where w = w, OF False rn word] by simp
      ultimately show ?thesis
        using "1.IH"(1) [OF False rn [symmetric] refl word] "1.prems"(1) by simp
    next
      case sep: False
      have "p = cur \<or> p \<in> set (fields_words w [] (drop (max 1 n) s))"
        using "1.prems"(2) fields_words_simps(3) [where w = w, OF False rn sep] by (auto split: if_splits)
      then show ?thesis
        using "1.IH"(2) [OF False refl rn [symmetric] sep] "1.prems"(1) by auto
    qed
  qed
qed

lemma trim_space_set: "set (trim_space s) \<subseteq> set s"
  using trim_space_infix [of s] by (metis Un_subset_iff set_append subset_refl sup_commute)

text \<open>A small installation, for the witnesses: one file below the root, and a knowledge graph that is
  the directory \<open>graphify\<close> of the same root.\<close>

definition sample_env :: rebuild_env where
  "sample_env =
     \<lparr>en_OpenFails = False, en_Fault = (\<lambda>op. False), en_Cancelled = (\<lambda>i. False), en_Now = ''t'', en_Cwd = None,
      en_Lookup = map_of [(''/r'', DirNode [(''graphify'', DirNode [(''n.md'', FileNode ''hi'')])]),
                          (''/r/graphify'', DirNode [(''n.md'', FileNode ''hi'')])],
      en_Fmt = (\<lambda>v. []), en_DefaultMaxNodes = 50, en_Digest = (\<lambda>s. replicate 32 0), en_Hex = (\<lambda>b. ''h''),
      en_Thousandth = (\<lambda>w. w), en_ErrorText = (\<lambda>e. ''e'')\<rparr>"

definition sample_index_config :: "bool \<Rightarrow> config" where
  "sample_index_config graph = DefaultConfig
     \<lparr>cfg_Index := \<lparr>ix_Root = ''/r'', ix_Includes = [], ix_Excludes = [], ix_ChunkSizeLines = 10\<rparr>,
      cfg_KnowledgeGraph := (cfg_KnowledgeGraph DefaultConfig)\<lparr>kg_Enabled := graph, kg_Path := ''/r/graphify''\<rparr>\<rparr>"

definition sample_file :: "string \<Rightarrow> source_file" where
  "sample_file p = \<lparr>sfl_AbsolutePath = p, sfl_RelativePath = ''graphify/n.md'', sfl_Content = ''hi'', sfl_SizeBytes = 2\<rparr>"

lemma sample_discovered:
  "DiscoverFiles (en_Cwd sample_env) (en_Lookup sample_env) (cfg_Index (sample_index_config g)) =
     Inr [sample_file ''/r/graphify/n.md'']"
  by (cases g) (code_simp, code_simp)

lemma sample_graph:
  "DiscoverGraphifyFiles (en_Fmt sample_env) (en_DefaultMaxNodes sample_env) (en_Cwd sample_env) (en_Lookup sample_env)
     (cfg_KnowledgeGraph (sample_index_config True)) = [sample_file ''/r/graphify/n.md'']"
  by code_simp

lemma sample_rebuild:
  "case Rebuild sample_env None (sample_index_config False) empty_database of
     (Inl e, db) \<Rightarrow> False | (Inr st, db) \<Rightarrow> length (db_Chunks db) = 1"
  by code_simp

section \<open>Properties\<close>

text \<open>\<open>ReplaceAll\<close> is atomic: it returns an error and leaves every table as it was, or it
  returns none, the tables hold exactly the given documents, chunks, full-text rows and vectors, the
  recorded runs are untouched and the constraints of the schema hold.\<close>

theorem replace_all_atomic:
  assumes "wf_database db"
  shows "case ReplaceAll fault documents chunks vectors db of
      (Some e, db') \<Rightarrow> db' = db
    | (None, db') \<Rightarrow> db' = with_index documents chunks vectors db \<and> wf_database db'"
proof -
  obtain r db' where r: "ReplaceAll fault documents chunks vectors db = (r, db')"
    by (cases "ReplaceAll fault documents chunks vectors db") auto
  from ReplaceAll_cases [OF r] show ?thesis
    using assms wf_with_index by (auto simp: r split: option.split)
qed

theorem replace_all_atomic_witness:
  "case ReplaceAll (\<lambda>op. op = OpCommit) [] [] [] empty_database of
      (Some e, db') \<Rightarrow> db' = empty_database
    | (None, db') \<Rightarrow> db' = with_index [] [] [] empty_database \<and> wf_database db'"
  by (rule replace_all_atomic) (simp add: wf_database_def wf_index_def empty_database_def)

text \<open>C26: without faults, a rebuild keeps nothing of the old index and loses nothing of the new one: a
  rebuild that ends before its commit leaves the index it found; every other rebuild leaves
  exactly the documents, chunks and vectors of the files discovered now, and can then only fail in
  its last bookkeeping. Both ways the constraints of the schema are kept.\<close>

theorem rebuild_is_all_or_nothing:
  assumes "wf_database db" and "Rebuild en embedder cfg db = (r, db')"
  shows "wf_database db' \<and>
    (same_index db db' \<and> (\<exists>e. r = Inl e) \<or>
     (\<exists>files vs. indexed_files en cfg = Inr files \<and> choose_vector_store embedder cfg = Inr vs \<and>
        rebuilt_from en cfg files vs db' \<and>
        (case r of Inl e \<Rightarrow> after_commit e | Inr st \<Rightarrow> store_ReadStatus (en_Fault en) db' = Inr st)))"
  using Rebuild_cases [OF assms(2)] assms(1) by blast

theorem rebuild_is_all_or_nothing_witness:
  "wf_database (snd (Rebuild sample_env None (sample_index_config False) empty_database))"
  using rebuild_is_all_or_nothing [OF _ prod.collapse [symmetric],
      of empty_database sample_env None "sample_index_config False"]
  by (simp add: wf_database_def wf_index_def empty_database_def)

text \<open>A repository that holds its own knowledge graph cannot be indexed: when a discovered file and
  a file of the graph have the same relative path, which the prefix \<open>graphify/\<close> allows for a
  directory \<open>graphify\<close> below the root, every rebuild fails and the old index stays.\<close>

theorem colliding_graph_blocks_rebuild:
  assumes "DiscoverFiles (en_Cwd en) (en_Lookup en) (cfg_Index cfg) = Inr files"
    and "f \<in> set files"
    and "g \<in> set (DiscoverGraphifyFiles (en_Fmt en) (en_DefaultMaxNodes en) (en_Cwd en) (en_Lookup en) (cfg_KnowledgeGraph cfg))"
    and "sfl_RelativePath f = sfl_RelativePath g"
  shows "\<exists>e. fst (Rebuild en embedder cfg db) = Inl e \<and> same_index db (snd (Rebuild en embedder cfg db))"
proof -
  obtain r db' where r: "Rebuild en embedder cfg db = (r, db')" by (cases "Rebuild en embedder cfg db") auto
  have no: False if "indexed_files en cfg = Inr fs" "db_Documents db' = map (BuildDocument (en_hash en)) fs"
      "wf_index (db_Documents db') (db_Chunks db') (db_Vectors db')" for fs
  proof -
    have fs: "fs = files @ DiscoverGraphifyFiles (en_Fmt en) (en_DefaultMaxNodes en) (en_Cwd en) (en_Lookup en)
        (cfg_KnowledgeGraph cfg)" using that(1) assms(1) by (simp add: indexed_files_def)
    have "distinct (map sfl_RelativePath fs)"
      using that(2,3) by (simp add: wf_index_def comp_def BuildDocument_def)
    then have "sfl_RelativePath ` set files \<inter> sfl_RelativePath ` set (DiscoverGraphifyFiles (en_Fmt en) (en_DefaultMaxNodes en)
        (en_Cwd en) (en_Lookup en) (cfg_KnowledgeGraph cfg)) = {}" unfolding fs by simp
    moreover have "sfl_RelativePath f \<in> sfl_RelativePath ` set files" using assms(2) by simp
    moreover have "sfl_RelativePath f \<in> sfl_RelativePath ` set (DiscoverGraphifyFiles (en_Fmt en) (en_DefaultMaxNodes en)
        (en_Cwd en) (en_Lookup en) (cfg_KnowledgeGraph cfg))" using assms(3,4) by simp
    ultimately show False by blast
  qed
  with Rebuild_cases [OF r] r show ?thesis by (auto simp: rebuilt_from_def)
qed

theorem colliding_graph_blocks_rebuild_witness:
  "\<exists>e. fst (Rebuild sample_env None (sample_index_config True) empty_database) = Inl e \<and>
     same_index empty_database (snd (Rebuild sample_env None (sample_index_config True) empty_database))"
  using colliding_graph_blocks_rebuild [OF sample_discovered, of _ "sample_file ''/r/graphify/n.md''"]
  by (simp add: sample_graph)


definition sample_chunk :: "string \<Rightarrow> chunk_record" where
  "sample_chunk i = \<lparr>ck_ID = i, ck_DocumentPath = ''d'', ck_Ordinal = 0, ck_StartLine = 1, ck_EndLine = 1,
     ck_Content = i, ck_ContentHash = i\<rparr>"

definition sample_rows :: "(chunk_record \<times> vector_record) list" where
  "sample_rows = map (\<lambda>i. (sample_chunk i, vector_of (sample_chunk i) [1])) [''b'', ''a'']"


text \<open>C28: after a successful rebuild with the embedded vector store, a search with a query vector
  of 8 values never fails on a stored embedding, and with a large enough limit it returns
  every chunk of the index exactly once.\<close>

theorem rebuilt_index_is_searchable:
  assumes "Rebuild en None cfg db = (Inr st, db')" and "length q = 8"
    and "\<And>op. \<not> fault op" and "0 < limit" and "length (db_Chunks db') \<le> nat limit"
  shows "\<exists>res. SearchChunks fault ratio q limit db' = Inr res \<and>
     mset (map se_ChunkID res) = mset (map ck_ID (db_Chunks db'))"
proof -
  obtain files vs where vs: "choose_vector_store None cfg = Inr vs" and re: "rebuilt_from en cfg files vs db'"
    and wf: "wf_index (db_Documents db') (db_Chunks db') (db_Vectors db')"
    using Rebuild_cases [OF assms(1)] by auto
  have "vs = EmbeddedVectorStore"
    using vs by (auto simp: choose_vector_store_def NewVectorStore_def split: if_splits)
  then have "list_all2 (\<lambda>c v. \<exists>e. Some (PlaceholderEmbedding (en_Digest en) (en_Thousandth en) (ck_Content c)) = Some e \<and>
      v = vector_of c e) (db_Chunks db') (db_Vectors db')"
    using re build_from_vectors by (fastforce simp: rebuilt_from_def BuildRecords_def)
  then have vecs: "list_all2 (\<lambda>c v. \<exists>e. Some (PlaceholderEmbedding (en_Digest en) (en_Thousandth en) (ck_Content c)) = Some e \<and>
      length e = length q \<and> v = vector_of c e) (db_Chunks db') (db_Vectors db')"
    by (rule list_all2_mono) (auto simp: embedded_dims assms(2))
  then have "list_all2 (\<lambda>c v. vr_ChunkID v = ck_ID c) (db_Chunks db') (db_Vectors db')"
    by (rule list_all2_mono) (auto simp: vector_of_def)
  with wf have rows: "joined_rows db' = zip (db_Chunks db') (db_Vectors db')"
    unfolding joined_rows_def by (intro join_pairs) (simp_all add: wf_index_def)
  obtain xs where xs: "map_res (search_row ratio q) (joined_rows db') = Inr xs"
    and ids: "map se_ChunkID xs = map ck_ID (db_Chunks db')"
    using embedded_search_rows [OF vecs] rows by auto
  have "length (sort_results xs) \<le> nat limit"
    using assms(5) arg_cong [OF ids, of length] by (simp add: sort_results_def)
  then have "SearchChunks fault ratio q limit db' = Inr (sort_results xs)"
    using xs assms(3,4) by (simp add: SearchChunks_def search_rows_def)
  moreover have "mset (map se_ChunkID (sort_results xs)) = mset (map ck_ID (db_Chunks db'))"
    by (simp only: mset_map sort_results_def mset_sort_by) (metis ids mset_map)
  ultimately show ?thesis by blast
qed

theorem rebuilt_index_is_searchable_witness:
  "\<exists>res. SearchChunks (\<lambda>op. False) (\<lambda>a b. 1) (replicate 8 1) 3
     (snd (Rebuild sample_env None (sample_index_config False) empty_database)) = Inr res \<and> length res = 1"
proof -
  obtain st db' where r: "Rebuild sample_env None (sample_index_config False) empty_database = (Inr st, db')"
    and n: "length (db_Chunks db') = 1"
    using sample_rebuild by (auto split: prod.splits sum.splits)
  obtain res where "SearchChunks (\<lambda>op. False) (\<lambda>a b. 1) (replicate 8 1) 3 db' = Inr res"
    and m: "mset (map se_ChunkID res) = mset (map ck_ID (db_Chunks db'))"
    using rebuilt_index_is_searchable [OF r, of "replicate 8 1" "\<lambda>op. False" 3 "\<lambda>a b. 1"] n by auto
  moreover have "length res = 1" using arg_cong [OF m, of size] n by simp
  ultimately show ?thesis by (simp add: r)
qed

text \<open>The full-text query is a list of quoted words joined by OR, and no word holds a quote: no
  query text reaches the query language of the engine as an operator.\<close>

theorem fts_query_is_quoted:
  "\<exists>ws. buildFTSQuery word_rune query = join_with '' OR '' (map (\<lambda>p. quote_char # p @ [quote_char]) ws) \<and>
     distinct ws \<and> (\<forall>p \<in> set ws. quote_char \<notin> set p \<and> 2 \<le> length p)"
proof -
  let ?ws = "dedup_from [] (filter (\<lambda>p. \<not> length p < 2) (map trim_space (fields_words word_rune [] (to_lower query))))"
  have "quote_char \<notin> set p \<and> 2 \<le> length p" if "p \<in> set ?ws" for p
    using that fields_words_no_quote [of "[]" _ word_rune "to_lower query"] trim_space_set
    by (fastforce simp: set_dedup_from)
  then show ?thesis unfolding buildFTSQuery_def using distinct_dedup_from by blast
qed

theorem fts_query_is_quoted_witness:
  "\<exists>ws. buildFTSQuery (\<lambda>r. False) ''a bc'' = join_with '' OR '' (map (\<lambda>p. quote_char # p @ [quote_char]) ws) \<and> distinct ws"
  using fts_query_is_quoted [of "\<lambda>r. False" "''a bc''"] by blast

end
