(* ===== verification/Ollama_Embed.thy ===== *)
theory Ollama_Embed
  imports Providers Index_Chunks
begin

text \<open>
  \<open>Client.Embed\<close> of \<open>internal/ollama/client.go\<close>. The conversion of a number literal to a 32-bit float,
  through a 64-bit one, is the parameter \<open>to_float32\<close>; it fails when the literal is out of range. The query
  embedder of \<open>Retrieval\<close> and the embedder of an indexing run are this operation.
\<close>

datatype embed_error = EmbedUpstreamFailed | EmbedStatus int string | EmbedResponseInvalid | EmbedNoEmbeddings

definition dec_float :: "(string \<Rightarrow> 32 word option) \<Rightarrow> json \<Rightarrow> 32 word option" where
  "dec_float to_float32 v = (case v of JNum lit \<Rightarrow> to_float32 lit | JNull \<Rightarrow> Some 0 | _ \<Rightarrow> None)"

definition dec_row :: "(string \<Rightarrow> 32 word option) \<Rightarrow> json \<Rightarrow> 32 word list option" where
  "dec_row to_float32 v = (case v of JArr vs \<Rightarrow> dec_all (dec_float to_float32) vs | JNull \<Rightarrow> Some [] | _ \<Rightarrow> None)"

definition dec_rows :: "(string \<Rightarrow> 32 word option) \<Rightarrow> json \<Rightarrow> 32 word list list option" where
  "dec_rows to_float32 v = (case v of JArr vs \<Rightarrow> dec_all (dec_row to_float32) vs | JNull \<Rightarrow> Some [] | _ \<Rightarrow> None)"

definition embeddings_field ::
    "(string \<Rightarrow> 32 word option) \<Rightarrow> string \<Rightarrow> json \<Rightarrow> 32 word list list \<Rightarrow> 32 word list list option" where
  "embeddings_field to_float32 k v old = (if equal_fold_ascii k ''embeddings'' then dec_rows to_float32 v else Some old)"

definition embed_body :: "string \<Rightarrow> string \<Rightarrow> json" where
  "embed_body model input = plain_object [(''model'', jstring model), (''input'', jstring input)]"

definition first_embedding :: "32 word list list \<Rightarrow> embed_error + 32 word list" where
  "first_embedding rows = (case rows of r # rs \<Rightarrow> (if r = [] then Inl EmbedNoEmbeddings else Inr r) | [] \<Rightarrow> Inl EmbedNoEmbeddings)"

definition ollama_embed ::
    "upstream \<Rightarrow> (string \<Rightarrow> 32 word option) \<Rightarrow> string \<Rightarrow> string \<Rightarrow> string \<Rightarrow> string \<Rightarrow> embed_error + 32 word list" where
  "ollama_embed up to_float32 base rid model input =
     (case up_Do up (ollama_post base ''/api/embed'' rid (embed_body model input)) of
        None \<Rightarrow> Inl EmbedUpstreamFailed
      | Some resp \<Rightarrow>
          if hr_Status resp \<noteq> 200 then Inl (EmbedStatus (hr_Status resp) (take 1024 (hr_Body resp)))
          else (case Option.bind (decode_first (hr_Body resp)) (\<lambda>v. dec_struct (embeddings_field to_float32) v []) of
                  None \<Rightarrow> Inl EmbedResponseInvalid
                | Some rows \<Rightarrow> first_embedding rows))"

text \<open>An embedding that is returned has at least one component and came with status 200.\<close>

lemma embedding_not_empty:
  "ollama_embed up to_float32 base rid model input = Inr e \<Longrightarrow>
     e \<noteq> [] \<and> (\<exists>resp. up_Do up (ollama_post base ''/api/embed'' rid (embed_body model input)) = Some resp \<and> hr_Status resp = 200)"
  by (auto simp: ollama_embed_def first_embedding_def split: option.splits if_splits list.splits)

end
