(* ===== verification/Agent_Context.thy ===== *)
theory Agent_Context
  imports Retrieval Policy_Eval
begin

text \<open>
  The context package of \<open>internal/agent\<close>: what a task hands to a role (\<open>context_package.go\<close>,
  \<open>context_builder.go\<close>), the editor snapshot (\<open>mcp_snapshot.go\<close>, \<open>mcp_snapshot_builder.go\<close>), the
  budget (\<open>context_budget.go\<close>), the roles and the orchestration decision (\<open>roles.go\<close>,
  \<open>orchestrator.go\<close>). A negative count in a budget slices out of range, which panics: the result is
  then \<^const>\<open>None\<close>. The zero value of a policy result is \<^const>\<open>None\<close>.
\<close>

section \<open>Records\<close>

record skill_invocation =
  si_Kind :: string
  si_RepoRoot :: string
  si_Paths :: "string list"
  si_Query :: string
  si_DBPath :: string
  si_StagedOnly :: bool

record task_section =
  tk_Goal :: string
  tk_ExecutionMode :: string
  tk_CurrentStep :: string

record constraints_section =
  cs_RepoRoot :: string
  cs_ApprovalRequired :: bool
  cs_AllowedEffects :: "string list"
  cs_ForbiddenEffects :: "string list"

record evidence_item =
  vi_Kind :: string
  vi_Path :: string
  vi_Summary :: string
  vi_Ref :: string

record fact_item =
  fi_Key :: string
  fi_Value :: string

record output_schema =
  os_Kind :: string
  os_Note :: string

record budget =
  bg_MaxEvidenceItems :: int
  bg_MaxFacts :: int
  bg_MaxOpenQuestions :: int
  bg_MaxWorkingMemoryItems :: int
  bg_MaxItemChars :: int

record policy_trace_section =
  ps_Phase :: string
  ps_RouteSource :: string
  ps_Verdict :: string
  ps_Reason :: string

record context_package =
  cp_Task :: task_section
  cp_Constraints :: constraints_section
  cp_SkillInvocations :: "skill_invocation list"
  cp_Evidence :: "evidence_item list"
  cp_Facts :: "fact_item list"
  cp_OpenQuestions :: "string list"
  cp_WorkingMemory :: "string list"
  cp_OutputSchema :: output_schema
  cp_Budget :: budget
  cp_PolicyTrace :: policy_trace_section

record mcp_selection =
  ms_Path :: string
  ms_Snippet :: string
  ms_Start :: int
  ms_End :: int

record mcp_diagnostic =
  md_Path :: string
  md_Severity :: string
  md_Message :: string

record mcp_vcs =
  mv_Branch :: string
  mv_Head :: string
  mv_Dirty :: bool

record mcp_snapshot =
  sn_OpenFiles :: "string list"
  sn_Selection :: "mcp_selection option"
  sn_Diagnostics :: "mcp_diagnostic list"
  sn_VCS :: "mcp_vcs option"

record snapshot_options =
  so_MaxOpenFiles :: int
  so_MaxDiagnostics :: int
  so_MaxChars :: int

section \<open>The budget\<close>

abbreviation truncated_mark :: string where "truncated_mark \<equiv> ''...[truncated]''"

definition trimText :: "string \<Rightarrow> int \<Rightarrow> string" where
  "trimText val maxChars =
     (let v = trim_space val in
      if maxChars < 1 \<or> int (length v) \<le> maxChars then v
      else if maxChars \<le> 14 then take (nat maxChars) v
      else trim_space (take (nat (maxChars - 14)) v) @ truncated_mark)"

text \<open>\<open>items[:min(limit, len(items))]\<close>\<close>

definition take_limit :: "int \<Rightarrow> 'a list \<Rightarrow> 'a list option" where
  "take_limit limit items = (if limit < 0 then None else Some (take (nat limit) items))"

definition trimEvidence :: "evidence_item list \<Rightarrow> int \<Rightarrow> int \<Rightarrow> evidence_item list option" where
  "trimEvidence items limit maxChars =
     map_option (map (\<lambda>x. \<lparr>vi_Kind = trimText (vi_Kind x) maxChars, vi_Path = trimText (vi_Path x) maxChars,
       vi_Summary = trimText (vi_Summary x) maxChars, vi_Ref = trimText (vi_Ref x) maxChars\<rparr>)) (take_limit limit items)"

definition trimFacts :: "fact_item list \<Rightarrow> int \<Rightarrow> int \<Rightarrow> fact_item list option" where
  "trimFacts items limit maxChars =
     map_option (map (\<lambda>x. \<lparr>fi_Key = trimText (fi_Key x) maxChars, fi_Value = trimText (fi_Value x) maxChars\<rparr>))
       (take_limit limit items)"

definition trimStrings :: "string list \<Rightarrow> int \<Rightarrow> int \<Rightarrow> string list option" where
  "trimStrings items limit maxChars = map_option (map (\<lambda>x. trimText x maxChars)) (take_limit limit items)"

definition ApplyBudget :: "context_package \<Rightarrow> context_package option" where
  "ApplyBudget pkg =
     (let b = cp_Budget pkg; n = bg_MaxItemChars b in
      case (trimEvidence (cp_Evidence pkg) (bg_MaxEvidenceItems b) n, trimFacts (cp_Facts pkg) (bg_MaxFacts b) n,
            trimStrings (cp_OpenQuestions pkg) (bg_MaxOpenQuestions b) n,
            trimStrings (cp_WorkingMemory pkg) (bg_MaxWorkingMemoryItems b) n) of
        (Some evidence, Some facts, Some questions, Some memory) \<Rightarrow>
          Some (pkg\<lparr>cp_Evidence := evidence, cp_Facts := facts, cp_OpenQuestions := questions, cp_WorkingMemory := memory,
            cp_Task := (cp_Task pkg)\<lparr>tk_Goal := trimText (tk_Goal (cp_Task pkg)) n,
              tk_CurrentStep := trimText (tk_CurrentStep (cp_Task pkg)) n\<rparr>,
            cp_OutputSchema := (cp_OutputSchema pkg)\<lparr>os_Note := trimText (os_Note (cp_OutputSchema pkg)) n\<rparr>\<rparr>)
      | _ \<Rightarrow> None)"

section \<open>The editor snapshot\<close>

definition or_default :: "int \<Rightarrow> int \<Rightarrow> int" where
  "or_default n d = (if n < 1 then d else n)"

definition NormalizeMCPSnapshot :: "mcp_snapshot \<Rightarrow> snapshot_options \<Rightarrow> mcp_snapshot" where
  "NormalizeMCPSnapshot s opts =
     (let maxFiles = or_default (so_MaxOpenFiles opts) 8;
          maxDiagnostics = or_default (so_MaxDiagnostics opts) 20;
          maxChars = or_default (so_MaxChars opts) 240;
          trim = (\<lambda>x. trimText x maxChars) in
      \<lparr>sn_OpenFiles = map trim (take (nat maxFiles) (sn_OpenFiles s)),
       sn_Selection = map_option (\<lambda>x. x\<lparr>ms_Path := trim (ms_Path x), ms_Snippet := trim (ms_Snippet x)\<rparr>) (sn_Selection s),
       sn_Diagnostics = map (\<lambda>x. \<lparr>md_Path = trim (md_Path x), md_Severity = trim (md_Severity x), md_Message = trim (md_Message x)\<rparr>)
         (take (nat maxDiagnostics) (sn_Diagnostics s)),
       sn_VCS = map_option (\<lambda>x. x\<lparr>mv_Branch := trim (mv_Branch x), mv_Head := trim (mv_Head x)\<rparr>) (sn_VCS s)\<rparr>)"

section \<open>Building the package\<close>

definition verdict_text :: "verdict \<Rightarrow> string" where
  "verdict_text v = (case v of VerdictAllow \<Rightarrow> ''allow'' | VerdictRedact \<Rightarrow> ''redact''
     | VerdictBlock \<Rightarrow> ''block'' | VerdictLocalOnly \<Rightarrow> ''local_only'')"

definition PolicyTraceFromResult :: "evaluation_result option \<Rightarrow> policy_trace_section" where
  "PolicyTraceFromResult result =
     (case result of None \<Rightarrow> \<lparr>ps_Phase = [], ps_RouteSource = [], ps_Verdict = [], ps_Reason = []\<rparr>
      | Some r \<Rightarrow> \<lparr>ps_Phase = er_Phase r, ps_RouteSource = er_RouteSource r, ps_Verdict = verdict_text (er_Verdict r),
          ps_Reason = er_Reason r\<rparr>)"

record diagnostic_evidence =
  dg_Path :: string
  dg_Message :: string
  dg_Level :: string

record build_input =
  bi_Goal :: string
  bi_ExecutionMode :: string
  bi_CurrentStep :: string
  bi_RepoRoot :: string
  bi_ApprovalRequired :: bool
  bi_AllowedEffects :: "string list"
  bi_ForbiddenEffects :: "string list"
  bi_SkillInvocations :: "skill_invocation list"
  bi_Facts :: "fact_item list"
  bi_OpenQuestions :: "string list"
  bi_WorkingMemory :: "string list"
  bi_OutputKind :: string
  bi_OutputNote :: string
  bi_Budget :: budget
  bi_PolicyResult :: "evaluation_result option"
  bi_Retrieval :: "debug_metadata option"
  bi_MCPSnapshot :: "mcp_snapshot option"
  bi_Diagnostics :: "diagnostic_evidence list"
  bi_VCSContext :: "fact_item list"

definition evidenceFromRetrieval :: "debug_metadata \<Rightarrow> evidence_item list" where
  "evidenceFromRetrieval md =
     (let query = trim_space (dm_Query md) in
      (if query \<noteq> [] then [\<lparr>vi_Kind = ''retrieval_query'', vi_Path = [], vi_Summary = query, vi_Ref = []\<rparr>] else []) @
      map (\<lambda>s. let r = sf_DocumentPath s @ '':'' @ itoa (sf_StartLine s) @ ''-'' @ itoa (sf_EndLine s) in
             \<lparr>vi_Kind = ''retrieval_source'', vi_Path = sf_DocumentPath s, vi_Summary = r, vi_Ref = r\<rparr>)
        (cc_Sources (dm_Compiled md)))"

definition evidenceFromMCPSnapshot :: "mcp_snapshot \<Rightarrow> evidence_item list" where
  "evidenceFromMCPSnapshot s =
     map (\<lambda>p. \<lparr>vi_Kind = ''mcp_open_file'', vi_Path = p, vi_Summary = p, vi_Ref = p\<rparr>) (sn_OpenFiles s) @
     (case sn_Selection s of None \<Rightarrow> []
      | Some x \<Rightarrow> [\<lparr>vi_Kind = ''mcp_selection'', vi_Path = ms_Path x, vi_Summary = ms_Path x, vi_Ref = ms_Path x\<rparr>]) @
     map (\<lambda>d. \<lparr>vi_Kind = ''mcp_diagnostic'', vi_Path = md_Path d,
            vi_Summary = ''['' @ md_Severity d @ ''] '' @ md_Message d, vi_Ref = md_Path d\<rparr>) (sn_Diagnostics s)"

definition factsFromMCPSnapshot :: "mcp_snapshot \<Rightarrow> fact_item list" where
  "factsFromMCPSnapshot s =
     (case sn_VCS s of None \<Rightarrow> []
      | Some v \<Rightarrow> [\<lparr>fi_Key = ''mcp_branch'', fi_Value = mv_Branch v\<rparr>, \<lparr>fi_Key = ''mcp_head'', fi_Value = mv_Head v\<rparr>,
          \<lparr>fi_Key = ''mcp_dirty'', fi_Value = (if mv_Dirty v then ''true'' else ''false'')\<rparr>])"

definition diagnosticEvidence :: "diagnostic_evidence \<Rightarrow> evidence_item" where
  "diagnosticEvidence d = \<lparr>vi_Kind = ''diagnostic'', vi_Path = dg_Path d,
     vi_Summary = trim_space (''['' @ dg_Level d @ ''] '' @ dg_Message d), vi_Ref = dg_Path d\<rparr>"

definition BuildContextPackage :: "build_input \<Rightarrow> context_package option" where
  "BuildContextPackage i =
     (let b = bi_Budget i;
          snapshot = map_option (\<lambda>s. NormalizeMCPSnapshot s \<lparr>so_MaxOpenFiles = bg_MaxEvidenceItems b,
            so_MaxDiagnostics = bg_MaxEvidenceItems b, so_MaxChars = bg_MaxItemChars b\<rparr>) (bi_MCPSnapshot i);
          evidence = (case bi_Retrieval i of None \<Rightarrow> [] | Some md \<Rightarrow> evidenceFromRetrieval md) @
            (case snapshot of None \<Rightarrow> [] | Some s \<Rightarrow> evidenceFromMCPSnapshot s) @
            map diagnosticEvidence (bi_Diagnostics i);
          facts = bi_Facts i @ bi_VCSContext i @
            (case snapshot of None \<Rightarrow> [] | Some s \<Rightarrow> factsFromMCPSnapshot s) in
      ApplyBudget
        \<lparr>cp_Task = \<lparr>tk_Goal = bi_Goal i, tk_ExecutionMode = bi_ExecutionMode i, tk_CurrentStep = bi_CurrentStep i\<rparr>,
         cp_Constraints = \<lparr>cs_RepoRoot = bi_RepoRoot i, cs_ApprovalRequired = bi_ApprovalRequired i,
           cs_AllowedEffects = bi_AllowedEffects i, cs_ForbiddenEffects = bi_ForbiddenEffects i\<rparr>,
         cp_SkillInvocations = bi_SkillInvocations i, cp_Evidence = evidence, cp_Facts = facts,
         cp_OpenQuestions = bi_OpenQuestions i, cp_WorkingMemory = bi_WorkingMemory i,
         cp_OutputSchema = \<lparr>os_Kind = bi_OutputKind i, os_Note = bi_OutputNote i\<rparr>,
         cp_Budget = b, cp_PolicyTrace = PolicyTraceFromResult (bi_PolicyResult i)\<rparr>)"

section \<open>Roles and orchestration\<close>

datatype role = RoleOrchestrator | RolePlanner | RoleResearcher | RoleCoder | RoleReviewer

record role_profile =
  rl_Role :: role
  rl_Description :: string
  rl_AllowedEffects :: "string list"
  rl_ForbiddenEffects :: "string list"

definition DefaultRoleProfiles :: "role \<Rightarrow> role_profile" where
  "DefaultRoleProfiles r =
     \<lparr>rl_Role = r,
      rl_Description = (case r of
          RoleOrchestrator \<Rightarrow> ''Chooses direct vs planned execution and next-step routing.''
        | RolePlanner \<Rightarrow> ''Converts goals into bounded implementation or research plans.''
        | RoleResearcher \<Rightarrow> ''Collects repo evidence and index-backed facts.''
        | RoleCoder \<Rightarrow> ''Produces bounded code changes only through later approval-gated actions.''
        | RoleReviewer \<Rightarrow> ''Validates work against plan and policy constraints.''),
      rl_AllowedEffects = (if r = RoleCoder then [''read'', ''propose_write'', ''propose_execute''] else [''read'']),
      rl_ForbiddenEffects = [''write'', ''execute'']\<rparr>"

record orchestration =
  od_ExecutionMode :: string
  od_NextRole :: role
  od_Reason :: string

definition DecideExecutionMode :: "context_package \<Rightarrow> orchestration" where
  "DecideExecutionMode pkg =
     (if trim_space (tk_ExecutionMode (cp_Task pkg)) = ExecutionModePlanFirst
      then \<lparr>od_ExecutionMode = ExecutionModePlanFirst, od_NextRole = RolePlanner, od_Reason = ''execution_mode_plan_first''\<rparr>
      else if trim_space (tk_CurrentStep (cp_Task pkg)) \<noteq> []
      then \<lparr>od_ExecutionMode = ExecutionModeDirect, od_NextRole = RoleCoder, od_Reason = ''execution_mode_direct_current_step''\<rparr>
      else \<lparr>od_ExecutionMode = ExecutionModeDirect, od_NextRole = RoleResearcher, od_Reason = ''execution_mode_direct''\<rparr>)"


section \<open>What the budget guarantees\<close>

lemma length_trimText: "1 \<le> n \<Longrightarrow> int (length (trimText s n)) \<le> n"
  using length_trim_space [of "take (nat (n - 14)) (trim_space s)"] by (auto simp: trimText_def Let_def)

lemma strip_rune_dots: "strip_rune space_runes x = None \<Longrightarrow> strip_rune space_runes (x @ truncated_mark) = None"
proof (rule ccontr)
  assume x: "strip_rune space_runes x = None" and "strip_rune space_runes (x @ truncated_mark) \<noteq> None"
  then obtain r t where r: "r \<in> set space_runes" "r \<noteq> []" and e: "x @ truncated_mark = r @ t"
    using strip_rune_Some_mem by blast
  have no_dot: "CHR ''.'' \<notin> set r"
    using r(1) by (auto simp: space_runes_def)
  show False
  proof (cases "length r \<le> length x")
    case True
    with e [symmetric] have "r = take (length r) x" by (simp only: append_eq_append_conv_if if_True)
    then have "x = r @ drop (length r) x" by (metis append_take_drop_id)
    with x r strip_rune_hit show False by metis
  next
    case False
    then have "length x \<le> length r" by simp
    with iffD1 [OF append_eq_append_conv_if e]
    have us: "truncated_mark = drop (length x) r @ t" by (simp only: if_True)
    have "drop (length x) r \<noteq> []" using False by simp
    then have "CHR ''.'' \<in> set (drop (length x) r)" using us by (cases "drop (length x) r") auto
    with no_dot show False by (meson in_set_dropD)
  qed
qed

lemma trim_space_truncated:
  assumes "strip_rune space_runes x = None"
  shows "trim_space (x @ truncated_mark) = x @ truncated_mark"
proof -
  have "trim_left (x @ truncated_mark) = x @ truncated_mark"
    by (simp add: trim_left_def trim_with_stop strip_rune_dots [OF assms, simplified])
  moreover have "trim_right ((x @ ''...[truncated'') @ '']'') = (x @ ''...[truncated'') @ '']''"
    by (rule trim_right_plain) simp
  ultimately show ?thesis by (simp add: trim_space_def)
qed

lemma trim_space_strip: "strip_rune space_runes (trim_space s) = None"
proof -
  obtain q where "trim_left s = trim_space s @ q"
    using trim_right_prefix [of "trim_left s"] by (auto simp: trim_space_def)
  moreover have "strip_rune space_runes (trim_left s) = None" by (simp add: trim_left_def trim_with_fixed)
  ultimately show ?thesis by (metis strip_rune_prefix_None)
qed


lemma trimText_again: "n < 1 \<or> 14 < n \<Longrightarrow> trimText (trimText s n) n = trimText s n"
proof -
  assume n: "n < 1 \<or> 14 < n"
  let ?v = "trim_space s"
  show ?thesis
  proof (cases "n < 1 \<or> int (length ?v) \<le> n")
    case True
    then show ?thesis by (simp add: trimText_def)
  next
    case False
    let ?p = "take (nat (n - 14)) ?v"
    have eq: "trimText s n = trim_space ?p @ truncated_mark" using False n by (simp add: trimText_def Let_def)
    have "int (length (trim_space ?p @ truncated_mark)) \<le> n"
      using length_trimText [of n s] False eq by simp
    then show ?thesis
      unfolding eq using trim_space_truncated [OF trim_space_strip, of ?p]
      by (simp only: trimText_def Let_def) simp
  qed
qed

definition short_text :: "int \<Rightarrow> string \<Rightarrow> bool" where
  "short_text n s \<longleftrightarrow> int (length s) \<le> n"

lemma short_trimText: "1 \<le> n \<Longrightarrow> short_text n (trimText s n)"
  by (simp add: short_text_def length_trimText)

definition budget_ok :: "budget \<Rightarrow> bool" where
  "budget_ok b \<longleftrightarrow> 0 \<le> bg_MaxEvidenceItems b \<and> 0 \<le> bg_MaxFacts b \<and> 0 \<le> bg_MaxOpenQuestions b \<and> 0 \<le> bg_MaxWorkingMemoryItems b"

lemmas apply_budget = ApplyBudget_def Let_def trimEvidence_def trimFacts_def trimStrings_def take_limit_def

lemma ApplyBudget_invocations: "ApplyBudget pkg = Some p \<Longrightarrow> cp_SkillInvocations p = cp_SkillInvocations pkg"
  by (auto simp: apply_budget split: if_splits)

text \<open>A budget is enforced: with non-negative counts the package keeps at most as many evidence
  items, facts, questions and notes as the budget allows, and with a positive text limit every one of
  their texts, the goal, the current step and the output note are within it; skill invocations,
  constraints and the budget are unchanged. With a negative count the code panics.\<close>

theorem budget_is_enforced:
  "(ApplyBudget pkg = None \<longleftrightarrow> \<not> budget_ok (cp_Budget pkg)) \<and>
   (\<forall>p. ApplyBudget pkg = Some p \<longrightarrow>
      int (length (cp_Evidence p)) \<le> bg_MaxEvidenceItems (cp_Budget pkg) \<and>
      int (length (cp_Facts p)) \<le> bg_MaxFacts (cp_Budget pkg) \<and>
      int (length (cp_OpenQuestions p)) \<le> bg_MaxOpenQuestions (cp_Budget pkg) \<and>
      int (length (cp_WorkingMemory p)) \<le> bg_MaxWorkingMemoryItems (cp_Budget pkg) \<and>
      (1 \<le> bg_MaxItemChars (cp_Budget pkg) \<longrightarrow>
         list_all (short_text (bg_MaxItemChars (cp_Budget pkg)))
           (map vi_Kind (cp_Evidence p) @ map vi_Path (cp_Evidence p) @ map vi_Summary (cp_Evidence p) @
            map vi_Ref (cp_Evidence p) @ map fi_Key (cp_Facts p) @ map fi_Value (cp_Facts p) @ cp_OpenQuestions p @
            cp_WorkingMemory p @ [tk_Goal (cp_Task p), tk_CurrentStep (cp_Task p), os_Note (cp_OutputSchema p)])) \<and>
      cp_SkillInvocations p = cp_SkillInvocations pkg \<and> cp_Constraints p = cp_Constraints pkg \<and> cp_Budget p = cp_Budget pkg)"
proof (cases "budget_ok (cp_Budget pkg)")
  case True
  then obtain p where p: "ApplyBudget pkg = Some p"
    by (auto simp: apply_budget budget_ok_def)
  with True show ?thesis
    by (auto simp: apply_budget budget_ok_def list_all_iff short_trimText)
next
  case False
  then have "ApplyBudget pkg = None" by (auto simp: apply_budget budget_ok_def split: option.split)
  with False show ?thesis by simp
qed

definition sample_package :: context_package where
  "sample_package = \<lparr>cp_Task = \<lparr>tk_Goal = ''g'', tk_ExecutionMode = [], tk_CurrentStep = []\<rparr>,
     cp_Constraints = \<lparr>cs_RepoRoot = [], cs_ApprovalRequired = True, cs_AllowedEffects = [], cs_ForbiddenEffects = []\<rparr>,
     cp_SkillInvocations = [\<lparr>si_Kind = ''git_status'', si_RepoRoot = ''/repo'', si_Paths = [], si_Query = [], si_DBPath = [], si_StagedOnly = False\<rparr>],
     cp_Evidence = [], cp_Facts = [], cp_OpenQuestions = [], cp_WorkingMemory = [''a long note that is cut'', ''b''],
     cp_OutputSchema = \<lparr>os_Kind = [], os_Note = []\<rparr>,
     cp_Budget = \<lparr>bg_MaxEvidenceItems = 1, bg_MaxFacts = 1, bg_MaxOpenQuestions = 1, bg_MaxWorkingMemoryItems = 1, bg_MaxItemChars = 20\<rparr>,
     cp_PolicyTrace = PolicyTraceFromResult None\<rparr>"

lemma budget_is_enforced_witness: "ApplyBudget sample_package \<noteq> None"
  using budget_is_enforced by (simp add: budget_ok_def sample_package_def)

text \<open>Applying the budget a second time, as the runner does with the package the builder made,
  changes nothing when the text limit is off or leaves room for the truncation mark.\<close>

theorem budget_is_idempotent:
  assumes "ApplyBudget pkg = Some p" and "bg_MaxItemChars (cp_Budget pkg) < 1 \<or> 14 < bg_MaxItemChars (cp_Budget pkg)"
  shows "ApplyBudget p = Some p"
proof -
  have "budget_ok (cp_Budget pkg)" using assms(1) by (auto simp: apply_budget budget_ok_def split: if_splits)
  with assms show ?thesis
    by (auto simp: apply_budget budget_ok_def trimText_again comp_def take_map)
qed


lemma budget_is_idempotent_witness:
  "\<exists>p. ApplyBudget sample_package = Some p \<and> ApplyBudget p = Some p \<and> cp_WorkingMemory p = [''a long...[truncated]'']"
proof -
  have "case ApplyBudget sample_package of None \<Rightarrow> False | Some p \<Rightarrow> cp_WorkingMemory p = [''a long...[truncated]'']"
    by code_simp
  then obtain p where p: "ApplyBudget sample_package = Some p" "cp_WorkingMemory p = [''a long...[truncated]'']"
    by (auto split: option.splits)
  from budget_is_idempotent [OF p(1)] p show ?thesis by (simp add: sample_package_def)
qed

end
