(* ===== verification/Agent_Skills.thy ===== *)
theory Agent_Skills
  imports Agent_Context
begin

text \<open>
  \<open>internal/agent/skills\<close>: the read-only tools. The operating system is a record of functions:
  \<open>filepath.EvalSymlinks\<close>, the content of a file, the entries of a directory tree as \<open>filepath.WalkDir\<close>
  visits them, a run of git and the index stores that can be opened; \<^const>\<open>None\<close> is an error. The
  context is cancelled from some path of a walk on. \<open>strings.ToLower\<close> needs the Unicode tables and is a
  function of the record too.
\<close>

datatype search_node =
    RegularEntry | LinkEntry | DirEntry "(string \<times> search_node) list" | UnreadableDirEntry

record host_os =
  os_Cwd :: "string option"
  os_EvalSymlinks :: "string \<Rightarrow> string option"
  os_ReadFile :: "string \<Rightarrow> string option"
  os_Tree :: "string \<Rightarrow> search_node option"
  os_Git :: "string \<Rightarrow> string list \<Rightarrow> string + string"
  os_OpenIndex :: "string \<Rightarrow> database option"
  os_DefaultDB :: string
  os_Fault :: faults
  os_FtsMatch :: "string \<Rightarrow> fts_row list \<Rightarrow> fts_row list"
  os_WordRune :: "string \<Rightarrow> bool"
  os_Lower :: "string \<Rightarrow> string"
  os_Done :: "string \<Rightarrow> bool"

datatype (plugins only: code size) skill_error =
    RepoRootEmpty | PathUnresolved | ErrUnapprovedRepoRoot | ReadFilesRepoRootEmpty | ReadFilesPathsEmpty
  | ReadFilesTooMany int | ReadFilesInvalidPath | PathEscapes string | FileUnreadable | SkillContextDone
  | SearchRepoRootEmpty | SearchQueryEmpty | WalkFailed | IndexQueryEmpty | IndexOpenFailed
  | IndexSearchFailed store_error | GitStatusRootEmpty | GitDiffRootEmpty | GitFailed string
  | ErrUnknownReadOnlyTool string

section \<open>Approved roots and paths\<close>

definition canonicalPath :: "host_os \<Rightarrow> string \<Rightarrow> string option" where
  "canonicalPath os path = (case path_abs (os_Cwd os) path of None \<Rightarrow> None | Some a \<Rightarrow> os_EvalSymlinks os a)"

definition ResolveApprovedRepoRoot :: "host_os \<Rightarrow> string \<Rightarrow> string list \<Rightarrow> skill_error + string" where
  "ResolveApprovedRepoRoot os repoRoot approvedRoots =
     (if trim_space repoRoot = [] then Inl RepoRootEmpty
      else (case canonicalPath os repoRoot of None \<Rightarrow> Inl PathUnresolved
        | Some resolvedRoot \<Rightarrow>
            if list_ex (\<lambda>approved. canonicalPath os approved = Some resolvedRoot) approvedRoots
            then Inr resolvedRoot else Inl ErrUnapprovedRepoRoot))"

definition inside_root :: "string \<Rightarrow> string \<Rightarrow> bool" where
  "inside_root resolvedRoot p \<longleftrightarrow> has_prefix p (resolvedRoot @ ''/'') \<or> p = resolvedRoot"

definition resolveRepoPath :: "host_os \<Rightarrow> string \<Rightarrow> string \<Rightarrow> skill_error + string" where
  "resolveRepoPath os resolvedRoot relativePath =
     (case canonicalPath os (path_join [resolvedRoot, relativePath]) of None \<Rightarrow> Inl PathUnresolved
      | Some p \<Rightarrow> if inside_root resolvedRoot p then Inr p else Inl (PathEscapes relativePath))"

definition positiveOrDefault :: "int \<Rightarrow> int \<Rightarrow> int" where
  "positiveOrDefault val fallback = (if val > 0 then val else fallback)"

definition skills_trimText :: "string \<Rightarrow> int \<Rightarrow> string" where
  "skills_trimText val maxChars =
     (let v = trim_space val in
      if maxChars < 1 \<or> int (length v) \<le> maxChars then v
      else if maxChars \<le> 14 then take (nat maxChars) v
      else trim_space (take (nat (maxChars - 14)) v) @ truncated_mark)"

lemma skills_trimText_eq: "skills_trimText = trimText"
  by (simp add: skills_trimText_def trimText_def fun_eq_iff)

section \<open>Reading files\<close>

record file_content =
  fc_Path :: string
  fc_Content :: string

record read_files_request =
  rf_RepoRoot :: string
  rf_Paths :: "string list"
  rf_MaxFiles :: int
  rf_MaxCharsPerFile :: int

definition clean_request_path :: "string \<Rightarrow> skill_error + string" where
  "clean_request_path path =
     (let p = path_clean (trim_space path) in if p = ''.'' \<or> p = [] then Inl ReadFilesInvalidPath else Inr p)"

definition validateReadFilesRequest :: "read_files_request \<Rightarrow> skill_error + (string list \<times> int)" where
  "validateReadFilesRequest req =
     (if trim_space (rf_RepoRoot req) = [] then Inl ReadFilesRepoRootEmpty
      else if rf_Paths req = [] then Inl ReadFilesPathsEmpty
      else
        (let maxFiles = positiveOrDefault (rf_MaxFiles req) 8 in
         if int (length (rf_Paths req)) > maxFiles then Inl (ReadFilesTooMany maxFiles)
         else (case map_res clean_request_path (rf_Paths req) of Inl e \<Rightarrow> Inl e
           | Inr cleaned \<Rightarrow> Inr (cleaned, positiveOrDefault (rf_MaxCharsPerFile req) 2000))))"

definition readFileBounded :: "host_os \<Rightarrow> string \<Rightarrow> string \<Rightarrow> int \<Rightarrow> skill_error + string" where
  "readFileBounded os repoRoot relativePath maxChars =
     (if os_Done os [] then Inl SkillContextDone
      else (case canonicalPath os repoRoot of None \<Rightarrow> Inl PathUnresolved
        | Some resolvedRoot \<Rightarrow>
            (case resolveRepoPath os resolvedRoot relativePath of Inl e \<Rightarrow> Inl e
             | Inr p \<Rightarrow> (case os_ReadFile os p of None \<Rightarrow> Inl FileUnreadable
                 | Some data \<Rightarrow> Inr (skills_trimText data maxChars)))))"

definition ReadFiles :: "host_os \<Rightarrow> string list \<Rightarrow> read_files_request \<Rightarrow> skill_error + file_content list" where
  "ReadFiles os approved req =
     (case validateReadFilesRequest req of Inl e \<Rightarrow> Inl e
      | Inr (paths, maxChars) \<Rightarrow>
          (case ResolveApprovedRepoRoot os (rf_RepoRoot req) approved of Inl e \<Rightarrow> Inl e
           | Inr approvedRoot \<Rightarrow>
               map_res (\<lambda>p. case readFileBounded os approvedRoot p maxChars of Inl e \<Rightarrow> Inl e
                            | Inr c \<Rightarrow> Inr \<lparr>fc_Path = p, fc_Content = c\<rparr>) paths))"

section \<open>Searching the repository\<close>

record repo_match =
  rm_Path :: string
  rm_Snippet :: string

fun find_sub :: "nat \<Rightarrow> string \<Rightarrow> string \<Rightarrow> nat option" where
  "find_sub i needle s =
     (if has_prefix s needle then Some i else (case s of [] \<Rightarrow> None | c # cs \<Rightarrow> find_sub (Suc i) needle cs))"

declare find_sub.simps [simp del]

definition snippetAround :: "string \<Rightarrow> int \<Rightarrow> int \<Rightarrow> string" where
  "snippetAround content idx maxChars =
     (if maxChars \<le> 0 \<or> int (length content) \<le> maxChars then trim_space content
      else
        (let n = int (length content);
             start = max (idx - maxChars div 2) 0;
             end' = start + maxChars;
             stop = (if end' > n then n else end');
             start' = (if end' > n then max (n - maxChars) 0 else start) in
         skills_trimText (take (nat (stop - start')) (drop (nat start') content)) maxChars))"

definition skipped_dir :: "string \<Rightarrow> bool" where
  "skipped_dir name \<longleftrightarrow> name \<in> {''.git'', ''node_modules'', ''.direnv'', ''.idea''}"

text \<open>What the callback makes of a file: the new results and whether the walk stops.\<close>

definition visit_file ::
    "host_os \<Rightarrow> string \<Rightarrow> int \<Rightarrow> int \<Rightarrow> string \<Rightarrow> string \<Rightarrow> repo_match list \<Rightarrow> skill_error + (repo_match list \<times> bool)" where
  "visit_file os needle maxMatches maxSnippet path rel results =
     (case os_ReadFile os path of None \<Rightarrow> Inl FileUnreadable
      | Some content \<Rightarrow>
          (case find_sub 0 needle (os_Lower os content) of None \<Rightarrow> Inr (results, False)
           | Some idx \<Rightarrow>
               (let results' = results @ [\<lparr>rm_Path = rel, rm_Snippet = snippetAround content (int idx) maxSnippet\<rparr>] in
                Inr (results', int (length results') \<ge> maxMatches))))"

definition link_escapes :: "host_os \<Rightarrow> string \<Rightarrow> string \<Rightarrow> bool" where
  "link_escapes os resolvedRoot path =
     (case canonicalPath os path of None \<Rightarrow> True | Some p \<Rightarrow> \<not> inside_root resolvedRoot p)"

fun search_walk :: "host_os \<Rightarrow> string \<Rightarrow> string \<Rightarrow> int \<Rightarrow> int \<Rightarrow> string \<Rightarrow> string \<Rightarrow> string \<Rightarrow> search_node
      \<Rightarrow> repo_match list \<Rightarrow> skill_error + (repo_match list \<times> bool)"
and search_entries :: "host_os \<Rightarrow> string \<Rightarrow> string \<Rightarrow> int \<Rightarrow> int \<Rightarrow> string \<Rightarrow> string \<Rightarrow> (string \<times> search_node) list
      \<Rightarrow> repo_match list \<Rightarrow> skill_error + (repo_match list \<times> bool)"
where
  "search_walk os r needle mm ms path rel name RegularEntry results =
     (if os_Done os path then Inl SkillContextDone else visit_file os needle mm ms path rel results)"
| "search_walk os r needle mm ms path rel name LinkEntry results =
     (if os_Done os path then Inl SkillContextDone
      else if link_escapes os r path then Inr (results, False)
      else visit_file os needle mm ms path rel results)"
| "search_walk os r needle mm ms path rel name (DirEntry es) results =
     (if os_Done os path then Inl SkillContextDone
      else if skipped_dir name then Inr (results, False)
      else search_entries os r needle mm ms path rel es results)"
| "search_walk os r needle mm ms path rel name UnreadableDirEntry results =
     (if os_Done os path then Inl SkillContextDone
      else if skipped_dir name then Inr (results, False) else Inl WalkFailed)"
| "search_entries os r needle mm ms path rel [] results = Inr (results, False)"
| "search_entries os r needle mm ms path rel ((name, node) # es) results =
     (case search_walk os r needle mm ms (path_join [path, name]) (if rel = ''.'' then name else rel @ ''/'' @ name)
             name node results of
        Inl e \<Rightarrow> Inl e
      | Inr (results', stop) \<Rightarrow>
          if stop then Inr (results', True) else search_entries os r needle mm ms path rel es results')"

definition searchRepoBounded :: "host_os \<Rightarrow> string \<Rightarrow> string \<Rightarrow> int \<Rightarrow> int \<Rightarrow> skill_error + repo_match list" where
  "searchRepoBounded os repoRoot query maxMatches maxSnippetChars =
     (if os_Done os [] then Inl SkillContextDone
      else (case canonicalPath os repoRoot of None \<Rightarrow> Inl PathUnresolved
        | Some resolvedRoot \<Rightarrow>
            (case os_Tree os resolvedRoot of None \<Rightarrow> Inl WalkFailed
             | Some node \<Rightarrow>
                 (case search_walk os resolvedRoot (os_Lower os (trim_space query)) maxMatches maxSnippetChars
                         resolvedRoot ''.'' (path_base resolvedRoot) node [] of
                    Inl e \<Rightarrow> Inl e
                  | Inr (results, stop) \<Rightarrow> Inr results))))"

record search_repo_request =
  sq_RepoRoot :: string
  sq_Query :: string
  sq_MaxMatches :: int
  sq_MaxSnippetChars :: int

definition SearchRepo :: "host_os \<Rightarrow> string list \<Rightarrow> search_repo_request \<Rightarrow> skill_error + repo_match list" where
  "SearchRepo os approved req =
     (if trim_space (sq_RepoRoot req) = [] then Inl SearchRepoRootEmpty
      else if trim_space (sq_Query req) = [] then Inl SearchQueryEmpty
      else (case ResolveApprovedRepoRoot os (sq_RepoRoot req) approved of Inl e \<Rightarrow> Inl e
        | Inr approvedRoot \<Rightarrow>
            searchRepoBounded os approvedRoot (sq_Query req) (positiveOrDefault (sq_MaxMatches req) 10)
              (positiveOrDefault (sq_MaxSnippetChars req) 240)))"


section \<open>The index and git\<close>

record index_match =
  im_Path :: string
  im_Ref :: string
  im_Snippet :: string

record index_lookup_request =
  il_DBPath :: string
  il_Query :: string
  il_MaxMatches :: int
  il_MaxSnippetChars :: int

definition IndexLookup :: "host_os \<Rightarrow> index_lookup_request \<Rightarrow> skill_error + index_match list" where
  "IndexLookup os req =
     (let maxMatches = positiveOrDefault (il_MaxMatches req) 10;
          maxSnippetChars = positiveOrDefault (il_MaxSnippetChars req) 240 in
      if trim_space (il_Query req) = [] then Inl IndexQueryEmpty
      else
        (let dbPath = (if trim_space (il_DBPath req) = [] then os_DefaultDB os else il_DBPath req) in
         case os_OpenIndex os dbPath of None \<Rightarrow> Inl IndexOpenFailed
         | Some db \<Rightarrow>
             (case SearchChunksKeyword (os_Fault os) (os_FtsMatch os) (os_WordRune os) (il_Query req) maxMatches db of
                Inl e \<Rightarrow> Inl (IndexSearchFailed e)
              | Inr results \<Rightarrow>
                  Inr (map (\<lambda>r. \<lparr>im_Path = se_DocumentPath r,
                     im_Ref = se_DocumentPath r @ '':'' @ itoa (se_StartLine r) @ ''-'' @ itoa (se_EndLine r),
                     im_Snippet = skills_trimText (se_Content r) maxSnippetChars\<rparr>) results))))"

definition runGit :: "host_os \<Rightarrow> string \<Rightarrow> string list \<Rightarrow> skill_error + string" where
  "runGit os repoRoot args =
     (if os_Done os [] then Inl SkillContextDone
      else (case os_Git os repoRoot args of Inl output \<Rightarrow> Inl (GitFailed (trim_space output))
        | Inr output \<Rightarrow> Inr (trim_space output)))"

definition splitNonEmptyLines :: "string \<Rightarrow> string list" where
  "splitNonEmptyLines val =
     filter (\<lambda>l. l \<noteq> []) (map trim_space (split_byte newline (trim_space val)))"

definition GitStatus :: "host_os \<Rightarrow> string list \<Rightarrow> string \<Rightarrow> int \<Rightarrow> skill_error + string list" where
  "GitStatus os approved repoRoot maxEntries =
     (if trim_space repoRoot = [] then Inl GitStatusRootEmpty
      else (case ResolveApprovedRepoRoot os repoRoot approved of Inl e \<Rightarrow> Inl e
        | Inr approvedRoot \<Rightarrow>
            (case runGit os approvedRoot [''status'', ''--short''] of Inl e \<Rightarrow> Inl e
             | Inr output \<Rightarrow>
                 (let entries = splitNonEmptyLines output; n = positiveOrDefault maxEntries 20 in
                  Inr (if int (length entries) > n then take (nat n) entries else entries)))))"

definition GitDiff :: "host_os \<Rightarrow> string list \<Rightarrow> string \<Rightarrow> int \<Rightarrow> bool \<Rightarrow> skill_error + string" where
  "GitDiff os approved repoRoot maxChars stagedOnly =
     (if trim_space repoRoot = [] then Inl GitDiffRootEmpty
      else (case ResolveApprovedRepoRoot os repoRoot approved of Inl e \<Rightarrow> Inl e
        | Inr approvedRoot \<Rightarrow>
            (case runGit os approvedRoot ([''diff'', ''--no-ext-diff''] @ (if stagedOnly then [''--staged''] else [])) of
               Inl e \<Rightarrow> Inl e
             | Inr output \<Rightarrow> Inr (skills_trimText output (positiveOrDefault maxChars 4000)))))"

section \<open>Running a tool by name\<close>

abbreviation ToolNameReadFiles :: string where "ToolNameReadFiles \<equiv> ''read_files''"
abbreviation ToolNameSearchRepo :: string where "ToolNameSearchRepo \<equiv> ''search_repo''"
abbreviation ToolNameIndexLookup :: string where "ToolNameIndexLookup \<equiv> ''index_lookup''"
abbreviation ToolNameGitStatus :: string where "ToolNameGitStatus \<equiv> ''git_status''"
abbreviation ToolNameGitDiff :: string where "ToolNameGitDiff \<equiv> ''git_diff''"

definition ListReadOnlyTools :: "(string \<times> string) list" where
  "ListReadOnlyTools =
     [(ToolNameGitDiff, ''Return a bounded git diff''),
      (ToolNameGitStatus, ''Return bounded git status entries''),
      (ToolNameIndexLookup, ''Query the local index for bounded matches''),
      (ToolNameReadFiles, ''Read bounded file contents from the repo''),
      (ToolNameSearchRepo, ''Search the repo for bounded text matches'')]"

record execute_request =
  xr_Name :: string
  xr_RepoRoot :: string
  xr_Paths :: "string list"
  xr_Query :: string
  xr_DBPath :: string
  xr_StagedOnly :: bool

datatype tool_payload =
    FilesPayload "file_content list" | MatchesPayload "repo_match list" | IndexPayload "index_match list"
  | EntriesPayload "string list" | DiffPayload string

definition execute_tool :: "host_os \<Rightarrow> string list \<Rightarrow> execute_request \<Rightarrow> skill_error + tool_payload" where
  "execute_tool os approved req =
     (if xr_Name req = ToolNameReadFiles then
        map_sum id FilesPayload (ReadFiles os approved \<lparr>rf_RepoRoot = xr_RepoRoot req, rf_Paths = xr_Paths req,
          rf_MaxFiles = 0, rf_MaxCharsPerFile = 0\<rparr>)
      else if xr_Name req = ToolNameSearchRepo then
        map_sum id MatchesPayload (SearchRepo os approved \<lparr>sq_RepoRoot = xr_RepoRoot req, sq_Query = xr_Query req,
          sq_MaxMatches = 0, sq_MaxSnippetChars = 0\<rparr>)
      else if xr_Name req = ToolNameIndexLookup then
        map_sum id IndexPayload (IndexLookup os \<lparr>il_DBPath = xr_DBPath req, il_Query = xr_Query req,
          il_MaxMatches = 0, il_MaxSnippetChars = 0\<rparr>)
      else if xr_Name req = ToolNameGitStatus then
        map_sum id EntriesPayload (GitStatus os approved (xr_RepoRoot req) 0)
      else if xr_Name req = ToolNameGitDiff then
        map_sum id DiffPayload (GitDiff os approved (xr_RepoRoot req) 0 (xr_StagedOnly req))
      else Inl (ErrUnknownReadOnlyTool (xr_Name req)))"

text \<open>The JSON of a payload (\<open>types.go\<close>).\<close>

definition payload_json :: "tool_payload \<Rightarrow> json" where
  "payload_json p =
     (case p of
        FilesPayload fs \<Rightarrow> marshal_object [(''files'', JArr (map (\<lambda>f. marshal_object
          [(''path'', jstring (fc_Path f)), (''content'', jstring (fc_Content f))] []) fs))] []
      | MatchesPayload ms \<Rightarrow> marshal_object [(''matches'', JArr (map (\<lambda>m. marshal_object
          [(''path'', jstring (rm_Path m)), (''snippet'', jstring (rm_Snippet m))] []) ms))] []
      | IndexPayload ms \<Rightarrow> marshal_object [(''matches'', JArr (map (\<lambda>m. marshal_object
          [(''path'', jstring (im_Path m)), (''ref'', jstring (im_Ref m)), (''snippet'', jstring (im_Snippet m))] []) ms))] []
      | EntriesPayload es \<Rightarrow> marshal_object [(''entries'', JArr (map jstring es))] []
      | DiffPayload d \<Rightarrow> marshal_object [(''diff'', jstring d)] [])"

section \<open>Containment\<close>

lemma approved_root:
  "ResolveApprovedRepoRoot os rt approved = Inr r \<Longrightarrow>
     canonicalPath os rt = Some r \<and> (\<exists>a \<in> set approved. canonicalPath os a = Some r)"
  by (auto simp: ResolveApprovedRepoRoot_def list_ex_iff split: if_splits option.splits)

lemma readFileBounded_inside:
  assumes "readFileBounded os rt rel n = Inr c"
  shows "\<exists>r p data. canonicalPath os rt = Some r \<and> canonicalPath os (path_join [r, rel]) = Some p \<and>
    inside_root r p \<and> os_ReadFile os p = Some data \<and> c = trimText data n"
  using assms
  by (auto simp: readFileBounded_def resolveRepoPath_def skills_trimText_eq split: if_splits option.splits sum.splits)

text \<open>C18: The file tool never leaves an approved repository: whatever paths a request names, each
  returned content is that of a file whose path, with all links resolved, is an approved root or lies
  below it, cut to 2000 bytes, and a request without an approved root returns nothing.\<close>

theorem read_files_stays_in_approved_root:
  assumes "ReadFiles os approved req = Inr files" and "rf_MaxCharsPerFile req = 0"
    and resolved: "\<forall>p q. canonicalPath os p = Some q \<longrightarrow> canonicalPath os q = Some q"
    and "f \<in> set files"
  shows "\<exists>a \<in> set approved. \<exists>r p data. canonicalPath os a = Some r \<and> inside_root r p \<and>
    canonicalPath os p = Some p \<and> os_ReadFile os p = Some data \<and> fc_Content f = trimText data 2000 \<and>
    length (fc_Content f) \<le> 2000"
proof -
  from assms(1,2) obtain paths rt where rt: "ResolveApprovedRepoRoot os (rf_RepoRoot req) approved = Inr rt"
    and m: "map_res (\<lambda>p. case readFileBounded os rt p 2000 of Inl e \<Rightarrow> Inl e
                            | Inr c \<Rightarrow> Inr \<lparr>fc_Path = p, fc_Content = c\<rparr>) paths = Inr files"
    by (auto simp: ReadFiles_def validateReadFilesRequest_def Let_def positiveOrDefault_def split: sum.splits if_splits)
  from approved_root [OF rt] obtain a where a: "a \<in> set approved" "canonicalPath os a = Some rt" by blast
  from map_res_Inr_set [OF m assms(4)] obtain p where
    "(case readFileBounded os rt p 2000 of Inl e \<Rightarrow> Inl e | Inr c \<Rightarrow> Inr \<lparr>fc_Path = p, fc_Content = c\<rparr>) = (Inr f :: skill_error + file_content)"
    by blast
  then have "readFileBounded os rt p 2000 = Inr (fc_Content f)" by (auto split: sum.splits)
  from readFileBounded_inside [OF this] obtain q data where
    q: "canonicalPath os (path_join [rt, p]) = Some q" "inside_root rt q" "os_ReadFile os q = Some data"
      "fc_Content f = trimText data 2000"
    using resolved a(2) by fastforce
  have "int (length (trimText data 2000)) \<le> 2000" by (rule length_trimText) simp
  moreover have "canonicalPath os q = Some q" using resolved q(1) by blast
  ultimately show ?thesis using a q by auto
qed

definition sample_os :: host_os where
  "sample_os = \<lparr>os_Cwd = Some ''/'', os_EvalSymlinks = (\<lambda>p. if p = ''/repo/link'' then Some ''/repo/docs'' else Some p),
     os_ReadFile = map_of [(''/repo/a.go'', ''package a''), (''/etc/passwd'', ''root'')],
     os_Tree = (\<lambda>p. Some (DirEntry [(''a.go'', RegularEntry), (''docs'', DirEntry []), (''link'', LinkEntry)])),
     os_Git = (\<lambda>r a. Inr []), os_OpenIndex = (\<lambda>p. Some empty_database), os_DefaultDB = ''/data/index.db'',
     os_Fault = (\<lambda>op. False), os_FtsMatch = (\<lambda>q rows. rows), os_WordRune = (\<lambda>_. False),
     os_Lower = to_lower, os_Done = (\<lambda>p. False)\<rparr>"


lemma canonical_sample: "canonicalPath sample_os p = Some q \<Longrightarrow> canonicalPath sample_os q = Some q"
proof -
  have abs_join: "\<exists>x. path_is_abs x \<and> path_join [''/'', p] = path_clean x" for p
    by (cases "p = []") (simp_all add: path_join_def, (rule exI [of _ "''/''"], simp), (rule exI [of _ "''//'' @ p"], simp))
  have clean: "\<exists>x. path_is_abs x \<and> path_abs (Some ''/'') p = Some (path_clean x)"
    using abs_join [of p] by (auto simp: path_abs_def)
  have fixed: "path_abs c (path_clean x) = Some (path_clean x)" if "path_is_abs x" for c x
    using that by (simp add: path_abs_def path_clean_idem)
  have docs: "path_abs c ''/repo/docs'' = Some ''/repo/docs''" for c by (simp add: path_abs_def) code_simp
  assume "canonicalPath sample_os p = Some q"
  moreover obtain x where x: "path_is_abs x" "path_abs (Some ''/'') p = Some (path_clean x)" using clean by blast
  moreover have os: "os_Cwd sample_os = Some ''/''"
    "os_EvalSymlinks sample_os = (\<lambda>p. if p = ''/repo/link'' then Some ''/repo/docs'' else Some p)"
    by (simp_all add: sample_os_def)
  ultimately have "q = (if path_clean x = ''/repo/link'' then ''/repo/docs'' else path_clean x)"
    by (auto simp: canonicalPath_def split: if_splits)
  then show ?thesis using fixed [OF x(1)] docs by (cases "path_clean x = ''/repo/link''") (simp_all add: canonicalPath_def os)
qed

lemma read_files_stays_in_approved_root_witness:
  "\<exists>files. ReadFiles sample_os [''/repo''] \<lparr>rf_RepoRoot = ''/repo/'', rf_Paths = [''./a.go''], rf_MaxFiles = 0, rf_MaxCharsPerFile = 0\<rparr>
      = Inr files \<and> (\<forall>f \<in> set files. length (fc_Content f) \<le> 2000)"
proof -
  let ?r = "\<lparr>rf_RepoRoot = ''/repo/'', rf_Paths = [''./a.go''], rf_MaxFiles = 0, rf_MaxCharsPerFile = 0\<rparr>"
  have files: "ReadFiles sample_os [''/repo''] ?r = Inr [\<lparr>fc_Path = ''a.go'', fc_Content = ''package a''\<rparr>]"
    by code_simp
  have "length (fc_Content f) \<le> 2000" if "f \<in> set [\<lparr>fc_Path = ''a.go'', fc_Content = ''package a''\<rparr>]" for f
    using read_files_stays_in_approved_root [OF files _ _ that] canonical_sample by auto
  with files show ?thesis by blast
qed

text \<open>An index lookup is not held to the approved repositories: it opens whatever database path the
  request names, with any list of approved roots, the empty one included.\<close>

theorem index_lookup_ignores_approved_roots:
  assumes "xr_Name req = ToolNameIndexLookup" and "trim_space (xr_Query req) \<noteq> []" and "trim_space (xr_DBPath req) \<noteq> []"
    and "os_OpenIndex os (xr_DBPath req) = Some db"
    and "SearchChunksKeyword (os_Fault os) (os_FtsMatch os) (os_WordRune os) (xr_Query req) 10 db = Inr results"
  shows "\<exists>ms. execute_tool os [] req = Inr (IndexPayload ms) \<and> map im_Path ms = map se_DocumentPath results"
  using assms by (simp add: execute_tool_def IndexLookup_def positiveOrDefault_def comp_def)

lemma index_lookup_ignores_approved_roots_witness:
  "\<exists>ms. execute_tool sample_os [] \<lparr>xr_Name = ToolNameIndexLookup, xr_RepoRoot = [], xr_Paths = [], xr_Query = ''key'',
     xr_DBPath = ''/home/other/index.db'', xr_StagedOnly = False\<rparr> = Inr (IndexPayload ms)"
proof -
  let ?req = "\<lparr>xr_Name = ToolNameIndexLookup, xr_RepoRoot = [], xr_Paths = [], xr_Query = ''key'',
     xr_DBPath = ''/home/other/index.db'', xr_StagedOnly = False\<rparr>"
  have "SearchChunksKeyword (os_Fault sample_os) (os_FtsMatch sample_os) (os_WordRune sample_os) (xr_Query ?req) 10 empty_database = Inr []"
    and "trim_space (xr_Query ?req) \<noteq> []" and "trim_space (xr_DBPath ?req) \<noteq> []"
    by code_simp+
  from index_lookup_ignores_approved_roots [OF _ this(2,3) _ this(1)] show ?thesis
    by (auto simp: sample_os_def)
qed

text \<open>A link inside the repository to one of its own directories breaks the search: the walk reads the
  link as a file, and the error ends the search without any result.\<close>

theorem directory_link_breaks_search:
  "SearchRepo sample_os [''/repo''] \<lparr>sq_RepoRoot = ''/repo'', sq_Query = ''package'', sq_MaxMatches = 0, sq_MaxSnippetChars = 0\<rparr>
     = Inl FileUnreadable"
  by code_simp


section \<open>Bounds of the search\<close>

lemma length_snippetAround:
  assumes "1 \<le> n"
  shows "int (length (snippetAround content idx n)) \<le> n"
proof (cases "int (length content) \<le> n")
  case True
  then show ?thesis using assms length_trim_space [of content] by (simp add: snippetAround_def)
next
  case False
  with assms show ?thesis
    by (auto simp: snippetAround_def skills_trimText_eq Let_def intro!: length_trimText)
qed

definition bounded_matches :: "int \<Rightarrow> int \<Rightarrow> repo_match list \<Rightarrow> bool" where
  "bounded_matches mm n results \<longleftrightarrow> int (length results) \<le> mm \<and> (\<forall>m \<in> set results. int (length (rm_Snippet m)) \<le> n)"

definition walk_bounded :: "int \<Rightarrow> int \<Rightarrow> repo_match list \<Rightarrow> (skill_error + repo_match list \<times> bool) \<Rightarrow> bool" where
  "walk_bounded mm n results out \<longleftrightarrow>
     (1 \<le> n \<longrightarrow> bounded_matches mm n results \<longrightarrow> int (length results) < mm \<longrightarrow>
      (case out of Inl e \<Rightarrow> True
       | Inr (results', stop) \<Rightarrow> bounded_matches mm n results' \<and> (\<not> stop \<longrightarrow> int (length results') < mm)))"

lemma visit_file_bounded: "walk_bounded mm n results (visit_file os needle mm n path rel results)"
  using length_snippetAround [of n]
  by (auto simp: walk_bounded_def visit_file_def bounded_matches_def Let_def split: option.splits)

lemma walk_bounded_same [simp]: "walk_bounded mm n results (Inr (results, False))" "walk_bounded mm n results (Inl e)"
  by (simp_all add: walk_bounded_def)

lemma search_walk_bounded:
  "walk_bounded mm n results (search_walk os r needle mm n path rel name node results)"
  "walk_bounded mm n results (search_entries os r needle mm n path rel es results)"
proof (induction os r needle mm n path rel name node results and os r needle mm n path rel es results
    rule: search_walk_search_entries.induct)
  case (6 os r needle mm n path rel name node es results)
  let ?w = "search_walk os r needle mm n (path_join [path, name]) (if rel = ''.'' then name else rel @ ''/'' @ name) name node results"
  show ?case
  proof (cases ?w)
    case (Inl e)
    then show ?thesis by simp
  next
    case (Inr p)
    obtain res stop where p: "p = (res, stop)" by (cases p)
    note first = "6.IH"(1) [unfolded Inr p]
    show ?thesis
    proof (cases stop)
      case True
      with first Inr p show ?thesis by (simp add: walk_bounded_def)
    next
      case False
      from "6.IH"(2) [OF Inr p [symmetric] False] first Inr p False show ?thesis
        by (auto simp: walk_bounded_def)
    qed
  qed
qed (simp_all add: visit_file_bounded)

text \<open>A repository search is bounded whatever the repository holds: with the default limits it
  returns at most ten matches, each with a snippet of at most 240 bytes.\<close>

theorem search_repo_is_bounded:
  assumes "SearchRepo os approved req = Inr results" and "sq_MaxMatches req = 0" and "sq_MaxSnippetChars req = 0"
  shows "length results \<le> 10 \<and> (\<forall>m \<in> set results. length (rm_Snippet m) \<le> 240)"
proof -
  from assms obtain rt node stop where
    "search_walk os rt (os_Lower os (trim_space (sq_Query req))) 10 240 rt ''.'' (path_base rt) node [] = Inr (results, stop)"
    by (auto simp: SearchRepo_def searchRepoBounded_def positiveOrDefault_def split: if_splits sum.splits option.splits)
  with search_walk_bounded(1) [of 10 240 "[]" os rt "os_Lower os (trim_space (sq_Query req))" rt "''.''" "path_base rt" node]
  show ?thesis by (auto simp: walk_bounded_def bounded_matches_def)
qed

lemma search_repo_is_bounded_witness:
  "\<exists>results. SearchRepo (sample_os\<lparr>os_Tree := (\<lambda>p. Some (DirEntry [(''a.go'', RegularEntry)]))\<rparr>) [''/repo'']
     \<lparr>sq_RepoRoot = ''/repo'', sq_Query = ''Package'', sq_MaxMatches = 0, sq_MaxSnippetChars = 0\<rparr> = Inr results \<and>
     length results \<le> 10"
proof -
  have r: "SearchRepo (sample_os\<lparr>os_Tree := (\<lambda>p. Some (DirEntry [(''a.go'', RegularEntry)]))\<rparr>) [''/repo'']
     \<lparr>sq_RepoRoot = ''/repo'', sq_Query = ''Package'', sq_MaxMatches = 0, sq_MaxSnippetChars = 0\<rparr> =
     Inr [\<lparr>rm_Path = ''a.go'', rm_Snippet = ''package a''\<rparr>]"
    by code_simp
  from search_repo_is_bounded [OF r] r show ?thesis by simp
qed

end
