(* ===== verification/Skill_Catalog.thy ===== *)
theory Skill_Catalog
  imports Go_Stdlib "HOL-Library.AList"
begin

text \<open>
  The managed markdown skills of \<open>internal/agent/skill_catalog.go\<close> and the latency metrics of
  \<open>skill_metrics.go\<close>. The disk holds the manifest (\<^const>\<open>None\<close> while there is none), the managed files
  under their paths and the metrics; a manifest is kept as the value its JSON stands for. Which system
  calls fail is a predicate of the environment, and \<open>digest\<close> is the checksum function.
\<close>

section \<open>Skill ids\<close>

fun dash_fold :: "bool \<Rightarrow> string \<Rightarrow> string" where
  "dash_fold lastDash [] = []"
| "dash_fold lastDash (c # s) =
     (let n = of_char c :: nat in
      if (97 \<le> n \<and> n \<le> 122) \<or> (48 \<le> n \<and> n \<le> 57) then c # dash_fold False s
      else if lastDash then dash_fold True s else CHR ''-'' # dash_fold True s)"

text \<open>Every rune other than a lower-case letter or a digit is a dash, and dashes in a row are one; so the
  bytes of a rune may be folded one by one.\<close>

definition normalizeSkillID :: "string \<Rightarrow> string" where
  "normalizeSkillID val =
     (let v = to_lower (trim_space val) in
      if v = [] then ''skill''
      else (let result = trim_chars ''-'' (dash_fold False v) in if result = [] then ''skill'' else result))"

definition path_ext :: "string \<Rightarrow> string" where
  "path_ext p =
     (let base = (case last_index_byte slash p of None \<Rightarrow> p | Some i \<Rightarrow> drop (Suc i) p) in
      case last_index_byte CHR ''.'' base of None \<Rightarrow> [] | Some i \<Rightarrow> drop i base)"

definition heading_prefix :: string where
  "heading_prefix = ''# ''"

definition skillDisplayName :: "string \<Rightarrow> string \<Rightarrow> string" where
  "skillDisplayName sourcePath content =
     (case find (\<lambda>l. has_prefix l heading_prefix) (map trim_space (split_byte CHR 0x0A content)) of
        Some l \<Rightarrow> trim_space (trim_prefix l heading_prefix)
      | None \<Rightarrow>
          (let base = trim_suffix (path_base sourcePath) (path_ext sourcePath) in
           if base = [] then ''skill'' else base))"

definition skillCapabilitySummary :: "string \<Rightarrow> string" where
  "skillCapabilitySummary content =
     (case find (\<lambda>l. l \<noteq> [] \<and> \<not> has_prefix l ''#'') (map trim_space (split_byte CHR 0x0A content)) of
        None \<Rightarrow> []
      | Some l \<Rightarrow> if int (length l) > 240 then take 240 l else l)"

section \<open>The catalog\<close>

record installed_skill =
  sk_ID :: string
  sk_DisplayName :: string
  sk_SourcePath :: string
  sk_ManagedPath :: string
  sk_Checksum :: string
  sk_InstalledAt :: string
  sk_ParserVersion :: string
  sk_CapabilitySummary :: string

record skill_metric =
  sm_SkillID :: string
  sm_InvocationCount :: int
  sm_LastObservedAt :: string
  sm_LastLatencyMillis :: int
  sm_AverageLatencyMs :: int

record skill_disk =
  sd_Catalog :: "installed_skill list option"
  sd_Files :: "(string \<times> string) list"
  sd_Metrics :: "skill_metric list option"

datatype skill_op =
    OpReadCatalog | OpMkdirCatalog | OpWriteCatalog | OpReadSource | OpMkdirSkill | OpWriteSkill | OpRemoveSkill
  | OpReadMetrics | OpMkdirMetrics | OpWriteMetrics

type_synonym skill_faults = "skill_op \<Rightarrow> bool"

datatype catalog_error =
    ReadSkillCatalog | CreateCatalogDir | WriteSkillCatalog | ResolveSource | ReadSource
  | DifferentContent string | CreateSkillDir | WriteManagedSkill | SkillNotFound string | StillEnabled string
  | ProjectUnreadable | RemoveManagedSkill | ReadSkillMetrics | CreateMetricsDir | WriteSkillMetrics

definition DefaultManagedSkillPath :: "string \<Rightarrow> string \<Rightarrow> string" where
  "DefaultManagedSkillPath dataDir i = path_join [dataDir, ''skills'', i, ''SKILL.md'']"

definition DefaultSkillCatalogPath :: "string \<Rightarrow> string" where
  "DefaultSkillCatalogPath dataDir = path_join [dataDir, ''skills'', ''catalog.json'']"

definition LoadSkillCatalog :: "skill_faults \<Rightarrow> skill_disk \<Rightarrow> catalog_error + installed_skill list" where
  "LoadSkillCatalog fault d =
     (case sd_Catalog d of None \<Rightarrow> Inr []
      | Some skills \<Rightarrow> if fault OpReadCatalog then Inl ReadSkillCatalog else Inr skills)"

definition SaveSkillCatalog :: "skill_faults \<Rightarrow> installed_skill list \<Rightarrow> skill_disk \<Rightarrow> catalog_error option \<times> skill_disk" where
  "SaveSkillCatalog fault skills d =
     (if fault OpMkdirCatalog then (Some CreateCatalogDir, d)
      else if fault OpWriteCatalog then (Some WriteSkillCatalog, d)
      else (None, d\<lparr>sd_Catalog := Some (sort_on sk_ID skills)\<rparr>))"

text \<open>\<open>cwd\<close> is the working directory, \<open>sources\<close> the content of the files a skill may be installed from.\<close>

definition InstallSkill ::
  "skill_faults \<Rightarrow> (string \<Rightarrow> string) \<Rightarrow> string \<Rightarrow> string option \<Rightarrow> (string \<Rightarrow> string option) \<Rightarrow> string \<Rightarrow> string
     \<Rightarrow> skill_disk \<Rightarrow> (catalog_error + installed_skill) \<times> skill_disk" where
  "InstallSkill fault digest dataDir cwd sources sourcePath now d =
     (case path_abs cwd (trim_space sourcePath) of None \<Rightarrow> (Inl ResolveSource, d)
      | Some cleanSource \<Rightarrow>
          (case sources cleanSource of None \<Rightarrow> (Inl ReadSource, d)
           | Some data \<Rightarrow>
               (let displayName = skillDisplayName cleanSource data;
                    i = normalizeSkillID displayName;
                    checksum = digest data;
                    managedPath = DefaultManagedSkillPath dataDir i in
                case LoadSkillCatalog fault d of Inl e \<Rightarrow> (Inl e, d)
                | Inr skills \<Rightarrow>
                    (case find (\<lambda>s. sk_ID s = i) skills of
                       Some s \<Rightarrow> if sk_Checksum s = checksum then (Inr s, d) else (Inl (DifferentContent i), d)
                     | None \<Rightarrow>
                         if fault OpMkdirSkill then (Inl CreateSkillDir, d)
                         else if fault OpWriteSkill then (Inl WriteManagedSkill, d)
                         else
                           (let skill = \<lparr>sk_ID = i, sk_DisplayName = displayName, sk_SourcePath = cleanSource,
                                  sk_ManagedPath = managedPath, sk_Checksum = checksum, sk_InstalledAt = now,
                                  sk_ParserVersion = ''markdown_v1'', sk_CapabilitySummary = skillCapabilitySummary data\<rparr>;
                                (e, d') = SaveSkillCatalog fault (skills @ [skill])
                                  (d\<lparr>sd_Files := AList.update managedPath data (sd_Files d)\<rparr>) in
                            case e of Some err \<Rightarrow> (Inl err, d') | None \<Rightarrow> (Inr skill, d'))))))"

text \<open>The skills the current project enables, or why they are not known.\<close>

datatype project_skills = NoProject | BadProject | EnabledSkills "string list"

definition ensureSkillNotEnabledInCurrentProject :: "project_skills \<Rightarrow> string \<Rightarrow> catalog_error option" where
  "ensureSkillNotEnabledInCurrentProject project i =
     (case project of NoProject \<Rightarrow> None | BadProject \<Rightarrow> Some ProjectUnreadable
      | EnabledSkills enabled \<Rightarrow>
          if list_ex (\<lambda>e. normalizeSkillID e = i) enabled then Some (StillEnabled i) else None)"

definition below :: "string \<Rightarrow> string \<Rightarrow> bool" where
  "below dir p \<longleftrightarrow> p = dir \<or> has_prefix p (dir @ ''/'')"

text \<open>The manifest keeps the last skill of an id as the removed one; a failing \<open>RemoveAll\<close> is taken to
  remove nothing.\<close>

definition RemoveSkill :: "skill_faults \<Rightarrow> project_skills \<Rightarrow> string \<Rightarrow> bool \<Rightarrow> skill_disk
    \<Rightarrow> (catalog_error + installed_skill) \<times> skill_disk" where
  "RemoveSkill fault project rawID force d =
     (let i = normalizeSkillID rawID in
      case (if force then None else ensureSkillNotEnabledInCurrentProject project i) of
        Some e \<Rightarrow> (Inl e, d)
      | None \<Rightarrow>
          (case LoadSkillCatalog fault d of Inl e \<Rightarrow> (Inl e, d)
           | Inr skills \<Rightarrow>
               (case find (\<lambda>s. sk_ID s = i) (rev skills) of
                  None \<Rightarrow> (Inl (SkillNotFound i), d)
                | Some removed \<Rightarrow>
                    (let (e, d') = SaveSkillCatalog fault (filter (\<lambda>s. sk_ID s \<noteq> i) skills) d in
                     case e of Some err \<Rightarrow> (Inl err, d')
                     | None \<Rightarrow>
                         if fault OpRemoveSkill then (Inl RemoveManagedSkill, d')
                         else (Inr removed,
                               d'\<lparr>sd_Files := filter (\<lambda>(p, c). \<not> below (path_dir (sk_ManagedPath removed)) p) (sd_Files d')\<rparr>)))))"

definition GetInstalledSkill :: "skill_faults \<Rightarrow> string \<Rightarrow> skill_disk \<Rightarrow> catalog_error + installed_skill" where
  "GetInstalledSkill fault rawID d =
     (let i = normalizeSkillID rawID in
      case LoadSkillCatalog fault d of Inl e \<Rightarrow> Inl e
      | Inr skills \<Rightarrow> (case find (\<lambda>s. sk_ID s = i) skills of None \<Rightarrow> Inl (SkillNotFound i) | Some s \<Rightarrow> Inr s))"

definition ListInstalledSkills :: "skill_faults \<Rightarrow> skill_disk \<Rightarrow> catalog_error + installed_skill list" where
  "ListInstalledSkills fault d = map_sum id (sort_on sk_ID) (LoadSkillCatalog fault d)"

section \<open>Latency metrics\<close>

definition LoadSkillMetrics :: "skill_faults \<Rightarrow> skill_disk \<Rightarrow> catalog_error + skill_metric list" where
  "LoadSkillMetrics fault d =
     (case sd_Metrics d of None \<Rightarrow> Inr []
      | Some ms \<Rightarrow> if fault OpReadMetrics then Inl ReadSkillMetrics else Inr ms)"

definition SaveSkillMetrics :: "skill_faults \<Rightarrow> skill_metric list \<Rightarrow> skill_disk \<Rightarrow> catalog_error option \<times> skill_disk" where
  "SaveSkillMetrics fault ms d =
     (if fault OpMkdirMetrics then (Some CreateMetricsDir, d)
      else if fault OpWriteMetrics then (Some WriteSkillMetrics, d)
      else (None, d\<lparr>sd_Metrics := Some (sort_on sm_SkillID ms)\<rparr>))"

text \<open>The division of Go truncates towards zero.\<close>

definition rollingAverage :: "int \<Rightarrow> int \<Rightarrow> int \<Rightarrow> int" where
  "rollingAverage previous cnt latest =
     (if cnt \<le> 1 then latest
      else (let n = previous * (cnt - 1) + latest in if n < 0 then - (- n div cnt) else n div cnt))"

fun update_first :: "('a \<Rightarrow> bool) \<Rightarrow> ('a \<Rightarrow> 'a) \<Rightarrow> 'a list \<Rightarrow> 'a list" where
  "update_first p f [] = []"
| "update_first p f (x # xs) = (if p x then f x # xs else x # update_first p f xs)"

definition RecordSkillLatency :: "skill_faults \<Rightarrow> string \<Rightarrow> int \<Rightarrow> string \<Rightarrow> skill_disk \<Rightarrow> catalog_error option \<times> skill_disk" where
  "RecordSkillLatency fault skillID millis observedAt d =
     (case LoadSkillMetrics fault d of Inl e \<Rightarrow> (Some e, d)
      | Inr ms \<Rightarrow>
          if list_ex (\<lambda>m. sm_SkillID m = skillID) ms then
            SaveSkillMetrics fault
              (update_first (\<lambda>m. sm_SkillID m = skillID)
                (\<lambda>m. m\<lparr>sm_InvocationCount := sm_InvocationCount m + 1, sm_LastObservedAt := observedAt,
                       sm_LastLatencyMillis := millis,
                       sm_AverageLatencyMs := rollingAverage (sm_AverageLatencyMs m) (sm_InvocationCount m + 1) millis\<rparr>) ms) d
          else
            SaveSkillMetrics fault
              (ms @ [\<lparr>sm_SkillID = skillID, sm_InvocationCount = 1, sm_LastObservedAt = observedAt,
                      sm_LastLatencyMillis = millis, sm_AverageLatencyMs = millis\<rparr>]) d)"


section \<open>Ids are slugs\<close>

definition slug_chars :: string where
  "slug_chars = ''abcdefghijklmnopqrstuvwxyz0123456789-''"

definition is_slug :: "string \<Rightarrow> bool" where
  "is_slug s \<longleftrightarrow> s \<noteq> [] \<and> set s \<subseteq> set slug_chars \<and> hd s \<noteq> CHR ''-'' \<and> last s \<noteq> CHR ''-'' \<and>
     successively (\<lambda>a b. \<not> (a = CHR ''-'' \<and> b = CHR ''-'')) s"

lemma alnum_slug:
  assumes "(97 \<le> (of_char c :: nat) \<and> (of_char c :: nat) \<le> 122) \<or> (48 \<le> (of_char c :: nat) \<and> (of_char c :: nat) \<le> 57)"
  shows "c \<in> set slug_chars" and "c \<noteq> CHR ''-''"
proof -
  have all: "list_all (\<lambda>n. char_of n \<in> set slug_chars - {CHR ''-''}) ([97..<123] @ [48..<58 :: nat])" by code_simp
  have "of_char c \<in> set ([97..<123] @ [48..<58 :: nat])"
    using assms unfolding set_append set_upt by auto
  with all have "char_of (of_char c :: nat) \<in> set slug_chars - {CHR ''-''}"
    unfolding list_all_iff by blast
  then show "c \<in> set slug_chars" and "c \<noteq> CHR ''-''" by simp_all
qed

lemma slug_alnum:
  assumes "c \<in> set slug_chars"
  shows "c = CHR ''-'' \<or> (97 \<le> (of_char c :: nat) \<and> (of_char c :: nat) \<le> 122) \<or> (48 \<le> (of_char c :: nat) \<and> (of_char c :: nat) \<le> 57)"
    and "plain_char c" and "ascii_lower c = c" and "c \<noteq> CHR 0xC4" and "c \<noteq> CHR 0xE2" and "c \<noteq> slash"
proof -
  have "list_all (\<lambda>c. (c = CHR ''-'' \<or> (97 \<le> (of_char c :: nat) \<and> (of_char c :: nat) \<le> 122) \<or> (48 \<le> (of_char c :: nat) \<and> (of_char c :: nat) \<le> 57)) \<and>
      plain_char c \<and> ascii_lower c = c \<and> c \<noteq> CHR 0xC4 \<and> c \<noteq> CHR 0xE2 \<and> c \<noteq> slash) slug_chars"
    by code_simp
  with assms show "c = CHR ''-'' \<or> (97 \<le> (of_char c :: nat) \<and> (of_char c :: nat) \<le> 122) \<or> (48 \<le> (of_char c :: nat) \<and> (of_char c :: nat) \<le> 57)"
    and "plain_char c" and "ascii_lower c = c" and "c \<noteq> CHR 0xC4" and "c \<noteq> CHR 0xE2" and "c \<noteq> slash"
    unfolding list_all_iff by blast+
qed

lemma dash_slug: "CHR ''-'' \<in> set slug_chars"
  by code_simp

lemma dash_fold_slug:
  "set (dash_fold b s) \<subseteq> set slug_chars \<and>
   successively (\<lambda>a b. \<not> (a = CHR ''-'' \<and> b = CHR ''-'')) (dash_fold b s) \<and>
   (b \<longrightarrow> dash_fold b s \<noteq> [] \<longrightarrow> hd (dash_fold b s) \<noteq> CHR ''-'')"
proof (induction b s rule: dash_fold.induct)
  case (2 lastDash c s)
  then show ?case using dash_slug alnum_slug [of c] by (auto simp: Let_def successively_Cons)
qed simp

lemma dash_fold_id:
  "set s \<subseteq> set slug_chars \<Longrightarrow> successively (\<lambda>a b. \<not> (a = CHR ''-'' \<and> b = CHR ''-'')) s \<Longrightarrow>
     (b \<longrightarrow> s \<noteq> [] \<longrightarrow> hd s \<noteq> CHR ''-'') \<Longrightarrow> dash_fold b s = s"
proof (induction s arbitrary: b)
  case (Cons c s)
  have dash: "\<not> (97 \<le> (of_char CHR ''-'' :: nat)) \<and> \<not> (48 \<le> (of_char CHR ''-'' :: nat))" by code_simp
  from Cons.prems slug_alnum(1) [of c] dash show ?case
    by (cases "c = CHR ''-''") (auto simp: successively_Cons Let_def intro!: Cons.IH)
qed simp

lemma trim_dash_slug:
  assumes "set s \<subseteq> set slug_chars" and "successively (\<lambda>a b. \<not> (a = CHR ''-'' \<and> b = CHR ''-'')) s"
    and "trim_chars ''-'' s \<noteq> []"
  shows "is_slug (trim_chars ''-'' s)"
proof -
  let ?d = "\<lambda>c. c \<in> set ''-''"
  let ?m = "dropWhile ?d s"
  let ?r = "rev (dropWhile ?d (rev ?m))"
  have s: "s = takeWhile ?d s @ ?m" by simp
  have m: "?m = ?r @ rev (takeWhile ?d (rev ?m))"
    by (metis rev_append rev_rev_ident takeWhile_dropWhile_id)
  have ne: "?r \<noteq> []" using assms(3) by (simp add: trim_chars_def)
  have "successively (\<lambda>a b. \<not> (a = CHR ''-'' \<and> b = CHR ''-'')) ?r"
    using assms(2) s m by (metis successively_append_iff)
  moreover have "set ?r \<subseteq> set slug_chars"
    using assms(1) by (auto dest!: set_dropWhileD)
  moreover have "last ?r \<noteq> CHR ''-''"
    using ne hd_dropWhile [of ?d "rev ?m"] by (simp add: last_rev)
  moreover have "hd ?r \<noteq> CHR ''-''"
  proof -
    have "hd ?m = hd ?r" using m ne by (metis hd_append2)
    moreover have "?m \<noteq> []" using ne by (metis dropWhile.simps(1) rev.simps(1))
    ultimately show ?thesis using hd_dropWhile [of ?d s] by simp
  qed
  ultimately show ?thesis using ne by (simp add: is_slug_def trim_chars_def)
qed

lemma slug_skill: "is_slug ''skill''"
  unfolding is_slug_def by (intro conjI) code_simp+

lemma normalize_is_slug: "is_slug (normalizeSkillID s)"
  using dash_fold_slug [of False "to_lower (trim_space s)"] slug_skill
  by (auto simp: normalizeSkillID_def Let_def intro: trim_dash_slug)

lemma to_lower_slug: "set s \<subseteq> set slug_chars \<Longrightarrow> to_lower s = s"
  by (induction s) (auto dest: slug_alnum)

lemma normalize_slug:
  assumes "is_slug s"
  shows "normalizeSkillID s = s"
proof -
  obtain c cs where c: "s = c # cs" "plain_char c" using assms slug_alnum(2) by (cases s) (auto simp: is_slug_def)
  obtain d ds where d: "s = ds @ [d]" "plain_char d" using assms slug_alnum(2) by (cases s rule: rev_cases) (auto simp: is_slug_def)
  have "trim_left s = s" using c trim_left_plain by simp
  moreover have "trim_right s = s" using d trim_right_plain by simp
  ultimately have "trim_space s = s" by (simp add: trim_space_def)
  moreover have "to_lower s = s" using assms to_lower_slug by (simp add: is_slug_def)
  moreover have "dash_fold False s = s" using assms dash_fold_id [of s False] by (simp add: is_slug_def)
  moreover have "trim_chars ''-'' s = s"
  proof -
    have "hd s = c" by (simp add: c(1))
    moreover have "last s = d" by (simp add: d(1))
    moreover have r: "rev s = d # rev ds" by (simp add: d(1))
    ultimately have "c \<noteq> CHR ''-''" and "d \<noteq> CHR ''-''" using assms by (auto simp: is_slug_def)
    then have "dropWhile (\<lambda>x. x \<in> set ''-'') s = s" and "dropWhile (\<lambda>x. x \<in> set ''-'') (rev s) = rev s"
      unfolding r by (simp_all add: c(1))
    then show ?thesis by (simp only: trim_chars_def rev_rev_ident)
  qed
  ultimately show ?thesis using assms by (simp add: normalizeSkillID_def is_slug_def)
qed

text \<open>A skill id is a slug: whatever the title of a skill, its id is a non-empty word of lower-case
  letters, digits and single inner dashes, so it names one directory (no slash, no dot), and
  normalising an id again gives the same id.\<close>

theorem skill_id_is_slug:
  "is_slug (normalizeSkillID s) \<and> slash \<notin> set (normalizeSkillID s) \<and> normalizeSkillID (normalizeSkillID s) = normalizeSkillID s"
  using normalize_is_slug [of s] normalize_slug slug_alnum(6) by (auto simp: is_slug_def)


section \<open>The catalog and its files\<close>

text \<open>What every entry of the manifest keeps: a slug that occurs once, and the managed file with the
  content its checksum was taken of.\<close>

definition catalog_of :: "skill_disk \<Rightarrow> installed_skill list" where
  "catalog_of d = (case sd_Catalog d of None \<Rightarrow> [] | Some skills \<Rightarrow> skills)"

definition entry_ok :: "(string \<Rightarrow> string) \<Rightarrow> string \<Rightarrow> (string \<times> string) list \<Rightarrow> installed_skill \<Rightarrow> bool" where
  "entry_ok digest dataDir files s \<longleftrightarrow>
     is_slug (sk_ID s) \<and> sk_ManagedPath s = DefaultManagedSkillPath dataDir (sk_ID s) \<and>
     (\<exists>data. map_of files (sk_ManagedPath s) = Some data \<and> sk_Checksum s = digest data)"

definition catalog_ok :: "(string \<Rightarrow> string) \<Rightarrow> string \<Rightarrow> skill_disk \<Rightarrow> bool" where
  "catalog_ok digest dataDir d \<longleftrightarrow>
     distinct (map sk_ID (catalog_of d)) \<and> list_all (entry_ok digest dataDir (sd_Files d)) (catalog_of d)"

lemma slug_clean_name:
  assumes "is_slug i"
  shows "clean_name i"
proof -
  have "i \<noteq> ''.''" and "i \<noteq> ''..''"
  proof -
    have "CHR ''.'' \<notin> set slug_chars" by code_simp
    then show "i \<noteq> ''.''" and "i \<noteq> ''..''" using assms by (auto simp: is_slug_def)
  qed
  with assms show ?thesis using slug_alnum(6) by (auto simp: clean_name_def is_slug_def)
qed


lemma clean_rooted:
  assumes "clean_list True es" and "\<forall>e \<in> set es. slash \<notin> set e"
  shows "path_clean (slash # join_with [slash] es) = slash # join_with [slash] es"
    and "es \<noteq> [] \<Longrightarrow> path_clean (slash # join_with [slash] es @ [slash]) = slash # join_with [slash] es"
proof -
  have split: "split_byte slash (slash # s) = [] # split_byte slash s" for s by simp
  have id: "clean_elems True [] es = es" using clean_elems_id [OF assms(1)] .
  show "path_clean (slash # join_with [slash] es) = slash # join_with [slash] es"
    using assms(2) id split_join_elems [of es slash]
    by (cases "es = []") (simp_all add: path_clean_def split)
  assume ne: "es \<noteq> []"
  have "join_with [slash] es @ [slash] = join_with [slash] (es @ [[]])"
    using ne by (simp add: join_with_append)
  then have "split_byte slash (join_with [slash] es @ [slash]) = es @ [[]]"
    using split_join_elems [of "es @ [[]]" slash] assms(2) by simp
  moreover have "clean_elems True st (xs @ [[]]) = clean_elems True st xs" for st xs
    by (induction True st xs rule: clean_elems.induct) (auto split: list.split)
  ultimately show "path_clean (slash # join_with [slash] es @ [slash]) = slash # join_with [slash] es"
    using id by (simp add: path_clean_def split)
qed

lemma last_slash: "slash \<notin> set y \<Longrightarrow> last_index_byte slash (x @ slash # y) = Some (length x)"
proof -
  have f: "index_byte_from k slash (z @ slash # w) = Some (k + length z)" if "slash \<notin> set z" for k z w
    using that by (induction z arbitrary: k) auto
  assume "slash \<notin> set y"
  then have "slash \<notin> set (rev y)" by simp
  from f [OF this, of 0 "rev x"] show ?thesis by (simp add: last_index_byte_def index_byte_def)
qed

lemma path_dir_last: "slash \<notin> set y \<Longrightarrow> path_dir (x @ slash # y) = path_clean (x @ [slash])"
  by (simp add: path_dir_def last_slash)

text \<open>The data directory: a clean absolute path other than the root.\<close>

definition data_dir_ok :: "string \<Rightarrow> bool" where
  "data_dir_ok dir \<longleftrightarrow>
     (\<exists>es. dir = slash # join_with [slash] es \<and> es \<noteq> [] \<and> clean_list True es \<and> (\<forall>e \<in> set es. slash \<notin> set e))"

lemma clean_list_names: "clean_list True es \<Longrightarrow> list_all clean_name ns \<Longrightarrow> clean_list True (es @ ns)"
  by (auto simp: clean_list_def list_all_iff)

lemma managed_path:
  assumes "data_dir_ok dir" and "is_slug i"
  shows "DefaultManagedSkillPath dir i = dir @ ''/skills/'' @ i @ ''/SKILL.md''"
    and "path_dir (DefaultManagedSkillPath dir i) = dir @ ''/skills/'' @ i"
proof -
  obtain es where es: "dir = slash # join_with [slash] es" "es \<noteq> []" "clean_list True es" "\<forall>e \<in> set es. slash \<notin> set e"
    using assms(1) by (auto simp: data_dir_ok_def)
  have i: "clean_name i" "i \<noteq> []" "slash \<notin> set i"
    using assms(2) slug_clean_name slug_alnum(6) by (auto simp: is_slug_def)
  have two: "clean_list True (es @ [''skills'', i])"
    by (rule clean_list_names [OF es(3)]) (use i in \<open>simp add: clean_name_def\<close>)
  have three: "clean_list True (es @ [''skills'', i, ''SKILL.md''])"
    by (rule clean_list_names [OF es(3)]) (use i in \<open>simp add: clean_name_def\<close>)
  have no_slash: "\<forall>e \<in> set (es @ [''skills'', i]). slash \<notin> set e" "\<forall>e \<in> set (es @ [''skills'', i, ''SKILL.md'']). slash \<notin> set e"
    using es(4) i(3) by auto
  have j2: "slash # join_with [slash] (es @ [''skills'', i]) = dir @ ''/skills/'' @ i"
    and j3: "slash # join_with [slash] (es @ [''skills'', i, ''SKILL.md'']) = dir @ ''/skills/'' @ i @ ''/SKILL.md''"
    using es(1,2) by (simp_all add: join_with_append)
  show m: "DefaultManagedSkillPath dir i = dir @ ''/skills/'' @ i @ ''/SKILL.md''"
    using clean_rooted(1) [OF three no_slash(2)] i(2) es(1) unfolding j3
    by (simp add: DefaultManagedSkillPath_def path_join_def)
  have "path_dir (DefaultManagedSkillPath dir i) = path_clean ((dir @ ''/skills/'' @ i) @ [slash])"
    unfolding m using path_dir_last [of "''SKILL.md''" "dir @ ''/skills/'' @ i"] by simp
  also have "\<dots> = dir @ ''/skills/'' @ i"
    using clean_rooted(2) [OF two no_slash(1)] unfolding j2 [symmetric] by simp
  finally show "path_dir (DefaultManagedSkillPath dir i) = dir @ ''/skills/'' @ i" .
qed

lemma below_iff: "below q p \<longleftrightarrow> p = q \<or> (\<exists>t. p = q @ ''/'' @ t)"
proof -
  have "has_prefix p x \<longleftrightarrow> (\<exists>t. p = x @ t)" for x
    unfolding has_prefix_def by (metis append_eq_conv_conj append_take_drop_id)
  then show ?thesis by (simp add: below_def)
qed

lemma other_skill_not_below:
  assumes "data_dir_ok dir" and "is_slug i" and "is_slug j" and "i \<noteq> j"
  shows "\<not> below (path_dir (DefaultManagedSkillPath dir i)) (DefaultManagedSkillPath dir j)"
proof -
  have no: "slash \<notin> set i" "slash \<notin> set j" using assms slug_alnum(6) by (auto simp: is_slug_def)
  have split: "split_byte slash (x @ slash # y) = x # split_byte slash y" if "slash \<notin> set x" for x y
    using that by (induction x) auto
  have apart: "j @ ''/SKILL.md'' \<noteq> i @ ''/'' @ t" for t
  proof
    assume "j @ ''/SKILL.md'' = i @ ''/'' @ t"
    then have "split_byte slash (i @ slash # t) = split_byte slash (j @ slash # ''SKILL.md'')" by simp
    then show False using split [OF no(1)] split [OF no(2)] assms(4) by simp
  qed
  have "j @ ''/SKILL.md'' \<noteq> i" using no by auto
  with apart have "\<not> below (dir @ ''/skills/'' @ i) (dir @ ''/skills/'' @ j @ ''/SKILL.md'')"
    unfolding below_iff append.assoc same_append_eq by blast
  then show ?thesis unfolding managed_path(2) [OF assms(1,2)] managed_path(1) [OF assms(1,3)] .
qed

lemma save_catalog_ok:
  assumes "catalog_ok digest dir d" and "distinct (map sk_ID skills)" and "list_all (entry_ok digest dir (sd_Files d)) skills"
  shows "catalog_ok digest dir (snd (SaveSkillCatalog fault skills d))" and "sd_Files (snd (SaveSkillCatalog fault skills d)) = sd_Files d"
proof -
  have "distinct (map sk_ID (sort_on sk_ID skills))"
    using assms(2) by (metis mset_eq_imp_distinct_iff mset_map mset_sort_on)
  moreover have "list_all (entry_ok digest dir (sd_Files d)) (sort_on sk_ID skills)"
    using assms(3) by (simp add: list_all_iff)
  ultimately show "catalog_ok digest dir (snd (SaveSkillCatalog fault skills d))"
    using assms(1) by (simp add: SaveSkillCatalog_def catalog_ok_def catalog_of_def)
qed (simp add: SaveSkillCatalog_def)

lemma find_member: "find P xs = Some x \<Longrightarrow> x \<in> set xs \<and> P x"
  by (induction xs) (auto split: if_splits)

lemma entry_update:
  "entry_ok digest dir files s \<Longrightarrow> sk_ManagedPath s \<noteq> p \<Longrightarrow> entry_ok digest dir (AList.update p data files) s"
  unfolding entry_ok_def by (auto simp: update_conv')

lemma map_of_filter_below: "\<not> below q k \<Longrightarrow> map_of (filter (\<lambda>(p, c). \<not> below q p) files) k = map_of files k"
  by (induction files) auto

lemma entry_filter:
  "entry_ok digest dir files s \<Longrightarrow> \<not> below q (sk_ManagedPath s) \<Longrightarrow>
     entry_ok digest dir (filter (\<lambda>(p, c). \<not> below q p) files) s"
  unfolding entry_ok_def by (metis map_of_filter_below)

lemma managed_below: "data_dir_ok dir \<Longrightarrow> is_slug i \<Longrightarrow> below (path_dir (DefaultManagedSkillPath dir i)) (DefaultManagedSkillPath dir i)"
proof -
  assume dir: "data_dir_ok dir" and slug: "is_slug i"
  have "below (dir @ ''/skills/'' @ i) (dir @ ''/skills/'' @ i @ ''/SKILL.md'')"
    unfolding below_iff append.assoc same_append_eq by simp
  then show ?thesis unfolding managed_path(2) [OF dir slug] unfolding managed_path(1) [OF dir slug] .
qed

lemma managed_path_inj:
  assumes "data_dir_ok dir" and "entry_ok digest dir files s" and "is_slug i" and "sk_ID s \<noteq> i"
  shows "sk_ManagedPath s \<noteq> DefaultManagedSkillPath dir i"
  using assms managed_below [of dir i] other_skill_not_below [of dir "sk_ID s" i] unfolding entry_ok_def
  by (metis managed_below other_skill_not_below)

text \<open>Installing keeps the manifest backed by its files: whatever system call fails, the ids of the
  manifest stay distinct slugs, and every entry has its managed file, in a directory of its own, with the
  content whose checksum the entry records; and an install that succeeds can be looked up.\<close>

theorem install_keeps_catalog:
  assumes ok: "catalog_ok digest dataDir d" and dir: "data_dir_ok dataDir"
    and inst: "InstallSkill fault digest dataDir cwd sources sourcePath now d = (r, d')"
  shows "catalog_ok digest dataDir d' \<and>
    (\<forall>skill later. r = Inr skill \<longrightarrow> \<not> later OpReadCatalog \<longrightarrow> GetInstalledSkill later (sk_ID skill) d' = Inr skill)"
proof (cases "path_abs cwd (trim_space sourcePath)")
  case None
  then show ?thesis using ok inst by (auto simp: InstallSkill_def)
next
  case src: (Some src)
  show ?thesis
  proof (cases "sources src")
    case None
    then show ?thesis using src ok inst by (auto simp: InstallSkill_def)
  next
    case data: (Some data)
    let ?i = "normalizeSkillID (skillDisplayName src data)"
    let ?p = "DefaultManagedSkillPath dataDir ?i"
    let ?d = "d\<lparr>sd_Files := AList.update ?p data (sd_Files d)\<rparr>"
    let ?new = "\<lparr>sk_ID = ?i, sk_DisplayName = skillDisplayName src data, sk_SourcePath = src, sk_ManagedPath = ?p,
       sk_Checksum = digest data, sk_InstalledAt = now, sk_ParserVersion = ''markdown_v1'',
       sk_CapabilitySummary = skillCapabilitySummary data\<rparr>"
    have slug: "is_slug ?i" by (rule normalize_is_slug)
    have load: "LoadSkillCatalog fault d = Inl ReadSkillCatalog \<or> LoadSkillCatalog fault d = Inr (catalog_of d)"
      by (simp add: LoadSkillCatalog_def catalog_of_def split: option.split)
    have loaded_later: "\<not> later OpReadCatalog \<Longrightarrow> LoadSkillCatalog later d = Inr (catalog_of d)" for later
      by (simp add: LoadSkillCatalog_def catalog_of_def split: option.split)
    show ?thesis
    proof (cases "find (\<lambda>s. sk_ID s = ?i) (catalog_of d)")
      case (Some s)
      then have found: "sk_ID s = ?i" by (auto simp: find_Some_iff)
      then have again: "GetInstalledSkill later (sk_ID s) d = Inr s" if "\<not> later OpReadCatalog" for later
        using that Some by (simp add: GetInstalledSkill_def loaded_later normalize_slug [OF slug])
      have "d' = d \<and> (\<forall>skill. r = Inr skill \<longrightarrow> skill = s)"
        using inst load src data Some by (auto simp: InstallSkill_def Let_def split: if_splits)
      with again ok show ?thesis by auto
    next
      case None
      then have fresh: "sk_ID s \<noteq> ?i" if "s \<in> set (catalog_of d)" for s using that by (simp add: find_None_iff)
      have files: "list_all (entry_ok digest dataDir (sd_Files ?d)) (catalog_of d)"
        using ok fresh managed_path_inj [OF dir _ slug] entry_update
        by (fastforce simp: catalog_ok_def list_all_iff)
      then have base: "catalog_ok digest dataDir ?d" using ok by (simp add: catalog_ok_def catalog_of_def)
      have new: "entry_ok digest dataDir (sd_Files ?d) ?new" using slug by (simp add: entry_ok_def update_conv')
      have "?i \<notin> sk_ID ` set (catalog_of d)" using fresh by (auto simp: image_iff) (metis)
      then have dist: "distinct (map sk_ID (catalog_of d @ [?new]))" using ok by (simp add: catalog_ok_def)
      have all: "list_all (entry_ok digest dataDir (sd_Files ?d)) (catalog_of d @ [?new])" using files new by simp
      note saved = save_catalog_ok(1) [OF base dist all]
      have get: "GetInstalledSkill later ?i d'' = Inr ?new"
        if "SaveSkillCatalog fault (catalog_of d @ [?new]) ?d = (None, d'')" "\<not> later OpReadCatalog" for d'' later
      proof -
        from that have cat: "sd_Catalog d'' = Some (sort_on sk_ID (catalog_of d @ [?new]))"
          by (auto simp: SaveSkillCatalog_def split: if_splits)
        have "?new \<in> set (sort_on sk_ID (catalog_of d @ [?new]))" and "sk_ID ?new = ?i" by simp_all
        then obtain s where found: "find (\<lambda>s. sk_ID s = ?i) (sort_on sk_ID (catalog_of d @ [?new])) = Some s"
          by (meson find_None_iff not_None_eq)
        moreover from find_member [OF this] have "s \<in> set (catalog_of d) \<or> s = ?new" and "sk_ID s = ?i" by auto
        then have "s = ?new" using fresh [of s] by (elim disjE) simp_all
        ultimately show ?thesis
          by (simp only: GetInstalledSkill_def LoadSkillCatalog_def normalize_slug [OF slug] cat that(2) Let_def
              option.case sum.case if_False)
      qed
      show ?thesis
      proof (cases "LoadSkillCatalog fault d = Inr (catalog_of d) \<and> \<not> fault OpMkdirSkill \<and> \<not> fault OpWriteSkill")
        case False
        with inst load src data None ok show ?thesis by (auto simp: InstallSkill_def Let_def split: if_splits)
      next
        case True
        obtain e d'' where sv: "SaveSkillCatalog fault (catalog_of d @ [?new]) ?d = (e, d'')" by (metis prod.exhaust)
        with inst True src data None have "d' = d''" and r: "r = (case e of Some err \<Rightarrow> Inl err | None \<Rightarrow> Inr ?new)"
          by (auto simp: InstallSkill_def Let_def split: option.splits)
        moreover have "catalog_ok digest dataDir d''" using saved [of fault] sv by simp
        ultimately show ?thesis using get sv by (cases e) auto
      qed
    qed
  qed
qed


text \<open>Removing a skill keeps the manifest backed by its files as well, and a removal that reports
  success has removed the entry and its file and no other entry; a skill the project still enables is
  refused unless the removal is forced.\<close>

theorem remove_keeps_catalog:
  assumes ok: "catalog_ok digest dataDir d" and dir: "data_dir_ok dataDir"
    and rm: "RemoveSkill fault project rawID force d = (r, d')"
  shows "catalog_ok digest dataDir d' \<and>
    (\<forall>removed. r = Inr removed \<longrightarrow>
       map sk_ID (catalog_of d') = map sk_ID (sort_on sk_ID (filter (\<lambda>s. sk_ID s \<noteq> normalizeSkillID rawID) (catalog_of d))) \<and>
       map_of (sd_Files d') (sk_ManagedPath removed) = None \<and>
       (force \<or> ensureSkillNotEnabledInCurrentProject project (normalizeSkillID rawID) = None))"
proof -
  let ?i = "normalizeSkillID rawID"
  have load: "LoadSkillCatalog fault d = Inl ReadSkillCatalog \<or> LoadSkillCatalog fault d = Inr (catalog_of d)"
    by (simp add: LoadSkillCatalog_def catalog_of_def split: option.split)
  show ?thesis
  proof (cases "(if force then None else ensureSkillNotEnabledInCurrentProject project ?i) = None \<and>
      LoadSkillCatalog fault d = Inr (catalog_of d) \<and> find (\<lambda>s. sk_ID s = ?i) (rev (catalog_of d)) \<noteq> None")
    case False
    with load rm ok show ?thesis by (auto simp: RemoveSkill_def Let_def split: option.splits if_splits)
  next
    case True
    then obtain s where f: "find (\<lambda>s. sk_ID s = ?i) (rev (catalog_of d)) = Some s" by blast
    from find_member [OF f] have s: "s \<in> set (catalog_of d)" "sk_ID s = ?i" by auto
    then have entry: "entry_ok digest dataDir (sd_Files d) s" using ok by (simp add: catalog_ok_def list_all_iff)
    let ?rest = "filter (\<lambda>s. sk_ID s \<noteq> ?i) (catalog_of d)"
    let ?q = "path_dir (sk_ManagedPath s)"
    have rest: "distinct (map sk_ID ?rest)" "list_all (entry_ok digest dataDir (sd_Files d)) ?rest"
      using ok by (auto simp: catalog_ok_def list_all_iff distinct_map inj_on_def)
    obtain e d2 where sv: "SaveSkillCatalog fault ?rest d = (e, d2)" by (metis prod.exhaust)
    have d2: "catalog_ok digest dataDir d2" "sd_Files d2 = sd_Files d"
      using save_catalog_ok [OF ok rest, of fault] sv by simp_all
    have cat: "catalog_of d2 = sort_on sk_ID ?rest" if "e = None"
      using sv that by (auto simp: SaveSkillCatalog_def catalog_of_def split: if_splits)
    have sm: "sk_ManagedPath s = DefaultManagedSkillPath dataDir ?i" using entry s(2) by (simp add: entry_ok_def)
    let ?d3 = "d2\<lparr>sd_Files := filter (\<lambda>(p, c). \<not> below ?q p) (sd_Files d2)\<rparr>"
    have away: "\<not> below ?q (sk_ManagedPath t)" if "t \<in> set ?rest" for t
    proof -
      have "entry_ok digest dataDir (sd_Files d) t" using rest(2) that by (simp add: list_all_iff)
      then show ?thesis unfolding sm using other_skill_not_below [OF dir normalize_is_slug, of "sk_ID t" rawID] that
        by (auto simp: entry_ok_def)
    qed
    have gone: "map_of (filter (\<lambda>(p, c). \<not> below ?q p) files) (sk_ManagedPath s) = None" for files
      using managed_below [OF dir normalize_is_slug, of rawID] unfolding sm by (induction files) auto
    have d3: "catalog_ok digest dataDir ?d3" if "e = None"
    proof -
      have "list_all (entry_ok digest dataDir (sd_Files ?d3)) (catalog_of d2)"
        using d2(1) away entry_filter cat [OF that] by (simp add: catalog_ok_def list_all_iff)
      then show ?thesis using d2(1) by (simp add: catalog_ok_def catalog_of_def)
    qed
    have "(r, d') = (case e of Some err \<Rightarrow> (Inl err, d2)
        | None \<Rightarrow> if fault OpRemoveSkill then (Inl RemoveManagedSkill, d2) else (Inr s, ?d3))"
      using rm True f sv by (simp add: RemoveSkill_def)
    then show ?thesis using d2 d3 cat gone True
      by (cases e) (auto simp: catalog_of_def split: if_splits)
  qed
qed

definition empty_disk :: skill_disk where
  "empty_disk = \<lparr>sd_Catalog = None, sd_Files = [], sd_Metrics = None\<rparr>"

definition sample_install :: "(catalog_error + installed_skill) \<times> skill_disk" where
  "sample_install = InstallSkill (\<lambda>op. False) (\<lambda>data. data) ''/data'' (Some ''/w'') (map_of [(''/w/go.md'', ''# Go Style'' @ [CHR 0x0A] @ ''Use gofmt.'')])
     ''go.md'' ''t'' empty_disk"

lemma sample_data_dir: "data_dir_ok ''/data''"
  using clean_list_names [of "[]" "[''data'']"]
  unfolding data_dir_ok_def by (intro exI [of _ "[''data'']"]) (simp add: clean_name_def)

lemma install_keeps_catalog_witness:
  "catalog_ok (\<lambda>data. data) ''/data'' (snd sample_install) \<and>
   (\<exists>s. GetInstalledSkill (\<lambda>op. False) ''go-style'' (snd sample_install) = Inr s)"
proof -
  have "case fst sample_install of Inl e \<Rightarrow> False | Inr s \<Rightarrow> sk_ID s = ''go-style''" by code_simp
  then obtain s where s: "fst sample_install = Inr s" "sk_ID s = ''go-style''" by (auto split: sum.splits)
  have "catalog_ok (\<lambda>data. data) ''/data'' empty_disk" by (simp add: catalog_ok_def catalog_of_def empty_disk_def)
  from install_keeps_catalog [OF this sample_data_dir, of "\<lambda>op. False"] s show ?thesis
    by (metis sample_install_def prod.collapse)
qed

lemma remove_keeps_catalog_witness:
  "catalog_ok (\<lambda>data. data) ''/data''
     (snd (RemoveSkill (\<lambda>op. False) NoProject ''Go Style'' False empty_disk))"
proof -
  have "catalog_ok (\<lambda>data. data) ''/data'' empty_disk" by (simp add: catalog_ok_def catalog_of_def empty_disk_def)
  from remove_keeps_catalog [OF this sample_data_dir prod.collapse [symmetric]] show ?thesis by blast
qed

end
