(* ===== verification/Agent_Runner.thy ===== *)
theory Agent_Runner
  imports Agent_Skills Skill_Catalog
begin

text \<open>
  \<open>internal/agent/tool_runtime.go\<close> and \<open>runner.go\<close>: the tools a task may use and the runner that executes
  the skill invocations of a context package. The latency of an invocation and the time it started are
  a function of the environment; its effect is on the metrics of the disk.
\<close>

section \<open>The tools\<close>

abbreviation ToolKindPassiveContext :: string where "ToolKindPassiveContext \<equiv> ''passive_context''"
abbreviation ToolKindReadOnlyAction :: string where "ToolKindReadOnlyAction \<equiv> ''read_only_action''"

record tool_definition =
  td_Name :: string
  td_Kind :: string
  td_Description :: string
  td_Content :: string

record runner_env =
  rv_OS :: host_os
  rv_Approved :: "string list"
  rv_Faults :: skill_faults
  rv_Clock :: "skill_invocation \<Rightarrow> int \<times> string"

datatype tool_error = ToolContextDone | ToolCatalog catalog_error | ReadManagedSkill string

definition tool_less :: "tool_definition \<Rightarrow> tool_definition \<Rightarrow> bool" where
  "tool_less a b \<longleftrightarrow> (if td_Kind a \<noteq> td_Kind b then td_Kind a < td_Kind b else td_Name a < td_Name b)"

interpretation tool_order: go_less tool_less
  by unfold_locales (auto simp: tool_less_def split: if_splits)

definition sort_tools :: "tool_definition list \<Rightarrow> tool_definition list" where
  "sort_tools = sort_by (\<lambda>a b. \<not> tool_less b a)"

definition passive_tool :: "skill_disk \<Rightarrow> installed_skill \<Rightarrow> tool_error + tool_definition" where
  "passive_tool d skill =
     (case map_of (sd_Files d) (sk_ManagedPath skill) of None \<Rightarrow> Inl (ReadManagedSkill (sk_ID skill))
      | Some content \<Rightarrow> Inr \<lparr>td_Name = sk_ID skill, td_Kind = ToolKindPassiveContext,
          td_Description = sk_CapabilitySummary skill, td_Content = trim_space content\<rparr>)"

definition read_only_tool :: "string \<times> string \<Rightarrow> tool_definition" where
  "read_only_tool t = \<lparr>td_Name = fst t, td_Kind = ToolKindReadOnlyAction, td_Description = snd t, td_Content = []\<rparr>"

definition ListTools :: "runner_env \<Rightarrow> skill_disk \<Rightarrow> tool_error + tool_definition list" where
  "ListTools env d =
     (if os_Done (rv_OS env) [] then Inl ToolContextDone
      else (case ListInstalledSkills (rv_Faults env) d of Inl e \<Rightarrow> Inl (ToolCatalog e)
        | Inr installed \<Rightarrow>
            (case map_res (passive_tool d) installed of Inl e \<Rightarrow> Inl e
             | Inr passive \<Rightarrow> Inr (sort_tools (map read_only_tool ListReadOnlyTools @ passive)))))"

definition ExecuteTool :: "runner_env \<Rightarrow> execute_request \<Rightarrow> skill_error + (string \<times> json)" where
  "ExecuteTool env call =
     (case execute_tool (rv_OS env) (rv_Approved env) call of Inl e \<Rightarrow> Inl e
      | Inr p \<Rightarrow> Inr (xr_Name call, payload_json p))"

section \<open>The runner\<close>

record skill_result =
  sx_Kind :: string
  sx_Payload :: "json option"

record run_result =
  rr_Role :: role
  rr_Summary :: string
  rr_Decision :: "orchestration option"
  rr_SkillResults :: "skill_result list"
  rr_ContextEcho :: context_package

datatype run_error = RunContextDone | RunSkill skill_error

definition tool_call :: "skill_invocation \<Rightarrow> execute_request" where
  "tool_call i = \<lparr>xr_Name = si_Kind i, xr_RepoRoot = si_RepoRoot i, xr_Paths = si_Paths i, xr_Query = si_Query i,
     xr_DBPath = si_DBPath i, xr_StagedOnly = si_StagedOnly i\<rparr>"

definition runSkillInvocation :: "runner_env \<Rightarrow> skill_invocation \<Rightarrow> skill_disk \<Rightarrow> (run_error + skill_result) \<times> skill_disk" where
  "runSkillInvocation env i d =
     (case ExecuteTool env (tool_call i) of
        Inl (ErrUnknownReadOnlyTool n) \<Rightarrow> (Inr \<lparr>sx_Kind = [], sx_Payload = None\<rparr>, d)
      | Inl e \<Rightarrow> (Inl (RunSkill e), d)
      | Inr (n, payload) \<Rightarrow>
          (let (millis, startedAt) = rv_Clock env i in
           (Inr \<lparr>sx_Kind = si_Kind i, sx_Payload = Some payload\<rparr>,
            snd (RecordSkillLatency (rv_Faults env) (si_Kind i) millis startedAt d))))"

fun runSkillInvocations :: "runner_env \<Rightarrow> skill_invocation list \<Rightarrow> skill_disk \<Rightarrow> (run_error + skill_result list) \<times> skill_disk" where
  "runSkillInvocations env [] d = (Inr [], d)"
| "runSkillInvocations env (i # is) d =
     (case runSkillInvocation env i d of
        (Inl e, d') \<Rightarrow> (Inl e, d')
      | (Inr r, d') \<Rightarrow>
          (case runSkillInvocations env is d' of
             (Inl e, d'') \<Rightarrow> (Inl e, d'')
           | (Inr rs, d'') \<Rightarrow> (Inr (r # rs), d'')))"

text \<open>\<open>Run\<close>; \<^const>\<open>None\<close> where applying the budget panics.\<close>

definition Run :: "runner_env \<Rightarrow> role_profile \<Rightarrow> context_package \<Rightarrow> skill_disk \<Rightarrow> ((run_error + run_result) \<times> skill_disk) option" where
  "Run env profile pkg d =
     (if os_Done (rv_OS env) [] then Some (Inl RunContextDone, d)
      else (case ApplyBudget pkg of None \<Rightarrow> None
        | Some echo \<Rightarrow>
            Some (case runSkillInvocations env (cp_SkillInvocations echo) d of
              (Inl e, d') \<Rightarrow> (Inl e, d')
            | (Inr results, d') \<Rightarrow>
                (Inr \<lparr>rr_Role = rl_Role profile, rr_Summary = rl_Description profile,
                   rr_Decision = (if rl_Role profile = RoleOrchestrator then Some (DecideExecutionMode echo) else None),
                   rr_SkillResults = results, rr_ContextEcho = echo\<rparr>, d'))))"

section \<open>A run reads only\<close>

lemma latency_frame:
  "sd_Catalog (snd (RecordSkillLatency fault i m t d)) = sd_Catalog d \<and> sd_Files (snd (RecordSkillLatency fault i m t d)) = sd_Files d"
  by (simp add: RecordSkillLatency_def SaveSkillMetrics_def split: sum.split)

lemma invocation_frame:
  "runSkillInvocation env i d = (r, d') \<Longrightarrow> sd_Catalog d' = sd_Catalog d \<and> sd_Files d' = sd_Files d"
  using latency_frame
  by (auto simp: runSkillInvocation_def split: sum.splits skill_error.splits prod.splits)

text \<open>What the result of an invocation is: nothing for an unknown tool, otherwise the payload of the tool.\<close>

definition result_matches :: "runner_env \<Rightarrow> skill_invocation \<Rightarrow> skill_result \<Rightarrow> bool" where
  "result_matches env i r \<longleftrightarrow>
     (if si_Kind i \<in> fst ` set ListReadOnlyTools
      then (\<exists>p. execute_tool (rv_OS env) (rv_Approved env) (tool_call i) = Inr p \<and> r = \<lparr>sx_Kind = si_Kind i, sx_Payload = Some (payload_json p)\<rparr>)
      else r = \<lparr>sx_Kind = [], sx_Payload = None\<rparr>)"

definition known_error :: "(skill_error + 'a) \<Rightarrow> bool" where
  "known_error out \<longleftrightarrow> (\<forall>n. out \<noteq> Inl (ErrUnknownReadOnlyTool n))"

lemma known_error_simps [simp]:
  "known_error (Inr x)" "known_error (Inl e) \<longleftrightarrow> (\<forall>n. e \<noteq> ErrUnknownReadOnlyTool n)"
  by (simp_all add: known_error_def)

lemma known_error_map_res: "(\<And>x. known_error (f x)) \<Longrightarrow> known_error (map_res f xs)"
  by (induction xs) (auto simp: known_error_def split: sum.splits)

lemma known_error_map_sum [simp]: "known_error (map_sum id f out) \<longleftrightarrow> known_error out"
  by (cases out) simp_all

lemma known_error_case: "known_error x \<Longrightarrow> (\<And>y. known_error (f y)) \<Longrightarrow> known_error (case x of Inl e \<Rightarrow> Inl e | Inr y \<Rightarrow> f y)"
  by (cases x) simp_all

lemma known_root: "known_error (ResolveApprovedRepoRoot os rt approved)"
  by (simp add: ResolveApprovedRepoRoot_def split: option.split)

lemma known_read: "known_error (ReadFiles os approved q)"
proof -
  have "known_error (readFileBounded os rt p k)" for rt p k
    by (auto simp: readFileBounded_def resolveRepoPath_def split: option.split)
  then have "known_error (map_res (\<lambda>p. case readFileBounded os rt p k of Inl e \<Rightarrow> Inl e | Inr c \<Rightarrow> Inr \<lparr>fc_Path = p, fc_Content = c\<rparr>) ps)" for rt k ps
    by (intro known_error_map_res known_error_case) simp_all
  moreover have "known_error (map_res clean_request_path ps)" for ps
    by (rule known_error_map_res) (simp add: clean_request_path_def Let_def)
  then have "known_error (validateReadFilesRequest q)"
    by (auto simp: validateReadFilesRequest_def Let_def intro!: known_error_case)
  ultimately show ?thesis
    unfolding ReadFiles_def by (auto intro!: known_error_case known_root)
qed

lemma known_visit: "known_error (visit_file os needle mm n path rel results)"
  by (simp add: visit_file_def Let_def split: option.split)

lemma known_walk:
  "known_error (search_walk os r needle mm n path rel name node results)"
  "known_error (search_entries os r needle mm n path rel es results)"
  by (induction os r needle mm n path rel name node results and os r needle mm n path rel es results
      rule: search_walk_search_entries.induct)
     (auto simp: known_visit split: sum.split)

lemma known_search: "known_error (SearchRepo os approved q)"
  using known_walk(1)
  by (auto simp: SearchRepo_def searchRepoBounded_def intro!: known_error_case known_root split: option.split)

lemma known_git: "known_error (GitStatus os approved rt k)" "known_error (GitDiff os approved rt k st)"
proof -
  have "known_error (runGit os rt args)" for rt args by (simp add: runGit_def split: sum.split)
  then show "known_error (GitStatus os approved rt k)" "known_error (GitDiff os approved rt k st)"
    by (auto simp: GitStatus_def GitDiff_def Let_def intro!: known_error_case known_root)
qed

lemma known_index: "known_error (IndexLookup os q)"
  by (auto simp: IndexLookup_def Let_def split: option.split sum.split)

lemma unknown_tool:
  "execute_tool os approved req = Inl (ErrUnknownReadOnlyTool n) \<Longrightarrow> xr_Name req \<notin> fst ` set ListReadOnlyTools"
proof
  assume e: "execute_tool os approved req = Inl (ErrUnknownReadOnlyTool n)" and name: "xr_Name req \<in> fst ` set ListReadOnlyTools"
  from name have "known_error (execute_tool os approved req)"
    by (auto simp: execute_tool_def ListReadOnlyTools_def known_read known_search known_git known_index)
  with e show False by simp
qed

lemma known_tool:
  "xr_Name req \<notin> fst ` set ListReadOnlyTools \<Longrightarrow> execute_tool os approved req = Inl (ErrUnknownReadOnlyTool (xr_Name req))"
  by (auto simp: execute_tool_def ListReadOnlyTools_def)

lemma invocation_result:
  "runSkillInvocation env i d = (Inr r, d') \<Longrightarrow> result_matches env i r"
  using unknown_tool [of "rv_OS env" "rv_Approved env" "tool_call i"] known_tool [of "tool_call i" "rv_OS env" "rv_Approved env"]
  by (cases "execute_tool (rv_OS env) (rv_Approved env) (tool_call i)")
     (auto simp: runSkillInvocation_def result_matches_def ExecuteTool_def tool_call_def split: skill_error.splits prod.splits)

lemma invocations_results:
  "runSkillInvocations env is d = (r, d') \<Longrightarrow>
     sd_Catalog d' = sd_Catalog d \<and> sd_Files d' = sd_Files d \<and>
     (\<forall>rs. r = Inr rs \<longrightarrow> list_all2 (result_matches env) is rs)"
proof (induction env "is" d arbitrary: r d' rule: runSkillInvocations.induct)
  case (2 env i "is" d)
  obtain r1 d1 where one: "runSkillInvocation env i d = (r1, d1)" by (metis prod.exhaust)
  note frame = invocation_frame [OF one]
  show ?case
  proof (cases r1)
    case (Inl e)
    with "2.prems" one frame show ?thesis by auto
  next
    case (Inr x)
    obtain r2 d2 where two: "runSkillInvocations env is d1 = (r2, d2)" by (metis prod.exhaust)
    from "2.IH" [OF one [symmetric] Inr two] frame invocation_result [OF one [unfolded Inr]] "2.prems" one two Inr
    show ?thesis by (auto split: sum.splits)
  qed
qed simp

text \<open>A run reads only: it leaves the skill manifest and the managed files as they were, answers every
  invocation of the package in order with the payload of its tool, or with an empty result for a tool it
  does not know, and decides the next role only as the orchestrator.\<close>

theorem run_reads_only:
  assumes "Run env profile pkg d = Some (r, d')"
  shows "sd_Catalog d' = sd_Catalog d \<and> sd_Files d' = sd_Files d \<and>
    (\<forall>result. r = Inr result \<longrightarrow>
       list_all2 (result_matches env) (cp_SkillInvocations pkg) (rr_SkillResults result) \<and>
       (rr_Decision result \<noteq> None \<longleftrightarrow> rl_Role profile = RoleOrchestrator))"
proof (cases "os_Done (rv_OS env) [] \<or> ApplyBudget pkg = None")
  case True
  with assms show ?thesis by (auto simp: Run_def split: if_splits)
next
  case False
  then obtain echo where echo: "ApplyBudget pkg = Some echo" by blast
  then have same: "cp_SkillInvocations echo = cp_SkillInvocations pkg" by (rule ApplyBudget_invocations)
  obtain r1 d1 where run: "runSkillInvocations env (cp_SkillInvocations pkg) d = (r1, d1)" by (metis prod.exhaust)
  from invocations_results [OF run] assms False echo same run show ?thesis
    by (auto simp: Run_def split: sum.splits if_splits)
qed


lemma run_reads_only_witness:
  "\<exists>r d'. Run \<lparr>rv_OS = sample_os, rv_Approved = [''/repo''], rv_Faults = (\<lambda>op. False), rv_Clock = (\<lambda>i. (3, ''t''))\<rparr>
     (DefaultRoleProfiles RoleOrchestrator) sample_package empty_disk = Some (Inr r, d') \<and>
     length (rr_SkillResults r) = 1 \<and> sd_Files d' = []"
proof -
  let ?env = "\<lparr>rv_OS = sample_os, rv_Approved = [''/repo''], rv_Faults = (\<lambda>op. False), rv_Clock = (\<lambda>i. (3, ''t''))\<rparr>"
  have "case Run ?env (DefaultRoleProfiles RoleOrchestrator) sample_package empty_disk of
      Some (Inr r, d') \<Rightarrow> True | _ \<Rightarrow> False" by code_simp
  then obtain r d' where run: "Run ?env (DefaultRoleProfiles RoleOrchestrator) sample_package empty_disk = Some (Inr r, d')"
    by (auto split: option.splits sum.splits prod.splits)
  from run_reads_only [OF run] run show ?thesis
    by (auto simp: sample_package_def empty_disk_def dest: list_all2_lengthD)
qed

end
