(* ===== verification/Index_Open.thy ===== *)
theory Index_Open
  imports Index_Store
begin

text \<open>
  Opening the index (\<open>OpenStore\<close> and \<open>bootstrap\<close> of \<open>internal/index/store.go\<close>): the directory, the
  connection, the schema, whose statements create what is missing, and the table of schema versions, the only
  one the code reads back. A step may fail for a reason outside the program. \<open>bootstrap\<close> reads the version and
  records the current one in two statements, between which another process may run.
\<close>

datatype open_step = StepMkdir | StepConnect | StepSchema | StepReadVersion | StepRecordVersion

datatype open_error = CreateDirectoryFailed | ConnectFailed | SchemaFailed | ReadVersionFailed | RecordVersionFailed

definition currentSchemaVersion :: int where
  "currentSchemaVersion = 2"

text \<open>\<open>SELECT MAX(version)\<close>, which is \<open>NULL\<close> for an empty table.\<close>

definition max_version :: "int list \<Rightarrow> int option" where
  "max_version vs = (if vs = [] then None else Some (fold max vs (hd vs)))"

definition needs_version :: "int list \<Rightarrow> bool" where
  "needs_version vs \<longleftrightarrow> (case max_version vs of None \<Rightarrow> True | Some v \<Rightarrow> v < currentSchemaVersion)"

text \<open>The insert: the version is the primary key.\<close>

definition record_version :: "(open_step \<Rightarrow> bool) \<Rightarrow> int list \<Rightarrow> open_error option \<times> int list" where
  "record_version fault vs =
     (if fault StepRecordVersion \<or> currentSchemaVersion \<in> set vs then (Some RecordVersionFailed, vs)
      else (None, vs @ [currentSchemaVersion]))"

definition bootstrap :: "(open_step \<Rightarrow> bool) \<Rightarrow> int list \<Rightarrow> open_error option \<times> int list" where
  "bootstrap fault vs =
     (if fault StepSchema then (Some SchemaFailed, vs)
      else if fault StepReadVersion then (Some ReadVersionFailed, vs)
      else if \<not> needs_version vs then (None, vs)
      else record_version fault vs)"

definition OpenStore :: "(open_step \<Rightarrow> bool) \<Rightarrow> int list \<Rightarrow> open_error option \<times> int list" where
  "OpenStore fault vs =
     (if fault StepMkdir then (Some CreateDirectoryFailed, vs)
      else if fault StepConnect then (Some ConnectFailed, vs)
      else bootstrap fault vs)"

section \<open>One process\<close>

lemma max_version_Some:
  assumes "vs \<noteq> []"
  shows "max_version vs = Some (Max (set vs))"
proof -
  obtain v ws where vs: "vs = v # ws" using assms by (cases vs) auto
  have "fold max (v # ws) v = Max (set (v # ws))" using Max.set_eq_fold [of v ws] by simp
  then show ?thesis by (simp add: max_version_def vs)
qed

lemma needs_version_iff: "needs_version vs \<longleftrightarrow> (\<forall>v \<in> set vs. v < currentSchemaVersion)"
proof (cases "vs = []")
  case True
  then show ?thesis by (simp add: needs_version_def max_version_def)
next
  case False
  then show ?thesis by (simp add: needs_version_def max_version_Some)
qed

text \<open>A store that opened has a version that is at least the current one, keeps the primary key, and opening it again
  changes nothing.\<close>

theorem opened_store_is_current:
  assumes "OpenStore fault vs = (None, vs')" "distinct vs"
  shows "\<not> needs_version vs' \<and> distinct vs' \<and> set vs \<subseteq> set vs' \<and> snd (OpenStore fault' vs') = vs'"
  using assms
  by (auto simp: OpenStore_def bootstrap_def record_version_def needs_version_iff split: if_splits)

theorem opened_store_is_current_witness:
  "\<not> needs_version [1, 2] \<and> snd (OpenStore (\<lambda>s. True) [1, 2]) = [1, 2]"
proof -
  have "OpenStore (\<lambda>s. False) [1] = (None, [1, 2])"
    by (simp add: OpenStore_def bootstrap_def record_version_def needs_version_def max_version_def currentSchemaVersion_def)
  from opened_store_is_current [OF this, of "\<lambda>s. True"] show ?thesis by simp
qed

section \<open>Two processes\<close>

text \<open>The state between the two statements of two processes that open the store: whether each still has to record
  the version, or its result.\<close>

datatype open_phase = Reading | Recording | Opened "open_error option"

inductive open_together :: "int list \<times> open_phase \<times> open_phase \<Rightarrow> int list \<times> open_phase \<times> open_phase \<Rightarrow> bool" where
  first_reads: "open_together (vs, Reading, q) (vs, if needs_version vs then Recording else Opened None, q)"
| first_records: "record_version (\<lambda>s. False) vs = (r, vs') \<Longrightarrow> open_together (vs, Recording, q) (vs', Opened r, q)"
| second_reads: "open_together (vs, p, Reading) (vs, p, if needs_version vs then Recording else Opened None)"
| second_records: "record_version (\<lambda>s. False) vs = (r, vs') \<Longrightarrow> open_together (vs, p, Recording) (vs', p, Opened r)"

text \<open>Two processes that open a new index at the same time, for example the first two requests with retrieval: both
  read that there is no version, and the second to record it fails.\<close>

theorem opening_together_fails:
  "open_together\<^sup>*\<^sup>* ([], Reading, Reading) ([currentSchemaVersion], Opened None, Opened (Some RecordVersionFailed))"
proof -
  have need: "needs_version []" by (simp add: needs_version_iff)
  have "open_together ([], Reading, Reading) ([], Recording, Reading)"
    using first_reads [of "[]" Reading] need by simp
  moreover have "open_together ([], Recording, Reading) ([], Recording, Recording)"
    using second_reads [of "[]" Recording] need by simp
  moreover have "open_together ([], Recording, Recording) ([currentSchemaVersion], Opened None, Recording)"
    by (rule first_records) (simp add: record_version_def)
  moreover have "open_together ([currentSchemaVersion], Opened None, Recording)
      ([currentSchemaVersion], Opened None, Opened (Some RecordVersionFailed))"
    by (rule second_records) (simp add: record_version_def)
  ultimately show ?thesis by (meson converse_rtranclp_into_rtranclp rtranclp.rtrancl_refl)
qed

end
