(* ===== verification/Module_Catalog.thy ===== *)
theory Module_Catalog
  imports Config_Resolve
begin

text \<open>
  \<open>internal/modules/catalog.go\<close>: the catalog of project modules. A manifest is loaded from every
  directory below the modules directory, normalised, and reduced to the enabled and then to the trusted
  modules. The directory listing, the file contents, the YAML decoder, SHA-256 and
  \<open>filepath.EvalSymlinks\<close> are functions of a record. The loader keeps the manifests with pairwise
  different identifiers in the order of their identifiers; the filters keep what the project enables
  and what a trust record of the same repository pins by hash.
\<close>

abbreviation manifestFileName :: string where "manifestFileName \<equiv> ''module.yaml''"

record lsp_server =
  ls_ID :: string
  ls_Command :: "string list"
  ls_Languages :: "string list"

record manifest =
  mf_ID :: string
  mf_DisplayName :: string
  mf_Version :: string
  mf_Entrypoint :: "string list"
  mf_LLMAdapters :: "llm_provider list"
  mf_MCPServers :: "mcp_server list"
  mf_LSPServers :: "lsp_server list"

record loaded_module =
  md_ID :: string
  md_DisplayName :: string
  md_Version :: string
  md_RootPath :: string
  md_ManifestSHA256 :: string
  md_ManifestPath :: string
  md_Entrypoint :: "string list"
  md_LLMAdapters :: "llm_provider list"
  md_MCPServers :: "mcp_server list"
  md_LSPServers :: "lsp_server list"

record module_catalog =
  mc_ModulesDir :: string
  mc_Modules :: "loaded_module list"

datatype (plugins only: code size) module_error =
    EnabledModuleNotFound string string | ReadModulesDirFailed | ReadManifestFailed string
  | ParseManifestFailed string | ModuleDeclaredTwice string string string
  | ManifestIDEmpty string | ModuleVersionEmpty string | ModuleEntrypointEmpty string
  | LLMAdapterIDEmpty string | LLMAdapterTwice string string | LLMAdapterBackendEmpty string string
  | LLMAdapterEndpointEmpty string string | LLMAdapterCommandEmpty string string | LLMAdapterTransport string string
  | MCPServerIDEmpty string | MCPServerTwice string string | MCPServerEndpointEmpty string string
  | MCPServerCommandEmpty string string | MCPServerTransport string string
  | LSPServerIDEmpty string | LSPServerTwice string string | LSPServerCommandEmpty string string
  | ProjectRootEmpty | ProjectRootUnresolved | ModuleNotTrusted string string | ModuleNeedsStdioTrust string

text \<open>A read that finds nothing and one that fails are different outcomes (\<open>os.IsNotExist\<close>).\<close>

datatype 'a read_outcome = NotThere | ReadFailed | ReadOk 'a

record module_os =
  mo_Cwd :: "string option"
  mo_EvalSymlinks :: "string \<Rightarrow> string option"
  mo_ReadDir :: "string \<Rightarrow> (string \<times> bool) list read_outcome"
  mo_ReadFile :: "string \<Rightarrow> string read_outcome"
  mo_Yaml :: "string \<Rightarrow> manifest option"
  mo_SHA256 :: "string \<Rightarrow> string"

section \<open>Normalising a manifest\<close>

definition has_separator :: "string \<Rightarrow> bool" where
  "has_separator s \<longleftrightarrow> list_ex (\<lambda>c. c = CHR ''/'' \<or> c = CHR 0x5C) s"

definition normalizeCommand :: "string \<Rightarrow> string list \<Rightarrow> string list" where
  "normalizeCommand rootPath command =
     (case command of [] \<Rightarrow> []
      | c # args \<Rightarrow>
          (let first = trim_space c in
           if first = [] then command
           else if path_is_abs first \<or> \<not> has_separator first then command
           else path_clean (path_join [rootPath, first]) # args))"

text \<open>The loop the three lists of a manifest share: an empty identifier and a repeated one are errors,
  every other element goes through \<open>step\<close>.\<close>

fun unique_by :: "('a \<Rightarrow> string) \<Rightarrow> module_error \<Rightarrow> (string \<Rightarrow> module_error) \<Rightarrow> (string \<Rightarrow> 'a \<Rightarrow> module_error + 'a)
    \<Rightarrow> string list \<Rightarrow> 'a list \<Rightarrow> module_error + 'a list" where
  "unique_by ident empty_id twice step seen [] = Inr []"
| "unique_by ident empty_id twice step seen (x # xs) =
     (let i = trim_space (ident x) in
      if i = [] then Inl empty_id
      else if i \<in> set seen then Inl (twice i)
      else (case step i x of Inl e \<Rightarrow> Inl e
        | Inr y \<Rightarrow> map_sum id ((#) y) (unique_by ident empty_id twice step (i # seen) xs)))"

definition llm_adapter_step :: "string \<Rightarrow> string \<Rightarrow> string \<Rightarrow> llm_provider \<Rightarrow> module_error + llm_provider" where
  "llm_adapter_step moduleID rootPath i adapter =
     (if trim_space (lp_Backend adapter) = [] then Inl (LLMAdapterBackendEmpty moduleID i)
      else if trim_space (lp_Transport adapter) = LLMTransportHTTP then
        (if trim_space (lp_Endpoint adapter) = [] then Inl (LLMAdapterEndpointEmpty moduleID i) else Inr adapter)
      else if trim_space (lp_Transport adapter) = LLMTransportSTDIO then
        (if lp_Command adapter = [] then Inl (LLMAdapterCommandEmpty moduleID i)
         else Inr (adapter\<lparr>lp_Command := normalizeCommand rootPath (lp_Command adapter)\<rparr>))
      else Inl (LLMAdapterTransport moduleID i))"

definition normalizeLLMAdapters :: "string \<Rightarrow> string \<Rightarrow> llm_provider list \<Rightarrow> module_error + llm_provider list" where
  "normalizeLLMAdapters moduleID rootPath adapters =
     unique_by lp_ID (LLMAdapterIDEmpty moduleID) (LLMAdapterTwice moduleID) (llm_adapter_step moduleID rootPath) [] adapters"

definition mcp_server_step :: "string \<Rightarrow> string \<Rightarrow> string \<Rightarrow> mcp_server \<Rightarrow> module_error + mcp_server" where
  "mcp_server_step moduleID rootPath i server =
     (if trim_space (ms_Transport server) = LLMTransportHTTP then
        (if trim_space (ms_Endpoint server) = [] then Inl (MCPServerEndpointEmpty moduleID i) else Inr server)
      else if trim_space (ms_Transport server) = LLMTransportSTDIO then
        (if ms_Command server = [] then Inl (MCPServerCommandEmpty moduleID i)
         else Inr (server\<lparr>ms_Command := normalizeCommand rootPath (ms_Command server)\<rparr>))
      else Inl (MCPServerTransport moduleID i))"

definition normalizeMCPServers :: "string \<Rightarrow> string \<Rightarrow> mcp_server list \<Rightarrow> module_error + mcp_server list" where
  "normalizeMCPServers moduleID rootPath servers =
     unique_by ms_ID (MCPServerIDEmpty moduleID) (MCPServerTwice moduleID) (mcp_server_step moduleID rootPath) [] servers"

definition lsp_server_step :: "string \<Rightarrow> string \<Rightarrow> string \<Rightarrow> lsp_server \<Rightarrow> module_error + lsp_server" where
  "lsp_server_step moduleID rootPath i server =
     (if ls_Command server = [] then Inl (LSPServerCommandEmpty moduleID i)
      else Inr (server\<lparr>ls_Command := normalizeCommand rootPath (ls_Command server)\<rparr>))"

definition normalizeLSPServers :: "string \<Rightarrow> string \<Rightarrow> lsp_server list \<Rightarrow> module_error + lsp_server list" where
  "normalizeLSPServers moduleID rootPath servers =
     unique_by ls_ID (LSPServerIDEmpty moduleID) (LSPServerTwice moduleID) (lsp_server_step moduleID rootPath) [] servers"

section \<open>Loading\<close>

definition loadModuleManifest :: "string \<Rightarrow> string \<Rightarrow> manifest \<Rightarrow> string \<Rightarrow> module_error + loaded_module" where
  "loadModuleManifest rootPath manifestPath m sha =
     (let moduleID = trim_space (mf_ID m); version = trim_space (mf_Version m) in
      if moduleID = [] then Inl (ManifestIDEmpty manifestPath)
      else if version = [] then Inl (ModuleVersionEmpty moduleID)
      else if mf_Entrypoint m = [] then Inl (ModuleEntrypointEmpty moduleID)
      else (case normalizeLLMAdapters moduleID rootPath (mf_LLMAdapters m) of Inl e \<Rightarrow> Inl e
        | Inr llmAdapters \<Rightarrow> (case normalizeMCPServers moduleID rootPath (mf_MCPServers m) of Inl e \<Rightarrow> Inl e
        | Inr mcpServers \<Rightarrow> (case normalizeLSPServers moduleID rootPath (mf_LSPServers m) of Inl e \<Rightarrow> Inl e
        | Inr lspServers \<Rightarrow>
            Inr \<lparr>md_ID = moduleID, md_DisplayName = trim_space (mf_DisplayName m), md_Version = version,
              md_RootPath = rootPath, md_ManifestSHA256 = sha, md_ManifestPath = manifestPath,
              md_Entrypoint = normalizeCommand rootPath (mf_Entrypoint m), md_LLMAdapters = llmAdapters,
              md_MCPServers = mcpServers, md_LSPServers = lspServers\<rparr>))))"

definition DefaultProjectModulesDir :: "string \<Rightarrow> string" where
  "DefaultProjectModulesDir projectConfigPath =
     (if trim_space projectConfigPath = [] then path_join [''.rillan'', ''modules'']
      else path_join [path_dir projectConfigPath, ''modules''])"

definition ProjectRootFromConfigPath :: "string \<Rightarrow> string" where
  "ProjectRootFromConfigPath projectConfigPath =
     (if trim_space projectConfigPath = [] then [] else path_dir (path_dir projectConfigPath))"

text \<open>\<open>seen\<close> maps the identifiers loaded so far to the manifests that declare them.\<close>

fun load_entries :: "module_os \<Rightarrow> string \<Rightarrow> (string \<times> string) list \<Rightarrow> (string \<times> bool) list \<Rightarrow> module_error + loaded_module list" where
  "load_entries os modulesDir seen [] = Inr []"
| "load_entries os modulesDir seen ((name, isDir) # es) =
     (if \<not> isDir then load_entries os modulesDir seen es
      else
        (let manifestPath = path_join [modulesDir, name, manifestFileName] in
         case mo_ReadFile os manifestPath of
           NotThere \<Rightarrow> load_entries os modulesDir seen es
         | ReadFailed \<Rightarrow> Inl (ReadManifestFailed manifestPath)
         | ReadOk data \<Rightarrow>
             (case mo_Yaml os data of None \<Rightarrow> Inl (ParseManifestFailed manifestPath)
              | Some m \<Rightarrow>
                  (case loadModuleManifest (path_dir manifestPath) manifestPath m (mo_SHA256 os data) of Inl e \<Rightarrow> Inl e
                   | Inr loaded \<Rightarrow>
                       (case map_of seen (md_ID loaded) of
                          Some previous \<Rightarrow> Inl (ModuleDeclaredTwice (md_ID loaded) previous manifestPath)
                        | None \<Rightarrow> map_sum id ((#) loaded) (load_entries os modulesDir ((md_ID loaded, manifestPath) # seen) es))))))"

definition LoadProjectCatalog :: "module_os \<Rightarrow> string \<Rightarrow> module_error + module_catalog" where
  "LoadProjectCatalog os projectConfigPath =
     (let modulesDir = DefaultProjectModulesDir projectConfigPath in
      case mo_ReadDir os modulesDir of
        NotThere \<Rightarrow> Inr \<lparr>mc_ModulesDir = modulesDir, mc_Modules = []\<rparr>
      | ReadFailed \<Rightarrow> Inl ReadModulesDirFailed
      | ReadOk entries \<Rightarrow>
          (case load_entries os modulesDir [] entries of Inl e \<Rightarrow> Inl e
           | Inr ms \<Rightarrow> Inr \<lparr>mc_ModulesDir = modulesDir, mc_Modules = sort_on md_ID ms\<rparr>))"

section \<open>Enabled and trusted modules\<close>

text \<open>\<open>byID\<close> is filled in the order of the catalog, so the last module of an identifier wins.\<close>

definition module_by_id :: "loaded_module list \<Rightarrow> string \<Rightarrow> loaded_module option" where
  "module_by_id ms i = map_of (rev (map (\<lambda>m. (md_ID m, m)) ms)) i"

fun select_enabled :: "module_catalog \<Rightarrow> string list \<Rightarrow> string list \<Rightarrow> module_error + loaded_module list" where
  "select_enabled catalog seen [] = Inr []"
| "select_enabled catalog seen (rawID # ids) =
     (let moduleID = trim_space rawID in
      if moduleID = [] \<or> moduleID \<in> set seen then select_enabled catalog seen ids
      else (case module_by_id (mc_Modules catalog) moduleID of
          None \<Rightarrow> Inl (EnabledModuleNotFound moduleID (mc_ModulesDir catalog))
        | Some m \<Rightarrow> map_sum id ((#) m) (select_enabled catalog (moduleID # seen) ids)))"

definition FilterEnabled :: "module_catalog \<Rightarrow> string list \<Rightarrow> module_error + module_catalog" where
  "FilterEnabled catalog enabled =
     (if enabled = [] then Inr (catalog\<lparr>mc_Modules := []\<rparr>)
      else map_sum id (\<lambda>ms. catalog\<lparr>mc_Modules := ms\<rparr>) (select_enabled catalog [] enabled))"

definition canonicalProjectRoot :: "module_os \<Rightarrow> string \<Rightarrow> module_error + string" where
  "canonicalProjectRoot os r =
     (if trim_space r = [] then Inl ProjectRootEmpty
      else (case path_abs (mo_Cwd os) r of None \<Rightarrow> Inl ProjectRootUnresolved
        | Some a \<Rightarrow> (case mo_EvalSymlinks os a of None \<Rightarrow> Inl ProjectRootUnresolved | Some p \<Rightarrow> Inr p)))"

definition trust_matches :: "module_os \<Rightarrow> string \<Rightarrow> loaded_module \<Rightarrow> trusted_module \<Rightarrow> bool" where
  "trust_matches os projectRoot m trust \<longleftrightarrow>
     (case canonicalProjectRoot os (tm_RepoRoot trust) of Inl _ \<Rightarrow> False
      | Inr trustedRoot \<Rightarrow> trustedRoot = projectRoot \<and> trim_space (tm_ModuleID trust) = md_ID m
          \<and> trim_space (tm_ManifestSHA256 trust) = md_ManifestSHA256 m)"

definition findModuleTrust :: "module_os \<Rightarrow> system_config option \<Rightarrow> string \<Rightarrow> loaded_module \<Rightarrow> trusted_module option" where
  "findModuleTrust os system projectRoot m =
     (case system of None \<Rightarrow> None
      | Some s \<Rightarrow> List.find (trust_matches os projectRoot m) (sp_TrustedModules (sc_Policy s)))"

definition moduleUsesStdio :: "loaded_module \<Rightarrow> bool" where
  "moduleUsesStdio m \<longleftrightarrow> list_ex (\<lambda>a. trim_space (lp_Transport a) = LLMTransportSTDIO) (md_LLMAdapters m)"

definition trusted_module_step :: "module_os \<Rightarrow> string \<Rightarrow> system_config option \<Rightarrow> loaded_module \<Rightarrow> module_error + loaded_module" where
  "trusted_module_step os projectRoot system m =
     (case findModuleTrust os system projectRoot m of
        None \<Rightarrow> Inl (ModuleNotTrusted (md_ID m) projectRoot)
      | Some trust \<Rightarrow> if moduleUsesStdio m \<and> \<not> tm_AllowStdio trust then Inl (ModuleNeedsStdioTrust (md_ID m)) else Inr m)"

definition FilterTrusted :: "module_os \<Rightarrow> module_catalog \<Rightarrow> string \<Rightarrow> system_config option \<Rightarrow> module_error + module_catalog" where
  "FilterTrusted os catalog projectConfigPath system =
     (if mc_Modules catalog = [] then Inr catalog
      else (case canonicalProjectRoot os (ProjectRootFromConfigPath projectConfigPath) of Inl e \<Rightarrow> Inl e
        | Inr projectRoot \<Rightarrow>
            map_sum id (\<lambda>ms. catalog\<lparr>mc_Modules := ms\<rparr>)
              (map_res (trusted_module_step os projectRoot system) (mc_Modules catalog))))"

section \<open>What loading guarantees\<close>

lemma unique_by_Inr:
  "unique_by ident e tw step seen xs = Inr ys \<Longrightarrow>
     list_all2 (\<lambda>x y. trim_space (ident x) \<noteq> [] \<and> step (trim_space (ident x)) x = Inr y) xs ys
       \<and> distinct (map (trim_space \<circ> ident) xs) \<and> trim_space ` ident ` set xs \<inter> set seen = {}"
proof (induction xs arbitrary: seen ys)
  case (Cons x xs)
  then obtain y zs where y: "step (trim_space (ident x)) x = Inr y" and ys: "ys = y # zs"
    and rest: "unique_by ident e tw step (trim_space (ident x) # seen) xs = Inr zs"
    and new: "trim_space (ident x) \<noteq> []" "trim_space (ident x) \<notin> set seen"
    by (auto simp: Let_def map_sum_def split: if_splits sum.splits)
  show ?case using Cons.IH [OF rest] y ys new by auto
qed simp

text \<open>The identifiers survive a step that keeps them.\<close>

lemma unique_by_idents:
  assumes "unique_by ident e tw step seen xs = Inr ys" "\<And>i x y. step i x = Inr y \<Longrightarrow> ident y = ident x"
  shows "map ident ys = map ident xs"
proof -
  have "list_all2 (\<lambda>x y. step (trim_space (ident x)) x = Inr y) xs ys"
    using unique_by_Inr [OF assms(1)] by (auto elim: list.rel_mono_strong)
  then show ?thesis using assms(2) by (induction rule: list_all2_induct) auto
qed

lemma unique_by_mem:
  assumes "unique_by ident e tw step seen xs = Inr ys" "y \<in> set ys"
  shows "\<exists>x\<in>set xs. step (trim_space (ident x)) x = Inr y"
  using unique_by_Inr [OF assms(1)] assms(2) by (fastforce simp: list_all2_conv_all_nth in_set_conv_nth)

definition unique_ids :: "string list \<Rightarrow> bool" where
  "unique_ids is \<longleftrightarrow> distinct (map trim_space is)"

lemma unique_by_unique_ids:
  assumes "unique_by ident e tw step seen xs = Inr ys" "\<And>i x y. step i x = Inr y \<Longrightarrow> ident y = ident x"
  shows "unique_ids (map ident ys)"
proof -
  have "map trim_space (map ident ys) = map trim_space (map ident xs)"
    using unique_by_idents [OF assms] by simp
  then show ?thesis using unique_by_Inr [OF assms(1)] by (simp add: unique_ids_def)
qed

lemma llm_adapter_step_keeps: "llm_adapter_step moduleID r i a = Inr b \<Longrightarrow> lp_ID b = lp_ID a"
  by (auto simp: llm_adapter_step_def split: if_splits)

lemma mcp_server_step_keeps: "mcp_server_step moduleID r i a = Inr b \<Longrightarrow> ms_ID b = ms_ID a"
  by (auto simp: mcp_server_step_def split: if_splits)

lemma lsp_server_step_keeps: "lsp_server_step moduleID r i a = Inr b \<Longrightarrow> ls_ID b = ls_ID a"
  by (auto simp: lsp_server_step_def split: if_splits)

lemma normalizeCommand_Nil: "normalizeCommand r c = [] \<longleftrightarrow> c = []"
  by (auto simp: normalizeCommand_def Let_def split: list.splits)

text \<open>A normalised adapter has a known transport and what that transport needs.\<close>

definition adapter_complete :: "llm_provider \<Rightarrow> bool" where
  "adapter_complete a \<longleftrightarrow> trim_space (lp_Backend a) \<noteq> [] \<and>
     (trim_space (lp_Transport a) = LLMTransportHTTP \<and> trim_space (lp_Endpoint a) \<noteq> []
      \<or> trim_space (lp_Transport a) = LLMTransportSTDIO \<and> lp_Command a \<noteq> [])"

lemma llm_adapter_step_complete: "llm_adapter_step moduleID r i a = Inr b \<Longrightarrow> adapter_complete b"
  by (auto simp: llm_adapter_step_def adapter_complete_def normalizeCommand_Nil split: if_splits)

definition module_ok :: "loaded_module \<Rightarrow> bool" where
  "module_ok m \<longleftrightarrow> md_ID m \<noteq> [] \<and> md_Version m \<noteq> [] \<and> md_Entrypoint m \<noteq> []
     \<and> unique_ids (map lp_ID (md_LLMAdapters m)) \<and> unique_ids (map ms_ID (md_MCPServers m))
     \<and> unique_ids (map ls_ID (md_LSPServers m)) \<and> list_all adapter_complete (md_LLMAdapters m)"

lemma loadModuleManifest_ok:
  assumes "loadModuleManifest r p mf sha = Inr m"
  shows "module_ok m" "md_ManifestPath m = p" "md_RootPath m = r" "md_ManifestSHA256 m = sha"
    "md_ID m = trim_space (mf_ID mf)"
proof -
  obtain as ms ls where as: "normalizeLLMAdapters (trim_space (mf_ID mf)) r (mf_LLMAdapters mf) = Inr as"
    and ms: "normalizeMCPServers (trim_space (mf_ID mf)) r (mf_MCPServers mf) = Inr ms"
    and ls: "normalizeLSPServers (trim_space (mf_ID mf)) r (mf_LSPServers mf) = Inr ls"
    and ne: "trim_space (mf_ID mf) \<noteq> []" "trim_space (mf_Version mf) \<noteq> []" "mf_Entrypoint mf \<noteq> []"
    and m: "m = \<lparr>md_ID = trim_space (mf_ID mf), md_DisplayName = trim_space (mf_DisplayName mf),
      md_Version = trim_space (mf_Version mf), md_RootPath = r, md_ManifestSHA256 = sha, md_ManifestPath = p,
      md_Entrypoint = normalizeCommand r (mf_Entrypoint mf), md_LLMAdapters = as, md_MCPServers = ms, md_LSPServers = ls\<rparr>"
    using assms by (auto simp: loadModuleManifest_def Let_def split: if_splits sum.splits)
  have "unique_ids (map lp_ID as)"
    using unique_by_unique_ids [OF as [unfolded normalizeLLMAdapters_def] llm_adapter_step_keeps] .
  moreover have "unique_ids (map ms_ID ms)"
    using unique_by_unique_ids [OF ms [unfolded normalizeMCPServers_def] mcp_server_step_keeps] .
  moreover have "unique_ids (map ls_ID ls)"
    using unique_by_unique_ids [OF ls [unfolded normalizeLSPServers_def] lsp_server_step_keeps] .
  moreover have "list_all adapter_complete as"
    using unique_by_mem [OF as [unfolded normalizeLLMAdapters_def]] llm_adapter_step_complete
    by (fastforce simp: list_all_iff)
  ultimately show "module_ok m" using ne m by (simp add: module_ok_def normalizeCommand_Nil)
  show "md_ManifestPath m = p" "md_RootPath m = r" "md_ManifestSHA256 m = sha" "md_ID m = trim_space (mf_ID mf)"
    using m by simp_all
qed

text \<open>The manifest a module comes from: a file of the modules directory with the hash the module records.\<close>

definition from_manifest :: "module_os \<Rightarrow> string \<Rightarrow> (string \<times> bool) list \<Rightarrow> loaded_module \<Rightarrow> bool" where
  "from_manifest os modulesDir entries m \<longleftrightarrow>
     (\<exists>name data mf. (name, True) \<in> set entries \<and> md_ManifestPath m = path_join [modulesDir, name, manifestFileName]
       \<and> mo_ReadFile os (md_ManifestPath m) = ReadOk data \<and> mo_Yaml os data = Some mf
       \<and> md_ManifestSHA256 m = mo_SHA256 os data \<and> md_ID m = trim_space (mf_ID mf))"

lemma load_entries_ok:
  "load_entries os d seen es = Inr ms \<Longrightarrow>
     distinct (map md_ID ms) \<and> md_ID ` set ms \<inter> fst ` set seen = {} \<and> (\<forall>m\<in>set ms. module_ok m \<and> from_manifest os d es m)"
proof (induction os d seen es arbitrary: ms rule: load_entries.induct)
  case (2 os d seen name isDir es)
  let ?p = "path_join [d, name, manifestFileName]"
  have weaken: "from_manifest os d es m \<Longrightarrow> from_manifest os d ((name, isDir) # es) m" for m
    by (auto simp: from_manifest_def)
  show ?case
  proof (cases "isDir \<and> mo_ReadFile os ?p \<noteq> NotThere")
    case False
    then have "load_entries os d seen es = Inr ms" using "2.prems" by (auto simp: Let_def split: if_splits)
    then have "distinct (map md_ID ms) \<and> md_ID ` set ms \<inter> fst ` set seen = {}
        \<and> (\<forall>m\<in>set ms. module_ok m \<and> from_manifest os d es m)"
      using "2.IH"(1) "2.IH"(2) [OF _ refl] False by (cases isDir) simp_all
    then show ?thesis using weaken by simp
  next
    case True
    then obtain data where data: "mo_ReadFile os ?p = ReadOk data"
      using "2.prems" by (cases "mo_ReadFile os ?p") (auto simp: Let_def)
    note step = "2.prems" True data
    from step obtain mf where mf: "mo_Yaml os data = Some mf" by (cases "mo_Yaml os data") simp_all
    from step mf obtain l where l: "loadModuleManifest (path_dir ?p) ?p mf (mo_SHA256 os data) = Inr l"
      by (cases "loadModuleManifest (path_dir ?p) ?p mf (mo_SHA256 os data)") simp_all
    from step mf l have new: "map_of seen (md_ID l) = None" by (cases "map_of seen (md_ID l)") simp_all
    from step mf l new obtain ns where rest: "load_entries os d ((md_ID l, ?p) # seen) es = Inr ns" and ms: "ms = l # ns"
      by (cases "load_entries os d ((md_ID l, ?p) # seen) es") simp_all
    have "from_manifest os d ((name, isDir) # es) l"
      using True data mf loadModuleManifest_ok [OF l] by (auto simp: from_manifest_def)
    moreover have "distinct (map md_ID ns) \<and> md_ID ` set ns \<inter> fst ` set ((md_ID l, ?p) # seen) = {}
        \<and> (\<forall>m\<in>set ns. module_ok m \<and> from_manifest os d es m)"
      using "2.IH"(3) [OF _ refl data mf l new rest] True by simp
    ultimately show ?thesis
      using ms new loadModuleManifest_ok(1) [OF l] weaken by (auto simp: map_of_eq_None_iff)
  qed
qed simp

lemma LoadProjectCatalog_modules:
  assumes "LoadProjectCatalog os path = Inr c" "m \<in> set (mc_Modules c)"
  obtains es ms where "mo_ReadDir os (mc_ModulesDir c) = ReadOk es"
    "load_entries os (mc_ModulesDir c) [] es = Inr ms" "mc_Modules c = sort_on md_ID ms"
  using assms by (auto simp: LoadProjectCatalog_def Let_def split: read_outcome.splits sum.splits)

text \<open>C22: A catalog that loads holds modules in the strict order of their identifiers, each complete (version,
  entrypoint, pairwise different adapters and servers, adapters with what their transport needs), each from
  the manifest of a directory below the modules directory and recorded with the hash of that file's content.\<close>
theorem loaded_catalog_is_wellformed:
  assumes "LoadProjectCatalog os path = Inr c"
  shows "sorted (map md_ID (mc_Modules c)) \<and> distinct (map md_ID (mc_Modules c)) \<and>
    (\<forall>m\<in>set (mc_Modules c). module_ok m \<and>
      (\<exists>entries. mo_ReadDir os (DefaultProjectModulesDir path) = ReadOk entries
        \<and> from_manifest os (DefaultProjectModulesDir path) entries m))"
proof -
  have dir: "mc_ModulesDir c = DefaultProjectModulesDir path"
    using assms by (auto simp: LoadProjectCatalog_def Let_def split: read_outcome.splits sum.splits)
  show ?thesis
  proof (cases "mc_Modules c = []")
    case False
    then obtain m where "m \<in> set (mc_Modules c)" by (cases "mc_Modules c") auto
    then obtain es ms where es: "mo_ReadDir os (DefaultProjectModulesDir path) = ReadOk es"
        "load_entries os (DefaultProjectModulesDir path) [] es = Inr ms" "mc_Modules c = sort_on md_ID ms"
      using LoadProjectCatalog_modules [OF assms] dir by metis
    have "mset (map md_ID (sort_on md_ID ms)) = mset (map md_ID ms)" by simp
    then have "distinct (map md_ID (sort_on md_ID ms)) = distinct (map md_ID ms)" by (rule mset_eq_imp_distinct_iff)
    then show ?thesis using load_entries_ok [OF es(2)] es by (auto simp: sorted_sort_on)
  qed simp
qed

section \<open>What the filters guarantee\<close>

lemma module_by_id_Some: "module_by_id ms i = Some m \<Longrightarrow> m \<in> set ms \<and> md_ID m = i"
  by (auto simp: module_by_id_def dest!: map_of_SomeD)

lemma select_enabled_Inr:
  "select_enabled c seen ids = Inr ms \<Longrightarrow>
     map md_ID ms = dedup_from seen (map trim_space ids) \<and> set ms \<subseteq> set (mc_Modules c)"
proof (induction ids arbitrary: seen ms)
  case (Cons a ids)
  show ?case
  proof (cases "trim_space a = [] \<or> trim_space a \<in> set seen")
    case True
    then show ?thesis using Cons.IH Cons.prems by (simp add: Let_def)
  next
    case False
    then obtain m ns where m: "module_by_id (mc_Modules c) (trim_space a) = Some m" and ms: "ms = m # ns"
        and rest: "select_enabled c (trim_space a # seen) ids = Inr ns"
      using Cons.prems by (auto simp: Let_def map_sum_def split: option.splits sum.splits)
    show ?thesis using Cons.IH [OF rest] module_by_id_Some [OF m] False ms by simp
  qed
qed simp

lemma FilterEnabled_Inr:
  assumes "FilterEnabled c enabled = Inr c'"
  shows "map md_ID (mc_Modules c') = dedup_from [] (map trim_space enabled)" "set (mc_Modules c') \<subseteq> set (mc_Modules c)"
proof -
  have "map md_ID (mc_Modules c') = dedup_from [] (map trim_space enabled) \<and> set (mc_Modules c') \<subseteq> set (mc_Modules c)"
  proof (cases "enabled = []")
    case True
    then show ?thesis using assms by (auto simp: FilterEnabled_def)
  next
    case False
    then obtain ms where ms: "select_enabled c [] enabled = Inr ms" "c' = c\<lparr>mc_Modules := ms\<rparr>"
      using assms by (auto simp: FilterEnabled_def map_sum_def split: sum.splits)
    show ?thesis using select_enabled_Inr [OF ms(1)] ms(2) by simp
  qed
  then show "map md_ID (mc_Modules c') = dedup_from [] (map trim_space enabled)" "set (mc_Modules c') \<subseteq> set (mc_Modules c)"
    by simp_all
qed

definition pinned_by :: "module_os \<Rightarrow> string \<Rightarrow> loaded_module \<Rightarrow> trusted_module \<Rightarrow> bool" where
  "pinned_by os projectConfigPath m t \<longleftrightarrow>
     (\<exists>r. canonicalProjectRoot os (ProjectRootFromConfigPath projectConfigPath) = Inr r
       \<and> canonicalProjectRoot os (tm_RepoRoot t) = Inr r)
     \<and> trim_space (tm_ModuleID t) = md_ID m \<and> trim_space (tm_ManifestSHA256 t) = md_ManifestSHA256 m"

definition trusted_by :: "module_os \<Rightarrow> string \<Rightarrow> system_config option \<Rightarrow> loaded_module \<Rightarrow> bool" where
  "trusted_by os projectConfigPath system m \<longleftrightarrow>
     (\<exists>s t. system = Some s \<and> t \<in> set (sp_TrustedModules (sc_Policy s)) \<and> pinned_by os projectConfigPath m t
       \<and> (moduleUsesStdio m \<longrightarrow> tm_AllowStdio t))"

lemma trusted_module_step_Inr:
  assumes "trusted_module_step os r system m = Inr m'" "canonicalProjectRoot os (ProjectRootFromConfigPath path) = Inr r"
  shows "m' = m \<and> trusted_by os path system m"
proof -
  obtain t where found: "findModuleTrust os system r m = Some t"
    using assms(1) by (cases "findModuleTrust os system r m") (simp_all add: trusted_module_step_def)
  then obtain s where s: "system = Some s" by (cases system) (simp_all add: findModuleTrust_def)
  have m: "m' = m" "moduleUsesStdio m \<longrightarrow> tm_AllowStdio t"
    using assms(1) found by (simp_all add: trusted_module_step_def split: if_splits)
  have "List.find (trust_matches os r m) (sp_TrustedModules (sc_Policy s)) = Some t"
    using found s by (simp add: findModuleTrust_def)
  then have t: "t \<in> set (sp_TrustedModules (sc_Policy s))" "trust_matches os r m t"
    unfolding find_Some_iff by auto
  obtain r' where r': "canonicalProjectRoot os (tm_RepoRoot t) = Inr r'"
    using t(2) by (cases "canonicalProjectRoot os (tm_RepoRoot t)") (simp_all add: trust_matches_def)
  have "pinned_by os path m t" using t(2) r' assms(2) by (simp add: pinned_by_def trust_matches_def)
  then show ?thesis using s m t(1) by (auto simp: trusted_by_def)
qed

lemma FilterTrusted_Inr:
  assumes "FilterTrusted os c path system = Inr c'"
  shows "mc_Modules c' = mc_Modules c" "\<And>m. m \<in> set (mc_Modules c) \<Longrightarrow> trusted_by os path system m"
proof -
  have *: "list_all2 (\<lambda>x y. y = x \<and> trusted_by os path system x) (mc_Modules c) (mc_Modules c')"
  proof (cases "mc_Modules c = []")
    case True
    then show ?thesis using assms by (simp add: FilterTrusted_def)
  next
    case False
    then obtain r ms where r: "canonicalProjectRoot os (ProjectRootFromConfigPath path) = Inr r"
        and ms: "map_res (trusted_module_step os r system) (mc_Modules c) = Inr ms" "mc_Modules c' = ms"
      using assms by (auto simp: FilterTrusted_def map_sum_def split: sum.splits)
    show ?thesis
      unfolding ms(2) by (rule list.rel_mono_strong [OF map_res_Inr_all2 [OF ms(1)]]) (rule trusted_module_step_Inr [OF _ r])
  qed
  have "list_all2 (\<lambda>x y. x = y) (mc_Modules c) (mc_Modules c')" by (rule list.rel_mono_strong [OF *]) simp
  then show "mc_Modules c' = mc_Modules c" by (simp add: list.rel_eq)
  then show "m \<in> set (mc_Modules c) \<Longrightarrow> trusted_by os path system m" for m
    using * by (auto simp: list_all2_conv_all_nth in_set_conv_nth)
qed

text \<open>C21: After the two filters the catalog holds the enabled modules, once each and in the order the project
  names them, all of them from the catalog on disk, and for each the system policy has a trust record of the same
  repository with the module's identifier and the hash of the manifest that was read; a module with a
  stdio adapter has that record's explicit permission.\<close>
theorem admitted_modules_are_pinned:
  assumes "FilterEnabled c enabled = Inr c1" "FilterTrusted os c1 path system = Inr c2"
  shows "map md_ID (mc_Modules c2) = dedup_from [] (map trim_space enabled) \<and>
    (\<forall>m\<in>set (mc_Modules c2). m \<in> set (mc_Modules c) \<and> trusted_by os path system m)"
  using FilterEnabled_Inr [OF assms(1)] FilterTrusted_Inr [OF assms(2)] by auto

section \<open>A module with stdio servers\<close>

definition sample_mcp :: mcp_server where
  "sample_mcp = \<lparr>ms_ID = ''files'', ms_Endpoint = [], ms_Transport = ''stdio'', ms_Command = [''bin/files''],
     ms_AuthStrategy = [], ms_ReadOnly = False, ms_CredentialRef = []\<rparr>"

definition sample_manifest :: manifest where
  "sample_manifest = \<lparr>mf_ID = ''demo'', mf_DisplayName = ''Demo'', mf_Version = ''1'', mf_Entrypoint = [''run''],
     mf_LLMAdapters = [], mf_MCPServers = [sample_mcp], mf_LSPServers = []\<rparr>"

definition sample_module_os :: module_os where
  "sample_module_os = \<lparr>mo_Cwd = Some ''/'', mo_EvalSymlinks = Some,
     mo_ReadDir = (\<lambda>d. if d = ''/r/.rillan/modules'' then ReadOk [(''demo'', True), (''notes'', False)] else NotThere),
     mo_ReadFile = (\<lambda>p. if p = ''/r/.rillan/modules/demo/module.yaml'' then ReadOk ''m'' else NotThere),
     mo_Yaml = (\<lambda>d. if d = ''m'' then Some sample_manifest else None), mo_SHA256 = (\<lambda>d. ''h'')\<rparr>"

definition sample_trust :: "bool \<Rightarrow> system_config" where
  "sample_trust stdio = \<lparr>sc_Version = [], sc_Encryption = sc_Encryption DefaultSystemConfig, sc_EncryptedPayload = [],
     sc_Policy = \<lparr>sp_Identity = sp_Identity (sc_Policy DefaultSystemConfig), sp_Rules = sp_Rules (sc_Policy DefaultSystemConfig), sp_TrustedModules =
       [\<lparr>tm_RepoRoot = ''/r'', tm_ModuleID = ''demo'', tm_ManifestSHA256 = ''h'', tm_AllowStdio = stdio\<rparr>]\<rparr>\<rparr>"

definition sample_path :: string where "sample_path = ''/r/.rillan/project.yaml''"

definition sample_module :: loaded_module where
  "sample_module = \<lparr>md_ID = ''demo'', md_DisplayName = ''Demo'', md_Version = ''1'',
     md_RootPath = ''/r/.rillan/modules/demo'', md_ManifestSHA256 = ''h'',
     md_ManifestPath = ''/r/.rillan/modules/demo/module.yaml'', md_Entrypoint = [''run''], md_LLMAdapters = [],
     md_MCPServers = [sample_mcp\<lparr>ms_Command := [''/r/.rillan/modules/demo/bin/files'']\<rparr>], md_LSPServers = []\<rparr>"

definition sample_catalog :: module_catalog where
  "sample_catalog = \<lparr>mc_ModulesDir = ''/r/.rillan/modules'', mc_Modules = [sample_module]\<rparr>"

lemma sample_loads: "LoadProjectCatalog sample_module_os sample_path = Inr sample_catalog"
  by code_simp

lemma sample_enabled: "FilterEnabled sample_catalog ['' demo '', [], ''demo''] = Inr sample_catalog"
  by code_simp

lemma sample_trusted: "FilterTrusted sample_module_os sample_catalog sample_path (Some (sample_trust False)) = Inr sample_catalog"
  by code_simp

theorem loaded_catalog_is_wellformed_witness:
  "module_ok sample_module"
  using loaded_catalog_is_wellformed [OF sample_loads] by (simp add: sample_catalog_def)

theorem admitted_modules_are_pinned_witness:
  "trusted_by sample_module_os sample_path (Some (sample_trust False)) sample_module"
  using admitted_modules_are_pinned [OF sample_enabled sample_trusted] by (simp add: sample_catalog_def)

text \<open>The test for stdio looks at the model adapters only: a module that starts a local MCP server passes
  with a trust record that does not allow stdio.\<close>
lemma mcp_stdio_needs_no_permission:
  "\<exists>m\<in>set (mc_Modules sample_catalog). (\<exists>s\<in>set (md_MCPServers m). ms_Transport s = LLMTransportSTDIO)
     \<and> FilterTrusted sample_module_os sample_catalog sample_path (Some (sample_trust False)) = Inr sample_catalog"
  using sample_trusted by (simp add: sample_catalog_def sample_module_def sample_mcp_def)

end
