(* ===== verification/App_Runtime.thy ===== *)
theory App_Runtime
  imports Chat_Handler Module_Catalog Config_Load
begin

text \<open>
  \<open>internal/app\<close>: the runtime snapshot a daemon serves from, built from the loaded configuration or from
  disk, and the manager that replaces it. The environment gathers what the builders of the other theories
  take: files, keyring, upstreams, the retrieval store, the float operations. The classifier and the query rewriter
  call the local model under the request identifier \<open>be_RequestID\<close>; the code takes it from the context of
  each request. The lemmas follow the provider entries of a snapshot back to the configuration or to a
  trusted module.
\<close>

record readiness_info =
  rdi_RetrievalMode :: string
  rdi_SystemConfigLoaded :: bool
  rdi_AuditLedgerPath :: string
  rdi_LocalModelRequired :: bool
  rdi_ModulesDiscovered :: nat
  rdi_ModulesEnabled :: nat

record runtime_snapshot =
  rsn_Runtime :: chat_runtime
  rsn_Config :: config
  rsn_Modules :: module_catalog
  rsn_Readiness :: readiness_info
  rsn_OllamaChecker :: "(string \<Rightarrow> provider_error option) option"

record build_env =
  be_Loader :: loader
  be_StatOk :: "string \<Rightarrow> bool"
  be_Modules :: module_os
  be_Keyring :: keyring
  be_Upstream :: upstream
  be_RequestID :: string
  be_Store :: "database option"
  be_Fault :: faults
  be_Ratio :: "32 word list \<Rightarrow> 32 word list \<Rightarrow> rat"
  be_FtsMatch :: "string \<Rightarrow> fts_row list \<Rightarrow> fts_row list"
  be_WordRune :: "string \<Rightarrow> bool"
  be_ToFloat32 :: "string \<Rightarrow> 32 word option"
  be_Digest :: "string \<Rightarrow> 8 word list"
  be_Thousandth :: "32 word \<Rightarrow> 32 word"

datatype app_error =
    AppModules module_error | AdapterCollision string string | AppProviders config_error | AppHost host_error
  | AppLoad load_error

section \<open>The adapters of the modules\<close>

fun add_adapters :: "(string \<times> string) list \<Rightarrow> (string \<times> llm_provider) list \<Rightarrow> app_error + llm_provider list" where
  "add_adapters seen [] = Inr []"
| "add_adapters seen ((moduleID, adapter) # as) =
     (let adapterID = trim_space (lp_ID adapter) in
      if adapterID = [] then add_adapters seen as
      else (case map_of seen adapterID of Some source \<Rightarrow> Inl (AdapterCollision adapterID source)
        | None \<Rightarrow> map_sum id ((#) adapter) (add_adapters ((adapterID, ''module '' @ moduleID) # seen) as)))"

definition module_adapters :: "module_catalog \<Rightarrow> (string \<times> llm_provider) list" where
  "module_adapters c = concat (map (\<lambda>m. map (Pair (md_ID m)) (md_LLMAdapters m)) (mc_Modules c))"

definition augmentRuntimeConfigWithModuleLLMAdapters :: "config \<Rightarrow> module_catalog \<Rightarrow> app_error + config" where
  "augmentRuntimeConfigWithModuleLLMAdapters cfg c =
     (if cfg_SchemaVersion cfg < SchemaVersionV2 \<or> mc_Modules c = [] then Inr cfg
      else (case add_adapters (map (\<lambda>i. (i, ''runtime config'')) (filter (\<lambda>i. i \<noteq> []) (map (\<lambda>p. trim_space (lp_ID p)) (llm_providers cfg))))
               (module_adapters c) of Inl e \<Rightarrow> Inl e
        | Inr added \<Rightarrow>
            (let ps = llm_providers cfg @ added in
             Inr (cfg\<lparr>cfg_LLMs := (cfg_LLMs cfg)\<lparr>lr_Providers := (if ps = [] then None else Some ps)\<rparr>\<rparr>))))"

section \<open>Building a snapshot\<close>

definition local_model_generate :: "build_env \<Rightarrow> string \<Rightarrow> string \<Rightarrow> string \<Rightarrow> string option" where
  "local_model_generate env base model prompt =
     (case ollama_generate (be_Upstream env) base (be_RequestID env) model prompt of Inl e \<Rightarrow> None | Inr s \<Rightarrow> Some s)"

definition snapshot_classifier :: "build_env \<Rightarrow> local_model \<Rightarrow> (chat_request \<Rightarrow> intent option) option" where
  "snapshot_classifier env lm =
     (if lmc_Enabled lm then Some (SafeClassify (Some (OllamaClassify
          (local_model_generate env (trim_slashes (lmc_BaseURL lm))) (qr_Model (lmc_QueryRewrite lm)))))
      else None)"

definition snapshot_embedder :: "build_env \<Rightarrow> local_model \<Rightarrow> query_embedder" where
  "snapshot_embedder env lm =
     (let placeholder = PlaceholderEmbedder (be_Digest env) (be_Thousandth env) in
      if lmc_Enabled lm
      then FallbackEmbedder
        (Some (OllamaEmbedder (be_Upstream env) (be_ToFloat32 env) (trim_slashes (lmc_BaseURL lm)) (be_RequestID env) (lmc_EmbedModel lm)))
        (Some placeholder)
      else placeholder)"

definition snapshot_pipeline :: "build_env \<Rightarrow> config \<Rightarrow> pipeline" where
  "snapshot_pipeline env cfg =
     (let lm = cfg_LocalModel cfg; base = trim_slashes (lmc_BaseURL lm) in
      \<lparr>pl_Defaults = cfg_Retrieval cfg,
       pl_Embed = snapshot_embedder env lm,
       pl_Rewrite = (if lmc_Enabled lm \<and> qr_Enabled (lmc_QueryRewrite lm)
         then Some (OllamaRewrite (be_Upstream env) base (be_RequestID env) (qr_Model (lmc_QueryRewrite lm))) else None),
       pl_Store = be_Store env, pl_Fault = be_Fault env, pl_Ratio = be_Ratio env, pl_FtsMatch = be_FtsMatch env,
       pl_WordRune = be_WordRune env\<rparr>)"

definition snapshot_readiness :: "config \<Rightarrow> bool \<Rightarrow> string \<Rightarrow> module_catalog \<Rightarrow> module_catalog \<Rightarrow> readiness_info" where
  "snapshot_readiness cfg systemLoaded ledgerPath discovered enabled =
     \<lparr>rdi_RetrievalMode = (if rc_Enabled (cfg_Retrieval cfg) then ''targeted_remote'' else ''disabled''),
      rdi_SystemConfigLoaded = systemLoaded, rdi_AuditLedgerPath = ledgerPath,
      rdi_LocalModelRequired = lmc_Enabled (cfg_LocalModel cfg),
      rdi_ModulesDiscovered = length (mc_Modules discovered), rdi_ModulesEnabled = length (mc_Modules enabled)\<rparr>"

text \<open>The modules a project may use: discovered, enabled, trusted.\<close>

definition project_modules ::
    "module_os \<Rightarrow> project_config \<Rightarrow> system_config option \<Rightarrow> string \<Rightarrow> app_error + module_catalog \<times> module_catalog" where
  "project_modules os project system projectConfigPath =
     (case LoadProjectCatalog os projectConfigPath of Inl e \<Rightarrow> Inl (AppModules e)
      | Inr discovered \<Rightarrow> (case FilterEnabled discovered (pc_ModulesEnabled project) of Inl e \<Rightarrow> Inl (AppModules e)
      | Inr enabled \<Rightarrow> (case FilterTrusted os enabled projectConfigPath system of Inl e \<Rightarrow> Inl (AppModules e)
      | Inr trusted \<Rightarrow> Inr (discovered, trusted))))"

definition runtime_host :: "build_env \<Rightarrow> config \<Rightarrow> project_config \<Rightarrow> app_error + host \<times> provider" where
  "runtime_host env cfg project =
     (case ResolveRuntimeProviderHostConfig (be_Keyring env) cfg project of Inl e \<Rightarrow> Inl (AppProviders e)
      | Inr hostCfg \<Rightarrow> (case NewHost hostCfg of Inl e \<Rightarrow> Inl (AppHost e)
      | Inr h \<Rightarrow> (case host_DefaultProvider h of Inl e \<Rightarrow> Inl (AppHost e) | Inr p \<Rightarrow> Inr (h, p))))"

definition buildRuntimeSnapshot ::
    "build_env \<Rightarrow> config \<Rightarrow> project_config \<Rightarrow> system_config option \<Rightarrow> string \<Rightarrow> string \<Rightarrow> app_error + runtime_snapshot" where
  "buildRuntimeSnapshot env cfg project system auditLedgerPath projectConfigPath =
     (case project_modules (be_Modules env) project system projectConfigPath of Inl e \<Rightarrow> Inl e
      | Inr (discovered, mods) \<Rightarrow> (case augmentRuntimeConfigWithModuleLLMAdapters cfg mods of Inl e \<Rightarrow> Inl e
      | Inr runtimeConfig \<Rightarrow> (case runtime_host env runtimeConfig project of Inl e \<Rightarrow> Inl e
      | Inr (h, p) \<Rightarrow>
          (let routeCatalog = BuildCatalog runtimeConfig project in
           Inr \<lparr>rsn_Runtime =
                 \<lparr>crt_Provider = p, crt_Host = Some h, crt_Pipeline = Some (snapshot_pipeline env cfg),
                  crt_Project = project, crt_System = system, crt_Classifier = snapshot_classifier env (cfg_LocalModel cfg),
                  crt_Catalog = routeCatalog,
                  crt_Status = BuildStatusCatalog (be_Upstream env) (be_RequestID env) (be_Keyring env) runtimeConfig routeCatalog\<rparr>,
                rsn_Config = runtimeConfig, rsn_Modules = mods,
                rsn_Readiness = snapshot_readiness cfg (system \<noteq> None) auditLedgerPath discovered mods,
                rsn_OllamaChecker = (if lmc_Enabled (cfg_LocalModel cfg)
                  then Some (\<lambda>rid. http_status_ok ''ollama'' (up_Do (be_Upstream env)
                      (ollama_ping_request (trim_slashes (lmc_BaseURL (cfg_LocalModel cfg))) rid)))
                  else None)\<rparr>))))"

record runtime_state =
  rst_snapshot :: runtime_snapshot
  rst_projectConfigPath :: string
  rst_systemConfigPath :: string

record snapshot_builder =
  sb_configPath :: string
  sb_systemConfigPath :: string
  sb_auditLedgerPath :: string

definition buildFromLoaded ::
    "build_env \<Rightarrow> snapshot_builder \<Rightarrow> config \<Rightarrow> project_config \<Rightarrow> system_config option \<Rightarrow> string \<Rightarrow> app_error + runtime_state" where
  "buildFromLoaded env b cfg project system projectConfigPath =
     map_sum id (\<lambda>s. \<lparr>rst_snapshot = s, rst_projectConfigPath = projectConfigPath, rst_systemConfigPath = sb_systemConfigPath b\<rparr>)
       (buildRuntimeSnapshot env cfg project system (sb_auditLedgerPath b) projectConfigPath)"

definition missing_file :: "loader \<Rightarrow> string \<Rightarrow> bool" where
  "missing_file ld path \<longleftrightarrow> (case ld_ReadFile ld path of Inl FileNotExist \<Rightarrow> True | _ \<Rightarrow> False)"

definition buildFromDisk :: "build_env \<Rightarrow> snapshot_builder \<Rightarrow> app_error + runtime_state" where
  "buildFromDisk env b =
     (let ld = be_Loader env in
      case Load_config ld (sb_configPath b) of Inl e \<Rightarrow> Inl (AppLoad e)
      | Inr cfg \<Rightarrow>
          (let projectConfigPath = ResolveProjectConfigPath (be_StatOk env) (ld_Cwd ld) (ix_Root (cfg_Index cfg)) in
           case (if missing_file ld projectConfigPath then Inr DefaultProjectConfig else LoadProject ld projectConfigPath) of
             Inl e \<Rightarrow> Inl (AppLoad e)
           | Inr project \<Rightarrow>
               (case (if missing_file ld (sb_systemConfigPath b) then Inr None
                      else map_sum id Some (LoadSystem ld (sb_systemConfigPath b))) of
                  Inl e \<Rightarrow> Inl (AppLoad e)
                | Inr system \<Rightarrow> buildFromLoaded env b cfg project system projectConfigPath)))"

section \<open>The manager\<close>

text \<open>\<open>Refresh\<close> holds a mutex and readers load one pointer, so each refresh is one step on the current state.\<close>

definition Refresh :: "app_error + runtime_state \<Rightarrow> runtime_state option \<Rightarrow> app_error option \<times> runtime_state option" where
  "Refresh built current = (case built of Inl e \<Rightarrow> (Some e, current) | Inr next_state \<Rightarrow> (None, Some next_state))"

section \<open>Where the providers of a snapshot come from\<close>

lemma add_adapters_Inr:
  "add_adapters seen as = Inr ps \<Longrightarrow> (\<forall>p\<in>set ps. \<exists>m. (m, p) \<in> set as) \<and>
     distinct (map (\<lambda>p. trim_space (lp_ID p)) ps) \<and> fst ` set seen \<inter> (\<lambda>p. trim_space (lp_ID p)) ` set ps = {}"
proof (induction as arbitrary: seen ps)
  case (Cons a as)
  obtain m p where a: "a = (m, p)" by fastforce
  show ?case
  proof (cases "trim_space (lp_ID p) = []")
    case True
    then show ?thesis using Cons.IH [of seen ps] Cons.prems a by auto
  next
    case False
    then have new: "map_of seen (trim_space (lp_ID p)) = None"
      using Cons.prems a by (cases "map_of seen (trim_space (lp_ID p))") (simp_all add: Let_def)
    then obtain qs where qs: "add_adapters ((trim_space (lp_ID p), ''module '' @ m) # seen) as = Inr qs" "ps = p # qs"
      using Cons.prems a False by (auto simp: Let_def map_sum_def split: sum.splits)
    show ?thesis using Cons.IH [OF qs(1)] qs(2) a new by (auto simp: map_of_eq_None_iff)
  qed
qed simp

lemma module_adapters_mem: "(i, a) \<in> set (module_adapters c) \<Longrightarrow> \<exists>m\<in>set (mc_Modules c). md_ID m = i \<and> a \<in> set (md_LLMAdapters m)"
  by (auto simp: module_adapters_def)

lemma augment_Inr:
  assumes "augmentRuntimeConfigWithModuleLLMAdapters cfg c = Inr cfg'"
  shows "\<exists>added. llm_providers cfg' = llm_providers cfg @ added \<and>
    (\<forall>a\<in>set added. trim_space (lp_ID a) \<notin> (\<lambda>p. trim_space (lp_ID p)) ` set (llm_providers cfg) \<or> trim_space (lp_ID a) = []) \<and>
    distinct (map (\<lambda>p. trim_space (lp_ID p)) added) \<and>
    (\<forall>a\<in>set added. \<exists>m\<in>set (mc_Modules c). a \<in> set (md_LLMAdapters m))"
proof (cases "cfg_SchemaVersion cfg < SchemaVersionV2 \<or> mc_Modules c = []")
  case True
  then have "cfg' = cfg" using assms by (auto simp: augmentRuntimeConfigWithModuleLLMAdapters_def)
  then show ?thesis by (intro exI [of _ "[]"]) simp
next
  case False
  let ?seen = "map (\<lambda>i. (i, ''runtime config'')) (filter (\<lambda>i. i \<noteq> []) (map (\<lambda>p. trim_space (lp_ID p)) (llm_providers cfg)))"
  obtain added where a: "add_adapters ?seen (module_adapters c) = Inr added"
    using assms False by (cases "add_adapters ?seen (module_adapters c)") (simp_all add: augmentRuntimeConfigWithModuleLLMAdapters_def)
  then have cfg': "cfg' = cfg\<lparr>cfg_LLMs := (cfg_LLMs cfg)\<lparr>lr_Providers :=
      (if llm_providers cfg @ added = [] then None else Some (llm_providers cfg @ added))\<rparr>\<rparr>"
    using assms False by (auto simp: augmentRuntimeConfigWithModuleLLMAdapters_def Let_def)
  have "llm_providers cfg' = llm_providers cfg @ added" by (auto simp: cfg' elems_def)
  moreover have "\<forall>x\<in>set added. \<exists>m\<in>set (mc_Modules c). x \<in> set (md_LLMAdapters m)"
    using add_adapters_Inr [OF a, THEN conjunct1] by (meson module_adapters_mem)
  moreover have "fst ` set ?seen = (\<lambda>p. trim_space (lp_ID p)) ` set (llm_providers cfg) - {[]}" by (auto simp: image_iff)
  then have "\<forall>x\<in>set added. trim_space (lp_ID x) \<notin> (\<lambda>p. trim_space (lp_ID p)) ` set (llm_providers cfg) \<or> trim_space (lp_ID x) = []"
    using add_adapters_Inr [OF a, THEN conjunct2, THEN conjunct2] by blast
  ultimately show ?thesis using add_adapters_Inr [OF a, THEN conjunct2, THEN conjunct1] by blast
qed

lemma project_modules_Inr:
  assumes "project_modules os project system path = Inr (discovered, mods)" "m \<in> set (mc_Modules mods)"
  shows "module_ok m \<and> md_ID m \<in> trim_space ` set (pc_ModulesEnabled project) \<and> trusted_by os path system m"
proof -
  obtain enabled where d: "LoadProjectCatalog os path = Inr discovered"
      and e: "FilterEnabled discovered (pc_ModulesEnabled project) = Inr enabled"
      and t: "FilterTrusted os enabled path system = Inr mods"
    using assms(1) by (auto simp: project_modules_def split: sum.splits)
  have m: "m \<in> set (mc_Modules enabled)" using assms(2) FilterTrusted_Inr(1) [OF t] by simp
  then have "m \<in> set (mc_Modules discovered)" using FilterEnabled_Inr(2) [OF e] by blast
  then obtain es ms where ms: "load_entries os (mc_ModulesDir discovered) [] es = Inr ms"
      "mc_Modules discovered = sort_on md_ID ms" "m \<in> set (mc_Modules discovered)"
    using LoadProjectCatalog_modules [OF d] by metis
  have "module_ok m" using load_entries_ok [OF ms(1)] ms(2,3) by simp
  moreover have "md_ID m \<in> set (map md_ID (mc_Modules enabled))" using m by simp
  then have "md_ID m \<in> trim_space ` set (pc_ModulesEnabled project)"
    unfolding FilterEnabled_Inr(1) [OF e] set_dedup_from by auto
  ultimately show ?thesis using FilterTrusted_Inr(2) [OF t m] by blast
qed

lemma buildRuntimeSnapshot_Inr:
  assumes "buildRuntimeSnapshot env cfg project system ledger path = Inr s"
  obtains discovered h p where "project_modules (be_Modules env) project system path = Inr (discovered, rsn_Modules s)"
    "augmentRuntimeConfigWithModuleLLMAdapters cfg (rsn_Modules s) = Inr (rsn_Config s)"
    "runtime_host env (rsn_Config s) project = Inr (h, p)" "crt_Host (rsn_Runtime s) = Some h"
    "crt_Provider (rsn_Runtime s) = p" "crt_Project (rsn_Runtime s) = project" "crt_System (rsn_Runtime s) = system"
proof -
  obtain discovered mods where pm: "project_modules (be_Modules env) project system path = Inr (discovered, mods)"
    using assms by (cases "project_modules (be_Modules env) project system path") (auto simp: buildRuntimeSnapshot_def)
  obtain rc where rc: "augmentRuntimeConfigWithModuleLLMAdapters cfg mods = Inr rc"
    using assms pm by (cases "augmentRuntimeConfigWithModuleLLMAdapters cfg mods") (auto simp: buildRuntimeSnapshot_def)
  obtain h p where hp: "runtime_host env rc project = Inr (h, p)"
    using assms pm rc by (cases "runtime_host env rc project") (auto simp: buildRuntimeSnapshot_def)
  show thesis
    using assms pm rc hp by (intro that) (auto simp: buildRuntimeSnapshot_def Let_def)
qed

lemma newAdapter_stdio: "newAdapter i ac = Inr (StdioClient cmd) \<Longrightarrow> normalize_string (ac_Transport ac) = LLMTransportSTDIO \<and> cmd = ac_Command ac"
  by (auto simp: newAdapter_def Let_def split: if_splits)

lemma adapter_command:
  assumes "ResolveRuntimeProviderAdapterConfig k cfg s = Inr a"
  shows "ac_Command a = rp_Command s"
  using assms by (auto simp: ResolveRuntimeProviderAdapterConfig_def Let_def split: if_splits sum.splits)

lemma runtime_host_stdio:
  assumes "runtime_host env cfg project = Inr (h, p)" "(i, StdioClient cmd) \<in> set (ho_Providers h)"
  shows "\<exists>q\<in>set (llm_providers cfg). lp_Command q = cmd \<and> normalize_string (trim_space (lp_Transport q)) = LLMTransportSTDIO"
proof -
  obtain hostCfg where hc: "ResolveRuntimeProviderHostConfig (be_Keyring env) cfg project = Inr hostCfg" "NewHost hostCfg = Inr h"
    using assms(1) by (auto simp: runtime_host_def split: sum.splits)
  then obtain ac where ac: "ac \<in> set (hc_Providers hostCfg)" "newAdapter i ac = Inr (StdioClient cmd)"
    using NewHost_spec [OF hc(2)] assms(2) by blast
  note st = newAdapter_stdio [OF ac(2)]
  have nl: "\<not> legacy_config cfg"
    using hc(1) ac(1) st by (auto simp: ResolveRuntimeProviderHostConfig_def normalize_Nil)
  obtain s :: resolved_llm where "host_providers (be_Keyring env) cfg (makeAllowlist (pp_LLMAllowed (pc_Providers project))) (rp_ID s)
      (llm_providers cfg) = Inr (hc_Providers hostCfg)"
    using host_config_cases [OF hc(1) nl] by blast
  from host_providers_members [OF this ac(1)] obtain p' :: llm_provider and r :: resolved_llm where
      r: "ResolveLLMProviderByID cfg (trim_space (lp_ID p')) = Inr r"
        "ResolveRuntimeProviderAdapterConfig (be_Keyring env) cfg r = Inr ac"
    by blast
  obtain q where q: "q \<in> set (llm_providers cfg)" "r = resolve_entry q" using byID_Inr [OF nl r(1)] by auto
  have "ac_Transport ac = trim_space (lp_Transport q)" "ac_Command ac = lp_Command q"
    using adapter_Inr_frame [OF r(2)] adapter_command [OF r(2)] q(2) by (simp_all add: resolve_entry_def)
  then show ?thesis using st q(1) by auto
qed

text \<open>C20: Every command the host of a snapshot can run is the command of a provider entry of the configuration,
  or of an adapter of an enabled module whose manifest the system policy pins for this repository with
  permission for stdio.\<close>
theorem commands_are_configured_or_permitted:
  assumes "buildRuntimeSnapshot env cfg project system ledger path = Inr s" "crt_Host (rsn_Runtime s) = Some h"
    "(i, StdioClient cmd) \<in> set (ho_Providers h)"
  shows "(\<exists>q\<in>set (llm_providers cfg). lp_Command q = cmd) \<or>
    (\<exists>m\<in>set (mc_Modules (rsn_Modules s)). \<exists>a\<in>set (md_LLMAdapters m). lp_Command a = cmd \<and> moduleUsesStdio m \<and>
       md_ID m \<in> trim_space ` set (pc_ModulesEnabled project) \<and>
       (\<exists>y t. system = Some y \<and> t \<in> set (sp_TrustedModules (sc_Policy y)) \<and> pinned_by (be_Modules env) path m t \<and> tm_AllowStdio t))"
proof -
  obtain discovered p where b: "project_modules (be_Modules env) project system path = Inr (discovered, rsn_Modules s)"
    "augmentRuntimeConfigWithModuleLLMAdapters cfg (rsn_Modules s) = Inr (rsn_Config s)"
    "runtime_host env (rsn_Config s) project = Inr (h, p)"
    using buildRuntimeSnapshot_Inr [OF assms(1)] assms(2) by (metis option.inject)
  obtain q where q: "q \<in> set (llm_providers (rsn_Config s))" "lp_Command q = cmd"
      "normalize_string (trim_space (lp_Transport q)) = LLMTransportSTDIO"
    using runtime_host_stdio [OF b(3) assms(3)] by blast
  show ?thesis
  proof (cases "q \<in> set (llm_providers cfg)")
    case True
    then show ?thesis using q(2) by blast
  next
    case False
    then obtain m where m: "m \<in> set (mc_Modules (rsn_Modules s))" "q \<in> set (md_LLMAdapters m)"
      using augment_Inr [OF b(2)] q(1) by (metis Un_iff set_append)
    note t = project_modules_Inr [OF b(1) m(1)]
    then have "adapter_complete q" using m(2) by (auto simp: module_ok_def list_all_iff)
    moreover have "normalize_string ''http'' \<noteq> ''stdio''" by code_simp
    ultimately have "trim_space (lp_Transport q) = LLMTransportSTDIO" using q(3) unfolding adapter_complete_def by metis
    then have "moduleUsesStdio m" using m(2) by (auto simp: moduleUsesStdio_def list_ex_iff)
    then show ?thesis using t m q(2) by (auto simp: trusted_by_def)
  qed
qed

definition tool_adapter :: llm_provider where
  "tool_adapter = \<lparr>lp_ID = ''tool'', lp_Preset = [], lp_Backend = ''ollama'', lp_Transport = ''stdio'', lp_Endpoint = [],
     lp_Command = [''bin/tool''], lp_AuthStrategy = ''none'', lp_DefaultModel = [], lp_ModelPins = [], lp_Capabilities = [],
     lp_CredentialRef = []\<rparr>"

definition sample_build_env :: build_env where
  "sample_build_env =
     \<lparr>be_Loader = \<lparr>ld_ReadFile = (\<lambda>p. Inl FileNotExist), ld_Config = (\<lambda>d c. None), ld_Project = (\<lambda>d c. None),
        ld_System = (\<lambda>d c. None), ld_Keys = (\<lambda>d. None), ld_Cwd = Some ''/'', ld_Env = Map.empty,
        ld_SystemKey = (\<lambda>s a. None), ld_GCMOpen = (\<lambda>k n c. None), ld_Policy = (\<lambda>d. None)\<rparr>,
      be_StatOk = (\<lambda>p. False),
      be_Modules = sample_module_os\<lparr>mo_Yaml := (\<lambda>d. Some (sample_manifest\<lparr>mf_LLMAdapters := [tool_adapter]\<rparr>))\<rparr>,
      be_Keyring = Map.empty, be_Upstream = ce_Upstream sample_chat_env, be_RequestID = [], be_Store = None,
      be_Fault = (\<lambda>op. False), be_Ratio = (\<lambda>a b. 1), be_FtsMatch = (\<lambda>q rows. rows), be_WordRune = (\<lambda>r. False),
      be_ToFloat32 = (\<lambda>l. None), be_Digest = (\<lambda>s. replicate 32 0), be_Thousandth = id\<rparr>"

definition tool_project :: project_config where
  "tool_project = DefaultProjectConfig\<lparr>pc_ModulesEnabled := [''demo'']\<rparr>"

definition tool_snapshot :: "bool \<Rightarrow> app_error + runtime_snapshot" where
  "tool_snapshot stdio = buildRuntimeSnapshot sample_build_env local_config tool_project (Some (sample_trust stdio)) [] sample_path"

lemma tool_snapshot_commands:
  "map_sum id (\<lambda>s. map_option ho_Providers (crt_Host (rsn_Runtime s))) (tool_snapshot True) =
     Inr (Some [(''local'', OllamaClient ''http://127.0.0.1:11434''), (''tool'', StdioClient [''/r/.rillan/modules/demo/bin/tool''])])"
  by code_simp

theorem commands_are_configured_or_permitted_witness:
  "\<exists>s. tool_snapshot True = Inr s \<and> (\<exists>m\<in>set (mc_Modules (rsn_Modules s)). moduleUsesStdio m)"
proof -
  obtain s h where s: "tool_snapshot True = Inr s" "crt_Host (rsn_Runtime s) = Some h"
      "(''tool'', StdioClient [''/r/.rillan/modules/demo/bin/tool'']) \<in> set (ho_Providers h)"
    using tool_snapshot_commands by (cases "tool_snapshot True") (auto simp: map_option_case split: option.splits)
  from commands_are_configured_or_permitted [OF s(1) [unfolded tool_snapshot_def] s(2,3)] s(1)
  show ?thesis by (auto simp: local_config_def local_entry_def elems_def)
qed

end
