(* ===== verification/Agent_Http.thy ===== *)
theory Agent_Http
  imports Agent_Runner Agent_Gate
begin

text \<open>
  The agent endpoints of \<open>internal/httpapi\<close>: the transport types with their conversions
  (\<open>agent_transport.go\<close>), the task handler and the proposal handler. A request body is decoded from its
  first JSON value within one MiB, as \<open>json.Decoder\<close> behind \<open>http.MaxBytesReader\<close> does; when a list-valued
  key is repeated, the last list counts as a whole. The handlers are functions of the runner's environment,
  the approved repositories of the current configuration, the approval gate and the skill disk. The
  response values are kept; their JSON text is not.
\<close>

section \<open>Transport types\<close>

record agent_skill_invocation =
  tsi_Kind :: string
  tsi_RepoRoot :: string
  tsi_Paths :: "string list"
  tsi_Query :: string
  tsi_DBPath :: string
  tsi_StagedOnly :: bool

record agent_mcp_selection =
  tms_Path :: string
  tms_Snippet :: string
  tms_Start :: int
  tms_End :: int

record agent_mcp_diagnostic =
  tmd_Path :: string
  tmd_Severity :: string
  tmd_Message :: string

record agent_mcp_vcs =
  tmv_Branch :: string
  tmv_Head :: string
  tmv_Dirty :: bool

record agent_mcp_snapshot =
  tsn_OpenFiles :: "string list"
  tsn_Selection :: "agent_mcp_selection option"
  tsn_Diagnostics :: "agent_mcp_diagnostic list"
  tsn_VCS :: "agent_mcp_vcs option"

record agent_action_request =
  taq_Kind :: string
  taq_Summary :: string
  taq_Payload :: payload

record agent_action_proposal =
  tpr_ID :: string
  tpr_Kind :: string
  tpr_Summary :: string
  tpr_Payload :: payload
  tpr_RequestID :: string
  tpr_Status :: string

record agent_task_request =
  tq_Goal :: string
  tq_ExecutionMode :: string
  tq_CurrentStep :: string
  tq_RepoRoot :: string
  tq_SkillInvocations :: "agent_skill_invocation list"
  tq_MCPSnapshot :: "agent_mcp_snapshot option"
  tq_ProposedAction :: "agent_action_request option"

record agent_orchestration_decision =
  tod_ExecutionMode :: string
  tod_NextRole :: string
  tod_Reason :: string

record agent_skill_result =
  tsr_Kind :: string
  tsr_Payload :: "json option"

record agent_context_package =
  tcp_Task :: task_section
  tcp_Constraints :: constraints_section
  tcp_SkillInvocations :: "agent_skill_invocation list"
  tcp_Evidence :: "evidence_item list"
  tcp_Facts :: "fact_item list"
  tcp_OpenQuestions :: "string list"
  tcp_WorkingMemory :: "string list"
  tcp_OutputSchema :: output_schema
  tcp_Budget :: budget
  tcp_PolicyTrace :: policy_trace_section

text \<open>The sections without a difference in their fields are the records of the context package.\<close>

record agent_run_result =
  trr_Role :: string
  trr_Summary :: string
  trr_Decision :: "agent_orchestration_decision option"
  trr_SkillResults :: "agent_skill_result list"
  trr_ContextEcho :: agent_context_package

record agent_task_response =
  tre_Result :: agent_run_result
  tre_Proposal :: "agent_action_proposal option"

section \<open>Conversions\<close>

definition cloneStringMap :: "payload \<Rightarrow> payload" where
  "cloneStringMap values = map_option (\<lambda>m. fold (\<lambda>(k, v). AList.update k v) m []) values"

definition toAgentSkillInvocation :: "agent_skill_invocation \<Rightarrow> skill_invocation" where
  "toAgentSkillInvocation d = \<lparr>si_Kind = tsi_Kind d, si_RepoRoot = tsi_RepoRoot d, si_Paths = tsi_Paths d,
     si_Query = tsi_Query d, si_DBPath = tsi_DBPath d, si_StagedOnly = tsi_StagedOnly d\<rparr>"

definition toAgentSkillInvocations :: "agent_skill_invocation list \<Rightarrow> skill_invocation list" where
  "toAgentSkillInvocations = map toAgentSkillInvocation"

definition toAgentMCPSnapshot :: "agent_mcp_snapshot option \<Rightarrow> mcp_snapshot option" where
  "toAgentMCPSnapshot dto = map_option (\<lambda>d.
     \<lparr>sn_OpenFiles = tsn_OpenFiles d,
      sn_Selection = map_option (\<lambda>s. \<lparr>ms_Path = tms_Path s, ms_Snippet = tms_Snippet s, ms_Start = tms_Start s, ms_End = tms_End s\<rparr>) (tsn_Selection d),
      sn_Diagnostics = map (\<lambda>g. \<lparr>md_Path = tmd_Path g, md_Severity = tmd_Severity g, md_Message = tmd_Message g\<rparr>) (tsn_Diagnostics d),
      sn_VCS = map_option (\<lambda>v. \<lparr>mv_Branch = tmv_Branch v, mv_Head = tmv_Head v, mv_Dirty = tmv_Dirty v\<rparr>) (tsn_VCS d)\<rparr>) dto"

definition toAgentActionRequest :: "agent_action_request \<Rightarrow> action_request" where
  "toAgentActionRequest d = \<lparr>aq_Kind = taq_Kind d, aq_Summary = taq_Summary d, aq_Payload = cloneStringMap (taq_Payload d)\<rparr>"

definition fromAgentActionProposal :: "proposal \<Rightarrow> agent_action_proposal" where
  "fromAgentActionProposal p = \<lparr>tpr_ID = pr_ID p, tpr_Kind = pr_Kind p, tpr_Summary = pr_Summary p,
     tpr_Payload = cloneStringMap (pr_Payload p), tpr_RequestID = pr_RequestID p, tpr_Status = pr_Status p\<rparr>"

definition fromAgentSkillInvocation :: "skill_invocation \<Rightarrow> agent_skill_invocation" where
  "fromAgentSkillInvocation i = \<lparr>tsi_Kind = si_Kind i, tsi_RepoRoot = si_RepoRoot i, tsi_Paths = si_Paths i,
     tsi_Query = si_Query i, tsi_DBPath = si_DBPath i, tsi_StagedOnly = si_StagedOnly i\<rparr>"

definition fromAgentContextPackage :: "context_package \<Rightarrow> agent_context_package" where
  "fromAgentContextPackage p = \<lparr>tcp_Task = cp_Task p, tcp_Constraints = cp_Constraints p,
     tcp_SkillInvocations = map fromAgentSkillInvocation (cp_SkillInvocations p), tcp_Evidence = cp_Evidence p,
     tcp_Facts = cp_Facts p, tcp_OpenQuestions = cp_OpenQuestions p, tcp_WorkingMemory = cp_WorkingMemory p,
     tcp_OutputSchema = cp_OutputSchema p, tcp_Budget = cp_Budget p, tcp_PolicyTrace = cp_PolicyTrace p\<rparr>"

definition role_text :: "role \<Rightarrow> string" where
  "role_text r = (case r of RoleOrchestrator \<Rightarrow> ''orchestrator'' | RolePlanner \<Rightarrow> ''planner''
     | RoleResearcher \<Rightarrow> ''researcher'' | RoleCoder \<Rightarrow> ''coder'' | RoleReviewer \<Rightarrow> ''reviewer'')"

definition fromAgentRunResult :: "run_result \<Rightarrow> agent_run_result" where
  "fromAgentRunResult r = \<lparr>trr_Role = role_text (rr_Role r), trr_Summary = rr_Summary r,
     trr_Decision = map_option (\<lambda>d. \<lparr>tod_ExecutionMode = od_ExecutionMode d, tod_NextRole = role_text (od_NextRole d),
       tod_Reason = od_Reason d\<rparr>) (rr_Decision r),
     trr_SkillResults = map (\<lambda>s. \<lparr>tsr_Kind = sx_Kind s, tsr_Payload = sx_Payload s\<rparr>) (rr_SkillResults r),
     trr_ContextEcho = fromAgentContextPackage (rr_ContextEcho r)\<rparr>"

section \<open>Decoding a request\<close>

definition dec_list :: "(json \<Rightarrow> 'a option) \<Rightarrow> json \<Rightarrow> 'a list option" where
  "dec_list f v = (case v of JArr vs \<Rightarrow> dec_all f vs | JNull \<Rightarrow> Some [] | _ \<Rightarrow> None)"

definition zero_invocation :: agent_skill_invocation where
  "zero_invocation = \<lparr>tsi_Kind = [], tsi_RepoRoot = [], tsi_Paths = [], tsi_Query = [], tsi_DBPath = [], tsi_StagedOnly = False\<rparr>"

definition invocation_field :: "string \<Rightarrow> json \<Rightarrow> agent_skill_invocation \<Rightarrow> agent_skill_invocation option" where
  "invocation_field k v d =
     (if equal_fold_ascii k ''kind'' then map_option (\<lambda>x. d\<lparr>tsi_Kind := x\<rparr>) (dec_string v (tsi_Kind d))
      else if equal_fold_ascii k ''repo_root'' then map_option (\<lambda>x. d\<lparr>tsi_RepoRoot := x\<rparr>) (dec_string v (tsi_RepoRoot d))
      else if equal_fold_ascii k ''paths'' then map_option (\<lambda>x. d\<lparr>tsi_Paths := x\<rparr>) (dec_strings v)
      else if equal_fold_ascii k ''query'' then map_option (\<lambda>x. d\<lparr>tsi_Query := x\<rparr>) (dec_string v (tsi_Query d))
      else if equal_fold_ascii k ''db_path'' then map_option (\<lambda>x. d\<lparr>tsi_DBPath := x\<rparr>) (dec_string v (tsi_DBPath d))
      else if equal_fold_ascii k ''staged_only'' then map_option (\<lambda>x. d\<lparr>tsi_StagedOnly := x\<rparr>) (dec_bool v (tsi_StagedOnly d))
      else Some d)"

definition file_ref_field :: "string \<Rightarrow> json \<Rightarrow> string \<Rightarrow> string option" where
  "file_ref_field k v d = (if equal_fold_ascii k ''path'' then dec_string v d else Some d)"

definition selection_field :: "string \<Rightarrow> json \<Rightarrow> agent_mcp_selection \<Rightarrow> agent_mcp_selection option" where
  "selection_field k v d =
     (if equal_fold_ascii k ''path'' then map_option (\<lambda>x. d\<lparr>tms_Path := x\<rparr>) (dec_string v (tms_Path d))
      else if equal_fold_ascii k ''snippet'' then map_option (\<lambda>x. d\<lparr>tms_Snippet := x\<rparr>) (dec_string v (tms_Snippet d))
      else if equal_fold_ascii k ''start'' then map_option (\<lambda>x. d\<lparr>tms_Start := x\<rparr>) (dec_int v (tms_Start d))
      else if equal_fold_ascii k ''end'' then map_option (\<lambda>x. d\<lparr>tms_End := x\<rparr>) (dec_int v (tms_End d))
      else Some d)"

definition diagnostic_field :: "string \<Rightarrow> json \<Rightarrow> agent_mcp_diagnostic \<Rightarrow> agent_mcp_diagnostic option" where
  "diagnostic_field k v d =
     (if equal_fold_ascii k ''path'' then map_option (\<lambda>x. d\<lparr>tmd_Path := x\<rparr>) (dec_string v (tmd_Path d))
      else if equal_fold_ascii k ''severity'' then map_option (\<lambda>x. d\<lparr>tmd_Severity := x\<rparr>) (dec_string v (tmd_Severity d))
      else if equal_fold_ascii k ''message'' then map_option (\<lambda>x. d\<lparr>tmd_Message := x\<rparr>) (dec_string v (tmd_Message d))
      else Some d)"

definition vcs_field :: "string \<Rightarrow> json \<Rightarrow> agent_mcp_vcs \<Rightarrow> agent_mcp_vcs option" where
  "vcs_field k v d =
     (if equal_fold_ascii k ''branch'' then map_option (\<lambda>x. d\<lparr>tmv_Branch := x\<rparr>) (dec_string v (tmv_Branch d))
      else if equal_fold_ascii k ''head'' then map_option (\<lambda>x. d\<lparr>tmv_Head := x\<rparr>) (dec_string v (tmv_Head d))
      else if equal_fold_ascii k ''dirty'' then map_option (\<lambda>x. d\<lparr>tmv_Dirty := x\<rparr>) (dec_bool v (tmv_Dirty d))
      else Some d)"

definition snapshot_field :: "string \<Rightarrow> json \<Rightarrow> agent_mcp_snapshot \<Rightarrow> agent_mcp_snapshot option" where
  "snapshot_field k v d =
     (if equal_fold_ascii k ''open_files''
      then map_option (\<lambda>x. d\<lparr>tsn_OpenFiles := x\<rparr>) (dec_list (\<lambda>j. dec_struct file_ref_field j []) v)
      else if equal_fold_ascii k ''selection''
      then map_option (\<lambda>x. d\<lparr>tsn_Selection := x\<rparr>) (dec_pointer (dec_struct selection_field)
        \<lparr>tms_Path = [], tms_Snippet = [], tms_Start = 0, tms_End = 0\<rparr> v (tsn_Selection d))
      else if equal_fold_ascii k ''diagnostics''
      then map_option (\<lambda>x. d\<lparr>tsn_Diagnostics := x\<rparr>) (dec_list (\<lambda>j. dec_struct diagnostic_field j
        \<lparr>tmd_Path = [], tmd_Severity = [], tmd_Message = []\<rparr>) v)
      else if equal_fold_ascii k ''vcs''
      then map_option (\<lambda>x. d\<lparr>tsn_VCS := x\<rparr>) (dec_pointer (dec_struct vcs_field)
        \<lparr>tmv_Branch = [], tmv_Head = [], tmv_Dirty = False\<rparr> v (tsn_VCS d))
      else Some d)"

text \<open>A map from strings to strings: the entries are added to the map that is there.\<close>

definition dec_string_map :: "json \<Rightarrow> payload \<Rightarrow> payload option" where
  "dec_string_map v old =
     (case v of JNull \<Rightarrow> Some None
      | JObj fs \<Rightarrow> fold (\<lambda>(k, x) acc. case acc of None \<Rightarrow> None
            | Some m \<Rightarrow> map_option (\<lambda>s. Some (AList.update (unquote k) s (case m of None \<Rightarrow> [] | Some e \<Rightarrow> e))) (dec_string x []))
          fs (Some (Some (case old of None \<Rightarrow> [] | Some e \<Rightarrow> e)))
      | _ \<Rightarrow> None)"

definition action_field :: "string \<Rightarrow> json \<Rightarrow> agent_action_request \<Rightarrow> agent_action_request option" where
  "action_field k v d =
     (if equal_fold_ascii k ''kind'' then map_option (\<lambda>x. d\<lparr>taq_Kind := x\<rparr>) (dec_string v (taq_Kind d))
      else if equal_fold_ascii k ''summary'' then map_option (\<lambda>x. d\<lparr>taq_Summary := x\<rparr>) (dec_string v (taq_Summary d))
      else if equal_fold_ascii k ''payload'' then map_option (\<lambda>x. d\<lparr>taq_Payload := x\<rparr>) (dec_string_map v (taq_Payload d))
      else Some d)"

definition task_field :: "string \<Rightarrow> json \<Rightarrow> agent_task_request \<Rightarrow> agent_task_request option" where
  "task_field k v d =
     (if equal_fold_ascii k ''goal'' then map_option (\<lambda>x. d\<lparr>tq_Goal := x\<rparr>) (dec_string v (tq_Goal d))
      else if equal_fold_ascii k ''execution_mode'' then map_option (\<lambda>x. d\<lparr>tq_ExecutionMode := x\<rparr>) (dec_string v (tq_ExecutionMode d))
      else if equal_fold_ascii k ''current_step'' then map_option (\<lambda>x. d\<lparr>tq_CurrentStep := x\<rparr>) (dec_string v (tq_CurrentStep d))
      else if equal_fold_ascii k ''repo_root'' then map_option (\<lambda>x. d\<lparr>tq_RepoRoot := x\<rparr>) (dec_string v (tq_RepoRoot d))
      else if equal_fold_ascii k ''skill_invocations''
      then map_option (\<lambda>x. d\<lparr>tq_SkillInvocations := x\<rparr>) (dec_list (\<lambda>j. dec_struct invocation_field j zero_invocation) v)
      else if equal_fold_ascii k ''mcp_snapshot''
      then map_option (\<lambda>x. d\<lparr>tq_MCPSnapshot := x\<rparr>) (dec_pointer (dec_struct snapshot_field)
        \<lparr>tsn_OpenFiles = [], tsn_Selection = None, tsn_Diagnostics = [], tsn_VCS = None\<rparr> v (tq_MCPSnapshot d))
      else if equal_fold_ascii k ''proposed_action''
      then map_option (\<lambda>x. d\<lparr>tq_ProposedAction := x\<rparr>) (dec_pointer (dec_struct action_field)
        \<lparr>taq_Kind = [], taq_Summary = [], taq_Payload = None\<rparr> v (tq_ProposedAction d))
      else Some d)"

definition zero_task :: agent_task_request where
  "zero_task = \<lparr>tq_Goal = [], tq_ExecutionMode = [], tq_CurrentStep = [], tq_RepoRoot = [], tq_SkillInvocations = [],
     tq_MCPSnapshot = None, tq_ProposedAction = None\<rparr>"

text \<open>What the decoder sees of a body: at most one MiB.\<close>

definition limited :: "string \<Rightarrow> string" where
  "limited body = (if int (length body) \<le> 1048576 then body else take (nat 1048576) body)"

definition decode_task :: "string \<Rightarrow> agent_task_request option" where
  "decode_task body = Option.bind (decode_first (limited body)) (\<lambda>v. dec_struct task_field v zero_task)"

definition decision_field :: "string \<Rightarrow> json \<Rightarrow> bool \<Rightarrow> bool option" where
  "decision_field k v d = (if equal_fold_ascii k ''approved'' then dec_bool v d else Some d)"

definition decode_decision :: "string \<Rightarrow> bool option" where
  "decode_decision body = Option.bind (decode_first (limited body)) (\<lambda>v. dec_struct decision_field v False)"

section \<open>The task handler\<close>

datatype agent_fault = AgentSaid string | RootRefused skill_error | RunFailed run_error | GateRefused "unit gate_error"

text \<open>\<open>AgentPanicked\<close>: applying a budget panicked.\<close>

datatype agent_reply =
    AgentError int string agent_fault
  | TaskAnswered agent_task_response
  | ProposalAnswered agent_action_proposal
  | AgentPanicked

record agent_call =
  ga_Method :: string
  ga_Path :: string
  ga_Body :: string
  ga_RequestID :: string

definition resolve_root :: "host_os \<Rightarrow> string list \<Rightarrow> string \<Rightarrow> skill_error + string" where
  "resolve_root os approved r = (if r = [] then Inr [] else ResolveApprovedRepoRoot os r approved)"

definition resolve_invocation :: "host_os \<Rightarrow> string list \<Rightarrow> agent_skill_invocation \<Rightarrow> skill_error + agent_skill_invocation" where
  "resolve_invocation os approved i = map_sum id (\<lambda>r. i\<lparr>tsi_RepoRoot := r\<rparr>) (resolve_root os approved (tsi_RepoRoot i))"

definition task_input :: "agent_task_request \<Rightarrow> string \<Rightarrow> agent_skill_invocation list \<Rightarrow> build_input" where
  "task_input req repoRoot invocations =
     \<lparr>bi_Goal = tq_Goal req, bi_ExecutionMode = tq_ExecutionMode req, bi_CurrentStep = tq_CurrentStep req,
      bi_RepoRoot = repoRoot, bi_ApprovalRequired = True, bi_AllowedEffects = [''read'', ''propose_write'', ''propose_execute''],
      bi_ForbiddenEffects = [''write'', ''execute''], bi_SkillInvocations = toAgentSkillInvocations invocations,
      bi_Facts = [], bi_OpenQuestions = [], bi_WorkingMemory = [], bi_OutputKind = ''agent_task_response'',
      bi_OutputNote = ''Return orchestration result and optional proposal.'',
      bi_Budget = \<lparr>bg_MaxEvidenceItems = 8, bg_MaxFacts = 8, bg_MaxOpenQuestions = 4, bg_MaxWorkingMemoryItems = 4,
        bg_MaxItemChars = 240\<rparr>,
      bi_PolicyResult = None, bi_Retrieval = None, bi_MCPSnapshot = toAgentMCPSnapshot (tq_MCPSnapshot req),
      bi_Diagnostics = [], bi_VCSContext = []\<rparr>"

definition answer_task :: "agent_call \<Rightarrow> agent_task_request \<Rightarrow> run_result \<Rightarrow> gate \<Rightarrow> agent_reply \<times> gate" where
  "answer_task call req result g =
     (case tq_ProposedAction req of
        None \<Rightarrow> (TaskAnswered \<lparr>tre_Result = fromAgentRunResult result, tre_Proposal = None\<rparr>, g)
      | Some action \<Rightarrow>
          (case Propose (ga_RequestID call) (toAgentActionRequest action) g of
             (Inl e, g') \<Rightarrow> (AgentError 400 ''invalid_request_error'' (GateRefused e), g')
           | (Inr p, g') \<Rightarrow> (TaskAnswered \<lparr>tre_Result = fromAgentRunResult result,
               tre_Proposal = Some (fromAgentActionProposal p)\<rparr>, g')))"

text \<open>The handler checks the repositories against \<open>approved\<close>, the roots of the current configuration; the runner
  has the roots it was built with, \<open>rv_Approved\<close> of its environment.\<close>

definition serve_task ::
    "runner_env \<Rightarrow> string list \<Rightarrow> agent_call \<Rightarrow> gate \<Rightarrow> skill_disk \<Rightarrow> agent_reply \<times> gate \<times> skill_disk" where
  "serve_task env approved call g d =
     (if ga_Method call \<noteq> ''POST'' then (AgentError 405 ''invalid_request_error'' (AgentSaid ''method must be POST''), g, d)
      else (case decode_task (ga_Body call) of
          None \<Rightarrow> (AgentError 400 ''invalid_request_error'' (AgentSaid ''request body must be valid JSON''), g, d)
        | Some req \<Rightarrow>
            if tq_Goal req = [] then (AgentError 400 ''invalid_request_error'' (AgentSaid ''goal must not be empty''), g, d)
            else (case resolve_root (rv_OS env) approved (tq_RepoRoot req) of
                Inl e \<Rightarrow> (AgentError 400 ''invalid_request_error'' (RootRefused e), g, d)
              | Inr repoRoot \<Rightarrow> (case map_res (resolve_invocation (rv_OS env) approved) (tq_SkillInvocations req) of
                Inl e \<Rightarrow> (AgentError 400 ''invalid_request_error'' (RootRefused e), g, d)
              | Inr invocations \<Rightarrow>
                  (case Option.bind (BuildContextPackage (task_input req repoRoot invocations))
                      (\<lambda>pkg. Run env (DefaultRoleProfiles RoleOrchestrator) pkg d) of
                     None \<Rightarrow> (AgentPanicked, g, d)
                   | Some (Inl e, d') \<Rightarrow>
                       (if e = RunSkill ErrUnapprovedRepoRoot then AgentError 400 ''invalid_request_error'' (RunFailed e)
                        else AgentError 500 ''runtime_error'' (RunFailed e), g, d')
                   | Some (Inr result, d') \<Rightarrow>
                       (case answer_task call req result g of (reply, g') \<Rightarrow> (reply, g', d')))))))"

section \<open>The proposal handler\<close>

definition proposal_id_of :: "string \<Rightarrow> string" where
  "proposal_id_of path =
     trim_chars ''/'' (trim_suffix (trim_prefix path ''/v1/agent/proposals/'') ''/decision'')"

definition serve_decision :: "agent_call \<Rightarrow> gate \<Rightarrow> agent_reply \<times> gate" where
  "serve_decision call g =
     (if ga_Method call \<noteq> ''POST'' then (AgentError 405 ''invalid_request_error'' (AgentSaid ''method must be POST''), g)
      else (let proposalID = proposal_id_of (ga_Path call) in
        if proposalID = [] then (AgentError 400 ''invalid_request_error'' (AgentSaid ''proposal id must not be empty''), g)
        else (case decode_decision (ga_Body call) of
            None \<Rightarrow> (AgentError 400 ''invalid_request_error'' (AgentSaid ''request body must be valid JSON''), g)
          | Some approved \<Rightarrow>
              (case Resolve proposalID approved None g () of ((p, err), g', w) \<Rightarrow>
                 (case err of
                    None \<Rightarrow> (ProposalAnswered (fromAgentActionProposal p), g')
                  | Some ErrApprovalRequired \<Rightarrow> (ProposalAnswered (fromAgentActionProposal p), g')
                  | Some ErrProposalNotFound \<Rightarrow> (AgentError 404 ''not_found_error'' (GateRefused ErrProposalNotFound), g')
                  | Some e \<Rightarrow> (AgentError 400 ''invalid_request_error'' (GateRefused e), g'))))))"

section \<open>What a task request can change\<close>

lemma ApplyBudget_total: "budget_ok (cp_Budget p) \<Longrightarrow> \<exists>q. ApplyBudget p = Some q \<and> cp_Budget q = cp_Budget p"
  by (simp add: apply_budget budget_ok_def)

lemma task_package:
  obtains pkg where "BuildContextPackage (task_input req r is) = Some pkg" "budget_ok (cp_Budget pkg)"
    "cp_SkillInvocations pkg = toAgentSkillInvocations is"
proof -
  have b: "budget_ok (bi_Budget (task_input req r is))" by (simp add: task_input_def budget_ok_def)
  obtain p0 where p0: "BuildContextPackage (task_input req r is) = ApplyBudget p0"
      "cp_Budget p0 = bi_Budget (task_input req r is)" "cp_SkillInvocations p0 = bi_SkillInvocations (task_input req r is)"
    by (rule that) (unfold BuildContextPackage_def Let_def, rule refl, simp_all)
  have "budget_ok (cp_Budget p0)" using b p0(2) by simp
  then obtain q where q: "ApplyBudget p0 = Some q" "cp_Budget q = cp_Budget p0" using ApplyBudget_total by blast
  show thesis
    using that [of q] q p0 \<open>budget_ok (cp_Budget p0)\<close> ApplyBudget_invocations [OF q(1)] by (simp add: task_input_def)
qed

text \<open>The run of a package within a non-negative budget.\<close>

lemma Run_package:
  assumes "budget_ok (cp_Budget pkg)"
  obtains r d' where "Run env profile pkg d = Some (r, d')" "sd_Catalog d' = sd_Catalog d" "sd_Files d' = sd_Files d"
    "\<forall>result. r = Inr result \<longrightarrow> cp_SkillInvocations (rr_ContextEcho result) = cp_SkillInvocations pkg"
proof -
  obtain echo where echo: "ApplyBudget pkg = Some echo" using ApplyBudget_total [OF assms] by blast
  obtain r1 d1 where run: "runSkillInvocations env (cp_SkillInvocations echo) d = (r1, d1)" by fastforce
  show thesis
  proof (cases "os_Done (rv_OS env) []")
    case True
    then show ?thesis using that [of "Inl RunContextDone" d] by (simp add: Run_def)
  next
    case False
    then show ?thesis
      using that [of _ d1] invocations_results [OF run] run echo ApplyBudget_invocations [OF echo]
      by (cases r1) (simp_all add: Run_def)
  qed
qed

lemma status_of_Propose:
  assumes "Propose rid req g = (Inr p, g')"
  shows "pr_Status p = ''pending'' \<and> status_of g' = (status_of g)(pr_ID p \<mapsto> ''pending'')"
  using assms
  by (auto simp: Propose_def Let_def store_Put_def fun_eq_iff status_of_def proposals.get_put gate_record_def split: option.splits)

lemma Propose_refused: "Propose rid req g = (Inl e, g') \<Longrightarrow> g' = g"
  by (auto simp: Propose_def Let_def split: option.splits)

lemma answer_task_effect:
  assumes "answer_task call req result g = (reply, g')"
  shows "reply \<noteq> AgentPanicked \<and>
    (case reply of TaskAnswered t \<Rightarrow> tre_Result t = fromAgentRunResult result \<and>
        (case tre_Proposal t of None \<Rightarrow> g' = g
         | Some p \<Rightarrow> tpr_Status p = ''pending'' \<and> status_of g' = (status_of g)(tpr_ID p \<mapsto> ''pending''))
     | _ \<Rightarrow> g' = g)"
proof (cases "tq_ProposedAction req")
  case None
  then show ?thesis using assms by (auto simp: answer_task_def)
next
  case (Some action)
  obtain out :: "unit gate_error + proposal" and g1 where p: "Propose (ga_RequestID call) (toAgentActionRequest action) g = (out, g1)" by fastforce
  then show ?thesis
    using assms Some
    by (cases out) (auto simp: answer_task_def fromAgentActionProposal_def dest: Propose_refused status_of_Propose)
qed

definition invocation_confined :: "host_os \<Rightarrow> string list \<Rightarrow> agent_skill_invocation \<Rightarrow> bool" where
  "invocation_confined os approved i \<longleftrightarrow>
     tsi_RepoRoot i = [] \<or> (\<exists>a\<in>set approved. canonicalPath os a = Some (tsi_RepoRoot i))"

lemma resolve_invocation_confined:
  "resolve_invocation os approved i = Inr j \<Longrightarrow> invocation_confined os approved j"
  by (auto simp: resolve_invocation_def resolve_root_def invocation_confined_def map_sum_def dest!: approved_root split: if_splits sum.splits)

lemma from_to_invocations: "map fromAgentSkillInvocation (toAgentSkillInvocations is) = is"
  by (induction "is") (simp_all add: toAgentSkillInvocations_def fromAgentSkillInvocation_def toAgentSkillInvocation_def)

text \<open>What one request to the task endpoint did.\<close>

definition task_effect ::
    "runner_env \<Rightarrow> string list \<Rightarrow> gate \<Rightarrow> skill_disk \<Rightarrow> agent_reply \<Rightarrow> gate \<Rightarrow> skill_disk \<Rightarrow> bool" where
  "task_effect env approved g d reply g' d' \<longleftrightarrow>
     sd_Catalog d' = sd_Catalog d \<and> sd_Files d' = sd_Files d \<and> reply \<noteq> AgentPanicked \<and>
     (case reply of TaskAnswered t \<Rightarrow>
        list_all (invocation_confined (rv_OS env) approved) (tcp_SkillInvocations (trr_ContextEcho (tre_Result t))) \<and>
        (case tre_Proposal t of None \<Rightarrow> g' = g
         | Some p \<Rightarrow> tpr_Status p = ''pending'' \<and> status_of g' = (status_of g)(tpr_ID p \<mapsto> ''pending''))
      | _ \<Rightarrow> g' = g)"

lemma task_effect_error: "task_effect env approved g d (AgentError st ty f) g d"
  by (simp add: task_effect_def)


section \<open>A task\<close>

definition plain_string :: "string \<Rightarrow> string" where
  "plain_string s = quote_char # s @ [quote_char]"

text \<open>A task that reads a file of a repository.\<close>

definition read_task :: "string \<Rightarrow> string" where
  "read_task repo = ''{'' @ plain_string ''goal'' @ '':'' @ plain_string ''look'' @ '','' @ plain_string ''skill_invocations'' @ '':[{'' @
     plain_string ''kind'' @ '':'' @ plain_string ''read_files'' @ '','' @ plain_string ''repo_root'' @ '':'' @ plain_string repo @ '','' @
     plain_string ''paths'' @ '':['' @ plain_string ''a.go'' @ '']}],'' @ plain_string ''proposed_action'' @ '':{'' @
     plain_string ''kind'' @ '':'' @ plain_string ''run_tests'' @ '','' @ plain_string ''summary'' @ '':'' @ plain_string ''t'' @ ''}}''"

definition task_env :: "string list \<Rightarrow> runner_env" where
  "task_env approved = \<lparr>rv_OS = sample_os, rv_Approved = approved, rv_Faults = (\<lambda>op. False), rv_Clock = (\<lambda>i. (1, ''t''))\<rparr>"

definition task_call :: agent_call where
  "task_call = \<lparr>ga_Method = ''POST'', ga_Path = ''/v1/agent/tasks'', ga_Body = read_task ''/repo'', ga_RequestID = ''r1''\<rparr>"

definition task_status :: "agent_reply \<Rightarrow> int \<times> string option" where
  "task_status reply = (case reply of AgentError st ty f \<Rightarrow> (st, None)
     | TaskAnswered t \<Rightarrow> (200, map_option tpr_ID (tre_Proposal t)) | ProposalAnswered p \<Rightarrow> (200, None) | AgentPanicked \<Rightarrow> (0, None))"

lemma sample_task:
  "task_status (fst (serve_task (task_env [''/repo'']) [''/repo''] task_call (NewApprovalGate True) empty_disk)) = (200, Some ''proposal-1'')"
  by code_simp


text \<open>The runner keeps the approved repositories of the start: a repository that only the current
  configuration approves passes the check of the handler and is then refused by the runner.\<close>
lemma added_root_is_refused_until_restart:
  "task_status (fst (serve_task (task_env [''/old'']) [''/repo''] task_call (NewApprovalGate True) empty_disk)) = (400, None)
     \<and> task_status (fst (serve_task (task_env [''/repo'']) [''/repo''] task_call (NewApprovalGate True) empty_disk)) = (200, Some ''proposal-1'')"
  by (rule conjI [OF _ sample_task]) code_simp

end
