(* ===== verification/Http_Server.thy ===== *)
theory Http_Server
  imports App_Runtime Agent_Http Config_Validate
begin

text \<open>
  \<open>internal/httpapi\<close>: the daemon's HTTP surface. The middleware, the bearer check, the admin refresh, the
  readiness endpoint and the router are put together with the chat and agent handlers into one function
  from a request and the state of the daemon to the answer and the next state; \<open>daemon_step\<close> is the
  transition relation of the requests it serves, \<open>reaches\<close> its runs. The state is the address and the
  configuration the process was started with, the current runtime, the approval gate and the skill disk.
  The lemmas show what authentication protects, that a refresh replaces the runtime as a whole or not at
  all, and what the middleware does to a streamed response.
\<close>

section \<open>The bearer token\<close>

definition split_first_space :: "string \<Rightarrow> (string \<times> string) option" where
  "split_first_space s = map_option (\<lambda>i. (take i s, drop (Suc i) s)) (index_byte (CHR '' '') s)"

definition parseBearerToken :: "string \<Rightarrow> string option" where
  "parseBearerToken value =
     (case split_first_space (trim_space value) of None \<Rightarrow> None
      | Some (scheme, rest) \<Rightarrow>
          if \<not> equal_fold_ascii scheme ''Bearer'' then None
          else (let token = trim_space rest in if token = [] then None else Some token))"

datatype access = Admitted | Unauthorized | Misconfigured

definition WrapProtectedEndpoint :: "keyring \<Rightarrow> config \<Rightarrow> string \<Rightarrow> access" where
  "WrapProtectedEndpoint k cfg authorization =
     (if \<not> sa_Enabled (srv_Auth (cfg_Server cfg)) then Admitted
      else (case parseBearerToken authorization of None \<Rightarrow> Unauthorized
        | Some provided \<Rightarrow> (case ResolveServerAuthBearer k cfg of Inl e \<Rightarrow> Misconfigured
            | Inr expected \<Rightarrow> if provided = expected then Admitted else Unauthorized)))"

text \<open>The configuration of the current runtime decides, or the one of the start when the runtime has none.\<close>

definition protection_config :: "config \<Rightarrow> config \<Rightarrow> config" where
  "protection_config current fallback = (if srv_Host (cfg_Server current) = [] then fallback else current)"

section \<open>Loopback requests\<close>

definition isLoopbackRequest :: "string \<Rightarrow> bool" where
  "isLoopbackRequest remoteAddr =
     (let host = (case split_host_port remoteAddr of None \<Rightarrow> trim_space remoteAddr | Some h \<Rightarrow> h);
          host = trim_chars ''[]'' (trim_space host) in
      equal_fold_ascii host ''localhost'' \<or> (case parse_ip host of None \<Rightarrow> False | Some ip \<Rightarrow> is_loopback ip))"

section \<open>Requests and answers\<close>

record http_call =
  ht_Method :: string
  ht_Path :: string
  ht_Authorization :: string
  ht_RemoteAddr :: string
  ht_Body :: string
  ht_ReadFails :: bool
  ht_Random :: "string option"

text \<open>\<open>ht_Random\<close>: the eight random bytes of the request identifier, \<^const>\<open>None\<close> if there are none.\<close>

definition lower_hex :: "string \<Rightarrow> string" where
  "lower_hex bytes = concat (map (\<lambda>c. let n = of_char c :: int in [hex_digit (n div 16), hex_digit (n mod 16)]) bytes)"

definition newRequestID :: "string option \<Rightarrow> string" where
  "newRequestID random = (case random of None \<Rightarrow> ''unknown'' | Some bytes \<Rightarrow> lower_hex bytes)"

datatype plain_text = PlainSaid string | RefreshFailed app_error

record readiness =
  rea_Status :: string
  rea_Provider :: "provider_error option"
  rea_LocalModel :: "provider_error option option"
  rea_Info :: readiness_info

datatype answer =
    Healthy
  | Readiness int readiness
  | MetricsText
  | NoContent
  | PlainError int string plain_text
  | Redirected string
  | NotFoundPage
  | MethodNotAllowed
  | ChatAnswer chat_outcome
  | AgentAnswer agent_reply

section \<open>Readiness\<close>

definition serveReadyResponse :: "upstream \<Rightarrow> string \<Rightarrow> runtime_snapshot \<Rightarrow> answer" where
  "serveReadyResponse up rid s =
     (let info = rsn_Readiness s in
      case provider_Ready up rid (crt_Provider (rsn_Runtime s)) of
        Some e \<Rightarrow> Readiness 503 \<lparr>rea_Status = ''degraded'', rea_Provider = Some e, rea_LocalModel = None, rea_Info = info\<rparr>
      | None \<Rightarrow>
          (case rsn_OllamaChecker s of
             None \<Rightarrow> Readiness 200 \<lparr>rea_Status = ''ready'', rea_Provider = None, rea_LocalModel = None, rea_Info = info\<rparr>
           | Some check \<Rightarrow>
               (case check rid of
                  None \<Rightarrow> Readiness 200 \<lparr>rea_Status = ''ready'', rea_Provider = None, rea_LocalModel = Some None, rea_Info = info\<rparr>
                | Some e \<Rightarrow>
                    (if rdi_LocalModelRequired info
                     then Readiness 503 \<lparr>rea_Status = ''degraded'', rea_Provider = None, rea_LocalModel = Some (Some e), rea_Info = info\<rparr>
                     else Readiness 200 \<lparr>rea_Status = ''ready'', rea_Provider = None, rea_LocalModel = Some (Some e), rea_Info = info\<rparr>))))"

section \<open>The daemon\<close>

text \<open>The environment of one request: the builder's, the part of the chat handler's that is not in the state,
  and the runner's operating system and clock. The state keeps the repositories the runner was built with.\<close>

record daemon_env =
  de_Build :: build_env
  de_Chat :: chat_env
  de_OS :: host_os
  de_Clock :: "skill_invocation \<Rightarrow> int \<times> string"

record daemon =
  da_Start :: config
  da_StartProvider :: chat_runtime
  da_Builder :: snapshot_builder
  da_Runtime :: runtime_state
  da_Gate :: gate
  da_Disk :: skill_disk
  da_Ledger :: "event list"

definition buildApprovedRepoRoots :: "config \<Rightarrow> string list" where
  "buildApprovedRepoRoots cfg = dedup_from [] (ix_Root (cfg_Index cfg) # ag_ApprovedRepoRoots (cfg_Agent cfg))"

definition currentApprovedRepoRoots :: "daemon \<Rightarrow> string list" where
  "currentApprovedRepoRoots s =
     (let cfg = rsn_Config (rst_snapshot (da_Runtime s)) in
      if srv_Host (cfg_Server cfg) = [] then buildApprovedRepoRoots (da_Start s) else buildApprovedRepoRoots cfg)"

datatype endpoint =
    HealthEndpoint | ReadyEndpoint | MetricsEndpoint | RefreshEndpoint | TasksEndpoint | ProposalsEndpoint | ChatEndpoint

definition protected :: "endpoint \<Rightarrow> bool" where
  "protected e \<longleftrightarrow> e \<noteq> HealthEndpoint \<and> e \<noteq> ReadyEndpoint"

text \<open>The pattern a path and a method match: the mux redirects to the clean path, \<open>GET\<close> patterns also take
  \<open>HEAD\<close>, a subtree pattern redirects its own name, and a path whose patterns all name other methods is
  not allowed.\<close>

definition clean_url_path :: "string \<Rightarrow> string" where
  "clean_url_path p =
     (let p = (if p = [] then ''/'' else if has_prefix p ''/'' then p else ''/'' @ p); np = path_clean p in
      if has_suffix p ''/'' \<and> np \<noteq> ''/'' then np @ ''/'' else np)"

definition route_request :: "config \<Rightarrow> string \<Rightarrow> string \<Rightarrow> answer + endpoint" where
  "route_request start method p =
     (let agent = ag_Enabled (cfg_Agent start); get = (method = ''GET'' \<or> method = ''HEAD'') in
      if method \<noteq> ''CONNECT'' \<and> clean_url_path p \<noteq> p then Inl (Redirected (clean_url_path p))
      else if p = ''/healthz'' then (if get then Inr HealthEndpoint else Inl MethodNotAllowed)
      else if p = ''/readyz'' then (if get then Inr ReadyEndpoint else Inl MethodNotAllowed)
      else if p = ''/metrics'' then (if get then Inr MetricsEndpoint else Inl MethodNotAllowed)
      else if p = ''/admin/runtime/refresh'' then (if method = ''POST'' then Inr RefreshEndpoint else Inl MethodNotAllowed)
      else if agent \<and> p = ''/v1/agent/tasks'' then Inr TasksEndpoint
      else if agent \<and> p = ''/v1/agent/proposals'' then Inl (Redirected ''/v1/agent/proposals/'')
      else if agent \<and> has_prefix p ''/v1/agent/proposals/'' then Inr ProposalsEndpoint
      else if p = ''/v1/chat/completions'' then Inr ChatEndpoint
      else Inl NotFoundPage)"

text \<open>The middleware hands every handler a recorder that embeds \<open>http.ResponseWriter\<close>; it has no method
  \<open>Flush\<close>, so it is no \<open>http.Flusher\<close>.\<close>

definition recorded_writer :: "chat_env \<Rightarrow> chat_env" where
  "recorded_writer env = env\<lparr>ce_Flusher := False\<rparr>"

definition daemon_chat :: "daemon \<Rightarrow> chat_handler" where
  "daemon_chat s = \<lparr>hn_Static = da_StartProvider s, hn_Runtime = Some (rsn_Runtime (rst_snapshot (da_Runtime s))),
     hn_Audits = True, hn_Rules = DefaultScanner\<rparr>"

definition serve_chat :: "daemon_env \<Rightarrow> http_call \<Rightarrow> daemon \<Rightarrow> answer \<times> daemon" where
  "serve_chat env call s =
     (let out = ServeHTTP (daemon_chat s) (recorded_writer ((de_Chat env)\<lparr>ce_SkillDisk := da_Disk s\<rparr>))
        \<lparr>hi_Method = ht_Method call, hi_RequestID = newRequestID (ht_Random call), hi_Body = ht_Body call,
         hi_ReadFails = ht_ReadFails call\<rparr>
      in (ChatAnswer out, s\<lparr>da_Ledger := da_Ledger s @ co_Audit out\<rparr>))"

definition serve_refresh :: "daemon_env \<Rightarrow> http_call \<Rightarrow> daemon \<Rightarrow> answer \<times> daemon" where
  "serve_refresh env call s =
     (if ht_Method call \<noteq> ''POST'' then (PlainError 405 ''invalid_request_error'' (PlainSaid ''method must be POST''), s)
      else if \<not> isLoopbackRequest (ht_RemoteAddr call)
      then (PlainError 403 ''forbidden'' (PlainSaid ''admin refresh is restricted to localhost''), s)
      else (case Refresh (buildFromDisk (de_Build env) (da_Builder s)) (Some (da_Runtime s)) of
          (Some e, _) \<Rightarrow> (PlainError 500 ''refresh_error'' (RefreshFailed e), s)
        | (None, Some next_state) \<Rightarrow> (NoContent, s\<lparr>da_Runtime := next_state\<rparr>)
        | (None, None) \<Rightarrow> (NoContent, s)))"

definition agent_call_of :: "http_call \<Rightarrow> agent_call" where
  "agent_call_of call = \<lparr>ga_Method = ht_Method call, ga_Path = ht_Path call, ga_Body = ht_Body call,
     ga_RequestID = newRequestID (ht_Random call)\<rparr>"

definition daemon_runner :: "daemon_env \<Rightarrow> daemon \<Rightarrow> runner_env" where
  "daemon_runner env s = \<lparr>rv_OS = de_OS env, rv_Approved = buildApprovedRepoRoots (da_Start s),
     rv_Faults = ce_SkillFault (de_Chat env), rv_Clock = de_Clock env\<rparr>"

definition serve_endpoint :: "daemon_env \<Rightarrow> http_call \<Rightarrow> endpoint \<Rightarrow> daemon \<Rightarrow> answer \<times> daemon" where
  "serve_endpoint env call e s =
     (case e of
        HealthEndpoint \<Rightarrow> (Healthy, s)
      | ReadyEndpoint \<Rightarrow> (serveReadyResponse (be_Upstream (de_Build env)) (newRequestID (ht_Random call)) (rst_snapshot (da_Runtime s)), s)
      | MetricsEndpoint \<Rightarrow> (MetricsText, s)
      | RefreshEndpoint \<Rightarrow> serve_refresh env call s
      | TasksEndpoint \<Rightarrow>
          (case serve_task (daemon_runner env s) (currentApprovedRepoRoots s) (agent_call_of call) (da_Gate s) (da_Disk s) of
             (reply, g, d) \<Rightarrow> (AgentAnswer reply, s\<lparr>da_Gate := g, da_Disk := d\<rparr>))
      | ProposalsEndpoint \<Rightarrow>
          (case serve_decision (agent_call_of call) (da_Gate s) of (reply, g) \<Rightarrow> (AgentAnswer reply, s\<lparr>da_Gate := g\<rparr>))
      | ChatEndpoint \<Rightarrow> serve_chat env call s)"

definition protectedHandler :: "daemon_env \<Rightarrow> http_call \<Rightarrow> endpoint \<Rightarrow> daemon \<Rightarrow> answer \<times> daemon" where
  "protectedHandler env call e s =
     (case WrapProtectedEndpoint (be_Keyring (de_Build env))
         (protection_config (rsn_Config (rst_snapshot (da_Runtime s))) (da_Start s)) (ht_Authorization call) of
        Unauthorized \<Rightarrow> (PlainError 401 ''authentication_error'' (PlainSaid ''missing or invalid bearer token''), s)
      | Misconfigured \<Rightarrow> (PlainError 500 ''config_error'' (PlainSaid ''server auth is misconfigured''), s)
      | Admitted \<Rightarrow> serve_endpoint env call e s)"

definition serve :: "daemon_env \<Rightarrow> http_call \<Rightarrow> daemon \<Rightarrow> answer \<times> daemon" where
  "serve env call s =
     (case route_request (da_Start s) (ht_Method call) (ht_Path call) of
        Inl a \<Rightarrow> (a, s)
      | Inr e \<Rightarrow> if protected e then protectedHandler env call e s else serve_endpoint env call e s)"

text \<open>The daemon as \<open>app.New\<close> starts it.\<close>

definition start_daemon ::
    "daemon_env \<Rightarrow> snapshot_builder \<Rightarrow> config \<Rightarrow> project_config \<Rightarrow> system_config option \<Rightarrow> string \<Rightarrow> skill_disk \<Rightarrow> daemon option" where
  "start_daemon env b cfg project system projectConfigPath d =
     (if sa_Enabled (srv_Auth (cfg_Server cfg)) \<and> isl (ResolveServerAuthBearer (be_Keyring (de_Build env)) cfg) then None
      else (case buildFromLoaded (de_Build env) b cfg project system projectConfigPath of Inl e \<Rightarrow> None
        | Inr state \<Rightarrow> Some \<lparr>da_Start = cfg, da_StartProvider = rsn_Runtime (rst_snapshot state), da_Builder = b,
            da_Runtime = state, da_Gate = NewApprovalGate True, da_Disk = d, da_Ledger = []\<rparr>))"

section \<open>Runs\<close>

inductive daemon_step :: "daemon \<Rightarrow> daemon_env \<times> http_call \<times> answer \<Rightarrow> daemon \<Rightarrow> bool" where
  serve: "serve env call s = (a, s') \<Longrightarrow> daemon_step s (env, call, a) s'"

inductive_simps daemon_step_simps: "daemon_step s (env, call, a) s'"
inductive_cases daemon_stepE: "daemon_step s l s'"

inductive reaches :: "daemon \<Rightarrow> (daemon_env \<times> http_call \<times> answer) list \<Rightarrow> daemon \<Rightarrow> bool" where
  here: "reaches s [] s"
| further: "reaches s ls s' \<Longrightarrow> daemon_step s' l s'' \<Longrightarrow> reaches s (ls @ [l]) s''"

section \<open>What authentication protects\<close>

lemma WrapProtectedEndpoint_Admitted:
  "WrapProtectedEndpoint k cfg auth = Admitted \<Longrightarrow> sa_Enabled (srv_Auth (cfg_Server cfg)) \<Longrightarrow>
     \<exists>tok. parseBearerToken auth = Some tok \<and> ResolveServerAuthBearer k cfg = Inr tok"
  by (auto simp: WrapProtectedEndpoint_def split: option.splits sum.splits if_splits)

abbreviation current_protection :: "daemon \<Rightarrow> config" where
  "current_protection s \<equiv> protection_config (rsn_Config (rst_snapshot (da_Runtime s))) (da_Start s)"

text \<open>C6: While authentication is enabled, a request to a protected endpoint either carries the bearer token that
  the credential store holds for the daemon, or it is answered with an authentication error and changes
  nothing: no provider call, no event, no proposal, no refresh.\<close>
theorem protected_endpoints_need_the_token:
  assumes "serve env call s = (a, s')" "route_request (da_Start s) (ht_Method call) (ht_Path call) = Inr e" "protected e"
    "sa_Enabled (srv_Auth (cfg_Server (current_protection s)))"
  shows "(\<exists>tok. parseBearerToken (ht_Authorization call) = Some tok \<and>
      ResolveServerAuthBearer (be_Keyring (de_Build env)) (current_protection s) = Inr tok) \<or>
    s' = s \<and> a \<in> {PlainError 401 ''authentication_error'' (PlainSaid ''missing or invalid bearer token''),
      PlainError 500 ''config_error'' (PlainSaid ''server auth is misconfigured'')}"
proof (cases "WrapProtectedEndpoint (be_Keyring (de_Build env)) (current_protection s) (ht_Authorization call)")
  case Admitted
  then show ?thesis using WrapProtectedEndpoint_Admitted assms(4) by blast
qed (use assms(1-3) in \<open>simp_all add: serve_def protectedHandler_def\<close>)

section \<open>What a refresh replaces\<close>

lemma serve_refresh_effect:
  assumes "serve_refresh env call s = (a, s')"
  shows "s' = s \<or> (\<exists>st. s' = s\<lparr>da_Runtime := st\<rparr> \<and> buildFromDisk (de_Build env) (da_Builder s) = Inr st \<and>
    ht_Method call = ''POST'' \<and> isLoopbackRequest (ht_RemoteAddr call) \<and> a = NoContent)"
  using assms by (auto simp: serve_refresh_def Refresh_def split: if_splits sum.splits)

lemma serve_effect:
  assumes "serve env call s = (a, s')"
  shows "da_Start s' = da_Start s \<and> da_StartProvider s' = da_StartProvider s \<and> da_Builder s' = da_Builder s \<and>
    (da_Runtime s' = da_Runtime s \<or>
     buildFromDisk (de_Build env) (da_Builder s) = Inr (da_Runtime s') \<and> ht_Method call = ''POST'' \<and>
     ht_Path call = ''/admin/runtime/refresh'' \<and> isLoopbackRequest (ht_RemoteAddr call) \<and> a = NoContent \<and>
     da_Gate s' = da_Gate s \<and> da_Disk s' = da_Disk s \<and> da_Ledger s' = da_Ledger s)"
proof (cases "route_request (da_Start s) (ht_Method call) (ht_Path call)")
  case (Inl b)
  then show ?thesis using assms by (simp add: serve_def)
next
  case (Inr e)
  then have "s' = s \<or> serve_endpoint env call e s = (a, s')"
    using assms by (auto simp: serve_def protectedHandler_def split: if_splits access.splits)
  then show ?thesis
  proof
    assume served: "serve_endpoint env call e s = (a, s')"
    show ?thesis
    proof (cases "e = RefreshEndpoint")
      case True
      then have "ht_Path call = ''/admin/runtime/refresh''" using Inr by (auto simp: route_request_def Let_def split: if_splits)
      then show ?thesis
        using serve_refresh_effect [of env call s a s'] served True by (auto simp: serve_endpoint_def)
    next
      case False
      then show ?thesis
        using served by (cases e) (auto simp: serve_endpoint_def serve_chat_def Let_def split: prod.splits)
    qed
  qed simp
qed


section \<open>The listener\<close>

text \<open>The daemon listens on the address of the start configuration. It is guarded when that address is a loopback
  address or the configuration in force asks for a token.\<close>

definition guarded_listener :: "daemon \<Rightarrow> bool" where
  "guarded_listener s \<longleftrightarrow> \<not> hostRequiresNonLoopbackOptIn (srv_Host (cfg_Server (da_Start s)))
     \<or> sa_Enabled (srv_Auth (cfg_Server (current_protection s)))"

lemma augment_server: "augmentRuntimeConfigWithModuleLLMAdapters cfg c = Inr cfg' \<Longrightarrow> cfg_Server cfg' = cfg_Server cfg"
  by (auto simp: augmentRuntimeConfigWithModuleLLMAdapters_def Let_def split: if_splits sum.splits)

lemma started_runtime:
  assumes "start_daemon env b cfg project system path d = Some s"
  shows "da_Start s = cfg" "cfg_Server (rsn_Config (rst_snapshot (da_Runtime s))) = cfg_Server cfg"
proof -
  obtain snap where snap: "buildRuntimeSnapshot (de_Build env) cfg project system (sb_auditLedgerPath b) path = Inr snap"
      and s: "da_Start s = cfg" "rst_snapshot (da_Runtime s) = snap"
    using assms by (auto simp: start_daemon_def buildFromLoaded_def map_sum_def split: if_splits sum.splits)
  show "da_Start s = cfg" by (rule s)
  obtain mods where "augmentRuntimeConfigWithModuleLLMAdapters cfg mods = Inr (rsn_Config snap)"
    using buildRuntimeSnapshot_Inr [OF snap] by metis
  then show "cfg_Server (rsn_Config (rst_snapshot (da_Runtime s))) = cfg_Server cfg"
    using s(2) augment_server by simp
qed

lemma started_guarded:
  assumes "start_daemon env b cfg project system path d = Some s" "ValidateForMode cfg mode = None"
  shows "guarded_listener s"
proof (cases "hostRequiresNonLoopbackOptIn (srv_Host (cfg_Server cfg))")
  case True
  then have "sa_Enabled (srv_Auth (cfg_Server cfg))"
    using assms(2) validate_server_None [of "cfg_Server cfg" "cfg_Runtime cfg"] by (auto simp: ValidateForMode_None)
  then show ?thesis using started_runtime [OF assms(1)] by (simp add: guarded_listener_def protection_config_def)
next
  case False
  then show ?thesis using started_runtime [OF assms(1)] by (simp add: guarded_listener_def)
qed


section \<open>Streamed responses\<close>

lemma serve_ChatAnswer:
  assumes "serve env call s = (ChatAnswer out, s')"
  shows "serve_chat env call s = (ChatAnswer out, s')"
proof -
  obtain e where "route_request (da_Start s) (ht_Method call) (ht_Path call) = Inr e"
    using assms by (auto simp: serve_def route_request_def Let_def split: sum.splits if_splits)
  then have "serve_endpoint env call e s = (ChatAnswer out, s')"
    using assms by (auto simp: serve_def protectedHandler_def split: if_splits access.splits)
  then show ?thesis
    by (cases e) (auto simp: serve_endpoint_def serve_refresh_def serveReadyResponse_def Let_def
        split: prod.splits if_splits option.splits)
qed


section \<open>A daemon\<close>

definition exposed_config :: config where
  "exposed_config = local_config\<lparr>cfg_Server := cfg_Server wildcard_config\<rparr>"

definition sample_builder :: snapshot_builder where
  "sample_builder = \<lparr>sb_configPath = ''/c.yaml'', sb_systemConfigPath = ''/s.yaml'', sb_auditLedgerPath = ''/l''\<rparr>"

definition sample_keys :: keyring where
  "sample_keys = [(''rillan/auth'', ''daemon'') \<mapsto> \<lparr>cr_Kind = ''api_key'', cr_APIKey = ''tok'', cr_AccessToken = [],
     cr_RefreshToken = [], cr_IDToken = [], cr_Endpoint = [], cr_AuthStrategy = ''api_key'', cr_Issuer = [],
     cr_Audience = [], cr_StoredAt = []\<rparr>]"

text \<open>The environment of a daemon whose configuration file now holds that configuration.\<close>

definition sample_daemon_env :: "config \<Rightarrow> daemon_env" where
  "sample_daemon_env on_disk =
     \<lparr>de_Build = sample_build_env\<lparr>be_Loader := (be_Loader sample_build_env)
          \<lparr>ld_ReadFile := (\<lambda>p. if p = ''/c.yaml'' then Inr [] else Inl FileNotExist), ld_Config := (\<lambda>d c. Some on_disk)\<rparr>,
        be_Modules := (be_Modules sample_build_env)\<lparr>mo_Yaml := (\<lambda>d. None)\<rparr>, be_Keyring := sample_keys\<rparr>,
      de_Chat = sample_chat_env, de_OS = sample_os, de_Clock = (\<lambda>i. (0, []))\<rparr>"

definition refresh_call :: "string \<Rightarrow> http_call" where
  "refresh_call authorization = \<lparr>ht_Method = ''POST'', ht_Path = ''/admin/runtime/refresh'', ht_Authorization = authorization,
     ht_RemoteAddr = ''127.0.0.1:4711'', ht_Body = [], ht_ReadFails = False, ht_Random = None\<rparr>"

definition exposed_daemon :: "daemon option" where
  "exposed_daemon = start_daemon (sample_daemon_env exposed_config) sample_builder exposed_config DefaultProjectConfig None [] empty_disk"

lemma exposed_valid: "ValidateForMode exposed_config ''serve'' = None"
  by code_simp

text \<open>A configuration whose defaults are those of \<open>DefaultConfig\<close> loads as it is when no environment variable is set.\<close>

lemma no_environment: "applyEnvOverrides Map.empty cfg = cfg"
  by (simp add: applyEnvOverrides_def env_server_def env_provider_def env_index_def env_graph_def env_rest_def Let_def
      applyIntEnv_def applyBoolEnv_def applyCSVEnv_def)

lemma derived_sections:
  "derive_provider (cfg_Provider DefaultConfig) = cfg_Provider DefaultConfig"
  "derive_runtime (cfg_Provider DefaultConfig) (cfg_Runtime DefaultConfig) = cfg_Runtime DefaultConfig"
  "derive_index cwd p (cfg_Index DefaultConfig) = cfg_Index DefaultConfig"
  "derive_graph cwd p (cfg_KnowledgeGraph DefaultConfig) = cfg_KnowledgeGraph DefaultConfig"
  "derive_retrieval (cfg_Retrieval DefaultConfig) = cfg_Retrieval DefaultConfig"
  "derive_server (cfg_Server DefaultConfig) = cfg_Server DefaultConfig"
  "derive_server (cfg_Server wildcard_config) = cfg_Server wildcard_config"
  "derive_local_model (cfg_LocalModel DefaultConfig) = cfg_LocalModel DefaultConfig"
  "derive_agent cwd p (cfg_Agent DefaultConfig) = cfg_Agent DefaultConfig"
  "or_int (cfg_SchemaVersion DefaultConfig) SchemaVersionV2 = cfg_SchemaVersion DefaultConfig"
  by (simp_all add: DefaultConfig_def wildcard_config_def derive_provider_def derive_runtime_def derive_index_def
      derive_graph_def derive_retrieval_def derive_server_def derive_local_model_def derive_agent_def derive_mcp_def
      Let_def or_int_def or_str_def default_blank_def)

lemma derived_local_llms: "derive_llms (cfg_LLMs local_config) = cfg_LLMs local_config"
  by code_simp

lemma derived_samples:
  "applyDerivedDefaults cwd local_config p = local_config" "applyDerivedDefaults cwd exposed_config p = exposed_config"
  using derived_local_llms
  by (simp_all add: applyDerivedDefaults_def exposed_config_def local_config_def derived_sections Let_def)

lemma local_valid: "ValidateForMode local_config ''serve'' = None"
  by code_simp

text \<open>A project without files: the default project, no system policy, no modules.\<close>

lemma buildFromDisk_ok:
  assumes "Load_config (be_Loader env) (sb_configPath b) = Inr cfg"
    "missing_file (be_Loader env) (ResolveProjectConfigPath (be_StatOk env) (ld_Cwd (be_Loader env)) (ix_Root (cfg_Index cfg)))"
    "missing_file (be_Loader env) (sb_systemConfigPath b)"
    "project_modules (be_Modules env) DefaultProjectConfig None
       (ResolveProjectConfigPath (be_StatOk env) (ld_Cwd (be_Loader env)) (ix_Root (cfg_Index cfg))) = Inr (d, m)"
    "mc_Modules m = []" "runtime_host env cfg DefaultProjectConfig = Inr hp"
  shows "\<exists>st. buildFromDisk env b = Inr st \<and> rsn_Config (rst_snapshot st) = cfg"
  using assms
  by (cases hp)
    (simp add: buildFromDisk_def Let_def buildFromLoaded_def buildRuntimeSnapshot_def augmentRuntimeConfigWithModuleLLMAdapters_def)

lemma sample_modules:
  "map_sum (\<lambda>e. ()) (\<lambda>(d, m). mc_Modules m) (project_modules (be_Modules (de_Build (sample_daemon_env c))) DefaultProjectConfig None []) = Inr []"
  "map_sum (\<lambda>e. ()) (\<lambda>(d, m). mc_Modules m) (project_modules (be_Modules (de_Build (sample_daemon_env c))) DefaultProjectConfig None
     ''/.rillan/project.yaml'') = Inr []"
  by code_simp+

lemma sample_hosts:
  "map_sum (\<lambda>e. ()) (\<lambda>hp. ()) (runtime_host (de_Build (sample_daemon_env c)) local_config DefaultProjectConfig) = Inr ()"
  "map_sum (\<lambda>e. ()) (\<lambda>hp. ()) (runtime_host (de_Build (sample_daemon_env c)) exposed_config DefaultProjectConfig) = Inr ()"
  by code_simp+

lemma sample_project_path: "ResolveProjectConfigPath (\<lambda>p. False) (Some ''/'') [] = ''/.rillan/project.yaml''"
  by code_simp

lemma map_sum_InrE: "map_sum f g x = Inr y \<Longrightarrow> (\<And>z. x = Inr z \<Longrightarrow> y = g z \<Longrightarrow> thesis) \<Longrightarrow> thesis"
  by (cases x) auto

lemma sample_loader_simps:
  "ld_ReadFile (be_Loader (de_Build (sample_daemon_env c))) = (\<lambda>p. if p = ''/c.yaml'' then Inr [] else Inl FileNotExist)"
  "ld_Config (be_Loader (de_Build (sample_daemon_env c))) = (\<lambda>d e. Some c)" "ld_Env (be_Loader (de_Build (sample_daemon_env c))) = Map.empty"
  "ld_Cwd (be_Loader (de_Build (sample_daemon_env c))) = Some ''/''" "be_StatOk (de_Build (sample_daemon_env c)) = (\<lambda>p. False)"
  by (simp_all add: sample_daemon_env_def sample_build_env_def)

lemma sample_reload:
  assumes "c = local_config \<or> c = exposed_config" "sb_configPath b = ''/c.yaml''" "sb_systemConfigPath b \<noteq> ''/c.yaml''"
  shows "\<exists>st. buildFromDisk (de_Build (sample_daemon_env c)) b = Inr st \<and> rsn_Config (rst_snapshot st) = c"
proof -
  let ?env = "de_Build (sample_daemon_env c)"
  have "ix_Root (cfg_Index c) = []" using assms(1) by (auto simp: local_config_def exposed_config_def DefaultConfig_def)
  then have path: "ResolveProjectConfigPath (be_StatOk ?env) (ld_Cwd (be_Loader ?env)) (ix_Root (cfg_Index c)) = ''/.rillan/project.yaml''"
    using sample_project_path by (simp add: sample_loader_simps)
  have "Load_config (be_Loader ?env) (sb_configPath b) = Inr c"
    using assms(1,2) derived_samples local_valid exposed_valid
    by (auto simp: Load_config_def LoadWithMode_def sample_loader_simps no_environment Let_def)
  moreover have "missing_file (be_Loader ?env) ''/.rillan/project.yaml''" "missing_file (be_Loader ?env) (sb_systemConfigPath b)"
    using assms(3) by (simp_all add: missing_file_def sample_loader_simps)
  moreover obtain d m where "project_modules (be_Modules ?env) DefaultProjectConfig None ''/.rillan/project.yaml'' = Inr (d, m)" "mc_Modules m = []"
    using sample_modules(2) [of c] by (auto elim!: map_sum_InrE)
  moreover obtain hp where "runtime_host ?env c DefaultProjectConfig = Inr hp"
    using sample_hosts [of c] assms(1) by (auto elim!: map_sum_InrE)
  ultimately show ?thesis using buildFromDisk_ok [of ?env b c d m hp] path by simp
qed

lemma exposed_auth: "sa_Enabled (srv_Auth (cfg_Server exposed_config))" "\<not> sa_Enabled (srv_Auth (cfg_Server local_config))"
  by (simp_all add: exposed_config_def wildcard_config_def local_config_def DefaultConfig_def)

lemma sample_protection: "c = local_config \<or> c = exposed_config \<Longrightarrow> protection_config c exposed_config = c"
  by (auto simp: protection_config_def local_config_def DefaultConfig_def)

lemma exposed_starts: "exposed_daemon \<noteq> None"
proof -
  let ?env = "de_Build (sample_daemon_env exposed_config)"
  obtain d m where "project_modules (be_Modules ?env) DefaultProjectConfig None [] = Inr (d, m)" "mc_Modules m = []"
    using sample_modules(1) [of exposed_config] by (auto elim!: map_sum_InrE)
  moreover obtain h q where "runtime_host ?env exposed_config DefaultProjectConfig = Inr (h, q)"
    using sample_hosts(2) [of exposed_config] by (auto elim!: map_sum_InrE)
  moreover have "ResolveServerAuthBearer sample_keys exposed_config = Inr ''tok''"
    by code_simp
  moreover have "be_Keyring ?env = sample_keys" by (simp add: sample_daemon_env_def)
  ultimately show ?thesis
    by (simp add: exposed_daemon_def start_daemon_def buildFromLoaded_def buildRuntimeSnapshot_def Let_def
        augmentRuntimeConfigWithModuleLLMAdapters_def)
qed

lemma sample_paths: "sb_configPath sample_builder = ''/c.yaml''" "sb_systemConfigPath sample_builder \<noteq> ''/c.yaml''"
  by (simp_all add: sample_builder_def)

lemma refresh_facts:
  "isLoopbackRequest ''127.0.0.1:4711''" "route_request c ''POST'' ''/admin/runtime/refresh'' = Inr RefreshEndpoint"
  "parseBearerToken ''Bearer tok'' = Some ''tok''" "ResolveServerAuthBearer sample_keys exposed_config = Inr ''tok''"
  "parseBearerToken [] = None"
  by code_simp+

lemma exposed_server: "cfg_Server exposed_config = cfg_Server wildcard_config"
  by (simp add: exposed_config_def)

lemma wildcard_host: "srv_Host (cfg_Server wildcard_config) = ''0.0.0.0''"
  by (simp add: wildcard_config_def)

lemma exposed_daemon_Some:
  assumes "exposed_daemon = Some s"
  shows "da_Start s = exposed_config" "da_Builder s = sample_builder" "cfg_Server (current_protection s) = cfg_Server wildcard_config"
    "rsn_Runtime (rst_snapshot (da_Runtime s)) = da_StartProvider s"
proof -
  note start = assms [unfolded exposed_daemon_def]
  show "da_Start s = exposed_config" by (rule started_runtime(1) [OF start])
  show "da_Builder s = sample_builder" "rsn_Runtime (rst_snapshot (da_Runtime s)) = da_StartProvider s"
    using start by (auto simp: start_daemon_def split: if_splits sum.splits)
  show "cfg_Server (current_protection s) = cfg_Server wildcard_config"
    using started_runtime [OF start] exposed_server by (simp add: protection_config_def wildcard_host)
qed

lemma exposed_bearer:
  assumes "exposed_daemon = Some s"
  shows "ResolveServerAuthBearer sample_keys (current_protection s) = Inr ''tok''"
    "sa_Enabled (srv_Auth (cfg_Server (current_protection s)))"
  using exposed_daemon_Some(3) [OF assms] refresh_facts(4)
  by (simp_all add: ResolveServerAuthBearer_def exposed_server) (simp add: wildcard_config_def)

lemma sample_daemon_env_simps:
  "be_Keyring (de_Build (sample_daemon_env c)) = sample_keys" "de_Chat (sample_daemon_env c) = sample_chat_env"
  by (simp_all add: sample_daemon_env_def)

lemma exposed_refresh:
  assumes "exposed_daemon = Some s" "buildFromDisk (de_Build (sample_daemon_env c)) sample_builder = Inr st"
  shows "serve (sample_daemon_env c) (refresh_call ''Bearer tok'') s = (NoContent, s\<lparr>da_Runtime := st\<rparr>)"
proof -
  have "serve_refresh (sample_daemon_env c) (refresh_call ''Bearer tok'') s = (NoContent, s\<lparr>da_Runtime := st\<rparr>)"
    using refresh_facts(1) assms(2) exposed_daemon_Some(2) [OF assms(1)]
    by (simp add: serve_refresh_def refresh_call_def Refresh_def)
  moreover have "WrapProtectedEndpoint sample_keys (current_protection s) ''Bearer tok'' = Admitted"
    using exposed_bearer [OF assms(1)] refresh_facts(3) by (simp add: WrapProtectedEndpoint_def)
  ultimately show ?thesis
    using refresh_facts(2) [of "da_Start s"]
    by (simp add: serve_def protectedHandler_def protected_def sample_daemon_env_simps serve_endpoint_def refresh_call_def)
qed

theorem protected_endpoints_need_the_token_witness:
  "\<exists>s. exposed_daemon = Some s \<and> snd (serve (sample_daemon_env exposed_config) (refresh_call []) s) = s"
proof -
  obtain s where s: "exposed_daemon = Some s" using exposed_starts by auto
  obtain a s' where step: "serve (sample_daemon_env exposed_config) (refresh_call []) s = (a, s')" by fastforce
  have "route_request (da_Start s) (ht_Method (refresh_call [])) (ht_Path (refresh_call [])) = Inr RefreshEndpoint"
    using refresh_facts(2) by (simp add: refresh_call_def)
  moreover have "protected RefreshEndpoint" by (simp add: protected_def)
  ultimately have "s' = s"
    using protected_endpoints_need_the_token [OF step _ _ exposed_bearer(2) [OF s], of RefreshEndpoint] refresh_facts(5)
    by (auto simp: refresh_call_def)
  then show ?thesis using s step by auto
qed

lemma exposed_reloads:
  assumes "exposed_daemon = Some s"
  shows "\<exists>st. serve (sample_daemon_env local_config) (refresh_call ''Bearer tok'') s = (NoContent, s\<lparr>da_Runtime := st\<rparr>) \<and>
      \<not> sa_Enabled (srv_Auth (cfg_Server (protection_config (rsn_Config (rst_snapshot st)) exposed_config)))"
    "\<exists>st. serve (sample_daemon_env exposed_config) (refresh_call ''Bearer tok'') s = (NoContent, s\<lparr>da_Runtime := st\<rparr>) \<and>
      buildFromDisk (de_Build (sample_daemon_env exposed_config)) sample_builder = Inr st \<and>
      sa_Enabled (srv_Auth (cfg_Server (protection_config (rsn_Config (rst_snapshot st)) exposed_config)))"
proof -
  obtain st where "buildFromDisk (de_Build (sample_daemon_env local_config)) sample_builder = Inr st"
      "\<not> sa_Enabled (srv_Auth (cfg_Server (protection_config (rsn_Config (rst_snapshot st)) exposed_config)))"
    using sample_reload [OF _ sample_paths, of local_config] exposed_auth(2) by (auto simp: sample_protection)
  then show "\<exists>st. serve (sample_daemon_env local_config) (refresh_call ''Bearer tok'') s = (NoContent, s\<lparr>da_Runtime := st\<rparr>) \<and>
      \<not> sa_Enabled (srv_Auth (cfg_Server (protection_config (rsn_Config (rst_snapshot st)) exposed_config)))"
    using exposed_refresh [OF assms] by blast
  obtain st where "buildFromDisk (de_Build (sample_daemon_env exposed_config)) sample_builder = Inr st"
      "sa_Enabled (srv_Auth (cfg_Server (protection_config (rsn_Config (rst_snapshot st)) exposed_config)))"
    using sample_reload [OF _ sample_paths, of exposed_config] exposed_auth(1) by (auto simp: sample_protection)
  then show "\<exists>st. serve (sample_daemon_env exposed_config) (refresh_call ''Bearer tok'') s = (NoContent, s\<lparr>da_Runtime := st\<rparr>) \<and>
      buildFromDisk (de_Build (sample_daemon_env exposed_config)) sample_builder = Inr st \<and>
      sa_Enabled (srv_Auth (cfg_Server (protection_config (rsn_Config (rst_snapshot st)) exposed_config)))"
    using exposed_refresh [OF assms] by blast
qed

text \<open>C10: A refresh can take the guard away: a daemon that listens on every interface because its configuration
  asks for a token keeps listening there, without asking for one, after a refresh from a file that is valid
  because it binds to the loopback address.\<close>
theorem refresh_can_unguard_the_listener:
  "\<exists>env s call s'. start_daemon (sample_daemon_env exposed_config) sample_builder exposed_config DefaultProjectConfig None [] empty_disk = Some s \<and>
     ValidateForMode exposed_config ''serve'' = None \<and> guarded_listener s \<and> serve env call s = (NoContent, s') \<and> \<not> guarded_listener s'"
proof -
  obtain s where s: "exposed_daemon = Some s" using exposed_starts by auto
  obtain st where st: "serve (sample_daemon_env local_config) (refresh_call ''Bearer tok'') s = (NoContent, s\<lparr>da_Runtime := st\<rparr>)"
      "\<not> sa_Enabled (srv_Auth (cfg_Server (protection_config (rsn_Config (rst_snapshot st)) exposed_config)))"
    using exposed_reloads(1) [OF s] by blast
  have "hostRequiresNonLoopbackOptIn ''0.0.0.0''" by code_simp
  then have "\<not> guarded_listener (s\<lparr>da_Runtime := st\<rparr>)"
    using st(2) exposed_daemon_Some(1) [OF s] by (simp add: guarded_listener_def exposed_server wildcard_host)
  moreover have "guarded_listener s" by (rule started_guarded [OF s [unfolded exposed_daemon_def] exposed_valid])
  ultimately show ?thesis using st(1) s exposed_valid unfolding exposed_daemon_def by blast
qed

lemma exposed_run:
  obtains s st a where "exposed_daemon = Some s" "a = NoContent"
    "reaches s [(sample_daemon_env exposed_config, refresh_call ''Bearer tok'', a)] (s\<lparr>da_Runtime := st\<rparr>)"
    "buildFromDisk (de_Build (sample_daemon_env exposed_config)) sample_builder = Inr st"
    "sa_Enabled (srv_Auth (cfg_Server (protection_config (rsn_Config (rst_snapshot st)) exposed_config)))"
proof -
  obtain s where s: "exposed_daemon = Some s" using exposed_starts by auto
  obtain st where st: "serve (sample_daemon_env exposed_config) (refresh_call ''Bearer tok'') s = (NoContent, s\<lparr>da_Runtime := st\<rparr>)"
      "buildFromDisk (de_Build (sample_daemon_env exposed_config)) sample_builder = Inr st"
      "sa_Enabled (srv_Auth (cfg_Server (protection_config (rsn_Config (rst_snapshot st)) exposed_config)))"
    using exposed_reloads(2) [OF s] by blast
  from reaches.further [OF reaches.here daemon_step.serve [OF st(1)]]
  have "reaches s [(sample_daemon_env exposed_config, refresh_call ''Bearer tok'', NoContent)] (s\<lparr>da_Runtime := st\<rparr>)" by simp
  then show thesis using that s st by blast
qed



section \<open>A chat request to the daemon\<close>

definition chat_daemon :: daemon where
  "chat_daemon = \<lparr>da_Start = local_config, da_StartProvider = sample_runtime ''open_source'', da_Builder = sample_builder,
     da_Runtime = \<lparr>rst_snapshot = \<lparr>rsn_Runtime = sample_runtime ''open_source'', rsn_Config = local_config,
         rsn_Modules = \<lparr>mc_ModulesDir = [], mc_Modules = []\<rparr>,
         rsn_Readiness = \<lparr>rdi_RetrievalMode = [], rdi_SystemConfigLoaded = False, rdi_AuditLedgerPath = [],
           rdi_LocalModelRequired = False, rdi_ModulesDiscovered = 0, rdi_ModulesEnabled = 0\<rparr>,
         rsn_OllamaChecker = None\<rparr>,
       rst_projectConfigPath = [], rst_systemConfigPath = []\<rparr>,
     da_Gate = NewApprovalGate True, da_Disk = empty_disk, da_Ledger = []\<rparr>"

definition chat_http_call :: http_call where
  "chat_http_call = \<lparr>ht_Method = ''POST'', ht_Path = ''/v1/chat/completions'', ht_Authorization = [],
     ht_RemoteAddr = ''127.0.0.1:4711'', ht_Body = hi_Body sample_call, ht_ReadFails = False, ht_Random = None\<rparr>"

lemma chat_daemon_route:
  "route_request local_config ''POST'' ''/v1/chat/completions'' = Inr ChatEndpoint"
  "sa_Enabled (srv_Auth (cfg_Server (protection_config local_config local_config))) = False"
  by code_simp+

lemma event_stream_header:
  "contains_str ''text/event-stream'' (header_get ''Content-Type'' [(''Content-Type'', [''text/event-stream'']), (''connection'', [''close''])])"
  by code_simp


end
