(* ===== verification/Tokenize.thy ===== *)
theory Tokenize
  imports Rillan_Prelude
begin

text \<open>
  \<open>internal/tokenize/tokenize.go\<close>: the token counter. The codecs of the tokenizer library are a parameter,
  a function from the encoding to a codec; the state of a counter is its cache of codecs, the keys it has
  warned about, and the warnings it has logged. The lemmas show that a count does not depend on the state,
  that the cache only holds what the library returned, and that each warning is logged once.
\<close>

section \<open>Encodings\<close>

abbreviation EncodingCL100KBase :: string where "EncodingCL100KBase \<equiv> ''cl100k_base''"
abbreviation EncodingO200KBase :: string where "EncodingO200KBase \<equiv> ''o200k_base''"

record count_result =
  cn_Tokens :: int
  cn_Approximate :: bool
  cn_Encoding :: string

definition EncodingForModel :: "string \<Rightarrow> string option" where
  "EncodingForModel model =
     (let name = normalize_string model in
      if name = [] then None
      else if list_ex (has_prefix name) [''gpt-4o'', ''gpt-4.1'', ''gpt-5'', ''o1'', ''o3'', ''o4''] then Some EncodingO200KBase
      else if list_ex (has_prefix name) [''gpt-4'', ''gpt-3.5''] then Some EncodingCL100KBase
      else None)"

section \<open>Counting\<close>

text \<open>What the library answers for an encoding: a codec, that it does not support it, or another error. A codec
  may fail on a text.\<close>

datatype codec_answer = Codec "string \<Rightarrow> int option" | EncodingNotSupported | CodecFailed

datatype count_error = LoadCodecFailed string | CountFailed string

record counter =
  tc_codecs :: "(string \<times> (string \<Rightarrow> int option)) list"
  tc_warned :: "string list"
  tc_logged :: "string list"

definition NewCounter :: counter where
  "NewCounter = \<lparr>tc_codecs = [], tc_warned = [], tc_logged = []\<rparr>"

definition approximateTokens :: "string \<Rightarrow> int" where
  "approximateTokens txt = (if txt = [] then 0 else (int (length txt) + 3) div 4)"

definition warnOnce :: "string \<Rightarrow> counter \<Rightarrow> counter" where
  "warnOnce key c =
     (if key \<in> set (tc_warned c) then c else c\<lparr>tc_warned := key # tc_warned c, tc_logged := tc_logged c @ [key]\<rparr>)"

definition loadCodec :: "(string \<Rightarrow> codec_answer) \<Rightarrow> string \<Rightarrow> counter \<Rightarrow> codec_answer \<times> counter" where
  "loadCodec lib encoding c =
     (case map_of (tc_codecs c) encoding of Some f \<Rightarrow> (Codec f, c)
      | None \<Rightarrow> (case lib encoding of
          Codec f \<Rightarrow> (Codec f, c\<lparr>tc_codecs := (encoding, f) # tc_codecs c\<rparr>) | a \<Rightarrow> (a, c)))"

definition exact_result :: "string \<Rightarrow> int option \<Rightarrow> count_error + count_result" where
  "exact_result encoding n = (case n of None \<Rightarrow> Inl (CountFailed encoding)
     | Some t \<Rightarrow> Inr \<lparr>cn_Tokens = t, cn_Approximate = False, cn_Encoding = encoding\<rparr>)"

definition approximate_result :: "string \<Rightarrow> count_result" where
  "approximate_result txt = \<lparr>cn_Tokens = approximateTokens txt, cn_Approximate = True, cn_Encoding = []\<rparr>"

definition zero_count :: count_result where
  "zero_count = \<lparr>cn_Tokens = 0, cn_Approximate = False, cn_Encoding = []\<rparr>"

definition Count :: "(string \<Rightarrow> codec_answer) \<Rightarrow> string \<Rightarrow> string \<Rightarrow> counter \<Rightarrow> (count_error + count_result) \<times> counter" where
  "Count lib model txt c =
     (if txt = [] then (Inr zero_count, c)
      else (case EncodingForModel model of
          None \<Rightarrow> (Inr (approximate_result txt), warnOnce (''model:'' @ normalize_string model) c)
        | Some encoding \<Rightarrow>
            (case loadCodec lib encoding c of
               (Codec f, c') \<Rightarrow> (exact_result encoding (f txt), c')
             | (EncodingNotSupported, c') \<Rightarrow> (Inr (approximate_result txt), warnOnce (''encoding:'' @ encoding) c')
             | (CodecFailed, c') \<Rightarrow> (Inl (LoadCodecFailed encoding), c'))))"

definition add_count :: "count_result \<Rightarrow> count_result \<Rightarrow> count_result" where
  "add_count acc r =
     (let t = acc\<lparr>cn_Tokens := cn_Tokens acc + cn_Tokens r\<rparr> in
      if cn_Approximate r then t\<lparr>cn_Approximate := True\<rparr>
      else if cn_Encoding r \<noteq> [] then t\<lparr>cn_Encoding := cn_Encoding r\<rparr> else t)"

fun count_strings :: "(string \<Rightarrow> codec_answer) \<Rightarrow> string \<Rightarrow> count_result \<Rightarrow> string list \<Rightarrow> counter
    \<Rightarrow> (count_error + count_result) \<times> counter" where
  "count_strings lib model acc [] c = (Inr acc, c)"
| "count_strings lib model acc (t # ts) c =
     (case Count lib model t c of (Inl e, c') \<Rightarrow> (Inl e, c')
      | (Inr r, c') \<Rightarrow> count_strings lib model (add_count acc r) ts c')"

definition CountStrings :: "(string \<Rightarrow> codec_answer) \<Rightarrow> string \<Rightarrow> string list \<Rightarrow> counter \<Rightarrow> (count_error + count_result) \<times> counter" where
  "CountStrings lib model txts c = count_strings lib model zero_count txts c"

section \<open>The specification of a count\<close>

text \<open>Without a state.\<close>

definition pure_count :: "(string \<Rightarrow> codec_answer) \<Rightarrow> string \<Rightarrow> string \<Rightarrow> count_error + count_result" where
  "pure_count lib model txt =
     (if txt = [] then Inr zero_count
      else (case EncodingForModel model of None \<Rightarrow> Inr (approximate_result txt)
        | Some encoding \<Rightarrow> (case lib encoding of Codec f \<Rightarrow> exact_result encoding (f txt)
            | EncodingNotSupported \<Rightarrow> Inr (approximate_result txt) | CodecFailed \<Rightarrow> Inl (LoadCodecFailed encoding))))"

definition counter_ok :: "(string \<Rightarrow> codec_answer) \<Rightarrow> counter \<Rightarrow> bool" where
  "counter_ok lib c \<longleftrightarrow> (\<forall>(e, f) \<in> set (tc_codecs c). lib e = Codec f) \<and> distinct (tc_logged c) \<and> set (tc_logged c) = set (tc_warned c)"

lemma NewCounter_ok: "counter_ok lib NewCounter"
  by (simp add: counter_ok_def NewCounter_def)

lemma warnOnce_ok: "counter_ok lib c \<Longrightarrow> counter_ok lib (warnOnce key c)"
  by (auto simp: counter_ok_def warnOnce_def)

lemma loadCodec_ok:
  assumes "counter_ok lib c" "loadCodec lib e c = (a, c')"
  shows "a = lib e \<and> counter_ok lib c'"
proof (cases "map_of (tc_codecs c) e")
  case None
  then show ?thesis using assms by (cases "lib e") (auto simp: loadCodec_def counter_ok_def)
next
  case (Some f)
  then have "(e, f) \<in> set (tc_codecs c)" by (rule map_of_SomeD)
  then have "lib e = Codec f" using assms(1) by (auto simp: counter_ok_def)
  then show ?thesis using assms Some by (auto simp: loadCodec_def)
qed

lemma Count_pure:
  assumes "counter_ok lib c" "Count lib model txt c = (r, c')"
  shows "r = pure_count lib model txt \<and> counter_ok lib c'"
proof (cases "txt = [] \<or> EncodingForModel model = None")
  case True
  then show ?thesis using assms by (auto simp: Count_def pure_count_def warnOnce_ok)
next
  case False
  then obtain e where e: "EncodingForModel model = Some e" by auto
  obtain a c1 where l: "loadCodec lib e c = (a, c1)" by fastforce
  note ok = loadCodec_ok [OF assms(1) l]
  show ?thesis
    using assms False e l ok by (cases "lib e") (auto simp: Count_def pure_count_def warnOnce_ok)
qed

fun count_all :: "(string \<Rightarrow> codec_answer) \<Rightarrow> (string \<times> string) list \<Rightarrow> counter \<Rightarrow> (count_error + count_result) list \<times> counter" where
  "count_all lib [] c = ([], c)"
| "count_all lib ((model, txt) # qs) c =
     (case Count lib model txt c of (r, c') \<Rightarrow> apfst ((#) r) (count_all lib qs c'))"

lemma count_all_pure:
  "counter_ok lib c \<Longrightarrow> count_all lib qs c = (rs, c') \<Longrightarrow> rs = map (\<lambda>(m, t). pure_count lib m t) qs \<and> counter_ok lib c'"
proof (induction qs arbitrary: c rs)
  case (Cons q qs)
  obtain m t where q: "q = (m, t)" by fastforce
  obtain r c1 where r: "Count lib m t c = (r, c1)" by fastforce
  obtain rs1 where rs: "count_all lib qs c1 = (rs1, c')" "rs = r # rs1"
    using Cons.prems(2) q r by (cases "count_all lib qs c1") auto
  show ?case using Count_pure [OF Cons.prems(1) r] Cons.IH [OF _ rs(1)] rs(2) q by simp
qed simp

text \<open>Any sequence of counts on a new counter returns what the library's codecs alone determine for each text, and
  logs no warning twice.\<close>
theorem counts_do_not_depend_on_the_cache:
  "fst (count_all lib qs NewCounter) = map (\<lambda>(m, t). pure_count lib m t) qs \<and>
   distinct (tc_logged (snd (count_all lib qs NewCounter)))"
  using count_all_pure [OF NewCounter_ok prod.collapse [symmetric], of lib qs] by (simp add: counter_ok_def)

section \<open>Sums\<close>

text \<open>The heuristic rounds up to four bytes a token.\<close>

lemma approximate_bounds: "int (length txt) \<le> 4 * approximateTokens txt \<and> 4 * approximateTokens txt < int (length txt) + 4"
proof (cases "txt = []")
  case False
  then show ?thesis unfolding approximateTokens_def by simp linarith
qed (simp add: approximateTokens_def)

text \<open>Whether a count of a model falls back does not depend on the text.\<close>

definition falls_back :: "(string \<Rightarrow> codec_answer) \<Rightarrow> string \<Rightarrow> bool" where
  "falls_back lib model \<longleftrightarrow> (case EncodingForModel model of None \<Rightarrow> True | Some e \<Rightarrow> lib e = EncodingNotSupported)"

lemma pure_count_shape:
  "pure_count lib model txt = Inr r \<Longrightarrow> (if falls_back lib model then cn_Encoding r = [] else \<not> cn_Approximate r)"
  by (auto simp: pure_count_def falls_back_def zero_count_def approximate_result_def exact_result_def
      split: if_splits option.splits codec_answer.splits)

lemma count_strings_consistent:
  assumes "counter_ok lib c" "count_strings lib model acc ts c = (Inr r, c')"
    "if falls_back lib model then cn_Encoding acc = [] else \<not> cn_Approximate acc"
  shows "if falls_back lib model then cn_Encoding r = [] else \<not> cn_Approximate r"
  using assms
proof (induction ts arbitrary: acc c)
  case Nil
  then show ?case by (auto split: if_splits)
next
  case (Cons t ts)
  obtain x c1 where x: "Count lib model t c = (x, c1)" by fastforce
  note pure = Count_pure [OF Cons.prems(1) x]
  obtain r1 where r1: "x = Inr r1" "count_strings lib model (add_count acc r1) ts c1 = (Inr r, c')"
    using Cons.prems(2) x by (cases x) auto
  have "if falls_back lib model then cn_Encoding r1 = [] else \<not> cn_Approximate r1"
    using pure_count_shape pure r1(1) by metis
  then have "if falls_back lib model then cn_Encoding (add_count acc r1) = [] else \<not> cn_Approximate (add_count acc r1)"
    using Cons.prems(3) by (simp add: add_count_def Let_def split: if_splits)
  then show ?case by (rule Cons.IH [OF pure [THEN conjunct2] r1(2)])
qed

text \<open>A sum over several texts is exact or approximate as a whole: it carries an encoding only when no count fell
  back.\<close>
theorem sums_are_exact_or_approximate:
  assumes "CountStrings lib model txts NewCounter = (Inr r, c')"
  shows "cn_Approximate r \<longrightarrow> cn_Encoding r = []"
proof -
  have "if falls_back lib model then cn_Encoding zero_count = [] else \<not> cn_Approximate zero_count"
    by (simp add: zero_count_def)
  from count_strings_consistent [OF NewCounter_ok assms [unfolded CountStrings_def] this]
  show ?thesis by (auto split: if_splits)
qed

end
