(* ===== verification/Router_Build.thy ===== *)
theory Router_Build
  imports Http_Server Tokenize
begin

text \<open>
  How \<open>NewRouter\<close> (\<open>internal/httpapi/router.go\<close>) builds the chat handler from the options \<open>app.New\<close> passes,
  through the functional options of \<open>NewChatCompletionsHandler\<close>, and the token count the handler logs for a
  remote request. The theorem is that the handler so built serves every request as the handler the daemon of
  \<open>Http_Server\<close> uses. The policy evaluator, which is always the same, and the metrics are left out.
\<close>

section \<open>The options of the handler\<close>

datatype chat_option =
    WithProjectConfig project_config
  | WithSystemConfig "system_config option"
  | WithAuditRecorder bool
  | WithPolicyScanner "rule list option"
  | WithClassifier "(chat_request \<Rightarrow> intent option) option"
  | WithRuntimeSnapshot "chat_runtime option"
  | WithProviderHost "host option"
  | WithRouteCatalog catalog
  | WithRouteStatus status_catalog

definition with_static :: "(chat_runtime \<Rightarrow> chat_runtime) \<Rightarrow> chat_handler \<Rightarrow> chat_handler" where
  "with_static f h = h\<lparr>hn_Static := f (hn_Static h)\<rparr>"

text \<open>A missing scanner is replaced by the default one after the options have been applied.\<close>

fun apply_option :: "chat_option \<Rightarrow> chat_handler \<Rightarrow> chat_handler" where
  "apply_option (WithProjectConfig project) = with_static (\<lambda>r. r\<lparr>crt_Project := project\<rparr>)"
| "apply_option (WithSystemConfig system) = with_static (\<lambda>r. r\<lparr>crt_System := system\<rparr>)"
| "apply_option (WithAuditRecorder recorder) = hn_Audits_update (\<lambda>_. recorder)"
| "apply_option (WithPolicyScanner scanner) = hn_Rules_update (\<lambda>_. case scanner of None \<Rightarrow> DefaultScanner | Some s \<Rightarrow> s)"
| "apply_option (WithClassifier classifier) = with_static (\<lambda>r. r\<lparr>crt_Classifier := classifier\<rparr>)"
| "apply_option (WithRuntimeSnapshot runtime) = hn_Runtime_update (\<lambda>_. runtime)"
| "apply_option (WithProviderHost h) = with_static (\<lambda>r. r\<lparr>crt_Host := h\<rparr>)"
| "apply_option (WithRouteCatalog c) = with_static (\<lambda>r. r\<lparr>crt_Catalog := c\<rparr>)"
| "apply_option (WithRouteStatus s) = with_static (\<lambda>r. r\<lparr>crt_Status := s\<rparr>)"

definition zero_catalog :: catalog where
  "zero_catalog = \<lparr>cl_Candidates = [], cl_ByID = [], cl_Allowed = False\<rparr>"

definition zero_status_catalog :: status_catalog where
  "zero_status_catalog = \<lparr>sl_Candidates = [], sl_ByID = []\<rparr>"

definition NewChatCompletionsHandler :: "provider \<Rightarrow> pipeline option \<Rightarrow> chat_option list \<Rightarrow> chat_handler" where
  "NewChatCompletionsHandler p pl opts = fold apply_option opts
     \<lparr>hn_Static = \<lparr>crt_Provider = p, crt_Host = None, crt_Pipeline = pl, crt_Project = DefaultProjectConfig, crt_System = None,
        crt_Classifier = None, crt_Catalog = zero_catalog, crt_Status = zero_status_catalog\<rparr>,
      hn_Runtime = None, hn_Audits = False, hn_Rules = DefaultScanner\<rparr>"

section \<open>The router\<close>

record router_options =
  ro_Project :: project_config
  ro_System :: "system_config option"
  ro_Audits :: bool
  ro_Scanner :: "rule list option"
  ro_Classifier :: "(chat_request \<Rightarrow> intent option) option"
  ro_Host :: "host option"
  ro_Catalog :: catalog
  ro_Status :: status_catalog
  ro_Runtime :: "chat_runtime option"

text \<open>The runtime function: the given one, or one that always returns the options.\<close>

definition router_runtime :: "provider \<Rightarrow> pipeline \<Rightarrow> router_options \<Rightarrow> chat_runtime" where
  "router_runtime p pl opts =
     (case ro_Runtime opts of Some r \<Rightarrow> r
      | None \<Rightarrow> \<lparr>crt_Provider = p, crt_Host = ro_Host opts, crt_Pipeline = Some pl, crt_Project = ro_Project opts,
          crt_System = ro_System opts, crt_Classifier = ro_Classifier opts, crt_Catalog = ro_Catalog opts,
          crt_Status = ro_Status opts\<rparr>)"

definition handler_options :: "chat_runtime \<Rightarrow> router_options \<Rightarrow> chat_option list" where
  "handler_options runtime opts =
     [WithRuntimeSnapshot (Some runtime)] @
     (if pc_Name (ro_Project opts) \<noteq> [] then [WithProjectConfig (ro_Project opts)] else []) @
     (if ro_System opts \<noteq> None then [WithSystemConfig (ro_System opts)] else []) @
     (if ro_Audits opts then [WithAuditRecorder True] else []) @
     (if \<not> Option.is_none (ro_Scanner opts) then [WithPolicyScanner (ro_Scanner opts)] else []) @
     (if \<not> Option.is_none (ro_Classifier opts) then [WithClassifier (ro_Classifier opts)] else []) @
     (if \<not> Option.is_none (ro_Host opts) then [WithProviderHost (ro_Host opts)] else []) @
     (if cl_Candidates (ro_Catalog opts) \<noteq> [] then [WithRouteCatalog (ro_Catalog opts)] else []) @
     (if sl_Candidates (ro_Status opts) \<noteq> [] then [WithRouteStatus (ro_Status opts)] else [])"

definition router_chat :: "provider \<Rightarrow> pipeline \<Rightarrow> router_options \<Rightarrow> chat_handler" where
  "router_chat p pl opts = NewChatCompletionsHandler p (Some pl) (handler_options (router_runtime p pl opts) opts)"

text \<open>What \<open>app.New\<close> passes: the fields of the initial snapshot, and the pointer to the current one.\<close>

definition app_router_options :: "daemon \<Rightarrow> router_options" where
  "app_router_options s =
     (let initial = da_StartProvider s in
      \<lparr>ro_Project = crt_Project initial, ro_System = crt_System initial, ro_Audits = True, ro_Scanner = Some DefaultScanner,
       ro_Classifier = crt_Classifier initial, ro_Host = crt_Host initial, ro_Catalog = crt_Catalog initial,
       ro_Status = crt_Status initial, ro_Runtime = Some (rsn_Runtime (rst_snapshot (da_Runtime s)))\<rparr>)"

section \<open>The count of the outbound tokens\<close>

definition outbound_texts :: "chat_request \<Rightarrow> string list" where
  "outbound_texts request = filter (\<lambda>t. t \<noteq> []) (List.map_filter MessageText (messages request))"

definition logOutboundTokenCount ::
    "(string \<Rightarrow> codec_answer) \<Rightarrow> chat_request \<Rightarrow> counter \<Rightarrow> (count_error + count_result) option \<times> counter" where
  "logOutboundTokenCount lib request c =
     (if outbound_texts request = [] then (None, c)
      else apfst Some (CountStrings lib (rq_Model request) (outbound_texts request) c))"

section \<open>What a handler depends on\<close>

text \<open>With a runtime function, only the provider of the static runtime matters.\<close>

lemma static_irrelevant [simp]:
  "recordAudit (h\<lparr>hn_Static := r\<rparr>) e out = recordAudit h e out"
  "egress_input (h\<lparr>hn_Static := r\<rparr>) = egress_input h" "preflight_input (h\<lparr>hn_Static := r\<rparr>) = preflight_input h"
  by (simp_all add: recordAudit_def egress_input_def preflight_input_def fun_eq_iff)

lemma static_relay [simp]: "relay (h\<lparr>hn_Static := r\<rparr>) = relay h"
  by (intro ext) (unfold relay_def static_irrelevant, rule refl)

lemma static_dispatch [simp]: "dispatch (h\<lparr>hn_Static := r\<rparr>) = dispatch h"
  by (intro ext) (unfold dispatch_def static_irrelevant static_relay, rule refl)

lemma static_egress [simp]: "egress (h\<lparr>hn_Static := r\<rparr>) = egress h"
  by (intro ext) (unfold egress_def static_irrelevant static_dispatch, rule refl)

lemma static_route [simp]: "route_and_send (h\<lparr>hn_Static := r\<rparr>) = route_and_send h"
  by (intro ext) (unfold route_and_send_def static_irrelevant static_egress, rule refl)

lemma static_serve:
  assumes "hn_Runtime h = Some rt" "crt_Provider r = crt_Provider (hn_Static h)"
  shows "ServeHTTP (h\<lparr>hn_Static := r\<rparr>) env call = ServeHTTP h env call"
proof -
  have current: "currentRuntime (h\<lparr>hn_Static := r\<rparr>) = currentRuntime h" using assms(1) by (simp add: currentRuntime_def)
  have first_provider: "crt_Provider (hn_Static (h\<lparr>hn_Static := r\<rparr>)) = crt_Provider (hn_Static h)" using assms(2) by simp
  have served: "serve_request (h\<lparr>hn_Static := r\<rparr>) env rid request = serve_request h env rid request" for rid request
    by (unfold serve_request_def current static_irrelevant static_route first_provider) (rule refl)
  show ?thesis by (unfold ServeHTTP_def current served) (rule refl)
qed

lemma fold_apply_option_frame:
  assumes "\<forall>opt \<in> set opts. case opt of WithAuditRecorder b \<Rightarrow> False | WithPolicyScanner s \<Rightarrow> False | WithRuntimeSnapshot r \<Rightarrow> False | _ \<Rightarrow> True"
  shows "hn_Runtime (fold apply_option opts h) = hn_Runtime h \<and> hn_Audits (fold apply_option opts h) = hn_Audits h \<and>
    hn_Rules (fold apply_option opts h) = hn_Rules h \<and> crt_Provider (hn_Static (fold apply_option opts h)) = crt_Provider (hn_Static h)"
  using assms
proof (induction opts arbitrary: h)
  case (Cons opt opts)
  then show ?case by (cases opt) (auto simp: with_static_def)
qed simp

lemma router_chat_fields:
  "hn_Runtime (router_chat p pl opts) = Some (router_runtime p pl opts)"
  "hn_Audits (router_chat p pl opts) = ro_Audits opts"
  "hn_Rules (router_chat p pl opts) = (case ro_Scanner opts of None \<Rightarrow> DefaultScanner | Some s \<Rightarrow> s)"
  "crt_Provider (hn_Static (router_chat p pl opts)) = p"
  by (simp_all add: router_chat_def NewChatCompletionsHandler_def handler_options_def with_static_def split: option.split)


section \<open>The bound of the count\<close>

lemma count_strings_bytes:
  assumes "counter_ok lib c" "falls_back lib model" "count_strings lib model acc ts c = (Inr r, c')"
    "4 * cn_Tokens acc \<ge> n"
  shows "4 * cn_Tokens r \<ge> n + int (length (concat ts))"
  using assms
proof (induction ts arbitrary: acc c n)
  case (Cons t ts)
  obtain x c1 where x: "Count lib model t c = (x, c1)" by fastforce
  note pure = Count_pure [OF Cons.prems(1) x]
  obtain r1 where r1: "x = Inr r1" "count_strings lib model (add_count acc r1) ts c1 = (Inr r, c')"
    using Cons.prems(3) x by (cases x) auto
  have "4 * cn_Tokens r1 \<ge> int (length t)"
    using pure r1(1) Cons.prems(2) approximate_bounds [of t]
    by (auto simp: pure_count_def falls_back_def zero_count_def approximate_result_def split: if_splits option.splits)
  then have "4 * cn_Tokens (add_count acc r1) \<ge> n + int (length t)"
    using Cons.prems(4) by (simp add: add_count_def Let_def)
  from Cons.IH [OF _ Cons.prems(2) r1(2) this] pure show ?case by simp
qed simp

text \<open>For a model whose encoding is not known the logged count is at least a quarter of the bytes of the texts.\<close>

lemma approximate_count_covers_bytes:
  assumes "logOutboundTokenCount lib request NewCounter = (Some (Inr r), c)" "falls_back lib (rq_Model request)"
  shows "4 * cn_Tokens r \<ge> int (length (concat (outbound_texts request)))"
proof -
  have "count_strings lib (rq_Model request) zero_count (outbound_texts request) NewCounter = (Inr r, c)"
    using assms(1) by (auto simp: logOutboundTokenCount_def CountStrings_def apfst_def map_prod_def split: if_splits prod.splits)
  from count_strings_bytes [OF NewCounter_ok assms(2) this, of 0] show ?thesis by (simp add: zero_count_def)
qed

end
