(* ===== verification/Metrics.thy ===== *)
theory Metrics
  imports Go_Json "HOL-Library.Word" "HOL-Library.AList"
begin

text \<open>
  \<open>internal/observability/metrics.go\<close>: the counters of the daemon and their text form. A counter is a 64-bit
  word that wraps; a map from labels to counters is an association list. Every method runs under one mutex,
  so it is one step on the registry. \<open>strconv.Quote\<close> needs to know which runes beyond ASCII are printable,
  a parameter. The lemma relates a counter to the sequence of recorded requests.
\<close>

type_synonym counters = "(string \<times> 64 word) list"

record registry =
  mt_httpRequestsTotal :: counters
  mt_httpRequestDurationMillis :: counters
  mt_providerRequestsTotal :: counters
  mt_retrievalRequestsTotal :: "64 word"
  mt_retrievalSourcesTotal :: "64 word"
  mt_retrievalTruncatedTotal :: "64 word"

definition NewRegistry :: registry where
  "NewRegistry = \<lparr>mt_httpRequestsTotal = [], mt_httpRequestDurationMillis = [], mt_providerRequestsTotal = [],
     mt_retrievalRequestsTotal = 0, mt_retrievalSourcesTotal = 0, mt_retrievalTruncatedTotal = 0\<rparr>"

definition reading :: "counters \<Rightarrow> string \<Rightarrow> 64 word" where
  "reading m key = (case map_of m key of None \<Rightarrow> 0 | Some n \<Rightarrow> n)"

definition count_up :: "string \<Rightarrow> 64 word \<Rightarrow> counters \<Rightarrow> counters" where
  "count_up key n m = AList.update key (reading m key + n) m"

section \<open>Labels\<close>

definition hex_digits :: "nat \<Rightarrow> int \<Rightarrow> string" where
  "hex_digits w n = map (\<lambda>i. hex_digit (n div 16 ^ (w - 1 - i) mod 16)) [0..<w]"

text \<open>The code point of a well-formed rune.\<close>

definition rune_value :: "string \<Rightarrow> int" where
  "rune_value r =
     (case map of_char r of
        [a] \<Rightarrow> a
      | [a, b] \<Rightarrow> (a mod 32) * 64 + b mod 64
      | [a, b, c] \<Rightarrow> ((a mod 16) * 64 + b mod 64) * 64 + c mod 64
      | [a, b, c, d] \<Rightarrow> (((a mod 8) * 64 + b mod 64) * 64 + c mod 64) * 64 + d mod 64
      | _ \<Rightarrow> 65533)"

definition quote_rune :: "(string \<Rightarrow> bool) \<Rightarrow> string \<Rightarrow> string" where
  "quote_rune printable r =
     (let n = rune_value r in
      if r = [CHR 0x22] \<or> r = [CHR 0x5C] then CHR 0x5C # r
      else if length r = 1 \<and> 32 \<le> n \<and> n < 127 \<or> length r > 1 \<and> printable r then r
      else if n = 7 then [CHR 0x5C, CHR ''a''] else if n = 8 then [CHR 0x5C, CHR ''b'']
      else if n = 12 then [CHR 0x5C, CHR ''f''] else if n = 10 then [CHR 0x5C, CHR ''n'']
      else if n = 13 then [CHR 0x5C, CHR ''r''] else if n = 9 then [CHR 0x5C, CHR ''t'']
      else if n = 11 then [CHR 0x5C, CHR ''v'']
      else if n < 32 \<or> n = 127 then [CHR 0x5C, CHR ''x''] @ hex_digits 2 n
      else if n < 65536 then [CHR 0x5C, CHR ''u''] @ hex_digits 4 n
      else [CHR 0x5C, CHR ''U''] @ hex_digits 8 n)"

text \<open>A byte that starts no well-formed rune is written in hexadecimal.\<close>

function quote_runes :: "(string \<Rightarrow> bool) \<Rightarrow> string \<Rightarrow> string" where
  "quote_runes printable s =
     (if s = [] then []
      else if utf8_len s = 0 then [CHR 0x5C, CHR ''x''] @ hex_digits 2 (of_char (hd s)) @ quote_runes printable (tl s)
      else quote_rune printable (take (utf8_len s) s) @ quote_runes printable (drop (utf8_len s) s))"
  by pat_completeness auto
termination by (relation "measure (length \<circ> snd)") auto

declare quote_runes.simps [simp del]

definition go_quote :: "(string \<Rightarrow> bool) \<Rightarrow> string \<Rightarrow> string" where
  "go_quote printable s = CHR 0x22 # quote_runes printable s @ [CHR 0x22]"

definition formatLabels :: "(string \<Rightarrow> bool) \<Rightarrow> (string \<times> string) list \<Rightarrow> string" where
  "formatLabels printable labels =
     ''{'' @ join_with '','' (map (\<lambda>(k, v). k @ ''='' @ go_quote printable v) (sort_on fst labels)) @ ''}''"

section \<open>Recording\<close>

definition http_labels :: "(string \<Rightarrow> bool) \<Rightarrow> string \<Rightarrow> string \<Rightarrow> int \<Rightarrow> string" where
  "http_labels printable method path status =
     formatLabels printable [(''method'', method), (''path'', path), (''status'', itoa status)]"

definition RecordHTTPRequest :: "(string \<Rightarrow> bool) \<Rightarrow> string \<Rightarrow> string \<Rightarrow> int \<Rightarrow> int \<Rightarrow> registry \<Rightarrow> registry" where
  "RecordHTTPRequest printable method path status durationMillis r =
     (let key = http_labels printable method path status in
      r\<lparr>mt_httpRequestsTotal := count_up key 1 (mt_httpRequestsTotal r),
        mt_httpRequestDurationMillis := count_up key (word_of_int durationMillis) (mt_httpRequestDurationMillis r)\<rparr>)"

definition RecordProviderRequest :: "(string \<Rightarrow> bool) \<Rightarrow> string \<Rightarrow> string \<Rightarrow> int \<Rightarrow> registry \<Rightarrow> registry" where
  "RecordProviderRequest printable provider outcome status r =
     r\<lparr>mt_providerRequestsTotal := count_up
         (formatLabels printable [(''provider'', provider), (''outcome'', outcome), (''status'', itoa status)]) 1
         (mt_providerRequestsTotal r)\<rparr>"

definition RecordRetrieval :: "int \<Rightarrow> bool \<Rightarrow> registry \<Rightarrow> registry" where
  "RecordRetrieval sourceCount truncated r =
     r\<lparr>mt_retrievalRequestsTotal := mt_retrievalRequestsTotal r + 1,
       mt_retrievalSourcesTotal := mt_retrievalSourcesTotal r + word_of_int sourceCount,
       mt_retrievalTruncatedTotal := mt_retrievalTruncatedTotal r + (if truncated then 1 else 0)\<rparr>"

section \<open>The text form\<close>

definition word_text :: "64 word \<Rightarrow> string" where
  "word_text n = itoa (uint n)"

definition appendMetricMap :: "string \<Rightarrow> counters \<Rightarrow> string list" where
  "appendMetricMap metricName values =
     map (\<lambda>(k, n). metricName @ k @ '' '' @ word_text n) (sort_on fst values)"

definition RenderPrometheus :: "registry \<Rightarrow> string" where
  "RenderPrometheus r =
     join_with [CHR 0x0A]
       (appendMetricMap ''rillan_http_requests_total'' (mt_httpRequestsTotal r)
        @ appendMetricMap ''rillan_http_request_duration_millis_total'' (mt_httpRequestDurationMillis r)
        @ appendMetricMap ''rillan_provider_requests_total'' (mt_providerRequestsTotal r)
        @ [''rillan_retrieval_requests_total '' @ word_text (mt_retrievalRequestsTotal r),
           ''rillan_retrieval_sources_total '' @ word_text (mt_retrievalSourcesTotal r),
           ''rillan_retrieval_truncated_total '' @ word_text (mt_retrievalTruncatedTotal r)]) @ [CHR 0x0A]"

section \<open>What the counters count\<close>

datatype measurement = HttpDone string string int int | ProviderDone string string int | RetrievalDone int bool

fun record_one :: "(string \<Rightarrow> bool) \<Rightarrow> measurement \<Rightarrow> registry \<Rightarrow> registry" where
  "record_one pr (HttpDone method path status ms) r = RecordHTTPRequest pr method path status ms r"
| "record_one pr (ProviderDone provider outcome status) r = RecordProviderRequest pr provider outcome status r"
| "record_one pr (RetrievalDone n t) r = RecordRetrieval n t r"

fun http_with :: "(string \<Rightarrow> bool) \<Rightarrow> string \<Rightarrow> measurement \<Rightarrow> bool" where
  "http_with pr key (HttpDone method path status ms) \<longleftrightarrow> http_labels pr method path status = key"
| "http_with pr key _ \<longleftrightarrow> False"

lemma reading_count_up: "reading (count_up key n m) k = (if k = key then reading m k + n else reading m k)"
  by (simp add: reading_def count_up_def update_conv')

lemma count_up_distinct: "distinct (map fst m) \<Longrightarrow> distinct (map fst (count_up key n m))"
  by (simp add: count_up_def distinct_update)

text \<open>After any sequence of measurements, the request counter of each combination of labels is the number of
  requests with these labels modulo \<open>2 ^ 64\<close>, and no combination is listed twice.\<close>
theorem request_counters_count:
  "reading (mt_httpRequestsTotal (fold (record_one pr) ms NewRegistry)) key = of_nat (length (filter (http_with pr key) ms)) \<and>
   distinct (map fst (mt_httpRequestsTotal (fold (record_one pr) ms NewRegistry)))"
proof (induction ms rule: rev_induct)
  case Nil
  then show ?case by (simp add: NewRegistry_def reading_def)
next
  case (snoc m ms)
  then show ?case
    by (cases m)
      (auto simp: RecordHTTPRequest_def RecordProviderRequest_def RecordRetrieval_def Let_def reading_count_up count_up_distinct)
qed

end
