(* ===== verification/Cli_Registry.thy ===== *)
theory Cli_Registry
  imports Config_Load Openai_Types
begin

text \<open>
  \<open>cmd/rillan\<close>: the commands that edit the provider and endpoint registries and the credential store
  (\<open>llm.go\<close>, \<open>mcp.go\<close>, \<open>auth.go\<close>, \<open>credential_flags.go\<close>, \<open>daemon_refresh.go\<close>). A command is a function of
  its flags, the environment and the keyring; its effect is the configuration it writes, the next keyring,
  the requests it sends to the daemon and the error it ends with. Flag parsing and the printed text are left
  out. What the next command loads is what the YAML library makes of the written file; \<open>holds_written\<close>
  states the part of its behaviour that matters: an empty field is not written, and a field that is not in
  the file keeps the value of the default configuration it is decoded into.
\<close>

section \<open>The environment and the effect of a command\<close>

text \<open>What the daemon answers to a refresh: the connection is refused, the request fails otherwise, or a
  response with its status code, status text and body.\<close>

datatype daemon_answer = ConnectionRefused | RequestFailed | DaemonAnswered int string string

datatype (plugins only: code size) cli_error =
    CliLoad load_error | CliWrite | CliSecret secret_error
  | EntryNameEmpty | EntryBackendEmpty | EntryEndpointEmpty string | EntryCommandEmpty string
  | EntryTransport string | EntryAuthStrategy string | UnsupportedPreset string
  | EntryExists string | EntryNotFound string
  | ApiKeyRequired | AccessTokenRequired string | NoneHasNoLogin | LoginStrategy string
  | EndpointRequired | StrategyRequired
  | BearerUnresolved secret_error | DaemonUnreachable | DaemonRefused string

record cli_env =
  cn_Loader :: loader
  cn_Path :: string
  cn_WriteFails :: bool
  cn_Now :: string
  cn_Daemon :: "string \<Rightarrow> string option \<Rightarrow> daemon_answer"

record cli_effect =
  cf_Error :: "cli_error option"
  cf_Written :: "config option"
  cf_Keyring :: keyring
  cf_Requests :: "(string \<times> string option) list"

definition failed :: "keyring \<Rightarrow> cli_error \<Rightarrow> cli_effect" where
  "failed k e = \<lparr>cf_Error = Some e, cf_Written = None, cf_Keyring = k, cf_Requests = []\<rparr>"

section \<open>Telling the daemon\<close>

definition daemonRefreshHost :: "string \<Rightarrow> string" where
  "daemonRefreshHost host =
     (let trimmed = trim_space host in
      if trimmed \<in> set [[], ''0.0.0.0'', ''::'', ''[::]''] then ''127.0.0.1'' else trimmed)"

definition daemonRefreshURL :: "config \<Rightarrow> string" where
  "daemonRefreshURL cfg =
     (let h = daemonRefreshHost (srv_Host (cfg_Server cfg)); host = (if h = [] then ''127.0.0.1'' else h) in
      ''http://'' @ join_host_port host (itoa (srv_Port (cfg_Server cfg))) @ ''/admin/runtime/refresh'')"

definition inner_message :: "string \<Rightarrow> json \<Rightarrow> string \<Rightarrow> string option" where
  "inner_message k v d = (if equal_fold_ascii k ''message'' then dec_string v d else Some d)"

definition error_message :: "string \<Rightarrow> json \<Rightarrow> string \<Rightarrow> string option" where
  "error_message k v d = (if equal_fold_ascii k ''error'' then dec_struct inner_message v d else Some d)"

definition refresh_message :: "string \<Rightarrow> string \<Rightarrow> string" where
  "refresh_message status body =
     (let raw = take 4096 body;
          api = (case Option.bind (parse_json raw) (\<lambda>v. dec_struct error_message v []) of None \<Rightarrow> [] | Some m \<Rightarrow> trim_space m);
          message = (if api \<noteq> [] then api else trim_space raw) in
      if message = [] then status else message)"

definition notifyDaemonRuntimeRefresh ::
    "cli_env \<Rightarrow> keyring \<Rightarrow> config \<Rightarrow> cli_error option \<times> (string \<times> string option) list" where
  "notifyDaemonRuntimeRefresh env k cfg =
     (case (if sa_Enabled (srv_Auth (cfg_Server cfg)) then map_sum id Some (ResolveServerAuthBearer k cfg) else Inr None) of
        Inl e \<Rightarrow> (Some (BearerUnresolved e), [])
      | Inr bearer \<Rightarrow>
          ((case cn_Daemon env (daemonRefreshURL cfg) bearer of
              ConnectionRefused \<Rightarrow> None
            | RequestFailed \<Rightarrow> Some DaemonUnreachable
            | DaemonAnswered st status body \<Rightarrow>
                (if 200 \<le> st \<and> st < 300 then None else Some (DaemonRefused (refresh_message status body)))),
           [(daemonRefreshURL cfg, bearer)]))"

definition refreshDaemonAfterMutation ::
    "cli_env \<Rightarrow> keyring \<Rightarrow> config \<Rightarrow> cli_error option \<times> (string \<times> string option) list" where
  "refreshDaemonAfterMutation env k cfg = notifyDaemonRuntimeRefresh env k (applyEnvOverrides (ld_Env (cn_Loader env)) cfg)"

text \<open>Writing the edited configuration, then the refresh; and the refresh after a change of the keyring.\<close>

definition write_and_refresh :: "cli_env \<Rightarrow> keyring \<Rightarrow> config \<Rightarrow> cli_effect" where
  "write_and_refresh env k cfg =
     (if cn_WriteFails env then failed k CliWrite
      else (case refreshDaemonAfterMutation env k cfg of (err, requests) \<Rightarrow>
        \<lparr>cf_Error = err, cf_Written = Some (write_output cfg), cf_Keyring = k, cf_Requests = requests\<rparr>))"

definition only_refresh :: "cli_env \<Rightarrow> keyring \<Rightarrow> config \<Rightarrow> cli_effect" where
  "only_refresh env k cfg =
     (case refreshDaemonAfterMutation env k cfg of (err, requests) \<Rightarrow>
        \<lparr>cf_Error = err, cf_Written = None, cf_Keyring = k, cf_Requests = requests\<rparr>)"

definition editing :: "cli_env \<Rightarrow> keyring \<Rightarrow> (config \<Rightarrow> cli_effect) \<Rightarrow> cli_effect" where
  "editing env k f = (case LoadForEdit (cn_Loader env) (cn_Path env) of Inl e \<Rightarrow> failed k (CliLoad e) | Inr cfg \<Rightarrow> f cfg)"

section \<open>Credentials\<close>

record credential_input =
  ci_apiKey :: string
  ci_accessToken :: string
  ci_refreshToken :: string
  ci_idToken :: string
  ci_issuer :: string
  ci_audience :: string

definition credentialFromInput :: "string \<Rightarrow> string \<Rightarrow> credential_input \<Rightarrow> cli_error + credential" where
  "credentialFromInput authStrategy endpoint i =
     (let strategy = normalize_string authStrategy in
      if strategy = AuthStrategyAPIKey then
        (if trim_space (ci_apiKey i) = [] then Inl ApiKeyRequired
         else Inr \<lparr>cr_Kind = ''api_key'', cr_APIKey = trim_space (ci_apiKey i), cr_AccessToken = [], cr_RefreshToken = [],
           cr_IDToken = [], cr_Endpoint = endpoint, cr_AuthStrategy = ''api_key'', cr_Issuer = [], cr_Audience = [],
           cr_StoredAt = []\<rparr>)
      else if strategy = AuthStrategyBrowserOIDC \<or> strategy = AuthStrategyDeviceOIDC then
        (if trim_space (ci_accessToken i) = [] then Inl (AccessTokenRequired authStrategy)
         else Inr \<lparr>cr_Kind = ''oidc'', cr_APIKey = [], cr_AccessToken = trim_space (ci_accessToken i),
           cr_RefreshToken = trim_space (ci_refreshToken i), cr_IDToken = trim_space (ci_idToken i), cr_Endpoint = endpoint,
           cr_AuthStrategy = strategy, cr_Issuer = trim_space (ci_issuer i), cr_Audience = trim_space (ci_audience i),
           cr_StoredAt = []\<rparr>)
      else if strategy = AuthStrategyNone then Inl NoneHasNoLogin
      else Inl (LoginStrategy authStrategy))"

text \<open>The end of a login and of a logout, for a reference, a strategy and an endpoint.\<close>

definition login_with :: "cli_env \<Rightarrow> keyring \<Rightarrow> config \<Rightarrow> string \<Rightarrow> string \<Rightarrow> string \<Rightarrow> credential_input \<Rightarrow> cli_effect" where
  "login_with env k cfg ref strategy endpoint i =
     (case credentialFromInput strategy endpoint i of Inl e \<Rightarrow> failed k e
      | Inr c \<Rightarrow> (case Save (cn_Now env) ref c k of Inl e \<Rightarrow> failed k (CliSecret e)
          | Inr k' \<Rightarrow> only_refresh env k' cfg))"

definition logout_with :: "cli_env \<Rightarrow> keyring \<Rightarrow> config \<Rightarrow> string \<Rightarrow> cli_effect" where
  "logout_with env k cfg ref =
     (case Delete ref k of Inl e \<Rightarrow> failed k (CliSecret e) | Inr k' \<Rightarrow> only_refresh env k' cfg)"

section \<open>Provider entries\<close>

record llm_flags =
  lf_preset :: string
  lf_backend :: string
  lf_transport :: string
  lf_endpoint :: string
  lf_command :: "string list"
  lf_authStrategy :: string
  lf_defaultModel :: string
  lf_capabilities :: "string list"

text \<open>The flags a user does not set.\<close>

definition default_llm_flags :: llm_flags where
  "default_llm_flags = \<lparr>lf_preset = [], lf_backend = [], lf_transport = LLMTransportHTTP, lf_endpoint = [], lf_command = [],
     lf_authStrategy = [], lf_defaultModel = [], lf_capabilities = []\<rparr>"

definition credentialRefForLLM :: "string \<Rightarrow> string" where
  "credentialRefForLLM ident = ''keyring://rillan/llm/'' @ trim_space ident"

definition normalizeLLMTransport :: "string \<Rightarrow> string" where
  "normalizeLLMTransport transport =
     (let t = normalize_string transport in if t = [] then LLMTransportHTTP else t)"

definition normalizeLLMBackend :: "string \<Rightarrow> string \<Rightarrow> string" where
  "normalizeLLMBackend backend transport =
     (let b = normalize_string backend in
      if b \<noteq> [] then b
      else if normalizeLLMTransport transport = LLMTransportHTTP then LLMBackendOpenAICompatible else [])"

definition normalizeAuthStrategy :: "string \<Rightarrow> string \<Rightarrow> string" where
  "normalizeAuthStrategy authStrategy transport =
     (let a = normalize_string authStrategy; t = normalizeLLMTransport transport in
      if a \<noteq> [] then a
      else if t = LLMTransportSTDIO then AuthStrategyNone
      else if t = LLMTransportHTTP then AuthStrategyAPIKey else [])"

definition normalizeCommand :: "string list \<Rightarrow> string list" where
  "normalizeCommand command = filter (\<lambda>c. c \<noteq> []) (map trim_space command)"

definition normalizeCapabilities :: "string list \<Rightarrow> string list" where
  "normalizeCapabilities capabilities = sort_on id (dedup_from [] (map normalize_string capabilities))"

definition or_given :: "string \<Rightarrow> string \<Rightarrow> string" where
  "or_given given preset = (if given \<noteq> [] then given else preset)"

definition buildLLMProviderEntry :: "string \<Rightarrow> llm_flags \<Rightarrow> cli_error + llm_provider" where
  "buildLLMProviderEntry ident f =
     (let entry = \<lparr>lp_ID = trim_space ident, lp_Preset = normalize_string (lf_preset f),
            lp_Backend = normalizeLLMBackend (lf_backend f) (lf_transport f),
            lp_Transport = normalizeLLMTransport (lf_transport f), lp_Endpoint = trim_space (lf_endpoint f),
            lp_Command = normalizeCommand (lf_command f),
            lp_AuthStrategy = normalizeAuthStrategy (lf_authStrategy f) (lf_transport f),
            lp_DefaultModel = trim_space (lf_defaultModel f), lp_ModelPins = [],
            lp_Capabilities = normalizeCapabilities (lf_capabilities f), lp_CredentialRef = credentialRefForLLM ident\<rparr> in
      if lp_Preset entry = [] then Inr entry
      else (let presetConfig = BundledLLMProviderPreset (lp_Preset entry) in
        if ps_ID presetConfig = [] then Inl (UnsupportedPreset (lp_Preset entry))
        else (let presetEntry = preset_provider_config presetConfig (lp_ID entry) in
          Inr (presetEntry\<lparr>lp_Command := lp_Command entry, lp_Backend := or_given (lp_Backend entry) (lp_Backend presetEntry),
            lp_Transport := or_given (lp_Transport entry) (lp_Transport presetEntry),
            lp_Endpoint := or_given (lp_Endpoint entry) (lp_Endpoint presetEntry),
            lp_AuthStrategy := or_given (lp_AuthStrategy entry) (lp_AuthStrategy presetEntry),
            lp_DefaultModel := or_given (lp_DefaultModel entry) (lp_DefaultModel presetEntry),
            lp_Capabilities := (if lp_Capabilities entry \<noteq> [] then lp_Capabilities entry else lp_Capabilities presetEntry)\<rparr>))))"

definition known_strategy :: "string \<Rightarrow> bool" where
  "known_strategy s \<longleftrightarrow> s \<in> set [AuthStrategyNone, AuthStrategyAPIKey, AuthStrategyBrowserOIDC, AuthStrategyDeviceOIDC]"

definition validateLLMProviderEntry :: "llm_provider \<Rightarrow> cli_error option" where
  "validateLLMProviderEntry entry =
     (if lp_ID entry = [] then Some EntryNameEmpty
      else if lp_Backend entry = [] then Some EntryBackendEmpty
      else if lp_Transport entry = LLMTransportHTTP \<and> lp_Endpoint entry = [] then Some (EntryEndpointEmpty LLMTransportHTTP)
      else if lp_Transport entry = LLMTransportSTDIO \<and> lp_Command entry = [] then Some (EntryCommandEmpty LLMTransportSTDIO)
      else if lp_Transport entry \<noteq> LLMTransportHTTP \<and> lp_Transport entry \<noteq> LLMTransportSTDIO
      then Some (EntryTransport (lp_Transport entry))
      else if \<not> known_strategy (lp_AuthStrategy entry) then Some (EntryAuthStrategy (lp_AuthStrategy entry))
      else None)"

definition findLLMProvider :: "config \<Rightarrow> string \<Rightarrow> llm_provider option" where
  "findLLMProvider cfg ident = find (\<lambda>p. lp_ID p = trim_space ident) (llm_providers cfg)"

definition with_llms :: "(llm_registry \<Rightarrow> llm_registry) \<Rightarrow> config \<Rightarrow> config" where
  "with_llms f cfg = cfg\<lparr>cfg_LLMs := f (cfg_LLMs cfg)\<rparr>"

definition llm_add :: "cli_env \<Rightarrow> string \<Rightarrow> llm_flags \<Rightarrow> keyring \<Rightarrow> cli_effect" where
  "llm_add env name f k =
     (case buildLLMProviderEntry (trim_space name) f of Inl e \<Rightarrow> failed k e
      | Inr entry \<Rightarrow> (case validateLLMProviderEntry entry of Some e \<Rightarrow> failed k e
          | None \<Rightarrow> editing env k (\<lambda>cfg.
              if \<exists>p \<in> set (llm_providers cfg). lp_ID p = lp_ID entry then failed k (EntryExists (lp_ID entry))
              else write_and_refresh env k (with_llms (\<lambda>r. r
                \<lparr>lr_Providers := Some (elems (lr_Providers r) @ [entry]),
                 lr_Default := (if lr_Default r = [] then lp_ID entry else lr_Default r)\<rparr>) cfg))))"

definition llm_remove :: "cli_env \<Rightarrow> string \<Rightarrow> keyring \<Rightarrow> cli_effect" where
  "llm_remove env name k = editing env k (\<lambda>cfg.
     let ident = trim_space name; providers = filter (\<lambda>p. lp_ID p \<noteq> ident) (llm_providers cfg) in
     if \<not> (\<exists>p \<in> set (llm_providers cfg). lp_ID p = ident) then failed k (EntryNotFound ident)
     else write_and_refresh env k (with_llms (\<lambda>r. r
       \<lparr>lr_Providers := Some providers, lr_Default := (if lr_Default r = ident then [] else lr_Default r)\<rparr>) cfg))"

definition llm_list :: "cli_env \<Rightarrow> load_error + string \<times> llm_provider list" where
  "llm_list env = map_sum id (\<lambda>cfg. (lr_Default (cfg_LLMs cfg), sort_on lp_ID (llm_providers cfg)))
     (LoadForEdit (cn_Loader env) (cn_Path env))"

definition llm_use :: "cli_env \<Rightarrow> string \<Rightarrow> keyring \<Rightarrow> cli_effect" where
  "llm_use env name k = editing env k (\<lambda>cfg.
     let ident = trim_space name in
     if \<exists>p \<in> set (llm_providers cfg). lp_ID p = ident
     then write_and_refresh env k (with_llms (\<lambda>r. r\<lparr>lr_Default := ident\<rparr>) cfg)
     else failed k (EntryNotFound ident))"

definition llm_login :: "cli_env \<Rightarrow> string \<Rightarrow> credential_input \<Rightarrow> keyring \<Rightarrow> cli_effect" where
  "llm_login env name i k = editing env k (\<lambda>cfg.
     case findLLMProvider cfg name of None \<Rightarrow> failed k (EntryNotFound (trim_space name))
     | Some p \<Rightarrow> login_with env k cfg (lp_CredentialRef p) (lp_AuthStrategy p) (lp_Endpoint p) i)"

definition llm_logout :: "cli_env \<Rightarrow> string \<Rightarrow> keyring \<Rightarrow> cli_effect" where
  "llm_logout env name k = editing env k (\<lambda>cfg.
     case findLLMProvider cfg name of None \<Rightarrow> failed k (EntryNotFound (trim_space name))
     | Some p \<Rightarrow> logout_with env k cfg (lp_CredentialRef p))"

section \<open>Endpoint entries\<close>

record mcp_flags =
  mf_endpoint :: string
  mf_transport :: string
  mf_command :: "string list"
  mf_authStrategy :: string
  mf_readOnly :: bool

definition credentialRefForMCP :: "string \<Rightarrow> string" where
  "credentialRefForMCP ident = ''keyring://rillan/mcp/'' @ trim_space ident"

definition normalizeMCPTransport :: "string \<Rightarrow> string" where
  "normalizeMCPTransport transport = (let t = normalize_string transport in if t = [] then ''http'' else t)"

definition normalizeMCPAuthStrategy :: "string \<Rightarrow> string" where
  "normalizeMCPAuthStrategy authStrategy = (let a = normalize_string authStrategy in if a = [] then AuthStrategyNone else a)"

definition validateMCPServerEntry :: "mcp_server \<Rightarrow> cli_error option" where
  "validateMCPServerEntry entry =
     (if ms_ID entry = [] then Some EntryNameEmpty
      else if ms_Transport entry = ''http'' \<and> ms_Endpoint entry = [] then Some (EntryEndpointEmpty ''http'')
      else if ms_Transport entry = ''stdio'' \<and> ms_Command entry = [] then Some (EntryCommandEmpty ''stdio'')
      else if ms_Transport entry \<noteq> ''http'' \<and> ms_Transport entry \<noteq> ''stdio'' then Some (EntryTransport (ms_Transport entry))
      else if \<not> known_strategy (ms_AuthStrategy entry) then Some (EntryAuthStrategy (ms_AuthStrategy entry))
      else None)"

definition findMCPServer :: "config \<Rightarrow> string \<Rightarrow> mcp_server option" where
  "findMCPServer cfg ident = find (\<lambda>s. ms_ID s = trim_space ident) (mr_Servers (cfg_MCPs cfg))"

definition with_mcps :: "(mcp_registry \<Rightarrow> mcp_registry) \<Rightarrow> config \<Rightarrow> config" where
  "with_mcps f cfg = cfg\<lparr>cfg_MCPs := f (cfg_MCPs cfg)\<rparr>"

definition mcp_add :: "cli_env \<Rightarrow> string \<Rightarrow> mcp_flags \<Rightarrow> keyring \<Rightarrow> cli_effect" where
  "mcp_add env name f k =
     (let entry = \<lparr>ms_ID = trim_space name, ms_Endpoint = trim_space (mf_endpoint f),
            ms_Transport = normalizeMCPTransport (mf_transport f), ms_Command = normalizeCommand (mf_command f),
            ms_AuthStrategy = normalizeMCPAuthStrategy (mf_authStrategy f), ms_ReadOnly = mf_readOnly f,
            ms_CredentialRef = credentialRefForMCP name\<rparr> in
      case validateMCPServerEntry entry of Some e \<Rightarrow> failed k e
      | None \<Rightarrow> editing env k (\<lambda>cfg.
          if \<exists>s \<in> set (mr_Servers (cfg_MCPs cfg)). ms_ID s = ms_ID entry then failed k (EntryExists (ms_ID entry))
          else write_and_refresh env k (with_mcps (\<lambda>r. r
            \<lparr>mr_Servers := mr_Servers r @ [entry],
             mr_Default := (if mr_Default r = [] then ms_ID entry else mr_Default r)\<rparr>) cfg)))"

definition mcp_remove :: "cli_env \<Rightarrow> string \<Rightarrow> keyring \<Rightarrow> cli_effect" where
  "mcp_remove env name k = editing env k (\<lambda>cfg.
     let ident = trim_space name in
     if \<not> (\<exists>s \<in> set (mr_Servers (cfg_MCPs cfg)). ms_ID s = ident) then failed k (EntryNotFound ident)
     else write_and_refresh env k (with_mcps (\<lambda>r. r
       \<lparr>mr_Servers := filter (\<lambda>s. ms_ID s \<noteq> ident) (mr_Servers r),
        mr_Default := (if mr_Default r = ident then [] else mr_Default r)\<rparr>) cfg))"

definition mcp_list :: "cli_env \<Rightarrow> load_error + string \<times> mcp_server list" where
  "mcp_list env = map_sum id (\<lambda>cfg. (mr_Default (cfg_MCPs cfg), sort_on ms_ID (mr_Servers (cfg_MCPs cfg))))
     (LoadForEdit (cn_Loader env) (cn_Path env))"

definition mcp_use :: "cli_env \<Rightarrow> string \<Rightarrow> keyring \<Rightarrow> cli_effect" where
  "mcp_use env name k = editing env k (\<lambda>cfg.
     let ident = trim_space name in
     if \<exists>s \<in> set (mr_Servers (cfg_MCPs cfg)). ms_ID s = ident
     then write_and_refresh env k (with_mcps (\<lambda>r. r\<lparr>mr_Default := ident\<rparr>) cfg)
     else failed k (EntryNotFound ident))"

definition mcp_login :: "cli_env \<Rightarrow> string \<Rightarrow> credential_input \<Rightarrow> keyring \<Rightarrow> cli_effect" where
  "mcp_login env name i k = editing env k (\<lambda>cfg.
     case findMCPServer cfg name of None \<Rightarrow> failed k (EntryNotFound (trim_space name))
     | Some s \<Rightarrow> login_with env k cfg (ms_CredentialRef s) (ms_AuthStrategy s) (ms_Endpoint s) i)"

definition mcp_logout :: "cli_env \<Rightarrow> string \<Rightarrow> keyring \<Rightarrow> cli_effect" where
  "mcp_logout env name k = editing env k (\<lambda>cfg.
     case findMCPServer cfg name of None \<Rightarrow> failed k (EntryNotFound (trim_space name))
     | Some s \<Rightarrow> logout_with env k cfg (ms_CredentialRef s))"

section \<open>The control plane\<close>

definition with_auth :: "(control_plane_auth \<Rightarrow> control_plane_auth) \<Rightarrow> config \<Rightarrow> config" where
  "with_auth f cfg = cfg\<lparr>cfg_Auth := f (cfg_Auth cfg)\<rparr>"

text \<open>The credential is saved before the configuration is written.\<close>

definition auth_login :: "cli_env \<Rightarrow> string \<Rightarrow> string \<Rightarrow> credential_input \<Rightarrow> keyring \<Rightarrow> cli_effect" where
  "auth_login env endpoint authStrategy i k = editing env k (\<lambda>cfg.
     let a = cfg_Auth cfg;
         endpoint = (if trim_space endpoint = [] then cpa_Endpoint a else endpoint);
         authStrategy = (if trim_space authStrategy = [] then cpa_AuthStrategy a else authStrategy) in
     if trim_space endpoint = [] then failed k EndpointRequired
     else if trim_space authStrategy = [] then failed k StrategyRequired
     else (case credentialFromInput authStrategy (trim_space endpoint) i of Inl e \<Rightarrow> failed k e
       | Inr c \<Rightarrow>
           (let a' = \<lparr>cpa_Endpoint = trim_space endpoint, cpa_AuthStrategy = normalize_string authStrategy,
                  cpa_SessionRef = (if cpa_SessionRef a = [] then ''keyring://rillan/auth/control-plane'' else cpa_SessionRef a)\<rparr> in
            case Save (cn_Now env) (cpa_SessionRef a') c k of Inl e \<Rightarrow> failed k (CliSecret e)
            | Inr k' \<Rightarrow> write_and_refresh env k' (with_auth (\<lambda>_. a') cfg))))"

definition auth_logout :: "cli_env \<Rightarrow> keyring \<Rightarrow> cli_effect" where
  "auth_logout env k = editing env k (\<lambda>cfg.
     let ref = cpa_SessionRef (cfg_Auth cfg) in
     if trim_space ref = [] then \<lparr>cf_Error = None, cf_Written = None, cf_Keyring = k, cf_Requests = []\<rparr>
     else logout_with env k cfg ref)"

definition auth_status :: "cli_env \<Rightarrow> keyring \<Rightarrow> load_error + control_plane_auth \<times> bool" where
  "auth_status env k = map_sum id (\<lambda>cfg. (cfg_Auth cfg,
       trim_space (cpa_SessionRef (cfg_Auth cfg)) \<noteq> [] \<and> Exists k (cpa_SessionRef (cfg_Auth cfg))))
     (LoadForEdit (cn_Loader env) (cn_Path env))"

section \<open>What the commands write\<close>

datatype llm_command = LlmAdd string llm_flags | LlmRemove string | LlmUse string

fun run_llm :: "cli_env \<Rightarrow> llm_command \<Rightarrow> keyring \<Rightarrow> cli_effect" where
  "run_llm env (LlmAdd name f) k = llm_add env name f k"
| "run_llm env (LlmRemove name) k = llm_remove env name k"
| "run_llm env (LlmUse name) k = llm_use env name k"

lemma failed_simps [simp]:
  "cf_Written (failed k e) = None" "cf_Keyring (failed k e) = k" "cf_Error (failed k e) = Some e" "cf_Requests (failed k e) = []"
  by (simp_all add: failed_def)

lemma write_and_refresh_Written:
  "cf_Written (write_and_refresh env k cfg) = Some w \<longleftrightarrow> \<not> cn_WriteFails env \<and> w = write_output cfg"
  by (auto simp: write_and_refresh_def split: prod.splits)

lemma only_refresh_simps [simp]: "cf_Written (only_refresh env k cfg) = None" "cf_Keyring (only_refresh env k cfg) = k"
  by (simp_all add: only_refresh_def split: prod.split)

lemma editing_Written:
  "cf_Written (editing env k f) = Some w \<longleftrightarrow>
     (\<exists>cfg. LoadForEdit (cn_Loader env) (cn_Path env) = Inr cfg \<and> cf_Written (f cfg) = Some w)"
  by (auto simp: editing_def split: sum.splits)

lemma write_output_LLMs [simp]: "cfg_LLMs (write_output cfg) = cfg_LLMs cfg"
  by (simp add: write_output_def)

lemma with_llms_LLMs [simp]: "cfg_LLMs (with_llms f cfg) = f (cfg_LLMs cfg)"
  by (simp add: with_llms_def)

text \<open>A registry in order: the identifiers are not empty and pairwise different, and the default is one of them
  or empty.\<close>

definition registry_ok :: "llm_registry \<Rightarrow> bool" where
  "registry_ok r \<longleftrightarrow> (let ids = map lp_ID (elems (lr_Providers r)) in
     distinct ids \<and> [] \<notin> set ids \<and> (lr_Default r = [] \<or> lr_Default r \<in> set ids))"

lemma build_entry_id: "buildLLMProviderEntry name f = Inr e \<Longrightarrow> lp_ID e = trim_space name"
  by (auto simp: buildLLMProviderEntry_def preset_provider_config_def Let_def split: if_splits)

lemma validated_id: "validateLLMProviderEntry e = None \<Longrightarrow> lp_ID e \<noteq> []"
  by (auto simp: validateLLMProviderEntry_def)

lemma registry_ok_add:
  assumes "registry_ok r" "lp_ID e \<noteq> []" "\<forall>p \<in> set (elems (lr_Providers r)). lp_ID p \<noteq> lp_ID e"
  shows "registry_ok (r\<lparr>lr_Providers := Some (elems (lr_Providers r) @ [e]), lr_Default := (if lr_Default r = [] then lp_ID e else lr_Default r)\<rparr>)"
  using assms by (auto simp: registry_ok_def Let_def)

lemma registry_ok_remove:
  assumes "registry_ok r"
  shows "registry_ok (r\<lparr>lr_Providers := Some (filter (\<lambda>p. lp_ID p \<noteq> i) (elems (lr_Providers r))),
    lr_Default := (if lr_Default r = i then [] else lr_Default r)\<rparr>)"
  using assms by (auto simp: registry_ok_def Let_def distinct_map inj_on_def)

lemma registry_ok_use:
  assumes "registry_ok r" "\<exists>p \<in> set (elems (lr_Providers r)). lp_ID p = i"
  shows "registry_ok (r\<lparr>lr_Default := i\<rparr>)"
  using assms by (auto simp: registry_ok_def Let_def)

lemma llm_add_Written:
  assumes "cf_Written (llm_add env name f k) = Some w"
  obtains cfg e where "LoadForEdit (cn_Loader env) (cn_Path env) = Inr cfg" "buildLLMProviderEntry (trim_space name) f = Inr e"
    "validateLLMProviderEntry e = None" "\<forall>p \<in> set (llm_providers cfg). lp_ID p \<noteq> lp_ID e"
    "w = write_output (with_llms (\<lambda>r. r\<lparr>lr_Providers := Some (elems (lr_Providers r) @ [e]),
       lr_Default := (if lr_Default r = [] then lp_ID e else lr_Default r)\<rparr>) cfg)"
  using assms
  by (auto simp: llm_add_def editing_Written write_and_refresh_Written split: sum.splits option.splits if_splits)

lemma llm_remove_Written:
  assumes "cf_Written (llm_remove env name k) = Some w"
  obtains cfg where "LoadForEdit (cn_Loader env) (cn_Path env) = Inr cfg"
    "w = write_output (with_llms (\<lambda>r. r\<lparr>lr_Providers := Some (filter (\<lambda>p. lp_ID p \<noteq> trim_space name) (elems (lr_Providers r))),
       lr_Default := (if lr_Default r = trim_space name then [] else lr_Default r)\<rparr>) cfg)"
  using assms
  by (auto simp: llm_remove_def editing_Written write_and_refresh_Written with_llms_def Let_def split: if_splits)

lemma llm_use_Written:
  assumes "cf_Written (llm_use env name k) = Some w"
  obtains cfg where "LoadForEdit (cn_Loader env) (cn_Path env) = Inr cfg" "\<exists>p \<in> set (llm_providers cfg). lp_ID p = trim_space name"
    "w = write_output (with_llms (\<lambda>r. r\<lparr>lr_Default := trim_space name\<rparr>) cfg)"
  using assms by (auto simp: llm_use_def editing_Written write_and_refresh_Written Let_def split: if_splits)

lemma write_output_frame: "(write_output cfg)\<lparr>cfg_Provider := cfg_Provider cfg\<rparr> = cfg"
  by (simp add: write_output_def)


section \<open>What the next command loads\<close>

text \<open>The registry the YAML library decodes from a file it wrote: an empty default and an empty list are not in
  the file, so they keep the values of the configuration they are decoded into.\<close>

definition yaml_llms :: "llm_registry \<Rightarrow> llm_registry \<Rightarrow> llm_registry" where
  "yaml_llms d w = \<lparr>lr_Default = (if lr_Default w = [] then lr_Default d else lr_Default w),
     lr_Providers = (if elems (lr_Providers w) = [] then lr_Providers d else lr_Providers w)\<rparr>"

definition holds_written :: "loader \<Rightarrow> string \<Rightarrow> config \<Rightarrow> bool" where
  "holds_written ld path w \<longleftrightarrow> (case ld_ReadFile ld path of Inl e \<Rightarrow> False
     | Inr data \<Rightarrow> (case ld_Config ld data DefaultConfig of None \<Rightarrow> False
         | Some c \<Rightarrow> cfg_LLMs c = yaml_llms (cfg_LLMs DefaultConfig) (cfg_LLMs w)))"

lemma derived_LLMs: "cfg_LLMs (applyDerivedDefaults cwd c path) = derive_llms (cfg_LLMs c)"
  by (simp add: applyDerivedDefaults_def Let_def)

lemma holds_written_load:
  assumes "holds_written ld path w"
  shows "\<exists>cfg. LoadForEdit ld path = Inr cfg \<and> cfg_LLMs cfg = derive_llms (yaml_llms (cfg_LLMs DefaultConfig) (cfg_LLMs w))"
  using assms by (auto simp: holds_written_def LoadForEdit_def derived_LLMs split: sum.splits option.splits)

lemma preset_defaults_id [simp]: "lp_ID (applyLLMProviderPresetDefaults p) = lp_ID p"
  by (simp add: applyLLMProviderPresetDefaults_def fill_from_preset_def Let_def)

lemma derive_llms_default: "lr_Default r \<noteq> [] \<Longrightarrow> lr_Default (derive_llms r) = lr_Default r"
  by (simp add: derive_llms_def Let_def)

lemma derive_llms_ids: "lr_Providers r \<noteq> None \<Longrightarrow> map lp_ID (elems (lr_Providers (derive_llms r))) = map lp_ID (elems (lr_Providers r))"
  by (auto simp: derive_llms_def Let_def)

text \<open>After \<open>llm use\<close>, the configuration loaded from the written file selects the provider of that name for
  every project that names none.\<close>
theorem used_provider_is_active:
  assumes "cf_Written (llm_use env name k) = Some w" "trim_space name \<noteq> []" "holds_written ld path w"
  shows "\<exists>cfg s. LoadForEdit ld path = Inr cfg \<and> ResolveActiveLLMProvider cfg DefaultProjectConfig = Inr s \<and>
    trim_space (rp_ID s) = trim_space name"
proof -
  obtain old where w: "\<exists>p \<in> set (llm_providers old). lp_ID p = trim_space name"
      "w = write_output (with_llms (\<lambda>r. r\<lparr>lr_Default := trim_space name\<rparr>) old)"
    using assms(1) by (rule llm_use_Written)
  obtain cfg where cfg: "LoadForEdit ld path = Inr cfg" "cfg_LLMs cfg = derive_llms (yaml_llms (cfg_LLMs DefaultConfig) (cfg_LLMs w))"
    using holds_written_load [OF assms(3)] by blast
  have y: "yaml_llms (cfg_LLMs DefaultConfig) (cfg_LLMs w) = cfg_LLMs w"
    using w assms(2) by (auto simp: yaml_llms_def)
  have "lr_Default (cfg_LLMs w) = trim_space name" using w(2) by simp
  then have "lr_Default (cfg_LLMs cfg) = trim_space name" using cfg(2) assms(2) by (simp add: y derive_llms_default)
  then have sel: "selected_provider_id cfg DefaultProjectConfig = trim_space name"
    by (simp add: selected_provider_id_def DefaultProjectConfig_def Let_def)
  have "lp_ID ` set (llm_providers cfg) = lp_ID ` set (llm_providers old)"
  proof -
    have "lr_Providers (cfg_LLMs w) \<noteq> None" using w by (cases "lr_Providers (cfg_LLMs old)") auto
    then have "map lp_ID (llm_providers cfg) = map lp_ID (llm_providers w)" using cfg(2) derive_llms_ids by (simp add: y)
    then have "set (map lp_ID (llm_providers cfg)) = set (map lp_ID (llm_providers old))" using w(2) by simp
    then show ?thesis by simp
  qed
  then have "\<exists>p \<in> set (llm_providers cfg). lp_ID p = trim_space name" using w(1) by (metis imageE image_eqI)
  then have "\<exists>p \<in> set (llm_providers cfg). trim_space (lp_ID p) = trim_space name" by (metis trim_space_idem)
  then obtain p where p: "find_provider (trim_space name) (llm_providers cfg) = Some p" "trim_space (lp_ID p) = trim_space name"
    by (cases "find_provider (trim_space name) (llm_providers cfg)") (auto simp: find_provider_def find_None_iff find_Some_iff)
  then have "ResolveActiveLLMProvider cfg DefaultProjectConfig = Inr (resolve_entry p)"
    using sel assms(2) by (simp add: ResolveActiveLLMProvider_def Let_def DefaultProjectConfig_def)
  then show ?thesis using cfg(1) p(2) by (auto simp: resolve_entry_def)
qed

text \<open>Removing the default provider does not make the first remaining one the default: the empty default is not
  written, so the next load takes \<open>openai\<close> from the default configuration, and resolution fails when no
  provider of that name is left.\<close>
theorem removed_default_becomes_openai:
  assumes "LoadForEdit (cn_Loader env) (cn_Path env) = Inr old" "lr_Default (cfg_LLMs old) = trim_space name"
    "cf_Written (llm_remove env name k) = Some w" "holds_written ld path w"
  shows "\<exists>cfg. LoadForEdit ld path = Inr cfg \<and> lr_Default (cfg_LLMs cfg) = ''openai'' \<and>
    ((\<exists>p \<in> set (llm_providers cfg). trim_space (lp_ID p) = ''openai'') \<or>
     ResolveActiveLLMProvider cfg DefaultProjectConfig = Inl (ActiveProviderNotFound ''openai''))"
proof -
  have empty: "lr_Default (cfg_LLMs w) = []"
    using assms(1-3) by (auto elim!: llm_remove_Written)
  obtain cfg where cfg: "LoadForEdit ld path = Inr cfg" "cfg_LLMs cfg = derive_llms (yaml_llms (cfg_LLMs DefaultConfig) (cfg_LLMs w))"
    using holds_written_load [OF assms(4)] by blast
  have "lr_Default (cfg_LLMs DefaultConfig) = ''openai''" by (simp add: DefaultConfig_def)
  then have d: "lr_Default (cfg_LLMs cfg) = ''openai''" using cfg(2) empty by (simp add: derive_llms_default yaml_llms_def)
  moreover have "trim_space ''openai'' = ''openai''" by code_simp
  ultimately have "selected_provider_id cfg DefaultProjectConfig = ''openai''"
    by (simp add: selected_provider_id_def DefaultProjectConfig_def Let_def)
  then have "\<not> (\<exists>p \<in> set (llm_providers cfg). trim_space (lp_ID p) = ''openai'') \<Longrightarrow>
      ResolveActiveLLMProvider cfg DefaultProjectConfig = Inl (ActiveProviderNotFound ''openai'')"
    by (auto simp: ResolveActiveLLMProvider_def Let_def DefaultProjectConfig_def find_provider_def find_None_iff split: option.splits)
  then show ?thesis using cfg(1) d by blast
qed

text \<open>Removing the last provider brings the bundled ones back.\<close>

lemma removed_last_restores_presets:
  assumes "holds_written ld path w" "llm_providers w = []"
  shows "\<exists>cfg. LoadForEdit ld path = Inr cfg \<and> map lp_ID (llm_providers cfg) = [''openai'', ''anthropic'', ''xai'', ''deepseek'', ''kimi'', ''zai'']"
proof -
  obtain cfg where cfg: "LoadForEdit ld path = Inr cfg" "cfg_LLMs cfg = derive_llms (yaml_llms (cfg_LLMs DefaultConfig) (cfg_LLMs w))"
    using holds_written_load [OF assms(1)] by blast
  have "map lp_ID (llm_providers DefaultConfig) = [''openai'', ''anthropic'', ''xai'', ''deepseek'', ''kimi'', ''zai'']"
    "lr_Providers (cfg_LLMs DefaultConfig) \<noteq> None"
    by code_simp+
  then show ?thesis using cfg assms(2) by (simp add: yaml_llms_def derive_llms_ids)
qed

text \<open>A sample: the commands of a user with the default configuration and no daemon, and the file as the next command
  finds it.\<close>

definition sample_cli :: cli_env where
  "sample_cli = \<lparr>cn_Loader = sample_loader, cn_Path = ''/etc/rillan.yaml'', cn_WriteFails = False, cn_Now = ''now'',
     cn_Daemon = (\<lambda>url bearer. ConnectionRefused)\<rparr>"

definition sample_config :: config where
  "sample_config = applyDerivedDefaults (Some ''/home/dev'') DefaultConfig ''/etc/rillan.yaml''"

definition after_writing :: "config \<Rightarrow> loader" where
  "after_writing w = sample_loader\<lparr>ld_Config := (\<lambda>d c. Some (c\<lparr>cfg_LLMs := yaml_llms (cfg_LLMs c) (cfg_LLMs w)\<rparr>))\<rparr>"

lemma sample_edit: "LoadForEdit (cn_Loader sample_cli) (cn_Path sample_cli) = Inr sample_config"
  by (simp add: sample_cli_def sample_loader_def LoadForEdit_def sample_config_def)

definition sample_providers :: "llm_provider list" where
  "sample_providers = map applyLLMProviderPresetDefaults default_llm_providers"

lemma sample_LLMs: "cfg_LLMs sample_config = \<lparr>lr_Default = ''openai'', lr_Providers = Some sample_providers\<rparr>"
  by (simp add: sample_config_def derived_LLMs DefaultConfig_def derive_llms_def Let_def sample_providers_def)

lemma sample_registry: "registry_ok (cfg_LLMs sample_config)" "lr_Default (cfg_LLMs sample_config) = ''openai''"
proof -
  have ids: "map lp_ID sample_providers = [''openai'', ''anthropic'', ''xai'', ''deepseek'', ''kimi'', ''zai'']"
    by code_simp
  show "registry_ok (cfg_LLMs sample_config)"
    by (simp add: sample_LLMs registry_ok_def ids Let_def del: set_map)
qed (simp add: sample_LLMs)

lemma after_writing_holds: "holds_written (after_writing w) ''/etc/rillan.yaml'' w"
  by (simp add: holds_written_def after_writing_def sample_loader_def)

lemma sample_written: "\<exists>w. cf_Written (llm_remove sample_cli ''openai'' Map.empty) = Some w"
proof -
  have p: "\<exists>p \<in> set sample_providers. lp_ID p = trim_space ''openai''" by code_simp
  have "\<not> cn_WriteFails sample_cli" by (simp add: sample_cli_def)
  then show ?thesis
    using p by (auto simp: llm_remove_def editing_Written sample_edit Let_def write_and_refresh_Written sample_LLMs)
qed


theorem removed_default_becomes_openai_witness:
  "\<exists>w cfg. cf_Written (llm_remove sample_cli ''openai'' Map.empty) = Some w \<and>
     LoadForEdit (after_writing w) ''/etc/rillan.yaml'' = Inr cfg \<and> lr_Default (cfg_LLMs cfg) = ''openai''"
proof -
  obtain w where w: "cf_Written (llm_remove sample_cli ''openai'' Map.empty) = Some w" using sample_written by auto
  have n: "lr_Default (cfg_LLMs sample_config) = trim_space ''openai''"
    by (simp only: sample_registry(2)) code_simp
  obtain cfg where "LoadForEdit (after_writing w) ''/etc/rillan.yaml'' = Inr cfg" "lr_Default (cfg_LLMs cfg) = ''openai''"
    using removed_default_becomes_openai [OF sample_edit n w after_writing_holds] by metis
  then show ?thesis using w by metis
qed

section \<open>Presets\<close>

text \<open>The default flags override the backend of a preset: an entry added from the anthropic preset without other
  flags is an OpenAI-compatible one at the endpoint of Anthropic.\<close>
theorem anthropic_preset_loses_backend:
  "\<exists>e. buildLLMProviderEntry name (default_llm_flags\<lparr>lf_preset := ''anthropic''\<rparr>) = Inr e \<and> validateLLMProviderEntry (e\<lparr>lp_ID := ''a''\<rparr>) = None \<and>
     lp_Backend e = LLMBackendOpenAICompatible \<and> lp_Backend e \<noteq> ps_Family (BundledLLMProviderPreset ''anthropic'') \<and>
     lp_Endpoint e = ps_Endpoint (BundledLLMProviderPreset ''anthropic'')"
proof -
  have p: "normalize_string ''anthropic'' = ''anthropic''" "normalize_string LLMTransportHTTP = LLMTransportHTTP"
    by code_simp+
  have "ps_Endpoint (BundledLLMProviderPreset ''anthropic'') = ''https://api.anthropic.com''"
    "ps_Family (BundledLLMProviderPreset ''anthropic'') = ''anthropic''" "ps_ID (BundledLLMProviderPreset ''anthropic'') = ''anthropic''"
    by code_simp+
  then show ?thesis
    by (simp add: buildLLMProviderEntry_def default_llm_flags_def Let_def p normalizeLLMBackend_def normalizeLLMTransport_def
        normalizeAuthStrategy_def or_given_def preset_provider_config_def validateLLMProviderEntry_def known_strategy_def
        normalizeCommand_def)
qed

section \<open>Logging in\<close>

lemma known_strategy_normal:
  assumes "known_strategy s"
  shows "normalize_string s = s" "trim_space s = s"
proof -
  have "normalize_string AuthStrategyNone = AuthStrategyNone" "normalize_string AuthStrategyAPIKey = AuthStrategyAPIKey"
    "normalize_string AuthStrategyBrowserOIDC = AuthStrategyBrowserOIDC" "normalize_string AuthStrategyDeviceOIDC = AuthStrategyDeviceOIDC"
    by code_simp+
  then show "normalize_string s = s" using assms by (auto simp: known_strategy_def)
  have "trim_space AuthStrategyNone = AuthStrategyNone" "trim_space AuthStrategyAPIKey = AuthStrategyAPIKey"
    "trim_space AuthStrategyBrowserOIDC = AuthStrategyBrowserOIDC" "trim_space AuthStrategyDeviceOIDC = AuthStrategyDeviceOIDC"
    by code_simp+
  then show "trim_space s = s" using assms by (auto simp: known_strategy_def)
qed

text \<open>The secret of the credential a login builds, and what the credential is bound to.\<close>

definition given_secret :: "string \<Rightarrow> credential_input \<Rightarrow> string" where
  "given_secret strategy i = (if strategy = AuthStrategyAPIKey then trim_space (ci_apiKey i) else trim_space (ci_accessToken i))"

lemma credential_of_input:
  assumes "credentialFromInput s endpoint i = Inr c" "known_strategy s"
  shows "cr_Endpoint c = endpoint" "cr_AuthStrategy c = s" "s \<noteq> AuthStrategyNone" "given_secret s i \<noteq> []"
    "s = AuthStrategyAPIKey \<Longrightarrow> cr_APIKey c = given_secret s i \<and> cr_AccessToken c = []"
    "s \<noteq> AuthStrategyAPIKey \<Longrightarrow> cr_AccessToken c = given_secret s i"
  using assms known_strategy_normal [OF assms(2)]
  by (auto simp: credentialFromInput_def given_secret_def Let_def split: if_splits)

lemma login_Keyring:
  assumes "LoadForEdit (cn_Loader env) (cn_Path env) = Inr cfg" "findLLMProvider cfg name = Some p"
    "credentialFromInput (lp_AuthStrategy p) (lp_Endpoint p) i = Inr c" "parseRef (lp_CredentialRef p) = Inr key"
  shows "cf_Keyring (llm_login env name i k) = k(key \<mapsto> c\<lparr>cr_StoredAt := cn_Now env\<rparr>)"
  using assms by (simp add: llm_login_def editing_def login_with_def Save_def)

lemma parseRef_not_empty: "parseRef ref = Inr key \<Longrightarrow> trim_space ref \<noteq> []"
  by (auto simp: parseRef_def has_prefix_def Let_def)


definition sample_input :: credential_input where
  "sample_input = \<lparr>ci_apiKey = '' sk-1 '', ci_accessToken = [], ci_refreshToken = [], ci_idToken = [], ci_issuer = [], ci_audience = []\<rparr>"


section \<open>The address of the daemon\<close>

text \<open>A wildcard host is called on the IPv4 loopback address; the URL of an IPv6 host that is bracketed, as the
  listener needs it, has its brackets twice, and is not an address of a host and a port.\<close>

lemma refresh_url_samples:
  "srv_Host (cfg_Server cfg) = ''0.0.0.0'' \<Longrightarrow> srv_Port (cfg_Server cfg) = 8420 \<Longrightarrow>
     daemonRefreshURL cfg = ''http://127.0.0.1:8420/admin/runtime/refresh''"
  "srv_Host (cfg_Server cfg) = ''[::1]'' \<Longrightarrow> srv_Port (cfg_Server cfg) = 8420 \<Longrightarrow>
     daemonRefreshURL cfg = ''http://[[::1]]:8420/admin/runtime/refresh''"
  "split_host_port ''[[::1]]:8420'' = None" "split_host_port ''[::1]:8420'' = Some ''::1''"
proof -
  have h: "daemonRefreshHost ''0.0.0.0'' = ''127.0.0.1''" "daemonRefreshHost ''[::1]'' = ''[::1]''"
    by code_simp+
  have i: "itoa 8420 = ''8420''"
    by (simp add: itoa_def nat_str.simps) code_simp
  show "srv_Host (cfg_Server cfg) = ''0.0.0.0'' \<Longrightarrow> srv_Port (cfg_Server cfg) = 8420 \<Longrightarrow>
     daemonRefreshURL cfg = ''http://127.0.0.1:8420/admin/runtime/refresh''"
    "srv_Host (cfg_Server cfg) = ''[::1]'' \<Longrightarrow> srv_Port (cfg_Server cfg) = 8420 \<Longrightarrow>
     daemonRefreshURL cfg = ''http://[[::1]]:8420/admin/runtime/refresh''"
    by (simp_all add: daemonRefreshURL_def h i join_host_port_def)
  show "split_host_port ''[[::1]]:8420'' = None" "split_host_port ''[::1]:8420'' = Some ''::1''"
    by code_simp+
qed

end
