(* ===== verification/Cli_Commands.thy ===== *)
theory Cli_Commands
  imports Cli_Registry Http_Server
begin

text \<open>
  \<open>cmd/rillan\<close>: the commands that start the daemon, rebuild and inspect the index and write the starter
  configuration (\<open>serve.go\<close>, \<open>index.go\<close>, \<open>status.go\<close>, \<open>init.go\<close>), with
  \<open>internal/index/graphify_status.go\<close> and \<open>internal/config/write_example.go\<close>. Here the configuration, the
  modules, the index and the daemon meet. The lemmas relate what one command leaves behind to what the next
  one, or a refresh of the daemon, finds.
\<close>

section \<open>The state of the knowledge graph\<close>

record graphify_status =
  gp_Enabled :: bool
  gp_Path :: string
  gp_Present :: bool
  gp_Nodes :: nat
  gp_Edges :: nat
  gp_SHA256 :: string

datatype graphify_error = GraphPathUnresolved | GraphUnreadable | GraphUnparsable

text \<open>A field of type \<open>[]json.RawMessage\<close>: any elements.\<close>

definition dec_raw_list :: "json \<Rightarrow> json list option" where
  "dec_raw_list v = (case v of JArr vs \<Rightarrow> Some vs | JNull \<Rightarrow> Some [] | _ \<Rightarrow> None)"

definition raw_graph_field :: "string \<Rightarrow> json \<Rightarrow> graphify_graph \<Rightarrow> graphify_graph option" where
  "raw_graph_field k v g =
     (if equal_fold_ascii k ''nodes'' then map_option (\<lambda>x. g\<lparr>gg_Nodes := x\<rparr>) (dec_raw_list v)
      else if equal_fold_ascii k ''edges'' then map_option (\<lambda>x. g\<lparr>gg_Edges := x\<rparr>) (dec_raw_list v)
      else Some g)"

definition decode_raw_graph :: "string \<Rightarrow> graphify_graph option" where
  "decode_raw_graph data =
     (case parse_json data of None \<Rightarrow> None
      | Some v \<Rightarrow> dec_struct raw_graph_field v \<lparr>gg_Nodes = [], gg_Edges = []\<rparr>)"

definition ReadGraphifyStatus ::
    "(string \<Rightarrow> read_error + string) \<Rightarrow> (string \<Rightarrow> string) \<Rightarrow> string option \<Rightarrow> knowledge_graph
       \<Rightarrow> graphify_error + graphify_status" where
  "ReadGraphifyStatus read sha256 cwd cfg =
     (let status = \<lparr>gp_Enabled = kg_Enabled cfg, gp_Path = trim_space (kg_Path cfg), gp_Present = False,
            gp_Nodes = 0, gp_Edges = 0, gp_SHA256 = []\<rparr> in
      if \<not> kg_Enabled cfg \<or> gp_Path status = [] then Inr status
      else (case path_abs cwd (gp_Path status) of None \<Rightarrow> Inl GraphPathUnresolved
        | Some absPath \<Rightarrow>
            (case read (path_join [absPath, ''graph.json'']) of
               Inl FileNotExist \<Rightarrow> Inr (status\<lparr>gp_Path := absPath\<rparr>)
             | Inl read_error.FileUnreadable \<Rightarrow> Inl GraphUnreadable
             | Inr data \<Rightarrow>
                 (case decode_raw_graph data of None \<Rightarrow> Inl GraphUnparsable
                  | Some g \<Rightarrow> Inr (status\<lparr>gp_Path := absPath, gp_Present := True, gp_SHA256 := sha256 data,
                      gp_Nodes := length (gg_Nodes g), gp_Edges := length (gg_Edges g)\<rparr>)))))"

section \<open>The environment of a command\<close>

record command_env =
  co_Daemon :: daemon_env
  co_Rebuild :: rebuild_env
  co_Home :: "string option"
  co_GOOS :: string
  co_LedgerFails :: bool

datatype command_error =
    CommandLoad load_error | CommandModules app_error | CommandStart | CommandLedger
  | OllamaUnavailable string | CommandIndex store_error | CommandGraph graphify_error

abbreviation co_Build :: "command_env \<Rightarrow> build_env" where "co_Build env \<equiv> de_Build (co_Daemon env)"
abbreviation co_Loader :: "command_env \<Rightarrow> loader" where "co_Loader env \<equiv> be_Loader (co_Build env)"

definition DefaultLedgerPath :: "command_env \<Rightarrow> string" where
  "DefaultLedgerPath env = path_join [DefaultDataDir (co_GOOS env) (ld_Env (co_Loader env)) (co_Home env), ''audit'', ''ledger.jsonl'']"

definition DefaultDBPath :: "command_env \<Rightarrow> string" where
  "DefaultDBPath env = path_join [DefaultDataDir (co_GOOS env) (ld_Env (co_Loader env)) (co_Home env), ''index'', ''index.db'']"

definition command_project_path :: "command_env \<Rightarrow> config \<Rightarrow> string" where
  "command_project_path env cfg = ResolveProjectConfigPath (be_StatOk (co_Build env)) (ld_Cwd (co_Loader env)) (ix_Root (cfg_Index cfg))"

definition command_system_path :: "command_env \<Rightarrow> string" where
  "command_system_path env = ResolveSystemConfigPath (be_StatOk (co_Build env)) (co_Home env)"

definition loadStatusProjectConfig :: "loader \<Rightarrow> string \<Rightarrow> load_error + project_config" where
  "loadStatusProjectConfig ld path = (if missing_file ld path then Inr DefaultProjectConfig else LoadProject ld path)"

text \<open>Whether the local model answers.\<close>

definition local_model_reachable :: "command_env \<Rightarrow> local_model \<Rightarrow> bool" where
  "local_model_reachable env lm \<longleftrightarrow>
     http_status_ok ''ollama'' (up_Do (be_Upstream (co_Build env)) (ollama_ping_request (trim_slashes (lmc_BaseURL lm)) [])) = None"

section \<open>\<open>serve\<close>\<close>

text \<open>\<open>start_daemon\<close> gives no daemon when the server token or the runtime cannot be built.\<close>

definition serve_command :: "command_env \<Rightarrow> string \<Rightarrow> skill_disk \<Rightarrow> command_error + daemon" where
  "serve_command env configPath disk =
     (case Load_config (co_Loader env) configPath of Inl e \<Rightarrow> Inl (CommandLoad e)
      | Inr cfg \<Rightarrow>
          (case loadStatusProjectConfig (co_Loader env) (command_project_path env cfg) of Inl e \<Rightarrow> Inl (CommandLoad e)
           | Inr project \<Rightarrow>
               (case (if missing_file (co_Loader env) (command_system_path env) then Inr None
                      else map_sum id Some (LoadSystem (co_Loader env) (command_system_path env))) of
                  Inl e \<Rightarrow> Inl (CommandLoad e)
                | Inr system \<Rightarrow>
                    if co_LedgerFails env then Inl CommandLedger
                    else (case start_daemon (co_Daemon env)
                        \<lparr>sb_configPath = configPath, sb_systemConfigPath = command_system_path env,
                         sb_auditLedgerPath = DefaultLedgerPath env\<rparr> cfg project system (command_project_path env cfg) disk of
                      None \<Rightarrow> Inl CommandStart | Some s \<Rightarrow> Inr s))))"

section \<open>\<open>index\<close>\<close>

definition index_config :: "string \<Rightarrow> config \<Rightarrow> config" where
  "index_config graphifyPath cfg =
     (if graphifyPath = [] then cfg
      else cfg\<lparr>cfg_KnowledgeGraph := (cfg_KnowledgeGraph cfg)\<lparr>kg_Enabled := True, kg_Path := graphifyPath\<rparr>\<rparr>)"

definition index_embedder :: "command_env \<Rightarrow> local_model \<Rightarrow> string \<Rightarrow> string \<Rightarrow> 32 word list option" where
  "index_embedder env lm model content =
     (case ollama_embed (be_Upstream (co_Build env)) (be_ToFloat32 (co_Build env)) (trim_slashes (lmc_BaseURL lm)) [] model content of
        Inl e \<Rightarrow> None | Inr e \<Rightarrow> Some e)"

definition index_command ::
    "command_env \<Rightarrow> string \<Rightarrow> string \<Rightarrow> database \<Rightarrow> (command_error + index_status) \<times> database" where
  "index_command env configPath graphifyPath db =
     (case LoadWithMode (co_Loader env) configPath ValidationModeIndex of Inl e \<Rightarrow> (Inl (CommandLoad e), db)
      | Inr loaded \<Rightarrow>
          (let cfg = index_config graphifyPath loaded; lm = cfg_LocalModel cfg in
           if lmc_Enabled lm \<and> \<not> local_model_reachable env lm then (Inl (OllamaUnavailable (lmc_BaseURL lm)), db)
           else apfst (map_sum CommandIndex id)
             (Rebuild (co_Rebuild env)
               (if lmc_Enabled lm then Some (index_embedder env lm) else None) cfg db)))"

section \<open>\<open>status\<close>\<close>

record status_report =
  sr_Index :: index_status
  sr_DBPath :: string
  sr_Graph :: graphify_status
  sr_SystemPath :: string
  sr_SystemState :: string
  sr_LedgerPath :: string
  sr_Retrieval :: bool
  sr_Discovered :: nat
  sr_Modules :: module_catalog
  sr_LocalModel :: "(local_model \<times> bool) option"

definition status_system :: "command_env \<Rightarrow> system_config option \<times> string" where
  "status_system env =
     (if missing_file (co_Loader env) (command_system_path env) then (None, ''missing'')
      else (case LoadSystem (co_Loader env) (command_system_path env) of
          Inl e \<Rightarrow> (None, ''invalid'') | Inr s \<Rightarrow> (Some s, ''loaded'')))"

definition status_command :: "command_env \<Rightarrow> string \<Rightarrow> database \<Rightarrow> command_error + status_report" where
  "status_command env configPath db =
     (case LoadWithMode (co_Loader env) configPath ValidationModeStatus of Inl e \<Rightarrow> Inl (CommandLoad e)
      | Inr cfg \<Rightarrow>
      (case loadStatusProjectConfig (co_Loader env) (command_project_path env cfg) of Inl e \<Rightarrow> Inl (CommandLoad e)
      | Inr project \<Rightarrow>
      (case project_modules (be_Modules (co_Build env)) project (fst (status_system env)) (command_project_path env cfg) of
         Inl e \<Rightarrow> Inl (CommandModules e)
      | Inr (discovered, mods) \<Rightarrow>
      (case index_ReadStatus (en_OpenFails (co_Rebuild env)) (en_Fault (co_Rebuild env)) cfg db of Inl e \<Rightarrow> Inl (CommandIndex e)
      | Inr index \<Rightarrow>
      (case ReadGraphifyStatus (ld_ReadFile (co_Loader env)) (mo_SHA256 (be_Modules (co_Build env))) (ld_Cwd (co_Loader env))
              (cfg_KnowledgeGraph cfg) of Inl e \<Rightarrow> Inl (CommandGraph e)
      | Inr graph \<Rightarrow>
          Inr \<lparr>sr_Index = index, sr_DBPath = DefaultDBPath env, sr_Graph = graph, sr_SystemPath = command_system_path env,
            sr_SystemState = snd (status_system env), sr_LedgerPath = DefaultLedgerPath env,
            sr_Retrieval = rc_Enabled (cfg_Retrieval cfg), sr_Discovered = length (mc_Modules discovered), sr_Modules = mods,
            sr_LocalModel = (if lmc_Enabled (cfg_LocalModel cfg)
              then Some (cfg_LocalModel cfg, local_model_reachable env (cfg_LocalModel cfg)) else None)\<rparr>)))))"

text \<open>The printed lines. A time is kept as SQLite stores it, in UTC and without zone.\<close>

definition formatStatusTime :: "string \<Rightarrow> string" where
  "formatStatusTime t = (if t = [] then ''never'' else take 10 t @ ''T'' @ drop 11 t @ ''Z'')"

definition emptyFallback :: "string \<Rightarrow> string \<Rightarrow> string" where
  "emptyFallback value fallback = (if value = [] then fallback else value)"

definition moduleIDs :: "module_catalog \<Rightarrow> string" where
  "moduleIDs c = (if mc_Modules c = [] then ''none'' else join_with '','' (map md_ID (mc_Modules c)))"

definition bool_text :: "bool \<Rightarrow> string" where
  "bool_text b = (if b then ''true'' else ''false'')"

definition local_model_lines :: "(local_model \<times> bool) option \<Rightarrow> (string \<times> string) list" where
  "local_model_lines m =
     (case m of
        None \<Rightarrow> [(''local_model_enabled'', ''false''), (''local_model_required'', ''false''), (''runtime_state'', ''ready'')]
      | Some (lm, reachable) \<Rightarrow>
          [(''local_model_enabled'', ''true''), (''local_model_required'', ''true''), (''local_model_url'', lmc_BaseURL lm),
           (''local_model_reachable'', bool_text reachable), (''local_model_embed_model'', lmc_EmbedModel lm),
           (''local_model_query_rewrite'', bool_text (qr_Enabled (lmc_QueryRewrite lm))),
           (''runtime_state'', if reachable then ''ready'' else ''degraded'')])"

definition status_lines :: "status_report \<Rightarrow> (string \<times> string) list" where
  "status_lines r =
     (let i = sr_Index r; g = sr_Graph r in
      [(''configured_root'', emptyFallback (is_ConfiguredRootPath i) ''not configured''),
       (''last_attempt_state'', emptyFallback (is_LastAttemptState i) RunStatusNeverIndexed),
       (''last_attempt_root'', emptyFallback (is_LastAttemptRootPath i) ''none''),
       (''last_attempt_at'', formatStatusTime (is_LastAttemptAt i)),
       (''last_attempt_error'', emptyFallback (is_LastAttemptError i) ''none''),
       (''committed_root'', emptyFallback (is_CommittedRootPath i) ''none''),
       (''committed_last_indexed_at'', formatStatusTime (is_CommittedIndexedAt i)),
       (''documents'', nat_str (is_Documents i)), (''chunks'', nat_str (is_Chunks i)), (''vectors'', nat_str (is_Vectors i)),
       (''db_path'', sr_DBPath r), (''system_config_path'', sr_SystemPath r), (''system_config_state'', sr_SystemState r),
       (''audit_ledger_path'', sr_LedgerPath r), (''retrieval_enabled'', bool_text (sr_Retrieval r)),
       (''retrieval_mode'', if sr_Retrieval r then ''targeted_remote'' else ''disabled''),
       (''knowledge_graph_enabled'', bool_text (gp_Enabled g)),
       (''knowledge_graph_path'', emptyFallback (gp_Path g) ''not configured''),
       (''knowledge_graph_present'', bool_text (gp_Present g)), (''knowledge_graph_nodes'', nat_str (gp_Nodes g)),
       (''knowledge_graph_edges'', nat_str (gp_Edges g)), (''knowledge_graph_sha256'', emptyFallback (gp_SHA256 g) ''none''),
       (''modules_discovered'', nat_str (sr_Discovered r)), (''modules_enabled'', nat_str (length (mc_Modules (sr_Modules r)))),
       (''module_ids'', moduleIDs (sr_Modules r))] @ local_model_lines (sr_LocalModel r))"

definition status_text :: "status_report \<Rightarrow> string" where
  "status_text r = concat (map (\<lambda>(k, v). k @ '': '' @ v @ [newline]) (status_lines r))"

section \<open>\<open>init\<close>\<close>

text \<open>A write of a file succeeds, fails to open it, or stops after some bytes.\<close>

datatype write_outcome = WriteDone | WriteNotOpened | WriteStopped nat

record init_env =
  ie_MkdirFails :: "string \<Rightarrow> bool"
  ie_StatFails :: "string \<Rightarrow> bool"
  ie_Directory :: "string \<Rightarrow> bool"
  ie_Write :: "string \<Rightarrow> write_outcome"

datatype init_error = InitMkdir | InitRefused string | InitStat | InitWrite

type_synonym files = "string \<Rightarrow> string option"

definition exampleConfig :: string where
  "exampleConfig = concat (map (\<lambda>l. l @ [newline]) [
     ''schema_version: 2'', [], ''server:'', ''  host: '' @ [quote_char] @ ''127.0.0.1'' @ [quote_char],
     ''  port: 8420'', ''  log_level: '' @ [quote_char] @ ''info'' @ [quote_char],
     ''  allow_non_loopback_bind: false'', ''  auth:'', ''    enabled: false'',
     ''    auth_strategy: '' @ [quote_char] @ ''api_key'' @ [quote_char],
     ''    session_ref: '' @ [quote_char] @ ''keyring://rillan/auth/daemon'' @ [quote_char], [], ''auth:'',
     ''  rillan:'', ''    endpoint: '' @ [quote_char] @ [quote_char],
     ''    auth_strategy: '' @ [quote_char] @ [quote_char],
     ''    session_ref: '' @ [quote_char] @ ''keyring://rillan/auth/control-plane'' @ [quote_char], [], ''llms:'',
     ''  default: '' @ [quote_char] @ ''openai'' @ [quote_char], ''  providers:'',
     ''    - id: '' @ [quote_char] @ ''openai'' @ [quote_char],
     ''      backend: '' @ [quote_char] @ ''openai_compatible'' @ [quote_char],
     ''      transport: '' @ [quote_char] @ ''http'' @ [quote_char],
     ''      endpoint: '' @ [quote_char] @ ''https://api.openai.com/v1'' @ [quote_char],
     ''      auth_strategy: '' @ [quote_char] @ ''browser_oidc'' @ [quote_char],
     ''      default_model: '' @ [quote_char] @ ''gpt-5'' @ [quote_char],
     ''      capabilities: ['' @ [quote_char] @ ''chat'' @ [quote_char] @ '', '' @ [quote_char] @ ''reasoning'' @ [quote_char] @ '', '' @ [quote_char] @ ''tool_calling'' @ [quote_char] @ '']'',
     ''      credential_ref: '' @ [quote_char] @ ''keyring://rillan/llm/openai'' @ [quote_char], [], ''mcps:'',
     ''  default: '' @ [quote_char] @ [quote_char], ''  servers: []'', [], ''index:'',
     ''  root: '' @ [quote_char] @ [quote_char], ''  includes: []'', ''  excludes:'',
     ''    - '' @ [quote_char] @ ''.git'' @ [quote_char],
     ''    - '' @ [quote_char] @ ''node_modules'' @ [quote_char],
     ''    - '' @ [quote_char] @ ''.direnv'' @ [quote_char], ''    - '' @ [quote_char] @ ''.idea'' @ [quote_char],
     ''  chunk_size_lines: 120'', [], ''knowledge_graph:'', ''  enabled: false'',
     ''  path: '' @ [quote_char] @ [quote_char], ''  auto_update: '' @ [quote_char] @ ''none'' @ [quote_char],
     ''  traversal_depth: 1'', ''  include_inferred: true'', ''  max_nodes: 2000'', [], ''retrieval:'',
     ''  enabled: false'', ''  top_k: 4'', ''  max_context_chars: 6000'', [], ''local_model:'',
     ''  enabled: false'', ''  base_url: '' @ [quote_char] @ ''http://127.0.0.1:11434'' @ [quote_char],
     ''  embed_model: '' @ [quote_char] @ ''nomic-embed-text'' @ [quote_char], ''  query_rewrite:'',
     ''    enabled: false'', ''    model: '' @ [quote_char] @ ''qwen3:0.6b'' @ [quote_char], [], ''runtime:'',
     ''  vector_store_mode: '' @ [quote_char] @ ''embedded'' @ [quote_char],
     ''  local_model_base_url: '' @ [quote_char] @ ''http://127.0.0.1:11434'' @ [quote_char], [], ''agent:'',
     ''  enabled: false'', ''  approved_repo_roots: []'', ''  mcp:'', ''    enabled: false'',
     ''    read_only: true'', ''    max_open_files: 8'', ''    max_diagnostics: 20''])"

definition exampleProjectConfig :: string where
  "exampleProjectConfig = concat (map (\<lambda>l. l @ [newline]) [
     ''name: '' @ [quote_char] @ ''example-project'' @ [quote_char],
     ''classification: '' @ [quote_char] @ ''open_source'' @ [quote_char], [], ''sources:'',
     ''  - path: '' @ [quote_char] @ ''cmd'' @ [quote_char], ''    type: '' @ [quote_char] @ ''go'' @ [quote_char],
     ''  - path: '' @ [quote_char] @ ''internal'' @ [quote_char],
     ''    type: '' @ [quote_char] @ ''go'' @ [quote_char], [], ''routing:'',
     ''  default: '' @ [quote_char] @ ''auto'' @ [quote_char], ''  task_types:'',
     ''    code_generation: '' @ [quote_char] @ ''prefer_local'' @ [quote_char],
     ''    review: '' @ [quote_char] @ ''prefer_local'' @ [quote_char], [], ''providers:'',
     ''  llm_default: '' @ [quote_char] @ ''openai'' @ [quote_char],
     ''  llm_allowed: ['' @ [quote_char] @ ''openai'' @ [quote_char] @ '']'', ''  mcp_enabled: []'', [],
     ''modules:'', ''  enabled: []'', [], ''agent:'', ''  skills:'', ''    enabled: []'', [],
     ''system_prompt: '' @ [quote_char] @ [quote_char], [], ''instructions:'',
     ''  - '' @ [quote_char] @ ''Keep outbound context tightly bounded to the current task.'' @ [quote_char],
     ''  - '' @ [quote_char] @ ''Never include credentials, tokens, or unrelated proprietary material in outbound requests.'' @ [quote_char]])"

definition writeExampleFile ::
    "init_env \<Rightarrow> string \<Rightarrow> string \<Rightarrow> bool \<Rightarrow> files \<Rightarrow> init_error option \<times> files" where
  "writeExampleFile env path content overwrite fs =
     (if ie_MkdirFails env (path_dir path) then (Some InitMkdir, fs)
      else if \<not> overwrite \<and> ie_StatFails env path then (Some InitStat, fs)
      else if \<not> overwrite \<and> (fs path \<noteq> None \<or> ie_Directory env path) then (Some (InitRefused path), fs)
      else if ie_Directory env path then (Some InitWrite, fs)
      else (case ie_Write env path of
          WriteDone \<Rightarrow> (None, fs(path \<mapsto> content))
        | WriteNotOpened \<Rightarrow> (Some InitWrite, fs)
        | WriteStopped n \<Rightarrow> (Some InitWrite, fs(path \<mapsto> take n content))))"

definition init_command ::
    "init_env \<Rightarrow> string \<Rightarrow> string \<Rightarrow> bool \<Rightarrow> files \<Rightarrow> init_error option \<times> files" where
  "init_command env outputPath projectOutputPath force fs =
     (case writeExampleFile env outputPath exampleConfig force fs of
        (Some e, fs') \<Rightarrow> (Some e, fs')
      | (None, fs') \<Rightarrow> writeExampleFile env projectOutputPath exampleProjectConfig force fs')"

section \<open>Starting the daemon\<close>

text \<open>The builder of a daemon that \<open>serve\<close> started rebuilds its runtime from the same files.\<close>

lemma serve_command_Inr:
  assumes "serve_command env configPath disk = Inr s"
  obtains cfg project system b where "Load_config (co_Loader env) configPath = Inr cfg"
    "loadStatusProjectConfig (co_Loader env) (command_project_path env cfg) = Inr project"
    "(if missing_file (co_Loader env) (command_system_path env) then Inr None
      else map_sum id Some (LoadSystem (co_Loader env) (command_system_path env))) = Inr system"
    "b = \<lparr>sb_configPath = configPath, sb_systemConfigPath = command_system_path env, sb_auditLedgerPath = DefaultLedgerPath env\<rparr>"
    "start_daemon (co_Daemon env) b cfg project system (command_project_path env cfg) disk = Some s"
  using assms unfolding serve_command_def by (auto split: sum.splits if_splits option.splits)

lemma started_builder:
  assumes "start_daemon env b cfg project system path d = Some s"
  shows "da_Builder s = b" "buildFromLoaded (de_Build env) b cfg project system path = Inr (da_Runtime s)"
  using assms by (auto simp: start_daemon_def split: if_splits sum.splits)

lemma served_reload:
  assumes "serve_command env configPath disk = Inr s"
  shows "buildFromDisk (co_Build env) (da_Builder s) = Inr (da_Runtime s)"
  using assms
proof (rule serve_command_Inr)
  fix cfg project system b
  assume c: "Load_config (co_Loader env) configPath = Inr cfg"
      "loadStatusProjectConfig (co_Loader env) (command_project_path env cfg) = Inr project"
    and system: "(if missing_file (co_Loader env) (command_system_path env) then Inr None
      else map_sum id Some (LoadSystem (co_Loader env) (command_system_path env))) = Inr system"
    and b: "b = \<lparr>sb_configPath = configPath, sb_systemConfigPath = command_system_path env, sb_auditLedgerPath = DefaultLedgerPath env\<rparr>"
    and "start_daemon (co_Daemon env) b cfg project system (command_project_path env cfg) disk = Some s"
  note built = started_builder [OF this(5)]
  have paths: "sb_configPath b = configPath" "sb_systemConfigPath b = command_system_path env" by (simp_all add: b)
  show ?thesis
    unfolding buildFromDisk_def Let_def built(1) paths c(1) sum.case
      c(2) [unfolded loadStatusProjectConfig_def command_project_path_def] system
    by (rule built(2) [unfolded command_project_path_def])
qed

lemma served_guarded:
  assumes "serve_command env configPath disk = Inr s"
  shows "guarded_listener s"
proof -
  obtain cfg project system b where "Load_config (co_Loader env) configPath = Inr cfg"
      "start_daemon (co_Daemon env) b cfg project system (command_project_path env cfg) disk = Some s"
    using assms by (rule serve_command_Inr) simp
  moreover from this(1) have "ValidateForMode cfg ValidationModeServe = None"
    by (auto simp: Load_config_def LoadWithMode_def Let_def split: sum.splits read_error.splits option.splits)
  ultimately show ?thesis by (blast intro: started_guarded)
qed

lemma reaches_stable:
  assumes "reaches s ls s'"
    "\<forall>(env', call, a) \<in> set ls. buildFromDisk (de_Build env') (da_Builder s) = Inr (da_Runtime s)"
  shows "da_Runtime s' = da_Runtime s \<and> da_Start s' = da_Start s \<and> da_Builder s' = da_Builder s"
  using assms
proof (induction rule: reaches.induct)
  case (further s ls s' l s'')
  obtain env' call a where l: "l = (env', call, a)" by (metis prod.exhaust)
  then have "serve env' call s' = (a, s'')" using further.hyps(2) by (simp add: daemon_step_simps)
  from serve_effect [OF this] show ?case using further.IH further.prems l by auto
qed simp


section \<open>What \<open>status\<close> reports\<close>

lemma status_command_Inr:
  assumes "status_command env configPath db = Inr r"
  obtains cfg project discovered where "LoadWithMode (co_Loader env) configPath ValidationModeStatus = Inr cfg"
    "loadStatusProjectConfig (co_Loader env) (command_project_path env cfg) = Inr project"
    "project_modules (be_Modules (co_Build env)) project (fst (status_system env)) (command_project_path env cfg) = Inr (discovered, sr_Modules r)"
    "index_ReadStatus (en_OpenFails (co_Rebuild env)) (en_Fault (co_Rebuild env)) cfg db = Inr (sr_Index r)"
    "sr_SystemState r = snd (status_system env)" "sr_LedgerPath r = DefaultLedgerPath env"
    "sr_Retrieval r = rc_Enabled (cfg_Retrieval cfg)" "sr_Discovered r = length (mc_Modules discovered)"
  using assms unfolding status_command_def by (auto split: sum.splits prod.splits)

text \<open>The mode decides only whether a configuration is refused.\<close>

lemma loaded_in_both_modes:
  "LoadWithMode ld path m = Inr cfg \<Longrightarrow> LoadWithMode ld path m' = Inr cfg' \<Longrightarrow> cfg' = cfg"
  by (auto simp: LoadWithMode_def Let_def split: sum.splits read_error.splits option.splits)

lemma snapshot_modules:
  assumes "buildRuntimeSnapshot env cfg project system ledger path = Inr snap"
  shows "\<exists>discovered. project_modules (be_Modules env) project system path = Inr (discovered, rsn_Modules snap) \<and>
    rsn_Readiness snap = snapshot_readiness cfg (system \<noteq> None) ledger discovered (rsn_Modules snap)"
  using assms unfolding buildRuntimeSnapshot_def by (auto simp: Let_def split: sum.splits prod.splits)

text \<open>C38: When the same files let \<open>serve\<close> start and \<open>status\<close> report, the report and the readiness of the daemon agree:
  the same modules, the same counts, the retrieval mode, the system policy and the ledger.\<close>
theorem status_agrees_with_daemon:
  assumes "serve_command env configPath disk = Inr s" "status_command env configPath db = Inr r"
  shows "rsn_Modules (rst_snapshot (da_Runtime s)) = sr_Modules r \<and>
    rsn_Readiness (rst_snapshot (da_Runtime s)) =
      \<lparr>rdi_RetrievalMode = (if sr_Retrieval r then ''targeted_remote'' else ''disabled''),
       rdi_SystemConfigLoaded = (sr_SystemState r = ''loaded''), rdi_AuditLedgerPath = sr_LedgerPath r,
       rdi_LocalModelRequired = (sr_LocalModel r \<noteq> None), rdi_ModulesDiscovered = sr_Discovered r,
       rdi_ModulesEnabled = length (mc_Modules (sr_Modules r))\<rparr>"
proof -
  obtain cfg project system b where c: "Load_config (co_Loader env) configPath = Inr cfg"
      "loadStatusProjectConfig (co_Loader env) (command_project_path env cfg) = Inr project"
      "(if missing_file (co_Loader env) (command_system_path env) then Inr None
        else map_sum id Some (LoadSystem (co_Loader env) (command_system_path env))) = Inr system"
      "b = \<lparr>sb_configPath = configPath, sb_systemConfigPath = command_system_path env, sb_auditLedgerPath = DefaultLedgerPath env\<rparr>"
      "start_daemon (co_Daemon env) b cfg project system (command_project_path env cfg) disk = Some s"
    using assms(1) by (rule serve_command_Inr)
  obtain cfg' project' discovered where r: "LoadWithMode (co_Loader env) configPath ValidationModeStatus = Inr cfg'"
      "loadStatusProjectConfig (co_Loader env) (command_project_path env cfg') = Inr project'"
      "project_modules (be_Modules (co_Build env)) project' (fst (status_system env)) (command_project_path env cfg') = Inr (discovered, sr_Modules r)"
      "index_ReadStatus (en_OpenFails (co_Rebuild env)) (en_Fault (co_Rebuild env)) cfg' db = Inr (sr_Index r)"
      "sr_SystemState r = snd (status_system env)" "sr_LedgerPath r = DefaultLedgerPath env"
      "sr_Retrieval r = rc_Enabled (cfg_Retrieval cfg')" "sr_Discovered r = length (mc_Modules discovered)"
    using assms(2) by (rule status_command_Inr)
  have cfg: "cfg' = cfg" using loaded_in_both_modes [OF c(1) [unfolded Load_config_def] r(1)] .
  have project: "project' = project" using c(2) r(2) cfg by simp
  have system: "fst (status_system env) = system" "sr_SystemState r = ''loaded'' \<longleftrightarrow> system \<noteq> None"
    using c(3) r(5) by (auto simp: status_system_def split: if_splits sum.splits)
  have "buildRuntimeSnapshot (co_Build env) cfg project system (DefaultLedgerPath env) (command_project_path env cfg) =
      Inr (rst_snapshot (da_Runtime s))"
    using started_builder(2) [OF c(5)] c(4)
    by (auto simp: buildFromLoaded_def map_sum_def split: sum.splits) (metis runtime_state.select_convs(1))
  from snapshot_modules [OF this] obtain d where
      "project_modules (be_Modules (co_Build env)) project system (command_project_path env cfg) = Inr (d, rsn_Modules (rst_snapshot (da_Runtime s)))"
      "rsn_Readiness (rst_snapshot (da_Runtime s)) = snapshot_readiness cfg (system \<noteq> None) (DefaultLedgerPath env) d (rsn_Modules (rst_snapshot (da_Runtime s)))"
    by blast
  moreover have "sr_LocalModel r \<noteq> None \<longleftrightarrow> lmc_Enabled (cfg_LocalModel cfg)"
    using assms(2) r(1) cfg unfolding status_command_def by (auto split: sum.splits prod.splits if_splits)
  ultimately show ?thesis
    using r(3,6-8) system cfg project by (simp add: snapshot_readiness_def)
qed

section \<open>An index and its report\<close>

lemma ReplaceAll_Runs: "ReplaceAll fault ds cs vs db = (e, db') \<Longrightarrow> db_Runs db' = db_Runs db"
  using ReplaceAll_cases by (fastforce simp: with_index_def)

lemma Rebuild_last_run:
  assumes "Rebuild en embedder cfg db = (Inr st, db')"
  shows "\<exists>rs row. db_Runs db' = rs @ [row] \<and> rn_Status row = RunStatusSucceeded \<and> rn_RootPath row = ix_Root (cfg_Index cfg)"
  using assms
  by (auto simp: Rebuild_def Let_def fail_run_def RecordRunStart_def RecordRunCompletion_def complete_run_def
      dest!: ReplaceAll_Runs split: if_splits sum.splits prod.splits option.splits)

lemma read_status_unique: "store_ReadStatus f db = Inr a \<Longrightarrow> store_ReadStatus g db = Inr b \<Longrightarrow> a = b"
  by (auto simp: store_ReadStatus_def Let_def split: if_splits option.splits)

lemma store_ReadStatus_committed:
  assumes "store_ReadStatus f db = Inr st" "db_Runs db = rs @ [row]" "rn_Status row = RunStatusSucceeded"
  shows "is_LastAttemptState st = RunStatusSucceeded" "is_CommittedRootPath st = rn_RootPath row"
    "is_LastAttemptRootPath st = rn_RootPath row" "is_CommittedIndexedAt st = is_LastAttemptAt st"
    "is_Documents st = length (db_Documents db)" "is_Chunks st = length (db_Chunks db)" "is_Vectors st = length (db_Vectors db)"
  using assms by (auto simp: store_ReadStatus_def last_run_def Let_def split: if_splits)

text \<open>C37: After \<open>index\<close> succeeds, \<open>status\<close> reports, whenever it reports anything, the same documents, chunks and
  vectors, one attempt that succeeded, and the root of the loaded configuration as the indexed one.\<close>
theorem index_then_status:
  assumes "index_command env configPath graphifyPath db = (Inr st, db')" "status_command env' configPath db' = Inr r"
    "co_Loader env' = co_Loader env"
  shows "sr_Index r = st\<lparr>is_ConfiguredRootPath := is_CommittedRootPath st\<rparr> \<and> is_LastAttemptState st = RunStatusSucceeded \<and>
    is_Documents st = length (db_Documents db') \<and> is_CommittedIndexedAt st = is_LastAttemptAt st"
proof -
  obtain loaded where l: "LoadWithMode (co_Loader env) configPath ValidationModeIndex = Inr loaded"
    using assms(1) by (auto simp: index_command_def split: sum.splits)
  then obtain embedder where "Rebuild (co_Rebuild env) embedder (index_config graphifyPath loaded) db = (Inr st, db')"
    using assms(1) by (auto simp: index_command_def Let_def apfst_def map_prod_def map_sum_def split: if_splits prod.splits sum.splits)
  note rebuilt = this
  obtain rs row where run: "db_Runs db' = rs @ [row]" "rn_Status row = RunStatusSucceeded" "rn_RootPath row = ix_Root (cfg_Index loaded)"
    using Rebuild_last_run [OF rebuilt] by (auto simp: index_config_def split: if_splits)
  have st: "store_ReadStatus (en_Fault (co_Rebuild env)) db' = Inr st"
    using Rebuild_cases [OF rebuilt] by auto
  note facts = store_ReadStatus_committed [OF st run(1,2)]
  obtain cfg where "LoadWithMode (co_Loader env') configPath ValidationModeStatus = Inr cfg"
      "index_ReadStatus (en_OpenFails (co_Rebuild env')) (en_Fault (co_Rebuild env')) cfg db' = Inr (sr_Index r)"
    by (rule status_command_Inr [OF assms(2)]) simp
  moreover from this(1) have "cfg = loaded" using loaded_in_both_modes [OF l] assms(3) by simp
  ultimately have "sr_Index r = st\<lparr>is_ConfiguredRootPath := ix_Root (cfg_Index loaded)\<rparr>"
    using st by (auto simp: index_ReadStatus_def dest: read_status_unique split: if_splits sum.splits)
  then show ?thesis using facts run(3) by simp
qed

section \<open>The counts of the knowledge graph\<close>

lemma dec_objects_raw: "dec_objects v = Some xs \<Longrightarrow> dec_raw_list v = Some xs"
  by (auto simp: dec_objects_def dec_raw_list_def split: json.splits if_splits)

lemma graph_field_raw: "graph_field k v g = Some g' \<Longrightarrow> raw_graph_field k v g = Some g'"
  by (auto simp: graph_field_def raw_graph_field_def dest: dec_objects_raw split: if_splits)

lemma dec_fields_raw: "dec_fields graph_field fs g = Some g' \<Longrightarrow> dec_fields raw_graph_field fs g = Some g'"
  by (induction graph_field fs g rule: dec_fields.induct) (auto dest: graph_field_raw split: option.splits)

lemma status_counts_indexed_graph: "decode_graph data = Some g \<Longrightarrow> decode_raw_graph data = Some g"
  by (auto simp: decode_graph_def decode_raw_graph_def dec_struct_def dec_fields_raw split: option.splits json.splits)

text \<open>A graph with a node that is no object is counted by \<open>status\<close> and left out of the index.\<close>

lemma status_counts_unindexed_graph:
  "decode_graph [CHR ''{'', quote_char, CHR ''n'', CHR ''o'', CHR ''d'', CHR ''e'', CHR ''s'', quote_char, CHR '':'', CHR ''['', CHR ''1'', CHR '']'', CHR ''}''] = None"
  "map_option (\<lambda>g. length (gg_Nodes g)) (decode_raw_graph
    [CHR ''{'', quote_char, CHR ''n'', CHR ''o'', CHR ''d'', CHR ''e'', CHR ''s'', quote_char, CHR '':'', CHR ''['', CHR ''1'', CHR '']'', CHR ''}'']) = Some 1"
  by code_simp+

section \<open>Starter files\<close>

lemma write_example_keeps:
  assumes "writeExampleFile env path content False fs = (e, fs')"
  shows "fs \<subseteq>\<^sub>m fs'" "e = None \<Longrightarrow> fs path = None \<and> fs' = fs(path \<mapsto> content)"
  using assms by (auto simp: writeExampleFile_def map_le_def split: if_splits write_outcome.splits)

text \<open>Without \<open>--force\<close>, \<open>init\<close> changes no file that exists, however it fails; when it succeeds, both files were
  absent, and they hold the two starter configurations.\<close>
theorem init_never_overwrites:
  assumes "init_command env out project False fs = (e, fs')"
  shows "fs \<subseteq>\<^sub>m fs' \<and> (e = None \<longrightarrow> fs out = None \<and> fs project = None \<and> out \<noteq> project \<and>
    fs' = fs(out \<mapsto> exampleConfig, project \<mapsto> exampleProjectConfig))"
proof -
  obtain e1 fs1 where w1: "writeExampleFile env out exampleConfig False fs = (e1, fs1)" by fastforce
  note k1 = write_example_keeps [OF w1]
  show ?thesis
  proof (cases e1)
    case None
    then have w2: "writeExampleFile env project exampleProjectConfig False fs1 = (e, fs')"
      using assms w1 by (simp add: init_command_def)
    note k2 = write_example_keeps [OF w2]
    show ?thesis using k1 k2 None map_le_trans [of fs fs1 fs'] by (auto split: if_splits)
  qed (use assms w1 k1 in \<open>auto simp: init_command_def\<close>)
qed

text \<open>It is not atomic: an existing project file leaves the configuration written behind the error.\<close>

lemma init_stops_half_way:
  assumes "fs project = Some c" "fs out = None" "ie_Write env out = WriteDone"
    "\<forall>p. \<not> ie_MkdirFails env p \<and> \<not> ie_StatFails env p \<and> \<not> ie_Directory env p"
  shows "init_command env out project False fs = (Some (InitRefused project), fs(out \<mapsto> exampleConfig))"
  using assms by (auto simp: init_command_def writeExampleFile_def)

section \<open>Samples\<close>

lemma serve_command_ok:
  assumes "buildFromDisk (co_Build env) \<lparr>sb_configPath = configPath, sb_systemConfigPath = command_system_path env,
      sb_auditLedgerPath = DefaultLedgerPath env\<rparr> = Inr st"
    "Load_config (co_Loader env) configPath = Inr cfg" "\<not> co_LedgerFails env"
    "sa_Enabled (srv_Auth (cfg_Server cfg)) \<Longrightarrow> \<not> isl (ResolveServerAuthBearer (be_Keyring (co_Build env)) cfg)"
  shows "\<exists>s. serve_command env configPath disk = Inr s"
  using assms
  by (auto simp: serve_command_def start_daemon_def buildFromDisk_def Let_def loadStatusProjectConfig_def
      command_project_path_def split: sum.splits if_splits)

text \<open>A machine with one configuration file, the daemon not running, and the index of a repository with one file.\<close>

definition sample_rebuild_env :: rebuild_env where
  "sample_rebuild_env = sample_env\<lparr>en_Lookup := map_of [(''/s'', DirNode [(''n.md'', FileNode ''hi'')])]\<rparr>"

definition sample_command :: "config \<Rightarrow> command_env" where
  "sample_command c = \<lparr>co_Daemon = sample_daemon_env c, co_Rebuild = sample_rebuild_env, co_Home = None, co_GOOS = ''linux'', co_LedgerFails = False\<rparr>"

lemma sample_command_simps:
  "co_Daemon (sample_command c) = sample_daemon_env c" "co_Rebuild (sample_command c) = sample_rebuild_env" "\<not> co_LedgerFails (sample_command c)"
  by (simp_all add: sample_command_def)

lemma sample_system_path: "command_system_path (sample_command c) = ''.rillan/system.yaml''"
proof -
  have "ResolveSystemConfigPath (\<lambda>p. False) None = ''.rillan/system.yaml''" by code_simp
  then show ?thesis by (simp add: command_system_path_def sample_command_def sample_loader_simps)
qed

lemma valid_for_status: "ValidateForMode cfg ValidationModeServe = None \<Longrightarrow> ValidateForMode cfg ValidationModeStatus = None"
  by (simp add: ValidateForMode_None validate_mode_def)

lemma exposed_loads:
  "Load_config (co_Loader (sample_command exposed_config)) ''/c.yaml'' = Inr exposed_config"
  "LoadWithMode (co_Loader (sample_command exposed_config)) ''/c.yaml'' ValidationModeStatus = Inr exposed_config"
  using derived_samples exposed_valid valid_for_status
  by (simp_all add: Load_config_def LoadWithMode_def sample_command_simps sample_loader_simps no_environment Let_def)

lemma sample_served: "\<exists>s. serve_command (sample_command exposed_config) ''/c.yaml'' empty_disk = Inr s"
proof -
  obtain st where "buildFromDisk (co_Build (sample_command exposed_config)) \<lparr>sb_configPath = ''/c.yaml'',
      sb_systemConfigPath = command_system_path (sample_command exposed_config),
      sb_auditLedgerPath = DefaultLedgerPath (sample_command exposed_config)\<rparr> = Inr st"
    using sample_reload [of exposed_config "\<lparr>sb_configPath = ''/c.yaml'',
      sb_systemConfigPath = command_system_path (sample_command exposed_config),
      sb_auditLedgerPath = DefaultLedgerPath (sample_command exposed_config)\<rparr>"]
    by (auto simp: sample_command_simps sample_system_path)
  then show ?thesis
    using exposed_loads(1)
    by (rule serve_command_ok) (simp_all add: sample_command_simps sample_daemon_env_simps refresh_facts(4))
qed


lemma sample_reported:
  assumes "LoadWithMode (co_Loader (sample_command c)) ''/c.yaml'' ValidationModeStatus = Inr c"
    "\<not> kg_Enabled (cfg_KnowledgeGraph c)" "ResolveProjectConfigPath (\<lambda>p. False) (Some ''/'') (ix_Root (cfg_Index c)) = path" "path \<noteq> ''/c.yaml''"
    "map_sum (\<lambda>e. ()) (\<lambda>(d, m). mc_Modules m) (project_modules (be_Modules (de_Build (sample_daemon_env c))) DefaultProjectConfig None path) = Inr []"
  shows "\<exists>r. status_command (sample_command c) ''/c.yaml'' db = Inr r"
proof -
  have path: "command_project_path (sample_command c) c = path"
    using assms(3) by (simp add: command_project_path_def sample_command_simps sample_loader_simps)
  have missing: "missing_file (co_Loader (sample_command c)) path" "missing_file (co_Loader (sample_command c)) ''.rillan/system.yaml''"
    using assms(4) by (simp_all add: missing_file_def sample_command_simps sample_loader_simps)
  obtain d m where "project_modules (be_Modules (co_Build (sample_command c))) DefaultProjectConfig None path = Inr (d, m)"
    using assms(5) by (auto simp: sample_command_simps elim!: map_sum_InrE)
  moreover have "\<exists>st. index_ReadStatus False (\<lambda>op. False) c db = Inr st"
    by (auto simp: index_ReadStatus_def store_ReadStatus_def Let_def split: option.split)
  moreover have "fst (status_system (sample_command c)) = None"
    using missing(2) by (simp add: status_system_def sample_system_path)
  ultimately show ?thesis
    using missing(1) assms(1,2)
    by (auto simp: status_command_def path loadStatusProjectConfig_def ReadGraphifyStatus_def Let_def sample_command_simps sample_rebuild_env_def sample_env_def)
qed

lemma exposed_reported: "\<exists>r. status_command (sample_command exposed_config) ''/c.yaml'' db = Inr r"
  by (rule sample_reported [OF exposed_loads(2) _ _ _ sample_modules(2)])
    (simp_all add: sample_project_path exposed_config_def local_config_def DefaultConfig_def)

theorem status_agrees_with_daemon_witness:
  "\<exists>s r. serve_command (sample_command exposed_config) ''/c.yaml'' empty_disk = Inr s \<and>
     status_command (sample_command exposed_config) ''/c.yaml'' empty_database = Inr r \<and>
     rsn_Modules (rst_snapshot (da_Runtime s)) = sr_Modules r"
proof -
  obtain s r where s: "serve_command (sample_command exposed_config) ''/c.yaml'' empty_disk = Inr s"
      "status_command (sample_command exposed_config) ''/c.yaml'' empty_database = Inr r"
    using sample_served exposed_reported by blast
  then show ?thesis using status_agrees_with_daemon [OF s] by blast
qed

definition sample_indexed :: config where
  "sample_indexed = (sample_index_config False)\<lparr>cfg_Index := \<lparr>ix_Root = ''/s'', ix_Includes = [],
     ix_Excludes = [''.git''], ix_ChunkSizeLines = 10\<rparr>\<rparr>"

lemma indexed_derived: "applyDerivedDefaults (Some ''/'') sample_indexed ''/c.yaml'' = sample_indexed"
proof -
  have llms: "derive_llms (cfg_LLMs DefaultConfig) = cfg_LLMs DefaultConfig" by code_simp
  have "derive_index (Some ''/'') ''/c.yaml'' (cfg_Index sample_indexed) = cfg_Index sample_indexed"
    "derive_graph (Some ''/'') ''/c.yaml'' (cfg_KnowledgeGraph sample_indexed) = cfg_KnowledgeGraph sample_indexed"
    by code_simp+
  then show ?thesis
    by (simp add: applyDerivedDefaults_def Let_def sample_indexed_def sample_index_config_def derived_sections llms)
qed

lemma indexed_valid: "ValidateForMode sample_indexed ValidationModeIndex = None"
  by code_simp

lemma indexed_loads: "LoadWithMode (co_Loader (sample_command sample_indexed)) ''/c.yaml'' ValidationModeIndex = Inr sample_indexed"
    "LoadWithMode (co_Loader (sample_command sample_indexed)) ''/c.yaml'' ValidationModeStatus = Inr sample_indexed"
proof -
  have "ValidateForMode sample_indexed ValidationModeStatus = None"
    using indexed_valid by (simp add: ValidateForMode_None validate_mode_def)
  with indexed_valid show "LoadWithMode (co_Loader (sample_command sample_indexed)) ''/c.yaml'' ValidationModeIndex = Inr sample_indexed"
    "LoadWithMode (co_Loader (sample_command sample_indexed)) ''/c.yaml'' ValidationModeStatus = Inr sample_indexed"
    by (simp_all add: LoadWithMode_def sample_command_simps sample_loader_simps no_environment indexed_derived Let_def)
qed

lemma sample_indexes: "\<exists>st db. index_command (sample_command sample_indexed) ''/c.yaml'' [] empty_database = (Inr st, db)"
proof -
  have "case Rebuild sample_rebuild_env None sample_indexed empty_database of (Inl e, db) \<Rightarrow> False | (Inr st, db) \<Rightarrow> True"
    by code_simp
  then obtain st db where "Rebuild sample_rebuild_env None sample_indexed empty_database = (Inr st, db)"
    by (auto split: prod.splits sum.splits)
  moreover have "\<not> lmc_Enabled (cfg_LocalModel sample_indexed)"
    by (simp add: sample_indexed_def sample_index_config_def DefaultConfig_def)
  ultimately show ?thesis
    using indexed_loads(1) by (simp add: index_command_def index_config_def sample_command_simps Let_def)
qed

theorem index_then_status_witness:
  "\<exists>st db r. index_command (sample_command sample_indexed) ''/c.yaml'' [] empty_database = (Inr st, db) \<and>
     status_command (sample_command sample_indexed) ''/c.yaml'' db = Inr r \<and>
     is_LastAttemptState (sr_Index r) = RunStatusSucceeded \<and> is_Documents (sr_Index r) = length (db_Documents db)"
proof -
  obtain st db where i: "index_command (sample_command sample_indexed) ''/c.yaml'' [] empty_database = (Inr st, db)"
    using sample_indexes by blast
  have path: "ResolveProjectConfigPath (\<lambda>p. False) (Some ''/'') (ix_Root (cfg_Index sample_indexed)) = ''/s/.rillan/project.yaml''"
    by code_simp
  have mods: "map_sum (\<lambda>e. ()) (\<lambda>(d, m). mc_Modules m) (project_modules (be_Modules (de_Build (sample_daemon_env sample_indexed)))
      DefaultProjectConfig None ''/s/.rillan/project.yaml'') = Inr []"
    by code_simp
  have "\<not> kg_Enabled (cfg_KnowledgeGraph sample_indexed)" by (simp add: sample_indexed_def sample_index_config_def)
  then have "\<exists>r. status_command (sample_command sample_indexed) ''/c.yaml'' db = Inr r"
    by (rule sample_reported [OF indexed_loads(2) _ path _ mods]) simp
  then obtain r where r: "status_command (sample_command sample_indexed) ''/c.yaml'' db = Inr r" by blast
  show ?thesis using index_then_status [OF i r refl] i r by auto
qed

definition sample_init :: init_env where
  "sample_init = \<lparr>ie_MkdirFails = (\<lambda>p. False), ie_StatFails = (\<lambda>p. False), ie_Directory = (\<lambda>p. False), ie_Write = (\<lambda>p. WriteDone)\<rparr>"

theorem init_never_overwrites_witness:
  "\<exists>fs'. init_command sample_init ''a'' ''b'' False Map.empty = (None, fs') \<and> fs' ''a'' = Some exampleConfig"
proof -
  have "init_command sample_init ''a'' ''b'' False Map.empty =
      (None, [''a'' \<mapsto> exampleConfig, ''b'' \<mapsto> exampleProjectConfig])"
    by (simp add: init_command_def writeExampleFile_def sample_init_def)
  with init_never_overwrites [OF this] show ?thesis by simp
qed

end
