(* ===== verification/Cli_Skills.thy ===== *)
theory Cli_Skills
  imports Skill_Catalog
begin

text \<open>
  The commands \<open>skill install\<close>, \<open>remove\<close>, \<open>list\<close> and \<open>show\<close> of \<open>cmd/rillan/skill.go\<close> with what they print, and
  sessions of them. The environment may differ from one command to the next, except for the data directory
  and the checksum.
\<close>

section \<open>The commands\<close>

datatype skill_command = SkillInstall string | SkillRemove string bool | SkillList | SkillShow string

record skill_env =
  sx_Fault :: skill_faults
  sx_Cwd :: "string option"
  sx_Sources :: "string \<Rightarrow> string option"
  sx_Now :: string
  sx_Project :: project_skills

type_synonym skill_reply = "catalog_error + string"

definition text_line :: "string \<Rightarrow> string" where
  "text_line s = s @ [CHR 0x0A]"

definition installed_text :: "installed_skill \<Rightarrow> string" where
  "installed_text s = text_line (''installed skill '' @ sk_ID s @ '' at '' @ sk_ManagedPath s)"

definition removed_text :: "installed_skill \<Rightarrow> string" where
  "removed_text s = text_line (''removed skill '' @ sk_ID s)"

definition listed_text :: "installed_skill \<Rightarrow> string" where
  "listed_text s = text_line (''- id: '' @ sk_ID s) @ text_line (''  display_name: '' @ sk_DisplayName s) @
     text_line (''  installed_at: '' @ sk_InstalledAt s) @ text_line (''  checksum: '' @ sk_Checksum s)"

definition shown_text :: "installed_skill \<Rightarrow> string" where
  "shown_text s = text_line (''id: '' @ sk_ID s) @ text_line (''display_name: '' @ sk_DisplayName s) @
     text_line (''source_path: '' @ sk_SourcePath s) @ text_line (''managed_path: '' @ sk_ManagedPath s) @
     text_line (''checksum: '' @ sk_Checksum s) @ text_line (''parser_version: '' @ sk_ParserVersion s) @
     text_line (''capability_summary: '' @ trim_space (sk_CapabilitySummary s))"

definition skill_install :: "(string \<Rightarrow> string) \<Rightarrow> string \<Rightarrow> skill_env \<Rightarrow> string \<Rightarrow> skill_disk \<Rightarrow> skill_reply \<times> skill_disk" where
  "skill_install digest dataDir env path d =
     apfst (map_sum id installed_text)
       (InstallSkill (sx_Fault env) digest dataDir (sx_Cwd env) (sx_Sources env) path (sx_Now env) d)"

definition skill_remove :: "skill_env \<Rightarrow> string \<Rightarrow> bool \<Rightarrow> skill_disk \<Rightarrow> skill_reply \<times> skill_disk" where
  "skill_remove env ident force d = apfst (map_sum id removed_text) (RemoveSkill (sx_Fault env) (sx_Project env) ident force d)"

definition skill_list :: "skill_env \<Rightarrow> skill_disk \<Rightarrow> skill_reply" where
  "skill_list env d = map_sum id (\<lambda>skills. concat (map listed_text skills)) (ListInstalledSkills (sx_Fault env) d)"

definition skill_show :: "skill_env \<Rightarrow> string \<Rightarrow> skill_disk \<Rightarrow> skill_reply" where
  "skill_show env ident d = map_sum id shown_text (GetInstalledSkill (sx_Fault env) ident d)"

fun run_skill :: "(string \<Rightarrow> string) \<Rightarrow> string \<Rightarrow> skill_env \<Rightarrow> skill_command \<Rightarrow> skill_disk \<Rightarrow> skill_reply \<times> skill_disk" where
  "run_skill digest dataDir env (SkillInstall path) d = skill_install digest dataDir env path d"
| "run_skill digest dataDir env (SkillRemove ident force) d = skill_remove env ident force d"
| "run_skill digest dataDir env SkillList d = (skill_list env d, d)"
| "run_skill digest dataDir env (SkillShow ident) d = (skill_show env ident d, d)"

definition skill_session :: "(string \<Rightarrow> string) \<Rightarrow> string \<Rightarrow> (skill_env \<times> skill_command) list \<Rightarrow> skill_disk \<Rightarrow> skill_disk" where
  "skill_session digest dataDir cmds d = fold (\<lambda>(env, cmd) d. snd (run_skill digest dataDir env cmd d)) cmds d"

section \<open>Sessions\<close>

lemma printed: "apfst (map_sum id g) x = (Inr out, d) \<longleftrightarrow> (\<exists>s. x = (Inr s, d) \<and> out = g s)"
  by (cases x; cases "fst x") auto

lemma run_skill_keeps:
  assumes "data_dir_ok dataDir" "catalog_ok digest dataDir d"
  shows "catalog_ok digest dataDir (snd (run_skill digest dataDir env cmd d))"
proof (cases cmd)
  case (SkillInstall path)
  then show ?thesis
    using install_keeps_catalog [OF assms(2,1) prod.collapse [symmetric]] by (simp add: skill_install_def)
next
  case (SkillRemove ident force)
  then show ?thesis
    using remove_keeps_catalog [OF assms(2,1) prod.collapse [symmetric]] by (simp add: skill_remove_def)
qed (simp_all add: assms(2))

lemma session_keeps:
  assumes "data_dir_ok dataDir" "catalog_ok digest dataDir d"
  shows "catalog_ok digest dataDir (skill_session digest dataDir cmds d)"
  using assms(2) unfolding skill_session_def
  by (induction cmds arbitrary: d) (auto simp: run_skill_keeps [OF assms(1)])

lemma empty_catalog_ok: "catalog_ok digest dataDir empty_disk"
  by (simp add: catalog_ok_def catalog_of_def empty_disk_def)

lemma removed_is_gone:
  assumes "catalog_ok digest dataDir d" "data_dir_ok dataDir" "RemoveSkill fault project ident force d = (Inr s, d')"
    "\<not> later OpReadCatalog"
  shows "GetInstalledSkill later ident d' = Inl (SkillNotFound (normalizeSkillID ident))"
proof -
  have ids: "map sk_ID (catalog_of d') = map sk_ID (sort_on sk_ID (filter (\<lambda>s. sk_ID s \<noteq> normalizeSkillID ident) (catalog_of d)))"
    using remove_keeps_catalog [OF assms(1-3)] by blast
  have "normalizeSkillID ident \<notin> set (map sk_ID (catalog_of d'))" unfolding ids by auto
  then have "find (\<lambda>s. sk_ID s = normalizeSkillID ident) (catalog_of d') = None"
    by (metis (mono_tags, lifting) find_None_iff image_eqI list.set_map)
  moreover have "LoadSkillCatalog later d' = Inr (catalog_of d')"
    using assms(4) by (simp add: LoadSkillCatalog_def catalog_of_def split: option.split)
  ultimately show ?thesis by (simp add: GetInstalledSkill_def)
qed


definition sample_skill_env :: skill_env where
  "sample_skill_env = \<lparr>sx_Fault = (\<lambda>op. False), sx_Cwd = Some ''/w'',
     sx_Sources = map_of [(''/w/go.md'', ''# Go Style'' @ [CHR 0x0A] @ ''Use gofmt.'')], sx_Now = ''t'', sx_Project = NoProject\<rparr>"

definition sample_skill_disk :: skill_disk where
  "sample_skill_disk = skill_session (\<lambda>data. data) ''/data'' [(sample_skill_env, SkillInstall ''go.md'')] empty_disk"


end
