(* ===== verification/Spec2Isabelle.thy ===== *)
theory Spec2Isabelle
  imports Config_Load Routing_Status Classify Agent_Gate Agent_Runner Index_Open Router_Build Metrics Cli_Commands Cli_Skills
begin

text \<open>
  A verification development for Rillan, a local gateway for chat-completion requests written in Go
  (sources below \<open>internal/\<close> and \<open>cmd/rillan/\<close>).

  The program. A daemon accepts OpenAI-style chat requests, scans their text for secrets, decides by
  policy whether a request may leave the machine, routes it to one of the configured model
  providers, adds context retrieved from an index of the repository, and records what it did. The
  command line edits the configuration and the credential store and rebuilds the index.

  The theories, in the order of the imports.

  \<^item> \<open>Rillan_Prelude\<close>: Go strings, fallible results, sorting under a comparison (the locales
    \<open>total_preorder\<close>, \<open>go_compare\<close>, \<open>go_less\<close>) and keyed stores (the locale
    \<open>keyed_store\<close>). \<open>Go_Stdlib\<close>, \<open>Go_Net\<close>, \<open>Go_Regexp\<close>, \<open>Go_Json\<close>: the parts of the Go
    library the packages use (path handling, numbers, IP addresses, leftmost-first regular
    expressions, JSON with raw literals and its round trip).
  \<^item> \<open>Config_Types\<close>, \<open>Config_Defaults\<close>, \<open>Config_Resolve\<close>, \<open>Config_Validate\<close>, \<open>Config_Load\<close>
    (\<open>internal/config\<close>): the configuration records, presets, derived defaults and environment
    overrides, the resolution of providers and their secrets, validation, loading, and the encrypted
    system policy. Lemmas: deriving defaults is a closure, what validation guarantees about binding
    and the active provider, secrets only reach the endpoint they belong to.
  \<^item> \<open>Secretstore\<close> (\<open>internal/secretstore\<close>): references, save, load and the binding check over a
    keyring, which is an interpretation of \<open>keyed_store\<close>.
  \<^item> \<open>Policy_Scanner\<close>, \<open>Policy_Eval\<close> (\<open>internal/policy\<close>), \<open>Classify\<close>
    (\<open>internal/classify\<close>): the secret scanner over the five bundled patterns (the locale
    \<open>pattern_rule\<close>), the evaluator refined by a table of verdicts, the intent classifier.
  \<^item> \<open>Retrieval_Types\<close>, \<open>Openai_Types\<close> (\<open>internal/openai\<close>, \<open>internal/chat\<close>): requests and
    messages, their JSON form with unknown fields preserved, validation, required capabilities.
  \<^item> \<open>Routing_Decision\<close>, \<open>Routing_Status\<close> (\<open>internal/routing\<close>), \<open>Providers\<close>
    (\<open>internal/providers\<close>, \<open>internal/ollama\<close>): candidates, ranking and trace, the adapters as
    builders of upstream requests, the host, the readiness of candidates.
  \<^item> \<open>Ollama_Embed\<close> (\<open>internal/ollama\<close>): the embedding request, which queries and indexing runs share.
  \<^item> \<open>Index_Chunks\<close>, \<open>Index_Discovery\<close>, \<open>Index_Graphify\<close>, \<open>Index_Store\<close>, \<open>Index_Open\<close>
    (\<open>internal/index\<close>): chunking and embeddings, the walk of a file tree refined by an inductive
    specification of the admitted files, the tables of the store with their constraints, the
    transaction, the searches and the rebuild; opening the store, also by two processes at once. The locale \<open>vector_builder\<close> is what the rebuild
    relies on in a vector store.

  \<^item> \<open>Retrieval\<close> (\<open>internal/retrieval\<close>): settings, query, fusion of the vector and keyword searches,
    compilation of the context within its budget, the prepared request, the debug summary.
  \<^item> \<open>Audit_Ledger\<close> (\<open>internal/audit\<close>): the ledger of JSON lines, with writes that fail or stop in the middle,
    and its round trip.
  \<^item> \<open>Agent_Gate\<close>, \<open>Agent_Context\<close>, \<open>Agent_Skills\<close>, \<open>Skill_Catalog\<close>, \<open>Agent_Runner\<close>
    (\<open>internal/agent\<close>): the approval gate, sequentially and as a step relation over concurrent decisions
    (refinement of the method, termination, what an interleaving can and cannot do); the context
    package and its budget; the read-only tools, confined to approved repositories; the managed skills
    and the invariant between the manifest and its files; the runner.

  \<^item> \<open>Module_Catalog\<close> (\<open>internal/modules\<close>): the manifests of project modules, the filters that keep what the
    project enables and what the system policy pins by hash.
  \<^item> \<open>Chat_Handler\<close> (\<open>internal/httpapi/chat_completions_handler.go\<close>): one chat request from its bytes to the
    response, the events and the provider calls. Here the components meet: decoding, prompts of skills, the
    preflight evaluation, routing, retrieval, the egress evaluation, the call, the copied response. Lemmas:
    every request is turned away, denied or sent once, with its event; what is sent was scanned and redacted;
    a trade secret stays local; an admitted request is sent.
  \<^item> \<open>App_Runtime\<close> (\<open>internal/app\<close>): the snapshot a daemon serves from, built from the loaded
    configuration or from disk. Lemma: where the commands a snapshot can run come from.
  \<^item> \<open>Agent_Http\<close>, \<open>Http_Server\<close> (the rest of \<open>internal/httpapi\<close>): the agent endpoints, the router with its
    bearer check, refresh and readiness. \<open>daemon_step\<close> is the transition relation of the daemon over the
    requests it serves, \<open>reaches\<close> its runs. Lemmas: protected endpoints need the token, the runtime comes
    from the start or from a refresh, when the listener is guarded and when a refresh takes the guard away,
    and that streamed responses do not get through the middleware.
  \<^item> \<open>Router_Build\<close> (\<open>NewRouter\<close> and \<open>NewChatCompletionsHandler\<close>): the options of the chat handler.
    Theorem: the handler the router builds answers as the one of the daemon model.
  \<^item> \<open>Tokenize\<close> (\<open>internal/tokenize\<close>), \<open>Metrics\<close> (\<open>internal/observability\<close>): the token counter, whose
    results do not depend on its cache, and the registry of wrapping 64-bit counters.
  \<^item> \<open>Cli_Registry\<close> (\<open>cmd/rillan\<close>): the commands that edit providers, endpoints and credentials and then
    tell the daemon. Lemmas: the registry stays in order, what the next command loads from what one wrote, a
    login reaches the provider's adapter.
  \<^item> \<open>Cli_Commands\<close> (\<open>cmd/rillan\<close>, \<open>internal/index/graphify_status.go\<close>,
    \<open>internal/config/write_example.go\<close>): \<open>serve\<close>, \<open>index\<close>, \<open>status\<close> and \<open>init\<close>. Lemmas: what
    \<open>serve\<close> starts is what a refresh would build from the same files, \<open>status\<close> agrees with the daemon and
    with the index that was built, \<open>init\<close> overwrites nothing.
  \<^item> \<open>Cli_Skills\<close> (\<open>cmd/rillan/skill.go\<close>): the skill commands and sessions of them. Theorem: whatever calls
    fail, the manifest stays backed by the files and the commands say of each other what is true.

  Conventions. A Go struct is a record, a result \<open>(T, error)\<close> a sum with the error on the left, a
  loop a recursive function. Strings are bytes. Integers are unbounded where the code only compares
  and increments small counts; embeddings are words. Fuel occurs only in the JSON parser and is
  twice the length of the input plus two, which is proved to suffice for every rendered value. One
  request is one step of the daemon: what concurrent requests share is the gate, whose interleavings are
  modelled in \<open>Agent_Gate\<close>, the ledger, and the runtime pointer. A refresh between the bearer check and the
  handler of one request, which read the pointer separately, is not modelled.

  Not modelled: YAML decoding, AES-GCM, the HTTP transport with its time limits, the SQLite engine beyond
  the statements and constraints the code states, floating-point arithmetic (scores are rationals, the
  cosine quotient is a parameter), terminal output other than that of \<open>status\<close> and \<open>skill\<close>, logging and flag
  parsing. The chat handler
  does not call the token counter and the metrics of the model, whose results it only logs and renders;
  the count it logs is \<open>logOutboundTokenCount\<close> of \<open>Router_Build\<close>. The JSON text of the daemon's own answers is not rendered, only the values.
  The events of agent proposals are kept in the gate, those of chat requests in the ledger of the daemon.
  The local model is called under one request identifier per snapshot.
\<close>

end
